(* ===== verification/Prelude.thy ===== *)
theory Prelude
  imports Main "HOL-Library.Word" "HOL-Library.Sublist"
begin

text \<open>
  What every component of the issuer shares: the machine-integer types of the Rust code, the
  result type with its \<open>?\<close> operator, saturating arithmetic, big-endian byte encodings, and the
  few string operations of the standard library the source calls (splitting, trimming, prefix
  and substring tests). A Rust \<open>String\<close> is the list of its UTF-8 bytes (\<^typ>\<open>string\<close>, whose
  \<^typ>\<open>char\<close>s are bytes), so \<^const>\<open>length\<close> is \<open>len()\<close>; a \<open>Vec<u8>\<close> is a list of 8-bit
  words.
\<close>

unbundle bit_operations_syntax

type_synonym u8 = "8 word"
type_synonym u16 = "16 word"
type_synonym u32 = "32 word"
type_synonym u64 = "64 word"
type_synonym u128 = "128 word"
type_synonym bytes = "8 word list"

section \<open>Collections of the development\<close>

named_theorems ok_iff \<open>when a computation that may fail returns a value\<close>
named_theorems err_iff \<open>when a computation that may fail returns an error\<close>

section \<open>Fallible computations\<close>

text \<open>\<open>Result<T, E>\<close> is \<open>E + T\<close>; \<open>and_then m f\<close> is \<open>f(m?)\<close>.\<close>

definition and_then :: "'e + 'a \<Rightarrow> ('a \<Rightarrow> 'e + 'b) \<Rightarrow> 'e + 'b" where
  "and_then m f = (case m of Inl e \<Rightarrow> Inl e | Inr x \<Rightarrow> f x)"

definition ok_or :: "'e \<Rightarrow> 'a option \<Rightarrow> 'e + 'a" where
  "ok_or e m = (case m of None \<Rightarrow> Inl e | Some x \<Rightarrow> Inr x)"

definition ok :: "'e + 'a \<Rightarrow> 'a option" where
  "ok m = (case m of Inl _ \<Rightarrow> None | Inr x \<Rightarrow> Some x)"

definition is_ok :: "'e + 'a \<Rightarrow> bool" where
  "is_ok m = (case m of Inl _ \<Rightarrow> False | Inr _ \<Rightarrow> True)"

text \<open>A \<open>for\<close> loop whose body only checks: the first error stops it.\<close>

fun for_each :: "('a \<Rightarrow> 'e + unit) \<Rightarrow> 'a list \<Rightarrow> 'e + unit" where
  "for_each f [] = Inr ()"
| "for_each f (x # xs) = and_then (f x) (\<lambda>_. for_each f xs)"

text \<open>\<open>iter().map(f).collect::<Result<Vec<_>, _>>()\<close>.\<close>

fun collect_results :: "('a \<Rightarrow> 'e + 'b) \<Rightarrow> 'a list \<Rightarrow> 'e + 'b list" where
  "collect_results f [] = Inr []"
| "collect_results f (x # xs) =
     and_then (f x) (\<lambda>y. and_then (collect_results f xs) (\<lambda>ys. Inr (y # ys)))"

lemma and_then_simps [simp]:
  "and_then (Inl e) f = Inl e"
  "and_then (Inr x) f = f x"
  by (simp_all add: and_then_def)

lemma ok_or_simps [simp]:
  "ok_or e None = Inl e"
  "ok_or e (Some x) = Inr x"
  by (simp_all add: ok_or_def)

lemma is_ok_simps [simp]:
  "is_ok (Inr x)"
  "\<not> is_ok (Inl e)"
  by (simp_all add: is_ok_def)

lemma ok_simps [simp]:
  "ok (Inr x) = Some x"
  "ok (Inl e) = None"
  by (simp_all add: ok_def)

lemma and_then_ok_iff [ok_iff]: "and_then m f = Inr y \<longleftrightarrow> (\<exists>x. m = Inr x \<and> f x = Inr y)"
  by (cases m) auto

lemma and_then_err_iff [err_iff]:
  "and_then m f = Inl e \<longleftrightarrow> m = Inl e \<or> (\<exists>x. m = Inr x \<and> f x = Inl e)"
  by (cases m) auto

lemma ok_or_ok_iff [ok_iff]: "ok_or e m = Inr x \<longleftrightarrow> m = Some x"
  by (cases m) auto

lemma ok_or_err_iff [err_iff]: "ok_or e m = Inl e' \<longleftrightarrow> m = None \<and> e' = e"
  by (cases m) auto

lemma if_err_ok_iff [ok_iff]: "(if c then Inl e else k) = Inr x \<longleftrightarrow> \<not> c \<and> k = Inr x"
  by simp

lemma discard_ok_iff [ok_iff]:
  "(case m of Inl _ \<Rightarrow> Inl e | Inr _ \<Rightarrow> Inr ()) = Inr u \<longleftrightarrow> m = Inr ()" for m :: "'f + unit"
  by (cases m) auto

lemma is_ok_iff: "is_ok m \<longleftrightarrow> (\<exists>x. m = Inr x)"
  by (cases m) auto

lemma for_each_ok_iff [ok_iff]: "for_each f xs = Inr u \<longleftrightarrow> (\<forall>x \<in> set xs. f x = Inr ())"
  by (induction xs) (auto simp: ok_iff)

lemma for_each_ok [simp]: "\<forall>x \<in> set xs. f x = Inr () \<Longrightarrow> for_each f xs = Inr ()"
  by (simp add: ok_iff)

lemma collect_results_ok_iff [ok_iff]:
  "collect_results f xs = Inr ys \<longleftrightarrow> list_all2 (\<lambda>x y. f x = Inr y) xs ys"
  by (induction xs arbitrary: ys) (auto simp: ok_iff list_all2_Cons1)

section \<open>Machine integers\<close>

definition saturating_add :: "'a::len word \<Rightarrow> 'a word \<Rightarrow> 'a word" where
  "saturating_add a b = (if unat a + unat b < 2 ^ LENGTH('a) then a + b else - 1)"

definition saturating_sub :: "'a::len word \<Rightarrow> 'a word \<Rightarrow> 'a word" where
  "saturating_sub a b = (if b \<le> a then a - b else 0)"

lemma unat_minus_one_word: "unat (- 1 :: 'a::len word) = 2 ^ LENGTH('a) - 1"
  by (simp add: unat_eq_nat_uint unsigned_minus_1_eq_mask mask_eq_exp_minus_1 nat_diff_distrib
        nat_power_eq)

lemma unat_lt_pow: "unat w < 2 ^ LENGTH('a)" for w :: "'a::len word"
  by (rule unsigned_less)

lemma unat_le_max: "unat w \<le> 2 ^ LENGTH('a) - 1" for w :: "'a::len word"
  using unat_lt_pow [of w] by linarith

lemma unat_saturating_add:
  "unat (saturating_add a b) = min (unat a + unat b) (2 ^ LENGTH('a) - 1)"
  for a b :: "'a::len word"
  by (auto simp: saturating_add_def unat_word_ariths unat_minus_one_word min_def)

lemma unat_saturating_sub: "unat (saturating_sub a b) = unat a - unat b"
  by (auto simp: saturating_sub_def unat_sub_if' word_le_nat_alt)

lemma saturating_add_ge: "a \<le> saturating_add a b"
  using unat_le_max [of a] by (simp add: word_le_nat_alt unat_saturating_add)

lemma saturating_sub_le: "saturating_sub a b \<le> a"
  by (simp add: word_le_nat_alt unat_saturating_sub)

lemma saturating_add_mono: "b \<le> c \<Longrightarrow> saturating_add a b \<le> saturating_add a c"
  by (auto simp: word_le_nat_alt unat_saturating_add)

lemma saturating_add_gt:
  fixes a b :: "'a::len word"
  assumes "a \<noteq> - 1" and "0 < b"
  shows "a < saturating_add a b"
proof -
  from assms(1) have "unat a \<noteq> unat (- 1 :: 'a word)"
    by (simp only: word_unat_eq_iff not_False_eq_True)
  with unat_le_max [of a] have "unat a < 2 ^ LENGTH('a) - 1"
    by (simp only: unat_minus_one_word)
  with assms(2) show ?thesis
    by (auto simp: word_less_nat_alt unat_saturating_add)
qed

lemma saturating_add_max: "saturating_add (- 1) b = (- 1 :: 'a::len word)"
proof -
  have "unat (saturating_add (- 1 :: 'a word) b) = unat (- 1 :: 'a word)"
    unfolding unat_saturating_add unat_minus_one_word by simp
  then show ?thesis by (simp only: word_unat_eq_iff)
qed

section \<open>Big-endian byte encodings\<close>

text \<open>\<open>to_be_bytes\<close> and \<open>from_be_bytes\<close> of an \<open>8 * n\<close>-bit integer.\<close>

definition be_bytes :: "nat \<Rightarrow> 'a::len word \<Rightarrow> bytes" where
  "be_bytes n w = map (\<lambda>i. ucast (drop_bit (8 * i) w)) (rev [0..<n])"

definition from_be_bytes :: "bytes \<Rightarrow> 'a::len word" where
  "from_be_bytes bs = foldl (\<lambda>acc b. push_bit 8 acc OR ucast b) 0 bs"

lemma length_be_bytes [simp]: "length (be_bytes n w) = n"
  by (simp add: be_bytes_def)

lemma be_bytes_0 [simp]: "be_bytes 0 w = []"
  by (simp add: be_bytes_def)

lemma be_bytes_Suc: "be_bytes (Suc n) w = be_bytes n (drop_bit 8 w) @ [ucast w]"
proof -
  have "rev [0..<Suc n] = rev (map Suc [0..<n]) @ [0]"
    by (metis map_Suc_upt upt_rec rev.simps(2) zero_less_Suc)
  then show ?thesis
    by (simp add: be_bytes_def rev_map [symmetric] drop_bit_drop_bit comp_def add.commute
          del: upt_Suc)
qed

lemma from_be_bytes_snoc [simp]:
  "from_be_bytes (bs @ [b]) = push_bit 8 (from_be_bytes bs) OR ucast b"
  by (simp add: from_be_bytes_def)

lemma from_be_bytes_Nil [simp]: "from_be_bytes [] = 0"
  by (simp add: from_be_bytes_def)

lemma from_be_bytes_be_bytes_take: "from_be_bytes (be_bytes n w) = take_bit (8 * n) w"
proof (induction n arbitrary: w)
  case 0
  show ?case by simp
next
  case (Suc n)
  show ?case
    unfolding be_bytes_Suc from_be_bytes_snoc Suc
    by (rule bit_eqI)
      (auto simp: bit_simps)
qed

lemma from_be_bytes_be_bytes:
  "LENGTH('a) \<le> 8 * n \<Longrightarrow> from_be_bytes (be_bytes n w) = w" for w :: "'a::len word"
  by (simp add: from_be_bytes_be_bytes_take take_bit_word_eq_self)

lemma be_bytes_inject:
  "LENGTH('a) \<le> 8 * n \<Longrightarrow> be_bytes n w = be_bytes n w' \<longleftrightarrow> w = w'" for w w' :: "'a::len word"
  by (metis from_be_bytes_be_bytes)

section \<open>Length-prefixed byte strings\<close>

text \<open>
  A four-byte big-endian length and then the bytes: the framing of the signed structures. Two
  concatenations of such frames are equal only when the frames are.
\<close>

definition framed :: "bytes \<Rightarrow> bytes" where
  "framed b = be_bytes 4 (of_nat (length b) :: u32) @ b"

lemma length_framed [simp]: "length (framed b) = 4 + length b"
  by (simp add: framed_def)

lemma framed_append_inject:
  assumes "length a < 2 ^ 32" and "length b < 2 ^ 32"
  shows "framed a @ r = framed b @ r' \<longleftrightarrow> a = b \<and> r = r'"
proof
  assume eq: "framed a @ r = framed b @ r'"
  then have "be_bytes 4 (of_nat (length a) :: u32) = be_bytes 4 (of_nat (length b) :: u32) \<and>
      a @ r = b @ r'"
    unfolding framed_def append_assoc
    by (subst (asm) append_eq_append_conv) (rule disjI1, simp only: length_be_bytes)
  then have heads: "be_bytes 4 (of_nat (length a) :: u32) = be_bytes 4 (of_nat (length b) :: u32)"
    and tails: "a @ r = b @ r'"
    by blast+
  from heads have "(of_nat (length a) :: u32) = of_nat (length b)"
    by (subst (asm) be_bytes_inject) simp_all
  then have "unat (of_nat (length a) :: u32) = unat (of_nat (length b) :: u32)"
    by (rule arg_cong)
  with assms have "length a = length b"
    by (simp only: unat_of_nat) simp
  with tails show "a = b \<and> r = r'"
    by simp
qed simp

lemma framed_inject:
  "length a < 2 ^ 32 \<Longrightarrow> length b < 2 ^ 32 \<Longrightarrow> framed a = framed b \<longleftrightarrow> a = b"
  using framed_append_inject [of a b "[]" "[]"] by simp

section \<open>Strings\<close>

definition as_bytes :: "string \<Rightarrow> bytes" where
  "as_bytes s = map of_char s"

lemma length_as_bytes [simp]: "length (as_bytes s) = length s"
  by (simp add: as_bytes_def)

lemma as_bytes_append [simp]: "as_bytes (s @ t) = as_bytes s @ as_bytes t"
  by (simp add: as_bytes_def)

lemma as_bytes_Nil_iff [simp]: "as_bytes s = [] \<longleftrightarrow> s = []"
  by (simp add: as_bytes_def)

lemma of_char_u8_inject [simp]: "(of_char c :: u8) = of_char d \<longleftrightarrow> c = d"
proof
  assume "(of_char c :: u8) = of_char d"
  then have "unat (of_nat (of_char c) :: u8) = unat (of_nat (of_char d) :: u8)"
    by (simp add: of_nat_of_char)
  then have "(of_char c :: nat) mod 256 = of_char d mod 256"
    by (simp add: unat_of_nat)
  then show "c = d" by simp
qed simp

lemma as_bytes_inject [simp]: "as_bytes s = as_bytes t \<longleftrightarrow> s = t"
  by (simp add: as_bytes_def inj_map_eq_map inj_def)

text \<open>
  A Rust \<open>String\<close> holds valid UTF-8 and nothing else; \<open>utf8\<close> is that invariant on bytes
  (\<open>String::from_utf8\<close>), as the table of well-formed byte sequences of the Unicode standard.
\<close>

definition continuation :: "nat \<Rightarrow> bool" where
  "continuation b \<longleftrightarrow> 0x80 \<le> b \<and> b \<le> 0xBF"

fun utf8_bytes :: "nat list \<Rightarrow> bool" where
  "utf8_bytes [] \<longleftrightarrow> True"
| "utf8_bytes (a # bs) \<longleftrightarrow>
     (if a < 0x80 then utf8_bytes bs
      else case bs of
        [] \<Rightarrow> False
      | b # cs \<Rightarrow>
          if 0xC2 \<le> a \<and> a \<le> 0xDF then continuation b \<and> utf8_bytes cs
          else case cs of
            [] \<Rightarrow> False
          | c # ds \<Rightarrow>
              if 0xE0 \<le> a \<and> a \<le> 0xEF
              then (if a = 0xE0 then 0xA0 else 0x80) \<le> b \<and> b \<le> (if a = 0xED then 0x9F else 0xBF) \<and>
                   continuation c \<and> utf8_bytes ds
              else case ds of
                [] \<Rightarrow> False
              | d # es \<Rightarrow>
                  0xF0 \<le> a \<and> a \<le> 0xF4 \<and>
                  (if a = 0xF0 then 0x90 else 0x80) \<le> b \<and> b \<le> (if a = 0xF4 then 0x8F else 0xBF) \<and>
                  continuation c \<and> continuation d \<and> utf8_bytes es)"

definition utf8 :: "string \<Rightarrow> bool" where
  "utf8 s \<longleftrightarrow> utf8_bytes (map of_char s)"

definition is_ascii :: "string \<Rightarrow> bool" where
  "is_ascii s \<longleftrightarrow> (\<forall>c \<in> set s. (of_char c :: nat) < 128)"

lemma is_ascii_utf8 [intro]: "is_ascii s \<Longrightarrow> utf8 s"
  by (induction s) (auto simp: is_ascii_def utf8_def)

text \<open>\<open>str::strip_prefix\<close>, \<open>str::contains\<close>, \<open>trim_end_matches\<close> for one character.\<close>

definition strip_prefix :: "'a list \<Rightarrow> 'a list \<Rightarrow> 'a list option" where
  "strip_prefix p s = (if prefix p s then Some (drop (length p) s) else None)"

definition str_contains :: "string \<Rightarrow> string \<Rightarrow> bool" where
  "str_contains s sub = sublist sub s"

definition trim_end_matches :: "char \<Rightarrow> string \<Rightarrow> string" where
  "trim_end_matches c s = rev (dropWhile (\<lambda>x. x = c) (rev s))"

lemma strip_prefix_Some_iff: "strip_prefix p s = Some r \<longleftrightarrow> s = p @ r"
  by (auto simp: strip_prefix_def prefix_def)

lemma strip_prefix_append [simp]: "strip_prefix p (p @ r) = Some r"
  by (simp add: strip_prefix_def)

lemma dropWhile_idem: "dropWhile p (dropWhile p xs) = dropWhile p xs"
  by (induction xs) auto

lemma last_trim_end_matches: "trim_end_matches c s \<noteq> [] \<Longrightarrow> last (trim_end_matches c s) \<noteq> c"
  using hd_dropWhile [of "\<lambda>x. x = c" "rev s"]
  by (cases "dropWhile (\<lambda>x. x = c) (rev s)") (auto simp: trim_end_matches_def)

lemma trim_end_matches_idem [simp]:
  "trim_end_matches c (trim_end_matches c s) = trim_end_matches c s"
  by (simp add: trim_end_matches_def dropWhile_idem)

text \<open>\<open>str::split\<close> on the characters that satisfy \<open>p\<close>: always at least one piece.\<close>

fun split_by :: "('a \<Rightarrow> bool) \<Rightarrow> 'a list \<Rightarrow> 'a list list" where
  "split_by p [] = [[]]"
| "split_by p (x # xs) =
     (if p x then [] # split_by p xs
      else case split_by p xs of [] \<Rightarrow> [[x]] | q # qs \<Rightarrow> (x # q) # qs)"

definition split_char :: "char \<Rightarrow> string \<Rightarrow> string list" where
  "split_char c = split_by (\<lambda>x. x = c)"

fun join :: "'a list \<Rightarrow> 'a list list \<Rightarrow> 'a list" where
  "join sep [] = []"
| "join sep [x] = x"
| "join sep (x # y # ys) = x @ sep @ join sep (y # ys)"

lemma split_by_not_Nil [simp]: "split_by p xs \<noteq> []"
  by (induction xs) (auto split: list.split)

lemma split_by_no_sep: "q \<in> set (split_by p xs) \<Longrightarrow> x \<in> set q \<Longrightarrow> \<not> p x"
  by (induction xs arbitrary: q) (fastforce split: list.splits if_splits)+

lemma split_by_append_sep:
  "\<forall>x \<in> set xs. \<not> p x \<Longrightarrow> p s \<Longrightarrow> split_by p (xs @ s # ys) = xs # split_by p ys"
  by (induction xs) auto

lemma split_by_single: "\<forall>x \<in> set xs. \<not> p x \<Longrightarrow> split_by p xs = [xs]"
  by (induction xs) auto

lemma join_Cons: "ys \<noteq> [] \<Longrightarrow> join sep (x # ys) = x @ sep @ join sep ys"
  by (cases ys) auto

lemma split_char_Nil [simp]: "split_char c [] = [[]]"
  by (simp add: split_char_def)

lemma split_char_not_Nil [simp]: "split_char c s \<noteq> []"
  by (simp add: split_char_def)

lemma split_char_Cons:
  "split_char c (x # xs) =
     (if x = c then [] # split_char c xs
      else (x # hd (split_char c xs)) # tl (split_char c xs))"
  by (auto simp: split_char_def split: list.split)

lemma join_split_char: "join [c] (split_char c s) = s"
proof (induction s)
  case (Cons x s)
  obtain q qs where "split_char c s = q # qs" by (cases "split_char c s") auto
  with Cons show ?case
    by (cases qs) (auto simp: split_char_Cons)
qed simp

lemma split_char_join:
  "ps \<noteq> [] \<Longrightarrow> \<forall>p \<in> set ps. c \<notin> set p \<Longrightarrow> split_char c (join [c] ps) = ps"
proof (induction ps rule: induct_list012)
  case (2 p)
  then have "\<forall>x \<in> set p. x \<noteq> c" by auto
  then show ?case by (simp add: split_char_def split_by_single)
next
  case (3 p q ps)
  then have "split_char c (join [c] (q # ps)) = q # ps" by simp
  moreover from 3 have "\<forall>x \<in> set p. x \<noteq> c" by auto
  ultimately show ?case
    by (simp add: split_char_def split_by_append_sep)
qed simp

text \<open>
  \<open>str::split_ascii_whitespace\<close>: the non-empty pieces between space, tab, line feed, form feed
  and carriage return.
\<close>

definition is_ascii_whitespace :: "char \<Rightarrow> bool" where
  "is_ascii_whitespace c \<longleftrightarrow> c \<in> {CHR 0x20, CHR 0x09, CHR 0x0A, CHR 0x0C, CHR 0x0D}"

definition split_ascii_whitespace :: "string \<Rightarrow> string list" where
  "split_ascii_whitespace s = filter (\<lambda>w. w \<noteq> []) (split_by is_ascii_whitespace s)"

lemma split_ascii_whitespace_single:
  "w \<noteq> [] \<Longrightarrow> \<forall>c \<in> set w. \<not> is_ascii_whitespace c \<Longrightarrow> split_ascii_whitespace w = [w]"
  by (simp add: split_ascii_whitespace_def split_by_single)

lemma split_ascii_whitespace_word:
  "w \<in> set (split_ascii_whitespace s) \<Longrightarrow> w \<noteq> [] \<and> (\<forall>c \<in> set w. \<not> is_ascii_whitespace c)"
  using split_by_no_sep by (fastforce simp: split_ascii_whitespace_def)

text \<open>
  \<open>str::trim\<close> removes the characters with the Unicode property \<open>White_Space\<close> at both ends;
  these are their UTF-8 encodings. A valid UTF-8 string begins or ends with such a character
  exactly when its bytes do.
\<close>

definition whitespace_encodings :: "string list" where
  "whitespace_encodings =
     [[CHR 0x09], [CHR 0x0A], [CHR 0x0B], [CHR 0x0C], [CHR 0x0D], [CHR 0x20],
      [CHR 0xC2, CHR 0x85], [CHR 0xC2, CHR 0xA0], [CHR 0xE1, CHR 0x9A, CHR 0x80],
      [CHR 0xE2, CHR 0x80, CHR 0x80], [CHR 0xE2, CHR 0x80, CHR 0x81],
      [CHR 0xE2, CHR 0x80, CHR 0x82], [CHR 0xE2, CHR 0x80, CHR 0x83],
      [CHR 0xE2, CHR 0x80, CHR 0x84], [CHR 0xE2, CHR 0x80, CHR 0x85],
      [CHR 0xE2, CHR 0x80, CHR 0x86], [CHR 0xE2, CHR 0x80, CHR 0x87],
      [CHR 0xE2, CHR 0x80, CHR 0x88], [CHR 0xE2, CHR 0x80, CHR 0x89],
      [CHR 0xE2, CHR 0x80, CHR 0x8A], [CHR 0xE2, CHR 0x80, CHR 0xA8],
      [CHR 0xE2, CHR 0x80, CHR 0xA9], [CHR 0xE2, CHR 0x80, CHR 0xAF],
      [CHR 0xE2, CHR 0x81, CHR 0x9F], [CHR 0xE3, CHR 0x80, CHR 0x80]]"

function strip_any :: "'a list list \<Rightarrow> 'a list \<Rightarrow> 'a list" where
  "strip_any ws s =
     (case find (\<lambda>w. w \<noteq> [] \<and> prefix w s) ws of
        None \<Rightarrow> s
      | Some w \<Rightarrow> strip_any ws (drop (length w) s))"
  by pat_completeness auto
termination
  by (relation "measure (\<lambda>(ws, s). length s)")
    (auto simp: find_Some_iff prefix_def)

declare strip_any.simps [simp del]

definition trim_start :: "string \<Rightarrow> string" where
  "trim_start = strip_any whitespace_encodings"

definition trim_end :: "string \<Rightarrow> string" where
  "trim_end s = rev (strip_any (map rev whitespace_encodings) (rev s))"

definition trim :: "string \<Rightarrow> string" where
  "trim s = trim_end (trim_start s)"

lemma strip_any_suffix: "suffix (strip_any ws s) s"
proof (induction ws s rule: strip_any.induct)
  case (1 ws s)
  show ?case
  proof (cases "find (\<lambda>w. w \<noteq> [] \<and> prefix w s) ws")
    case None
    then show ?thesis by (simp add: strip_any.simps)
  next
    case (Some w)
    with 1 have "suffix (strip_any ws (drop (length w) s)) (drop (length w) s)" by blast
    with Some show ?thesis
      by (subst strip_any.simps) (simp add: suffix_order.trans suffix_drop)
  qed
qed

lemma strip_any_Nil [simp]: "strip_any ws [] = []"
  using strip_any_suffix [of ws "[]"] by simp

lemma strip_any_none: "\<forall>w \<in> set ws. w = [] \<or> \<not> prefix w s \<Longrightarrow> strip_any ws s = s"
  by (subst strip_any.simps) (auto simp: find_None_iff find_Some_iff split: option.split)

lemma length_trim: "length (trim s) \<le> length s"
  unfolding trim_def trim_end_def trim_start_def
  by (metis length_rev strip_any_suffix suffix_length_le order.trans)

lemma trim_Nil [simp]: "trim [] = []"
  by (simp add: trim_def trim_end_def trim_start_def)

definition printable :: "char \<Rightarrow> bool" where
  "printable c \<longleftrightarrow> 0x20 < (of_char c :: nat) \<and> (of_char c :: nat) < 0x80"

lemma whitespace_not_printable:
  "\<forall>w \<in> set whitespace_encodings. w \<noteq> [] \<and> \<not> printable (hd w) \<and> \<not> printable (last w)"
  by (simp add: whitespace_encodings_def printable_def)

lemma trim_printable:
  assumes "s \<noteq> []" and "printable (hd s)" and "printable (last s)"
  shows "trim s = s"
proof -
  have "\<not> prefix w s" if "w \<in> set whitespace_encodings" for w
  proof -
    have "w \<noteq> []" "\<not> printable (hd w)" using that whitespace_not_printable by auto
    then show ?thesis
      using assms by (cases w; cases s) auto
  qed
  then have start: "trim_start s = s"
    unfolding trim_start_def by (intro strip_any_none) blast
  have "\<not> prefix (rev w) (rev s)" if "w \<in> set whitespace_encodings" for w
  proof -
    have "w \<noteq> []" "\<not> printable (last w)" using that whitespace_not_printable by auto
    then show ?thesis
      using assms by (cases w rule: rev_cases; cases s rule: rev_cases) auto
  qed
  then have "trim_end s = s"
    unfolding trim_end_def by (subst strip_any_none) auto
  with start show ?thesis by (simp add: trim_def)
qed

section \<open>Slices\<close>

text \<open>\<open>slice a b bs\<close> is \<open>bs[a..b]\<close>.\<close>

definition slice :: "nat \<Rightarrow> nat \<Rightarrow> 'a list \<Rightarrow> 'a list" where
  "slice a b bs = take (b - a) (drop a bs)"

lemma length_slice [simp]: "a \<le> b \<Longrightarrow> b \<le> length bs \<Longrightarrow> length (slice a b bs) = b - a"
  by (simp add: slice_def)

end
