(* ===== verification/Kernel.thy ===== *)
theory Kernel
  imports Prelude
begin

text \<open>
  The pure decision kernel, \<open>rust/issuer-core/src/lib.rs\<close>: the value types a signing decision is
  made over, the sub-gates, \<open>may_issue\<close> and \<open>authorize_sign\<close>. Every struct is a record with the
  fields of the source (prefixed where two structs share a field name), every enum a datatype.
\<close>

section \<open>Instants and identifiers\<close>

datatype instant = Instant (secs: u64)

text \<open>
  The macro \<open>id_type!\<close> makes one newtype over \<open>u128\<close> per identifier, with a derived ordering;
  here it is one datatype with a tag for the identifier it is.
\<close>

typedecl session_tag
typedecl request_tag
typedecl profile_tag
typedecl subject_tag
typedecl dataset_tag
typedecl key_tag
typedecl nonce_tag

datatype 'tag ident = Id (id_val: u128)

type_synonym session_id = "session_tag ident"
type_synonym request_id = "request_tag ident"
type_synonym profile_id = "profile_tag ident"
type_synonym subject_id = "subject_tag ident"
type_synonym dataset_id = "dataset_tag ident"
type_synonym key_thumbprint = "key_tag ident"
type_synonym nonce_id = "nonce_tag ident"

instantiation ident :: (type) linorder
begin

definition less_eq_ident :: "'a ident \<Rightarrow> 'a ident \<Rightarrow> bool" where
  "less_eq_ident a b \<longleftrightarrow> id_val a \<le> id_val b"

definition less_ident :: "'a ident \<Rightarrow> 'a ident \<Rightarrow> bool" where
  "less_ident a b \<longleftrightarrow> id_val a < id_val b"

instance
  by standard (auto simp: less_eq_ident_def less_ident_def ident.expand)

end

section \<open>Roles, formats and powers\<close>

datatype issuer_role =
    Pid
  | Qeaa
  | PublicBodyEaa
  | NonQualifiedEaa
  | DevelopmentEvidence
  | Representation

datatype credential_format = SdJwtVc | Mdoc

text \<open>A set of operations, one bit each.\<close>

datatype powers = Powers (powers_val: u64)

definition subset_of :: "powers \<Rightarrow> powers \<Rightarrow> bool" where
  "subset_of p grant \<longleftrightarrow> powers_val p AND powers_val grant = powers_val p"

definition is_empty :: "powers \<Rightarrow> bool" where
  "is_empty p \<longleftrightarrow> powers_val p = 0"

text \<open>The operations a mask holds, as a set of bit positions.\<close>

definition power_bits :: "powers \<Rightarrow> nat set" where
  "power_bits p = {n. bit (powers_val p) n}"

lemma word_bits_eq: "v = w \<longleftrightarrow> (\<forall>n. bit v n = bit w n)" for v w :: "'a::len word"
  by (auto intro: bit_word_eqI)

lemma subset_of_iff: "subset_of p q \<longleftrightarrow> power_bits p \<subseteq> power_bits q"
  by (auto simp: subset_of_def power_bits_def word_bits_eq bit_and_iff)

lemma is_empty_iff: "is_empty p \<longleftrightarrow> power_bits p = {}"
  by (auto simp: is_empty_def power_bits_def word_bits_eq)

lemma power_bits_inject: "power_bits p = power_bits q \<longleftrightarrow> p = q"
  by (cases p; cases q) (auto simp: power_bits_def word_bits_eq)

text \<open>Narrowing is a partial order, so the library's order reasoning applies to it.\<close>

instantiation powers :: order
begin

definition less_eq_powers :: "powers \<Rightarrow> powers \<Rightarrow> bool" where
  "less_eq_powers p q \<longleftrightarrow> subset_of p q"

definition less_powers :: "powers \<Rightarrow> powers \<Rightarrow> bool" where
  "less_powers p q \<longleftrightarrow> subset_of p q \<and> \<not> subset_of q p"

instance
  by standard
    (auto simp: less_eq_powers_def less_powers_def subset_of_iff
        simp flip: power_bits_inject)

end

section \<open>The scope taxonomy\<close>

definition MANDATE_VCT :: string where
  "MANDATE_VCT = ''urn:eudi:mandate:1''"

definition POWER_TAXONOMY :: "(u32 \<times> string) list" where
  "POWER_TAXONOMY =
     [(0, ''urn:eudi:mandate:power:present-identity''),
      (1, ''urn:eudi:mandate:power:sign-document''),
      (2, ''urn:eudi:mandate:power:authorise-payment''),
      (3, ''urn:eudi:mandate:power:manage-subscription''),
      (4, ''urn:eudi:mandate:power:access-records''),
      (5, ''urn:eudi:mandate:power:administer-account'')]"

definition TAXONOMY_MASK :: u64 where
  "TAXONOMY_MASK = foldl (\<lambda>m (b, _). m OR push_bit (unat b) 1) 0 POWER_TAXONOMY"

definition powers_to_scope_urns :: "powers \<Rightarrow> string list" where
  "powers_to_scope_urns p =
     map snd (filter (\<lambda>(b, _). powers_val p AND push_bit (unat b) 1 \<noteq> 0) POWER_TAXONOMY)"

definition scope_urns_subset :: "string list \<Rightarrow> string list \<Rightarrow> bool" where
  "scope_urns_subset requested granted \<longleftrightarrow> (\<forall>urn \<in> set requested. List.member granted urn)"

section \<open>Evidence\<close>

record evidence =
  valid_from :: instant
  valid_until :: instant
  fresh_until :: instant
  accepted :: bool

definition usable_at :: "evidence \<Rightarrow> instant \<Rightarrow> bool" where
  "usable_at e now \<longleftrightarrow>
     accepted e \<and> secs (valid_from e) \<le> secs now \<and> secs now < secs (valid_until e) \<and>
     secs now \<le> secs (fresh_until e)"

record credential_profile =
  prof_id :: profile_id
  role :: issuer_role
  format :: credential_format
  enabled :: bool
  device_binding_required :: bool
  pid_binding_required :: bool
  require_hybrid_pq :: bool
  require_chip_liveness :: bool

record authorization =
  auth_evidence :: evidence
  auth_profile :: profile_id
  auth_subject :: subject_id
  auth_dataset :: dataset_id

record token_binding =
  token_evidence :: evidence
  token_dpop_key :: key_thumbprint

record credential_proof =
  proof_evidence :: evidence
  proof_nonce :: nonce_id
  proof_holder_key :: key_thumbprint
  possession_valid :: bool

record wallet_evidence =
  wia :: evidence
  ka :: "evidence option"
  wallet_not_revoked :: bool
  holder_key_approved :: bool

record subject_evidence =
  subj_evidence :: evidence
  subj_subject :: subject_id
  loa_high :: bool
  entitled :: bool
  claims_current :: bool
  subj_dataset :: dataset_id
  pid_binding_verified :: bool

record delegation =
  delegator_evidence :: evidence
  delegator :: subject_id
  delegate_key :: key_thumbprint
  grant :: powers
  mandate_not_revoked :: bool

record chip_liveness_evidence =
  chip_window :: evidence
  chip_subject :: subject_id
  sod_passive_auth :: bool
  chip_authentic :: bool
  liveness_matched :: bool

record request =
  req_id :: request_id
  req_profile :: profile_id
  req_subject :: subject_id
  req_dataset :: dataset_id
  req_dpop_key :: key_thumbprint
  req_proof :: credential_proof
  req_expiry :: instant
  requested_powers :: powers

record session =
  sess_id :: session_id
  sess_profile :: credential_profile
  sess_authorization :: authorization
  sess_token :: token_binding
  sess_wallet :: wallet_evidence
  sess_subject :: subject_evidence
  expected_nonce :: nonce_id
  nonce_unused :: bool
  issuer_entitled :: bool
  status_reserved :: bool
  already_issued :: bool
  wia_ka_maintenance_end :: instant
  hybrid_pq_bound :: bool
  sess_delegation :: "delegation option"
  chip_evidence :: "chip_liveness_evidence option"

record sign_command =
  cmd_session :: session_id
  cmd_request :: request_id
  cmd_profile :: profile_id
  cmd_subject :: subject_id
  cmd_holder_key :: key_thumbprint
  on_behalf_of :: "subject_id option"
  granted_powers :: powers

datatype decision_error = NotAuthorized

section \<open>The gates\<close>

fun role_evidence_ok :: "issuer_role \<Rightarrow> subject_evidence \<Rightarrow> bool" where
  "role_evidence_ok Pid subject = loa_high subject"
| "role_evidence_ok Qeaa subject = True"
| "role_evidence_ok PublicBodyEaa subject = True"
| "role_evidence_ok NonQualifiedEaa subject = True"
| "role_evidence_ok DevelopmentEvidence subject = True"
| "role_evidence_ok Representation subject = True"

definition representation_ok :: "session \<Rightarrow> request \<Rightarrow> instant \<Rightarrow> bool" where
  "representation_ok session request now =
     (case role (sess_profile session) of
        Representation \<Rightarrow>
          (case sess_delegation session of
             Some d \<Rightarrow>
               usable_at (delegator_evidence d) now
               \<and> mandate_not_revoked d
               \<and> id_val (delegate_key d) = id_val (proof_holder_key (req_proof request))
               \<and> \<not> is_empty (requested_powers request)
               \<and> subset_of (requested_powers request) (grant d)
           | None \<Rightarrow> False)
      | _ \<Rightarrow> True)"

definition chip_liveness_ok :: "session \<Rightarrow> request \<Rightarrow> instant \<Rightarrow> bool" where
  "chip_liveness_ok session request now =
     (case chip_evidence session of
        Some e \<Rightarrow>
          usable_at (chip_window e) now
          \<and> sod_passive_auth e
          \<and> chip_authentic e
          \<and> liveness_matched e
          \<and> id_val (chip_subject e) = id_val (req_subject request)
      | None \<Rightarrow> False)"

definition device_binding_ok ::
  "credential_profile \<Rightarrow> wallet_evidence \<Rightarrow> credential_proof \<Rightarrow> bool" where
  "device_binding_ok profile wallet proof =
     (if device_binding_required profile
      then holder_key_approved wallet \<and> possession_valid proof \<and> ka wallet \<noteq> None
      else possession_valid proof)"

definition may_issue :: "session \<Rightarrow> request \<Rightarrow> instant \<Rightarrow> bool" where
  "may_issue session request now \<longleftrightarrow>
     enabled (sess_profile session)
     \<and> id_val (prof_id (sess_profile session)) = id_val (req_profile request)
     \<and> issuer_entitled session
     \<and> usable_at (auth_evidence (sess_authorization session)) now
     \<and> id_val (auth_profile (sess_authorization session)) = id_val (req_profile request)
     \<and> id_val (auth_subject (sess_authorization session)) = id_val (req_subject request)
     \<and> id_val (auth_dataset (sess_authorization session)) = id_val (req_dataset request)
     \<and> usable_at (token_evidence (sess_token session)) now
     \<and> id_val (token_dpop_key (sess_token session)) = id_val (req_dpop_key request)
     \<and> usable_at (proof_evidence (req_proof request)) now
     \<and> id_val (proof_nonce (req_proof request)) = id_val (expected_nonce session)
     \<and> nonce_unused session
     \<and> id_val (proof_holder_key (req_proof request)) = id_val (req_dpop_key request)
     \<and> usable_at (wia (sess_wallet session)) now
     \<and> wallet_not_revoked (sess_wallet session)
     \<and> device_binding_ok (sess_profile session) (sess_wallet session) (req_proof request)
     \<and> usable_at (subj_evidence (sess_subject session)) now
     \<and> id_val (subj_subject (sess_subject session)) = id_val (req_subject request)
     \<and> id_val (subj_dataset (sess_subject session)) = id_val (req_dataset request)
     \<and> entitled (sess_subject session)
     \<and> claims_current (sess_subject session)
     \<and> (\<not> pid_binding_required (sess_profile session) \<or> pid_binding_verified (sess_subject session))
     \<and> role_evidence_ok (role (sess_profile session)) (sess_subject session)
     \<and> secs (req_expiry request) \<le> secs (wia_ka_maintenance_end session)
     \<and> status_reserved session
     \<and> \<not> already_issued session
     \<and> (\<not> require_hybrid_pq (sess_profile session) \<or> hybrid_pq_bound session)
     \<and> representation_ok session request now
     \<and> (\<not> require_chip_liveness (sess_profile session) \<or> chip_liveness_ok session request now)"

definition authorize_sign ::
  "session \<Rightarrow> request \<Rightarrow> instant \<Rightarrow> decision_error + sign_command" where
  "authorize_sign session request now =
     (if may_issue session request now then
        let (behalf, granted) =
          (case (role (sess_profile session), sess_delegation session) of
             (Representation, Some d) \<Rightarrow> (Some (delegator d), requested_powers request)
           | _ \<Rightarrow> (None, Powers 0))
        in Inr \<lparr>cmd_session = sess_id session,
                cmd_request = req_id request,
                cmd_profile = req_profile request,
                cmd_subject = req_subject request,
                cmd_holder_key = proof_holder_key (req_proof request),
                on_behalf_of = behalf,
                granted_powers = granted\<rparr>
      else Inl NotAuthorized)"

section \<open>Lemmas about the gates\<close>

lemma id_val_eq_iff [simp]: "id_val a = id_val b \<longleftrightarrow> a = b"
  by (cases a; cases b) simp

lemma usable_at_convex:
  assumes "usable_at e t1" and "usable_at e t3"
    and "secs t1 \<le> secs t2" and "secs t2 \<le> secs t3"
  shows "usable_at e t2"
  using assms by (auto simp: usable_at_def)

lemma representation_ok_other:
  "role (sess_profile s) \<noteq> Representation \<Longrightarrow> representation_ok s r now"
  by (auto simp: representation_ok_def split: issuer_role.split)

lemma representation_ok_Representation:
  "role (sess_profile s) = Representation \<Longrightarrow>
   representation_ok s r now \<longleftrightarrow>
     (\<exists>d. sess_delegation s = Some d \<and> usable_at (delegator_evidence d) now \<and>
        mandate_not_revoked d \<and> delegate_key d = proof_holder_key (req_proof r) \<and>
        \<not> is_empty (requested_powers r) \<and> subset_of (requested_powers r) (grant d))"
  by (auto simp: representation_ok_def split: option.split)

lemma chip_liveness_ok_iff:
  "chip_liveness_ok s r now \<longleftrightarrow>
     (\<exists>e. chip_evidence s = Some e \<and> usable_at (chip_window e) now \<and> sod_passive_auth e \<and>
        chip_authentic e \<and> liveness_matched e \<and> chip_subject e = req_subject r)"
  by (auto simp: chip_liveness_ok_def split: option.split)

lemma representation_ok_convex:
  assumes "representation_ok s r t1" and "representation_ok s r t3"
    and "secs t1 \<le> secs t2" and "secs t2 \<le> secs t3"
  shows "representation_ok s r t2"
  using assms
  by (cases "role (sess_profile s) = Representation")
    (auto simp: representation_ok_Representation representation_ok_other
        intro: usable_at_convex)

lemma chip_liveness_ok_convex:
  assumes "chip_liveness_ok s r t1" and "chip_liveness_ok s r t3"
    and "secs t1 \<le> secs t2" and "secs t2 \<le> secs t3"
  shows "chip_liveness_ok s r t2"
  using assms by (auto simp: chip_liveness_ok_iff intro: usable_at_convex)

lemma authorize_sign_ok_iff [ok_iff]:
  "authorize_sign s r now = Inr c \<longleftrightarrow>
     may_issue s r now \<and>
     c = \<lparr>cmd_session = sess_id s, cmd_request = req_id r, cmd_profile = req_profile r,
          cmd_subject = req_subject r, cmd_holder_key = proof_holder_key (req_proof r),
          on_behalf_of =
            (if role (sess_profile s) = Representation then map_option delegator (sess_delegation s)
             else None),
          granted_powers =
            (if role (sess_profile s) = Representation \<and> sess_delegation s \<noteq> None
             then requested_powers r else Powers 0)\<rparr>"
  by (auto simp: authorize_sign_def Let_def split: issuer_role.split option.split)

lemma authorize_sign_err_iff [err_iff]:
  "authorize_sign s r now = Inl e \<longleftrightarrow> \<not> may_issue s r now \<and> e = NotAuthorized"
  by (auto simp: authorize_sign_def Let_def split: issuer_role.split option.split)

lemma may_issue_representation:
  "may_issue s r now \<Longrightarrow> representation_ok s r now"
  by (simp add: may_issue_def)

lemma may_issue_chip:
  "may_issue s r now \<Longrightarrow> require_chip_liveness (sess_profile s) \<Longrightarrow> chip_liveness_ok s r now"
  by (simp add: may_issue_def)

lemma may_issue_convex:
  assumes "may_issue s r t1" and "may_issue s r t3"
    and "secs t1 \<le> secs t2" and "secs t2 \<le> secs t3"
  shows "may_issue s r t2"
proof -
  have "usable_at e t2" if "usable_at e t1" "usable_at e t3" for e
    using that assms(3,4) by (rule usable_at_convex)
  moreover have "representation_ok s r t2"
    using assms by (auto intro: representation_ok_convex may_issue_representation)
  moreover have "\<not> require_chip_liveness (sess_profile s) \<or> chip_liveness_ok s r t2"
    using assms by (auto intro: chip_liveness_ok_convex dest: may_issue_chip)
  ultimately show ?thesis
    using assms(1,2) by (simp add: may_issue_def)
qed

section \<open>Lemmas about the taxonomy\<close>

lemma TAXONOMY_MASK_eval: "TAXONOMY_MASK = 63"
  by (simp add: TAXONOMY_MASK_def POWER_TAXONOMY_def)

lemma taxonomy_distinct: "distinct (map snd POWER_TAXONOMY)"
  by (simp add: POWER_TAXONOMY_def)

lemma set_powers_to_scope_urns:
  "set (powers_to_scope_urns p) =
     {urn. \<exists>b. (b, urn) \<in> set POWER_TAXONOMY \<and> unat b \<in> power_bits p}"
  by (auto simp: powers_to_scope_urns_def power_bits_def and_exp_eq_0_iff_not_bit image_iff)

lemma bit_TAXONOMY_MASK: "bit TAXONOMY_MASK n \<longleftrightarrow> n < 6"
proof -
  have "(63 :: u64) = mask 6" by (simp add: mask_eq_exp_minus_1)
  then show ?thesis by (simp only: TAXONOMY_MASK_eval bit_mask_iff) auto
qed

lemma taxonomy_bits: "(unat \<circ> fst) ` set POWER_TAXONOMY = power_bits (Powers TAXONOMY_MASK)"
proof -
  have "(unat \<circ> fst) ` set POWER_TAXONOMY = {0, 1, 2, 3, 4, 5}"
    by (simp add: POWER_TAXONOMY_def)
  also have "\<dots> = {n. n < 6}" by auto
  finally show ?thesis by (simp add: power_bits_def bit_TAXONOMY_MASK)
qed

lemma taxonomy_urn_bit:
  assumes "(b, urn) \<in> set POWER_TAXONOMY" and "(b', urn) \<in> set POWER_TAXONOMY"
  shows "b = b'"
  using taxonomy_distinct inj_onD [of snd "set POWER_TAXONOMY" "(b, urn)" "(b', urn)"] assms
  by (simp add: distinct_map)

lemma taxonomy_mem_urns:
  "(b, urn) \<in> set POWER_TAXONOMY \<Longrightarrow>
   urn \<in> set (powers_to_scope_urns p) \<longleftrightarrow> unat b \<in> power_bits p"
  by (auto simp: set_powers_to_scope_urns dest: taxonomy_urn_bit)

section \<open>A session and a request that may sign\<close>

text \<open>The fixture of the crate's own tests, and its mandate and chip variants.\<close>

definition fixture_evidence :: evidence where
  "fixture_evidence =
     \<lparr>valid_from = Instant 1, valid_until = Instant 200, fresh_until = Instant 150,
      accepted = True\<rparr>"

definition fixture_request :: request where
  "fixture_request =
     \<lparr>req_id = Id 3, req_profile = Id 1, req_subject = Id 4, req_dataset = Id 5,
      req_dpop_key = Id 7,
      req_proof = \<lparr>proof_evidence = fixture_evidence, proof_nonce = Id 9,
                   proof_holder_key = Id 7, possession_valid = True\<rparr>,
      req_expiry = Instant 140, requested_powers = Powers 0\<rparr>"

definition fixture_profile :: credential_profile where
  "fixture_profile =
     \<lparr>prof_id = Id 1, role = Pid, format = SdJwtVc, enabled = True,
      device_binding_required = True, pid_binding_required = False,
      require_hybrid_pq = False, require_chip_liveness = False\<rparr>"

definition fixture_session :: session where
  "fixture_session =
     \<lparr>sess_id = Id 2, sess_profile = fixture_profile,
      sess_authorization = \<lparr>auth_evidence = fixture_evidence, auth_profile = Id 1,
                            auth_subject = Id 4, auth_dataset = Id 5\<rparr>,
      sess_token = \<lparr>token_evidence = fixture_evidence, token_dpop_key = Id 7\<rparr>,
      sess_wallet = \<lparr>wia = fixture_evidence, ka = Some fixture_evidence,
                     wallet_not_revoked = True, holder_key_approved = True\<rparr>,
      sess_subject = \<lparr>subj_evidence = fixture_evidence, subj_subject = Id 4, loa_high = True,
                      entitled = True, claims_current = True, subj_dataset = Id 5,
                      pid_binding_verified = False\<rparr>,
      expected_nonce = Id 9, nonce_unused = True, issuer_entitled = True,
      status_reserved = True, already_issued = False, wia_ka_maintenance_end = Instant 160,
      hybrid_pq_bound = False, sess_delegation = None, chip_evidence = None\<rparr>"

definition mandate_session :: session where
  "mandate_session = fixture_session
     \<lparr>sess_profile := fixture_profile\<lparr>role := Representation, require_hybrid_pq := True\<rparr>,
      hybrid_pq_bound := True,
      sess_delegation :=
        Some \<lparr>delegator_evidence = fixture_evidence, delegator = Id 42, delegate_key = Id 7,
              grant = Powers 14, mandate_not_revoked = True\<rparr>\<rparr>"

definition mandate_request :: request where
  "mandate_request = fixture_request\<lparr>requested_powers := Powers 6\<rparr>"

definition nfc_pid_session :: session where
  "nfc_pid_session = fixture_session
     \<lparr>sess_profile := fixture_profile\<lparr>require_chip_liveness := True\<rparr>,
      chip_evidence :=
        Some \<lparr>chip_window = fixture_evidence, chip_subject = Id 4, sod_passive_auth = True,
              chip_authentic = True, liveness_matched = True\<rparr>\<rparr>"

lemmas fixture_defs =
  fixture_evidence_def fixture_request_def fixture_profile_def fixture_session_def
  mandate_session_def mandate_request_def nfc_pid_session_def

lemmas gate_defs =
  may_issue_def usable_at_def device_binding_ok_def representation_ok_def chip_liveness_ok_def
  is_empty_def subset_of_def

lemma fixture_may_issue: "may_issue fixture_session fixture_request (Instant 100)"
  by (simp add: gate_defs fixture_defs)

lemma mandate_may_issue: "may_issue mandate_session mandate_request (Instant 100)"
  by (simp add: gate_defs fixture_defs)

lemma nfc_pid_may_issue: "may_issue nfc_pid_session fixture_request (Instant 100)"
  by (simp add: gate_defs fixture_defs)

end
