(* ===== verification/Kernel_Properties.thy ===== *)
theory Kernel_Properties
  imports Kernel
begin

text \<open>
  What the signing gateway guarantees. Each property is about \<open>authorize_sign\<close> and the gates it
  calls; the witnesses run it on the crate's own test fixtures.
\<close>

section \<open>What a signing command binds\<close>

text \<open>
  C1. A command is produced only for an enabled profile of an entitled
  issuer, with an unused nonce equal to the expected one, a reserved status entry and no earlier
  issuance; its profile, subject and holder key are those the authorization, the subject evidence,
  the access token and the key proof agree on, and the authorization and the subject evidence speak
  of one dataset. Five pieces of evidence are inside their windows: the authorization, the access
  token, the key proof, the wallet attestation (of a wallet that is not revoked) and the subject
  evidence. Of the key attestation only this is required, that a profile with device binding has
  one and an approved holder key; no window of it is looked at.
\<close>

theorem authorize_sign_binds:
  assumes "authorize_sign s r now = Inr c"
  shows "enabled (sess_profile s) \<and> issuer_entitled s \<and> status_reserved s \<and> \<not> already_issued s \<and>
         cmd_profile c = prof_id (sess_profile s) \<and>
         cmd_profile c = auth_profile (sess_authorization s) \<and>
         cmd_subject c = auth_subject (sess_authorization s) \<and>
         cmd_subject c = subj_subject (sess_subject s) \<and>
         auth_dataset (sess_authorization s) = subj_dataset (sess_subject s) \<and>
         cmd_holder_key c = proof_holder_key (req_proof r) \<and>
         cmd_holder_key c = token_dpop_key (sess_token s) \<and>
         proof_nonce (req_proof r) = expected_nonce s \<and> nonce_unused s \<and>
         possession_valid (req_proof r) \<and> wallet_not_revoked (sess_wallet s) \<and>
         (device_binding_required (sess_profile s) \<longrightarrow>
            ka (sess_wallet s) \<noteq> None \<and> holder_key_approved (sess_wallet s)) \<and>
         list_all (\<lambda>e. usable_at e now)
           [auth_evidence (sess_authorization s), token_evidence (sess_token s),
            proof_evidence (req_proof r), wia (sess_wallet s), subj_evidence (sess_subject s)]"
  using assms by (auto simp: ok_iff may_issue_def device_binding_ok_def split: if_splits)

lemma authorize_sign_binds_witness:
  "\<exists>c. authorize_sign fixture_session fixture_request (Instant 100) = Inr c \<and>
       cmd_holder_key c = Id 7"
proof -
  obtain c where c: "authorize_sign fixture_session fixture_request (Instant 100) = Inr c"
    using fixture_may_issue by (auto simp: ok_iff)
  show ?thesis
    using authorize_sign_binds [OF c] c by (auto simp: fixture_defs)
qed

section \<open>Delegation\<close>

text \<open>
  C13. A mandate is signed only on behalf of the delegator of the session, while
  the delegator's evidence is usable and the grant not revoked; it is bound to the delegate's key,
  and the powers it carries are a non-empty set of powers the delegator holds. Any other role
  signs with no delegator and no powers.
\<close>

theorem mandate_narrows:
  assumes "authorize_sign s r now = Inr c"
  shows "(case on_behalf_of c of
            None \<Rightarrow> role (sess_profile s) \<noteq> Representation \<and> power_bits (granted_powers c) = {}
          | Some who \<Rightarrow>
              role (sess_profile s) = Representation \<and>
              (\<exists>d. sess_delegation s = Some d \<and> who = delegator d \<and>
                 usable_at (delegator_evidence d) now \<and> mandate_not_revoked d \<and>
                 cmd_holder_key c = delegate_key d \<and>
                 power_bits (granted_powers c) \<noteq> {} \<and>
                 power_bits (granted_powers c) \<subseteq> power_bits (grant d)))"
proof (cases "role (sess_profile s) = Representation")
  case True
  with assms obtain d where d: "sess_delegation s = Some d"
      "usable_at (delegator_evidence d) now" "mandate_not_revoked d"
      "delegate_key d = proof_holder_key (req_proof r)"
      "\<not> is_empty (requested_powers r)" "subset_of (requested_powers r) (grant d)"
    by (auto simp: ok_iff representation_ok_Representation dest!: may_issue_representation)
  with True assms show ?thesis
    by (auto simp: ok_iff is_empty_iff subset_of_iff)
next
  case False
  with assms show ?thesis by (auto simp: ok_iff power_bits_def)
qed

lemma mandate_narrows_witness:
  "\<exists>c. authorize_sign mandate_session mandate_request (Instant 100) = Inr c \<and>
       on_behalf_of c = Some (Id 42) \<and> power_bits (granted_powers c) \<subseteq> power_bits (Powers 14)"
proof -
  obtain c where c: "authorize_sign mandate_session mandate_request (Instant 100) = Inr c"
    using mandate_may_issue by (auto simp: ok_iff)
  then have "on_behalf_of c = Some (Id 42)"
    by (auto simp: ok_iff fixture_defs)
  with mandate_narrows [OF c] c show ?thesis
    by (auto simp: fixture_defs)
qed

section \<open>Downgrade-closed capability gates\<close>

text \<open>
  C14. Whatever else the session carries, nothing is signed when the
  profile requires hybrid post-quantum evidence and there is none, when it requires chip and
  liveness evidence and the session has none or any one of its three verdicts, its freshness or
  its subject fails, when it requires a verified PID binding and there is none, or when the role
  is that of a PID and the subject is not identified at level high.
\<close>

theorem signing_is_downgrade_closed:
  assumes "(require_hybrid_pq (sess_profile s) \<and> \<not> hybrid_pq_bound s) \<or>
           (require_chip_liveness (sess_profile s) \<and>
             (chip_evidence s = None \<or>
              (\<exists>e. chip_evidence s = Some e \<and>
                 (\<not> sod_passive_auth e \<or> \<not> chip_authentic e \<or> \<not> liveness_matched e \<or>
                  \<not> usable_at (chip_window e) now \<or> chip_subject e \<noteq> req_subject r)))) \<or>
           (pid_binding_required (sess_profile s) \<and> \<not> pid_binding_verified (sess_subject s)) \<or>
           (role (sess_profile s) = Pid \<and> \<not> loa_high (sess_subject s))"
  shows "authorize_sign s r now = Inl NotAuthorized"
proof -
  have "\<not> may_issue s r now"
    using assms by (auto simp: may_issue_def chip_liveness_ok_iff)
  then show ?thesis by (simp add: authorize_sign_def)
qed

lemma signing_is_downgrade_closed_witness:
  "authorize_sign (mandate_session\<lparr>hybrid_pq_bound := False\<rparr>) mandate_request (Instant 100)
     = Inl NotAuthorized"
  by (rule signing_is_downgrade_closed) (simp add: fixture_defs)

section \<open>The decision over time\<close>

text \<open>
  The instants at which a session and a request may be signed form an
  interval: a request denied at some instant after one at which it was signed is denied from then
  on, so no expired approval ever comes back.
\<close>

theorem decision_window_convex:
  assumes "authorize_sign s r t1 = Inr c"
    and "authorize_sign s r t2 = Inl e"
    and "secs t1 \<le> secs t2" and "secs t2 \<le> secs t3"
  shows "authorize_sign s r t3 = Inl NotAuthorized"
proof -
  have "may_issue s r t1" using assms(1) by (simp add: ok_iff)
  moreover have "\<not> may_issue s r t2" using assms(2) by (simp add: err_iff)
  ultimately have "\<not> may_issue s r t3"
    using assms(3,4) may_issue_convex by blast
  then show ?thesis by (simp add: authorize_sign_def)
qed

lemma decision_window_convex_witness:
  "authorize_sign fixture_session fixture_request (Instant 5000) = Inl NotAuthorized"
proof -
  obtain c where c: "authorize_sign fixture_session fixture_request (Instant 100) = Inr c"
    using fixture_may_issue by (auto simp: ok_iff)
  have d: "authorize_sign fixture_session fixture_request (Instant 151) = Inl NotAuthorized"
    by (simp add: authorize_sign_def gate_defs fixture_defs)
  show ?thesis
    by (rule decision_window_convex [OF c d]) simp_all
qed

section \<open>Wire scopes and kernel powers\<close>

lemma scope_urns_subset_iff:
  "scope_urns_subset (powers_to_scope_urns p) (powers_to_scope_urns q) \<longleftrightarrow>
     subset_of (Powers (powers_val p AND TAXONOMY_MASK)) q"
proof -
  have "scope_urns_subset (powers_to_scope_urns p) (powers_to_scope_urns q) \<longleftrightarrow>
        (\<forall>(b, urn) \<in> set POWER_TAXONOMY. unat b \<in> power_bits p \<longrightarrow> unat b \<in> power_bits q)"
    by (fastforce simp: scope_urns_subset_def set_powers_to_scope_urns taxonomy_mem_urns
          dest: taxonomy_urn_bit)
  also have "\<dots> \<longleftrightarrow> power_bits p \<inter> power_bits (Powers TAXONOMY_MASK) \<subseteq> power_bits q"
    unfolding taxonomy_bits [symmetric] by force
  also have "power_bits p \<inter> power_bits (Powers TAXONOMY_MASK) =
             power_bits (Powers (powers_val p AND TAXONOMY_MASK))"
    by (auto simp: power_bits_def bit_and_iff)
  finally show ?thesis by (simp add: subset_of_iff)
qed

text \<open>
  For every pair of 64-bit masks, the verifier's test that
  each requested scope URN is among the granted ones agrees with the kernel's subset test on the
  powers the taxonomy covers, and the URNs of a mask are distinct.
\<close>

theorem scope_urns_agree_with_narrowing:
  "(scope_urns_subset (powers_to_scope_urns p) (powers_to_scope_urns q) \<longleftrightarrow>
      subset_of (Powers (powers_val p AND TAXONOMY_MASK)) q) \<and>
   distinct (powers_to_scope_urns p)"
proof
  show "distinct (powers_to_scope_urns p)"
    using taxonomy_distinct by (simp add: powers_to_scope_urns_def distinct_map inj_on_def)
qed (rule scope_urns_subset_iff)

section \<open>What the decision does not read\<close>

text \<open>
  The decision depends on a key attestation only through its
  presence: an expired, stale or rejected one is as good as a usable one, and the identifiers of
  the session and of the request and the credential format have no influence either.
\<close>

theorem decision_ignores_ka_contents:
  assumes "ka (sess_wallet s) = Some e"
  shows "may_issue
           (s\<lparr>sess_id := i, sess_profile := (sess_profile s)\<lparr>format := f\<rparr>,
              sess_wallet := (sess_wallet s)\<lparr>ka := Some e'\<rparr>\<rparr>)
           (r\<lparr>req_id := j\<rparr>) now
         \<longleftrightarrow> may_issue s r now"
  using assms
  by (simp add: may_issue_def device_binding_ok_def representation_ok_def chip_liveness_ok_def
        cong: issuer_role.case_cong option.case_cong)

lemma decision_ignores_ka_contents_witness:
  "may_issue
     (fixture_session\<lparr>sess_id := Id 2, sess_profile := fixture_profile\<lparr>format := Mdoc\<rparr>,
        sess_wallet := (sess_wallet fixture_session)
          \<lparr>ka := Some (fixture_evidence\<lparr>accepted := False, valid_until := Instant 2\<rparr>)\<rparr>\<rparr>)
     (fixture_request\<lparr>req_id := Id 3\<rparr>) (Instant 100)"
proof -
  have "ka (sess_wallet fixture_session) = Some fixture_evidence"
    by (simp add: fixture_session_def)
  from decision_ignores_ka_contents
      [OF this, where e' = "fixture_evidence\<lparr>accepted := False, valid_until := Instant 2\<rparr>" and i = "Id 2"
        and f = Mdoc and r = fixture_request and j = "Id 3" and now = "Instant 100"]
    fixture_may_issue
  show ?thesis by (simp add: fixture_session_def)
qed

end
