(* ===== verification/Libraries.thy ===== *)
theory Libraries
  imports Prelude
begin

text \<open>
  The interfaces of the packages the issuer calls. None of them is source of this repository, so
  each is a record of functions that the definitions of the model take as an argument: P-256
  ECDSA (\<open>p256\<close>), ML-DSA-65 (\<open>libcrux_ml_dsa\<close>), the CBOR codec (\<open>ciborium\<close>) with its value type,
  the hash functions and the base64 alphabets. What a proof relies on is a named predicate over
  the record, which states the documented behaviour of the package.
\<close>

section \<open>Elliptic-curve signatures\<close>

text \<open>
  \<open>'k\<close> is a verifying key and \<open>'s\<close> a parsed signature: \<open>VerifyingKey::from_sec1_bytes\<close>,
  \<open>EncodedPoint::from_affine_coordinates\<close> with \<open>VerifyingKey::from_encoded_point\<close>,
  \<open>Signature::from_slice\<close>, \<open>Signature::from_der\<close> and \<open>Verifier::verify\<close>.
\<close>

record ('k, 's) ecdsa_lib =
  key_from_sec1 :: "bytes \<Rightarrow> 'k option"
  key_from_affine :: "bytes \<Rightarrow> bytes \<Rightarrow> 'k option"
  sig_from_slice :: "bytes \<Rightarrow> 's option"
  sig_from_der :: "bytes \<Rightarrow> 's option"
  ecdsa_verify :: "'k \<Rightarrow> bytes \<Rightarrow> 's \<Rightarrow> bool"

section \<open>CBOR\<close>

text \<open>The value type of \<open>ciborium\<close>; a float is kept as its bits.\<close>

datatype cbor =
    CInt int
  | CBytes bytes
  | CFloat u64
  | CText string
  | CBool bool
  | CNull
  | CTag u64 cbor
  | CArray "cbor list"
  | CMap "(cbor \<times> cbor) list"

text \<open>
  \<open>into_writer\<close> appends the encoding of a value to a vector; \<open>from_reader\<close> reads one value from
  the front of the input and leaves the cursor behind it.
\<close>

record cbor_lib =
  into_writer :: "cbor \<Rightarrow> bytes option"
  from_reader :: "bytes \<Rightarrow> (cbor \<times> nat) option"

text \<open>
  The values the issuer encodes: integers of 64 bits and a sign, valid text, no float and no
  bignum (the tags 2 and 3), nested at most \<open>n\<close> levels deep. \<open>ciborium\<close> writes every such value
  and reads it back.
\<close>

fun plain :: "nat \<Rightarrow> cbor \<Rightarrow> bool" where
  "plain n (CInt i) \<longleftrightarrow> - (2 ^ 64) \<le> i \<and> i < 2 ^ 64"
| "plain n (CBytes b) \<longleftrightarrow> length b < 2 ^ 64"
| "plain n (CText s) \<longleftrightarrow> length s < 2 ^ 64 \<and> utf8 s"
| "plain n (CBool b) \<longleftrightarrow> True"
| "plain n CNull \<longleftrightarrow> True"
| "plain n (CFloat f) \<longleftrightarrow> False"
| "plain 0 (CTag t v) \<longleftrightarrow> False"
| "plain (Suc n) (CTag t v) \<longleftrightarrow> t \<noteq> 2 \<and> t \<noteq> 3 \<and> plain n v"
| "plain 0 (CArray vs) \<longleftrightarrow> False"
| "plain (Suc n) (CArray vs) \<longleftrightarrow> length vs < 2 ^ 64 \<and> (\<forall>v \<in> set vs. plain n v)"
| "plain 0 (CMap kvs) \<longleftrightarrow> False"
| "plain (Suc n) (CMap kvs) \<longleftrightarrow>
     length kvs < 2 ^ 64 \<and> (\<forall>kv \<in> set kvs. plain n (fst kv) \<and> plain n (snd kv))"

lemma plain_nested:
  "plain n (CTag t v) \<longleftrightarrow> n \<noteq> 0 \<and> t \<noteq> 2 \<and> t \<noteq> 3 \<and> plain (n - 1) v"
  "plain n (CArray vs) \<longleftrightarrow> n \<noteq> 0 \<and> length vs < 2 ^ 64 \<and> (\<forall>v \<in> set vs. plain (n - 1) v)"
  "plain n (CMap kvs) \<longleftrightarrow> n \<noteq> 0 \<and> length kvs < 2 ^ 64 \<and>
     (\<forall>kv \<in> set kvs. plain (n - 1) (fst kv) \<and> plain (n - 1) (snd kv))"
  by (cases n; simp)+

text \<open>As deep as the values of the model get; \<open>ciborium\<close> itself stops at 256 levels.\<close>

definition NESTING :: nat where "NESTING = 8"

definition cbor_roundtrips :: "cbor_lib \<Rightarrow> bool" where
  "cbor_roundtrips lib \<longleftrightarrow>
     (\<forall>v. plain NESTING v \<longrightarrow>
        (\<exists>b. into_writer lib v = Some b \<and> (\<forall>rest. from_reader lib (b @ rest) = Some (v, length b))))"

lemma cbor_roundtripsD:
  assumes "cbor_roundtrips lib" and "plain NESTING v"
  obtains b where "into_writer lib v = Some b"
    and "\<And>rest. from_reader lib (b @ rest) = Some (v, length b)"
  using assms unfolding cbor_roundtrips_def by blast

lemma into_writer_inject:
  assumes "cbor_roundtrips lib" and "plain NESTING v" and "plain NESTING w"
    and "into_writer lib v = Some b" and "into_writer lib w = Some b"
  shows "v = w"
proof -
  from assms(1,2,4) have "from_reader lib (b @ []) = Some (v, length b)"
    by (metis cbor_roundtripsD option.inject)
  moreover from assms(1,3,5) have "from_reader lib (b @ []) = Some (w, length b)"
    by (metis cbor_roundtripsD option.inject)
  ultimately show ?thesis by simp
qed

section \<open>ML-DSA-65\<close>

text \<open>
  \<open>ml_dsa_65::verify\<close> and \<open>ml_dsa_65::sign\<close>, with an empty context string, on the fixed-size
  arrays the backend converts to.
\<close>

record mldsa_lib =
  mldsa_verify :: "bytes \<Rightarrow> bytes \<Rightarrow> bytes \<Rightarrow> bool"
  mldsa_sign :: "bytes \<Rightarrow> bytes \<Rightarrow> bytes \<Rightarrow> bytes option"
  mldsa_generate :: "bytes \<Rightarrow> bytes \<times> bytes"

section \<open>Hashes and text encodings\<close>

record codec_lib =
  sha256 :: "bytes \<Rightarrow> bytes"
  b64url_encode :: "bytes \<Rightarrow> string"
  b64url_decode :: "string \<Rightarrow> bytes option"
  b64_decode :: "string \<Rightarrow> bytes option"

end
