(* ===== verification/Hybrid_Codec.thy ===== *)
theory Hybrid_Codec
  imports Libraries
begin

text \<open>
  The private hybrid envelope of \<open>issuer-service/src/hybrid_codec.rs\<close>, and the signature check of
  \<open>pq_backend.rs\<close> it calls: the canonical context and to-be-signed encodings, the public-key and
  signature containers, the credential wrapper, and the verification that requires both
  signatures. Errors are values of \<open>hybrid_codec_error\<close>, in the order the code finds them.
\<close>

section \<open>The post-quantum backend\<close>

definition PUBLIC_KEY_BYTES :: nat where "PUBLIC_KEY_BYTES = 1952"
definition SECRET_KEY_BYTES :: nat where "SECRET_KEY_BYTES = 4032"
definition SIGNATURE_BYTES :: nat where "SIGNATURE_BYTES = 3309"

datatype pq_backend_error = PqRandom | InvalidLength string | PqSigning | PqVerification

definition sign_once :: "mldsa_lib \<Rightarrow> bytes option \<Rightarrow> bytes \<Rightarrow> bytes \<Rightarrow> pq_backend_error + bytes" where
  "sign_once lib randomness secret_key msg =
     (if length secret_key \<noteq> SECRET_KEY_BYTES then Inl (InvalidLength ''secret key'')
      else and_then (ok_or PqRandom randomness) (\<lambda>r.
        ok_or PqSigning (mldsa_sign lib secret_key msg r)))"

definition verify_signature ::
  "mldsa_lib \<Rightarrow> bytes \<Rightarrow> bytes \<Rightarrow> bytes \<Rightarrow> pq_backend_error + unit" where
  "verify_signature lib public_key msg sig =
     (if length public_key \<noteq> PUBLIC_KEY_BYTES then Inl (InvalidLength ''public key'')
      else if length sig \<noteq> SIGNATURE_BYTES then Inl (InvalidLength ''signature'')
      else if mldsa_verify lib public_key msg sig then Inr () else Inl PqVerification)"

section \<open>Constants, purposes and errors\<close>

definition VERSION :: u64 where "VERSION = 1"
definition PROFILE :: string where "PROFILE = ''euwallet-hybrid-pq-v1''"
definition PURPOSE :: string where "PURPOSE = ''test-sd-jwt-wrapper-v1''"
definition FORMAT :: string where "FORMAT = ''dev-hybrid-pq+cbor''"
definition DOMAIN :: bytes where "DOMAIN = as_bytes ''EUWALLET-HYBRID-SIGNATURE-V1''"
definition CONTEXT_DOMAIN :: bytes where
  "CONTEXT_DOMAIN = as_bytes ''EUWALLET-HYBRID-CONTEXT-V1''"
definition ENVELOPE_MAGIC :: bytes where
  "ENVELOPE_MAGIC = as_bytes ''EUWALLET-EXPERIMENTAL-HYBRID-PQ-V1'' @ [0]"
definition MAX_ENVELOPE_BYTES :: nat where "MAX_ENVELOPE_BYTES = 64 * 1024"
definition MAX_COMPONENT_ENVELOPE_BYTES :: nat where
  "MAX_COMPONENT_ENVELOPE_BYTES = 8 * 1024"
definition MAX_FIELD_BYTES :: nat where "MAX_FIELD_BYTES = 4096"
definition MAX_KEY_ID_BYTES :: nat where "MAX_KEY_ID_BYTES = 128"
definition MIN_NONCE_BYTES :: nat where "MIN_NONCE_BYTES = 16"
definition MAX_NONCE_BYTES :: nat where "MAX_NONCE_BYTES = 64"

lemmas bound_defs =
  MAX_ENVELOPE_BYTES_def MAX_COMPONENT_ENVELOPE_BYTES_def MAX_FIELD_BYTES_def
  MAX_KEY_ID_BYTES_def MIN_NONCE_BYTES_def MAX_NONCE_BYTES_def
  PUBLIC_KEY_BYTES_def SECRET_KEY_BYTES_def SIGNATURE_BYTES_def

datatype hybrid_codec_error =
    Oversized
  | LengthOverflow
  | Malformed
  | DuplicateField
  | NonCanonical
  | Unsupported
  | Missing
  | GenerationMismatch
  | ClassicalSignature
  | PostQuantumSignature

datatype hybrid_purpose =
    WalletExportV1
  | WalletRecoveryV1
  | PrivateProviderMessageV1
  | TestSdJwtWrapperV1
  | TestMdocWrapperV1

fun purpose_id :: "hybrid_purpose \<Rightarrow> string" where
  "purpose_id WalletExportV1 = ''wallet-export-v1''"
| "purpose_id WalletRecoveryV1 = ''wallet-recovery-v1''"
| "purpose_id PrivateProviderMessageV1 = ''private-provider-message-v1''"
| "purpose_id TestSdJwtWrapperV1 = PURPOSE"
| "purpose_id TestMdocWrapperV1 = ''test-mdoc-wrapper-v1''"

definition purpose_try_from :: "string \<Rightarrow> hybrid_codec_error + hybrid_purpose" where
  "purpose_try_from value =
     (if value = ''wallet-export-v1'' then Inr WalletExportV1
      else if value = ''wallet-recovery-v1'' then Inr WalletRecoveryV1
      else if value = ''private-provider-message-v1'' then Inr PrivateProviderMessageV1
      else if value = PURPOSE then Inr TestSdJwtWrapperV1
      else if value = ''test-mdoc-wrapper-v1'' then Inr TestMdocWrapperV1
      else Inl Unsupported)"

section \<open>Data\<close>

text \<open>\<open>[u8; 32]\<close> is a byte list; \<open>context_typed\<close> below states its length.\<close>

record hybrid_context =
  wallet_identity :: bytes
  issuer_identity :: "bytes option"
  key_generation :: u64
  transaction_id :: "bytes option"
  ctx_session_id :: "bytes option"
  ctx_audience :: "bytes option"
  ctx_nonce :: bytes
  created_at_epoch_seconds :: u64
  expires_at_epoch_seconds :: u64
  transcript_hash :: "bytes option"

record unsigned_envelope =
  purpose :: hybrid_purpose
  envelope_context :: hybrid_context
  envelope_payload :: bytes
  disclosures :: "bytes list"
  classical_kid :: string
  pq_kid :: string
  generation :: u64

record envelope_signatures =
  classical :: bytes
  post_quantum :: bytes

record hybrid_public_components =
  classical_key :: bytes
  post_quantum_key :: bytes

record verification_parameters =
  vp_purpose :: hybrid_purpose
  vp_context :: hybrid_context
  vp_classical_kid :: string
  vp_pq_kid :: string
  vp_classical_public_key :: bytes
  vp_pq_public_key :: bytes
  vp_generation :: u64

section \<open>Field checks\<close>

definition require_nonempty_bounded :: "bytes \<Rightarrow> hybrid_codec_error + unit" where
  "require_nonempty_bounded value =
     (if value = [] then Inl Malformed
      else if MAX_FIELD_BYTES < length value then Inl Oversized
      else Inr ())"

definition validate_optional :: "bytes option \<Rightarrow> hybrid_codec_error + unit" where
  "validate_optional value =
     (case value of Some v \<Rightarrow> require_nonempty_bounded v | None \<Rightarrow> Inr ())"

definition require_present :: "'a option \<Rightarrow> hybrid_codec_error + unit" where
  "require_present value = (if value = None then Inl Missing else Inr ())"

definition require_absent :: "'a option \<Rightarrow> hybrid_codec_error + unit" where
  "require_absent value = (if value \<noteq> None then Inl Unsupported else Inr ())"

definition check_kid :: "string \<Rightarrow> hybrid_codec_error + unit" where
  "check_kid kid =
     (if kid = [] then Inl Malformed
      else if MAX_KEY_ID_BYTES < length kid then Inl Oversized
      else Inr ())"

section \<open>The context and the bytes that are signed\<close>

definition append_component :: "bytes \<Rightarrow> bytes \<Rightarrow> hybrid_codec_error + bytes" where
  "append_component out component =
     (if length component < 2 ^ 32
      then Inr (out @ be_bytes 4 (of_nat (length component) :: u32) @ component)
      else Inl LengthOverflow)"

definition encode_context_field :: "bytes \<Rightarrow> u8 \<Rightarrow> bytes option \<Rightarrow> hybrid_codec_error + bytes" where
  "encode_context_field out tag value =
     append_component (out @ [tag]) (case value of None \<Rightarrow> [] | Some v \<Rightarrow> v)"

definition validate_common :: "hybrid_context \<Rightarrow> hybrid_codec_error + unit" where
  "validate_common c =
     and_then (require_nonempty_bounded (wallet_identity c)) (\<lambda>_.
     and_then (validate_optional (issuer_identity c)) (\<lambda>_.
     and_then (validate_optional (transaction_id c)) (\<lambda>_.
     and_then (validate_optional (ctx_session_id c)) (\<lambda>_.
     and_then (validate_optional (ctx_audience c)) (\<lambda>_.
       if key_generation c = 0 then Inl GenerationMismatch
       else if \<not> (MIN_NONCE_BYTES \<le> length (ctx_nonce c) \<and> length (ctx_nonce c) \<le> MAX_NONCE_BYTES)
               \<or> expires_at_epoch_seconds c \<le> created_at_epoch_seconds c
       then Inl Malformed
       else Inr ())))))"

definition validate_for :: "hybrid_context \<Rightarrow> hybrid_purpose \<Rightarrow> hybrid_codec_error + unit" where
  "validate_for c p =
     (if p = WalletExportV1 \<or> p = WalletRecoveryV1 then
        and_then (require_absent (issuer_identity c)) (\<lambda>_.
        and_then (require_absent (transaction_id c)) (\<lambda>_.
        and_then (require_absent (ctx_session_id c)) (\<lambda>_.
        and_then (require_absent (ctx_audience c)) (\<lambda>_.
          require_absent (transcript_hash c)))))
      else if p = PrivateProviderMessageV1 then
        and_then (require_present (ctx_session_id c)) (\<lambda>_.
        and_then (require_present (ctx_audience c)) (\<lambda>_.
          require_present (transcript_hash c)))
      else
        and_then (require_present (issuer_identity c)) (\<lambda>_.
        and_then (require_present (transaction_id c)) (\<lambda>_.
        and_then (require_present (ctx_audience c)) (\<lambda>_.
          if ctx_session_id c \<noteq> None then require_present (transcript_hash c) else Inr ()))))"

definition encode_for :: "hybrid_context \<Rightarrow> hybrid_purpose \<Rightarrow> hybrid_codec_error + bytes" where
  "encode_for c p =
     and_then (validate_common c) (\<lambda>_.
     and_then (validate_for c p) (\<lambda>_.
     and_then (encode_context_field CONTEXT_DOMAIN 1 (Some (wallet_identity c))) (\<lambda>e1.
     and_then (encode_context_field e1 2 (issuer_identity c)) (\<lambda>e2.
     and_then (encode_context_field e2 3 (Some (be_bytes 8 (key_generation c)))) (\<lambda>e3.
     and_then (encode_context_field e3 4 (transaction_id c)) (\<lambda>e4.
     and_then (encode_context_field e4 5 (ctx_session_id c)) (\<lambda>e5.
     and_then (encode_context_field e5 6 (ctx_audience c)) (\<lambda>e6.
     and_then (encode_context_field e6 7 (Some (ctx_nonce c))) (\<lambda>e7.
     and_then (encode_context_field e7 8 (Some (be_bytes 8 (created_at_epoch_seconds c)))) (\<lambda>e8.
     and_then (encode_context_field e8 9 (Some (be_bytes 8 (expires_at_epoch_seconds c)))) (\<lambda>e9.
       encode_context_field e9 10 (transcript_hash c))))))))))))"

definition build_tbs ::
  "hybrid_purpose \<Rightarrow> hybrid_context \<Rightarrow> bytes \<Rightarrow> hybrid_codec_error + bytes" where
  "build_tbs p c payload =
     (if MAX_FIELD_BYTES < length payload then Inl Oversized
      else
        and_then (encode_for c p) (\<lambda>encoded_context.
        and_then (append_component DOMAIN (as_bytes PROFILE)) (\<lambda>o1.
        and_then (append_component o1 (as_bytes (purpose_id p))) (\<lambda>o2.
        and_then (append_component o2 encoded_context) (\<lambda>o3.
          append_component o3 payload)))))"

section \<open>CBOR values of the envelopes\<close>

definition pair :: "u64 \<Rightarrow> cbor \<Rightarrow> cbor \<times> cbor" where
  "pair key value = (CInt (uint key), value)"

fun u64_try_from :: "int \<Rightarrow> hybrid_codec_error + u64" where
  "u64_try_from i = (if 0 \<le> i \<and> i < 2 ^ 64 then Inr (of_int i) else Inl Malformed)"

fun cbor_integer :: "cbor \<Rightarrow> hybrid_codec_error + u64" where
  "cbor_integer (CInt i) = u64_try_from i"
| "cbor_integer _ = Inl Malformed"

fun cbor_text :: "cbor \<Rightarrow> hybrid_codec_error + string" where
  "cbor_text (CText s) = Inr s"
| "cbor_text _ = Inl Malformed"

fun cbor_bytes :: "cbor \<Rightarrow> hybrid_codec_error + bytes" where
  "cbor_bytes (CBytes b) = Inr b"
| "cbor_bytes _ = Inl Malformed"

fun cbor_byte_array :: "cbor \<Rightarrow> hybrid_codec_error + bytes list" where
  "cbor_byte_array (CArray vs) = collect_results cbor_bytes vs"
| "cbor_byte_array _ = Inl Malformed"

definition committed_payload :: "cbor_lib \<Rightarrow> unsigned_envelope \<Rightarrow> hybrid_codec_error + bytes" where
  "committed_payload lib u =
     ok_or Malformed (into_writer lib
       (CMap [pair 1 (CBytes (envelope_payload u)),
              pair 2 (CArray (map CBytes (disclosures u)))]))"

definition tbs :: "cbor_lib \<Rightarrow> unsigned_envelope \<Rightarrow> hybrid_codec_error + bytes" where
  "tbs lib u =
     and_then (committed_payload lib u) (\<lambda>committed.
       build_tbs (purpose u) (envelope_context u) committed)"

section \<open>The public-key and signature containers\<close>

definition encode_component_envelope ::
  "cbor_lib \<Rightarrow> (cbor \<times> cbor) list \<Rightarrow> hybrid_codec_error + bytes" where
  "encode_component_envelope lib entries =
     and_then (ok_or Malformed (into_writer lib (CMap entries))) (\<lambda>b.
       if MAX_COMPONENT_ENVELOPE_BYTES < length (ENVELOPE_MAGIC @ b) then Inl Oversized
       else Inr (ENVELOPE_MAGIC @ b))"

text \<open>The loop over the entries: the key of each must be its index plus one.\<close>

fun component_fields :: "nat \<Rightarrow> (cbor \<times> cbor) list \<Rightarrow> hybrid_codec_error + (u64 \<times> cbor) list" where
  "component_fields index [] = Inr []"
| "component_fields index ((key, value) # entries) =
     and_then (cbor_integer key) (\<lambda>k.
       if k \<noteq> of_nat (index + 1) then Inl DuplicateField
       else and_then (component_fields (index + 1) entries) (\<lambda>fs. Inr ((k, value) # fs)))"

text \<open>One canonical CBOR value that fills the body, as both decoders read it.\<close>

definition read_canonical :: "cbor_lib \<Rightarrow> bytes \<Rightarrow> hybrid_codec_error + cbor" where
  "read_canonical lib body =
     and_then (ok_or Malformed (from_reader lib body)) (\<lambda>(value, position).
       if position \<noteq> length body then Inl NonCanonical
       else and_then (ok_or Malformed (into_writer lib value)) (\<lambda>canonical.
         if canonical \<noteq> body then Inl NonCanonical else Inr value))"

fun cbor_map :: "cbor \<Rightarrow> hybrid_codec_error + (cbor \<times> cbor) list" where
  "cbor_map (CMap entries) = Inr entries"
| "cbor_map _ = Inl Malformed"

definition decode_component_envelope ::
  "cbor_lib \<Rightarrow> bytes \<Rightarrow> nat \<Rightarrow> hybrid_codec_error + (u64 \<times> cbor) list" where
  "decode_component_envelope lib encoded expected_fields =
     (if MAX_COMPONENT_ENVELOPE_BYTES < length encoded then Inl Oversized
      else
        and_then (ok_or Malformed (strip_prefix ENVELOPE_MAGIC encoded)) (\<lambda>body.
        and_then (read_canonical lib body) (\<lambda>value.
        and_then (cbor_map value) (\<lambda>entries.
          if length entries \<noteq> expected_fields then Inl Missing
          else component_fields 0 entries))))"

definition public_key_sizes_ok :: "bytes \<Rightarrow> bytes \<Rightarrow> bool" where
  "public_key_sizes_ok c q \<longleftrightarrow>
     \<not> (length c \<noteq> 65 \<or> (case c of [] \<Rightarrow> True | b # _ \<Rightarrow> b \<noteq> 0x04) \<or> length q \<noteq> PUBLIC_KEY_BYTES)"

definition encode_public_key_envelope ::
  "cbor_lib \<Rightarrow> bytes \<Rightarrow> bytes \<Rightarrow> hybrid_codec_error + bytes" where
  "encode_public_key_envelope lib c q =
     (if \<not> public_key_sizes_ok c q then Inl Malformed
      else encode_component_envelope lib
        [pair 1 (CInt (uint VERSION)), pair 2 (CInt 1), pair 3 (CText PROFILE),
         pair 4 (CBytes c), pair 5 (CBytes q)])"

definition decode_public_key_envelope ::
  "cbor_lib \<Rightarrow> bytes \<Rightarrow> hybrid_codec_error + hybrid_public_components" where
  "decode_public_key_envelope lib encoded =
     and_then (decode_component_envelope lib encoded 5) (\<lambda>fs.
     and_then (cbor_integer (snd (fs ! 0))) (\<lambda>version.
       if version \<noteq> VERSION then Inl Unsupported
       else and_then (cbor_integer (snd (fs ! 1))) (\<lambda>kind.
         if kind \<noteq> 1 then Inl Unsupported
         else and_then (cbor_text (snd (fs ! 2))) (\<lambda>profile.
           if profile \<noteq> PROFILE then Inl Unsupported
           else and_then (cbor_bytes (snd (fs ! 3))) (\<lambda>c.
                and_then (cbor_bytes (snd (fs ! 4))) (\<lambda>q.
                  if \<not> public_key_sizes_ok c q then Inl Malformed
                  else Inr \<lparr>classical_key = c, post_quantum_key = q\<rparr>))))))"

definition signature_sizes_ok :: "envelope_signatures \<Rightarrow> bool" where
  "signature_sizes_ok s \<longleftrightarrow> length (classical s) = 64 \<and> length (post_quantum s) = SIGNATURE_BYTES"

definition encode_signature_envelope ::
  "cbor_lib \<Rightarrow> hybrid_purpose \<Rightarrow> envelope_signatures \<Rightarrow> hybrid_codec_error + bytes" where
  "encode_signature_envelope lib p s =
     (if \<not> signature_sizes_ok s then Inl Missing
      else encode_component_envelope lib
        [pair 1 (CInt (uint VERSION)), pair 2 (CInt 2), pair 3 (CText PROFILE),
         pair 4 (CBytes (classical s)), pair 5 (CBytes (post_quantum s)),
         pair 6 (CText (purpose_id p))])"

definition decode_signature_envelope ::
  "cbor_lib \<Rightarrow> bytes \<Rightarrow> hybrid_purpose \<Rightarrow> hybrid_codec_error + envelope_signatures" where
  "decode_signature_envelope lib encoded expected_purpose =
     and_then (decode_component_envelope lib encoded 6) (\<lambda>fs.
     and_then (and_then (cbor_text (snd (fs ! 5))) purpose_try_from) (\<lambda>p.
     and_then (cbor_integer (snd (fs ! 0))) (\<lambda>version.
       if version \<noteq> VERSION then Inl Unsupported
       else and_then (cbor_integer (snd (fs ! 1))) (\<lambda>kind.
         if kind \<noteq> 2 then Inl Unsupported
         else and_then (cbor_text (snd (fs ! 2))) (\<lambda>profile.
           if profile \<noteq> PROFILE \<or> p \<noteq> expected_purpose then Inl Unsupported
           else and_then (cbor_bytes (snd (fs ! 3))) (\<lambda>c.
                and_then (cbor_bytes (snd (fs ! 4))) (\<lambda>q.
                  if \<not> signature_sizes_ok \<lparr>classical = c, post_quantum = q\<rparr> then Inl Missing
                  else Inr \<lparr>classical = c, post_quantum = q\<rparr>)))))))"

section \<open>The credential wrapper\<close>

definition wrapper_value :: "unsigned_envelope \<Rightarrow> envelope_signatures \<Rightarrow> cbor" where
  "wrapper_value u s = CMap
     [pair 1 (CInt (uint VERSION)),
      pair 2 (CText PROFILE),
      pair 3 (CText (purpose_id (purpose u))),
      pair 4 (CText FORMAT),
      pair 5 (CBytes (envelope_payload u)),
      pair 6 (CArray (map CBytes (disclosures u))),
      pair 7 (CText (classical_kid u)),
      pair 8 (CText (pq_kid u)),
      pair 9 (CInt (uint (generation u))),
      pair 10 (CBytes (classical s)),
      pair 11 (CBytes (post_quantum s))]"

definition encode ::
  "cbor_lib \<Rightarrow> unsigned_envelope \<Rightarrow> envelope_signatures \<Rightarrow> hybrid_codec_error + bytes" where
  "encode lib u s =
     (if \<not> signature_sizes_ok s then Inl Missing
      else
        and_then (require_nonempty_bounded (envelope_payload u)) (\<lambda>_.
        and_then (for_each require_nonempty_bounded (disclosures u)) (\<lambda>_.
        and_then (for_each check_kid [classical_kid u, pq_kid u]) (\<lambda>_.
          if generation u = 0 then Inl GenerationMismatch
          else and_then (ok_or Malformed (into_writer lib (wrapper_value u s))) (\<lambda>b.
            if MAX_ENVELOPE_BYTES < length (ENVELOPE_MAGIC @ b) then Inl Oversized
            else Inr (ENVELOPE_MAGIC @ b))))))"

text \<open>The loop over the entries, with the set of the keys seen so far.\<close>

fun wrapper_fields :: "u64 set \<Rightarrow> (cbor \<times> cbor) list \<Rightarrow> hybrid_codec_error + (u64 \<times> cbor) list" where
  "wrapper_fields seen [] = Inr []"
| "wrapper_fields seen ((key, value) # entries) =
     and_then (cbor_integer key) (\<lambda>k.
       if k \<in> seen then Inl DuplicateField
       else and_then (wrapper_fields (insert k seen) entries) (\<lambda>fs.
         Inr ((k, value) # fs)))"

definition decode ::
  "cbor_lib \<Rightarrow> bytes \<Rightarrow> hybrid_purpose \<Rightarrow> hybrid_context \<Rightarrow>
     hybrid_codec_error + unsigned_envelope \<times> envelope_signatures" where
  "decode lib encoded expected_purpose context =
     (if MAX_ENVELOPE_BYTES < length encoded \<or> \<not> prefix ENVELOPE_MAGIC encoded then Inl Oversized
      else
        and_then (read_canonical lib (drop (length ENVELOPE_MAGIC) encoded)) (\<lambda>value.
        and_then (cbor_map value) (\<lambda>entries.
        and_then (wrapper_fields {} entries) (\<lambda>fs.
          if length fs \<noteq> 11 \<or> map fst fs \<noteq> map of_nat [1..<12] then Inl Missing
          else
            and_then (cbor_integer (snd (fs ! 0))) (\<lambda>version.
            and_then (cbor_text (snd (fs ! 1))) (\<lambda>profile.
            and_then (and_then (cbor_text (snd (fs ! 2))) purpose_try_from) (\<lambda>p.
            and_then (cbor_text (snd (fs ! 3))) (\<lambda>fmt.
              if version \<noteq> VERSION \<or> profile \<noteq> PROFILE \<or> p \<noteq> expected_purpose \<or> fmt \<noteq> FORMAT
              then Inl Unsupported
              else
                and_then (cbor_bytes (snd (fs ! 4))) (\<lambda>payload.
                and_then (require_nonempty_bounded payload) (\<lambda>_.
                and_then (cbor_byte_array (snd (fs ! 5))) (\<lambda>ds.
                and_then (for_each require_nonempty_bounded ds) (\<lambda>_.
                and_then (cbor_text (snd (fs ! 6))) (\<lambda>ckid.
                and_then (cbor_text (snd (fs ! 7))) (\<lambda>qkid.
                and_then (for_each check_kid [ckid, qkid]) (\<lambda>_.
                and_then (cbor_integer (snd (fs ! 8))) (\<lambda>gen.
                  if gen = 0 then Inl GenerationMismatch
                  else
                    and_then (cbor_bytes (snd (fs ! 9))) (\<lambda>c.
                    and_then (cbor_bytes (snd (fs ! 10))) (\<lambda>q.
                      if \<not> signature_sizes_ok \<lparr>classical = c, post_quantum = q\<rparr> then Inl Missing
                      else Inr
                        (\<lparr>purpose = p, envelope_context = context, envelope_payload = payload,
                          disclosures = ds, classical_kid = ckid, pq_kid = qkid,
                          generation = gen\<rparr>,
                         \<lparr>classical = c, post_quantum = q\<rparr>)))))))))))))))))))"

definition verify ::
  "cbor_lib \<Rightarrow> ('k, 's) ecdsa_lib \<Rightarrow> mldsa_lib \<Rightarrow> bytes \<Rightarrow> verification_parameters \<Rightarrow>
     hybrid_codec_error + unit" where
  "verify lib ec pq encoded p =
     and_then (decode lib encoded (vp_purpose p) (vp_context p)) (\<lambda>(u, s).
       if generation u \<noteq> vp_generation p \<or> key_generation (envelope_context u) \<noteq> vp_generation p
       then Inl GenerationMismatch
       else if classical_kid u \<noteq> vp_classical_kid p \<or> pq_kid u \<noteq> vp_pq_kid p
       then Inl GenerationMismatch
       else
         and_then (tbs lib u) (\<lambda>signed.
         and_then (ok_or ClassicalSignature (key_from_sec1 ec (vp_classical_public_key p))) (\<lambda>key.
         and_then (ok_or ClassicalSignature (sig_from_slice ec (classical s))) (\<lambda>sig.
           if \<not> ecdsa_verify ec key signed sig then Inl ClassicalSignature
           else (case verify_signature pq (vp_pq_public_key p) signed (post_quantum s) of
                   Inl _ \<Rightarrow> Inl PostQuantumSignature
                 | Inr _ \<Rightarrow> Inr ())))))"

end
