(* ===== verification/Codec_Contracts.thy ===== *)
theory Codec_Contracts
  imports Prelude
begin

text \<open>
  What an encoder and a decoder promise each other, as locales. A strict decoder accepts only
  what its encoder writes, so an accepted message has one spelling; a lossless codec reads back
  whatever it writes. Every envelope and record of the issuer is an instance.
\<close>

locale strict_decoder =
  fixes enc :: "'a \<Rightarrow> 'e + bytes"
    and dec :: "bytes \<Rightarrow> 'e + 'a"
  assumes strict: "dec b = Inr x \<Longrightarrow> enc x = Inr b"
begin

lemma one_spelling: "dec b = Inr x \<Longrightarrow> dec b' = Inr x \<Longrightarrow> b = b'"
  using strict [of b x] strict [of b' x] by simp

lemma accepted_is_encoding: "dec b = Inr x \<Longrightarrow> is_ok (enc x)"
  by (simp add: strict is_ok_iff)

end

locale lossless_codec = strict_decoder enc dec
  for enc :: "'a \<Rightarrow> 'e + bytes" and dec :: "bytes \<Rightarrow> 'e + 'a" +
  fixes wf :: "'a \<Rightarrow> bool"
  assumes lossless: "wf x \<Longrightarrow> enc x = Inr b \<Longrightarrow> dec b = Inr x"
begin

lemma accepts_exactly: "wf x \<Longrightarrow> dec b = Inr x \<longleftrightarrow> enc x = Inr b"
  using strict lossless by blast

lemma unambiguous: "wf x \<Longrightarrow> enc x = Inr b \<Longrightarrow> enc y = Inr b \<Longrightarrow> wf y \<Longrightarrow> x = y"
  using lossless [of x b] lossless [of y b] by simp

end

end
