(* ===== verification/Cbor_Instance.thy ===== *)
theory Cbor_Instance
  imports Libraries
begin

text \<open>
  A CBOR codec after RFC 8949 for the values of \<open>plain\<close>, with lengths in their shortest form. It
  shows that the documented behaviour of \<open>ciborium\<close> the proofs assume (\<open>cbor_roundtrips\<close>) can
  hold, and it is what the concrete examples of the development run on.
\<close>

section \<open>Heads\<close>

text \<open>The initial byte and the argument: a major type of three bits and a number of 64 bits.\<close>

definition head_bytes :: "nat \<Rightarrow> nat \<Rightarrow> bytes" where
  "head_bytes major n =
     (if n < 24 then [of_nat (32 * major + n)]
      else if n < 2 ^ 8 then of_nat (32 * major + 24) # be_bytes 1 (of_nat n :: u64)
      else if n < 2 ^ 16 then of_nat (32 * major + 25) # be_bytes 2 (of_nat n :: u64)
      else if n < 2 ^ 32 then of_nat (32 * major + 26) # be_bytes 4 (of_nat n :: u64)
      else of_nat (32 * major + 27) # be_bytes 8 (of_nat n :: u64))"

definition split_bytes :: "nat \<Rightarrow> bytes \<Rightarrow> (bytes \<times> bytes) option" where
  "split_bytes n bs = (if n \<le> length bs then Some (take n bs, drop n bs) else None)"

definition read_argument :: "nat \<Rightarrow> nat \<Rightarrow> bytes \<Rightarrow> (nat \<times> nat \<times> bytes) option" where
  "read_argument major k bs =
     (case split_bytes k bs of
        None \<Rightarrow> None
      | Some (arg, rest) \<Rightarrow> Some (major, unat (from_be_bytes arg :: u64), rest))"

definition read_head :: "bytes \<Rightarrow> (nat \<times> nat \<times> bytes) option" where
  "read_head bs =
     (case bs of
        [] \<Rightarrow> None
      | b # rest \<Rightarrow>
          (let major = unat b div 32; info = unat b mod 32 in
           if info < 24 then Some (major, info, rest)
           else if info = 24 then read_argument major 1 rest
           else if info = 25 then read_argument major 2 rest
           else if info = 26 then read_argument major 4 rest
           else if info = 27 then read_argument major 8 rest
           else None))"

lemma split_bytes_append [simp]: "n = length a \<Longrightarrow> split_bytes n (a @ r) = Some (a, r)"
  by (simp add: split_bytes_def)

lemma unat_initial_byte:
  "major < 8 \<Longrightarrow> info < 32 \<Longrightarrow> unat (of_nat (32 * major + info) :: u8) = 32 * major + info"
  by (simp only: unat_of_nat) simp

lemma read_argument_be_bytes:
  assumes "n < 2 ^ (8 * k)" and "n < 2 ^ 64"
  shows "read_argument major k (be_bytes k (of_nat n :: u64) @ r) = Some (major, n, r)"
proof -
  have "unat (from_be_bytes (be_bytes k (of_nat n :: u64)) :: u64) = n"
    using assms
    by (simp add: from_be_bytes_be_bytes_take unsigned_take_bit_eq unat_of_nat take_bit_nat_eq_self)
  then show ?thesis by (simp add: read_argument_def)
qed

lemma read_head_step:
  assumes "major < 8" and "info < 32"
  shows "read_head (of_nat (32 * major + info) # rest) =
     (if info < 24 then Some (major, info, rest)
      else if info = 24 then read_argument major 1 rest
      else if info = 25 then read_argument major 2 rest
      else if info = 26 then read_argument major 4 rest
      else if info = 27 then read_argument major 8 rest
      else None)"
  using assms by (simp add: read_head_def unat_initial_byte del: of_nat_add of_nat_mult)

lemma read_head_bytes:
  assumes "major < 8" and "n < 2 ^ 64"
  shows "read_head (head_bytes major n @ r) = Some (major, n, r)"
  using assms
  by (simp add: head_bytes_def read_head_step read_argument_be_bytes
      del: of_nat_add of_nat_mult)

lemma length_head_bytes:
  "length (head_bytes major n) =
     (if n < 24 then 1 else if n < 2 ^ 8 then 2 else if n < 2 ^ 16 then 3
      else if n < 2 ^ 32 then 5 else 9)"
  by (simp add: head_bytes_def)

section \<open>Values\<close>

fun encode_value :: "cbor \<Rightarrow> bytes" where
  "encode_value (CInt i) =
     (if 0 \<le> i then head_bytes 0 (nat i) else head_bytes 1 (nat (- 1 - i)))"
| "encode_value (CBytes b) = head_bytes 2 (length b) @ b"
| "encode_value (CText s) = head_bytes 3 (length s) @ as_bytes s"
| "encode_value (CArray vs) = head_bytes 4 (length vs) @ concat (map encode_value vs)"
| "encode_value (CMap kvs) =
     head_bytes 5 (length kvs) @ concat (map (\<lambda>(k, v). encode_value k @ encode_value v) kvs)"
| "encode_value (CTag t v) = head_bytes 6 (unat t) @ encode_value v"
| "encode_value (CBool b) = head_bytes 7 (if b then 21 else 20)"
| "encode_value CNull = head_bytes 7 22"
| "encode_value (CFloat f) = []"

fun read_many :: "(bytes \<Rightarrow> ('a \<times> bytes) option) \<Rightarrow> nat \<Rightarrow> bytes \<Rightarrow> ('a list \<times> bytes) option" where
  "read_many f 0 bs = Some ([], bs)"
| "read_many f (Suc n) bs =
     (case f bs of
        None \<Rightarrow> None
      | Some (x, r) \<Rightarrow>
          (case read_many f n r of None \<Rightarrow> None | Some (xs, r') \<Rightarrow> Some (x # xs, r')))"

definition read_pair :: "(bytes \<Rightarrow> ('a \<times> bytes) option) \<Rightarrow> bytes \<Rightarrow> (('a \<times> 'a) \<times> bytes) option" where
  "read_pair f bs =
     (case f bs of
        None \<Rightarrow> None
      | Some (k, r) \<Rightarrow> (case f r of None \<Rightarrow> None | Some (v, r') \<Rightarrow> Some ((k, v), r')))"

fun decode_value :: "nat \<Rightarrow> bytes \<Rightarrow> (cbor \<times> bytes) option" where
  "decode_value n bs =
     (case read_head bs of
        None \<Rightarrow> None
      | Some (major, arg, rest) \<Rightarrow>
          if major = 0 then Some (CInt (int arg), rest)
          else if major = 1 then Some (CInt (- 1 - int arg), rest)
          else if major = 2 then map_option (\<lambda>(b, r). (CBytes b, r)) (split_bytes arg rest)
          else if major = 3 then
            (case split_bytes arg rest of
               None \<Rightarrow> None
             | Some (b, r) \<Rightarrow>
                 (let s = map (\<lambda>c. char_of (unat c)) b in if utf8 s then Some (CText s, r) else None))
          else if major = 7 then
            (if arg = 20 then Some (CBool False, rest)
             else if arg = 21 then Some (CBool True, rest)
             else if arg = 22 then Some (CNull, rest) else None)
          else (case n of
                  0 \<Rightarrow> None
                | Suc m \<Rightarrow>
                    if major = 4 then
                      map_option (\<lambda>(vs, r). (CArray vs, r)) (read_many (decode_value m) arg rest)
                    else if major = 5 then
                      map_option (\<lambda>(kvs, r). (CMap kvs, r))
                        (read_many (read_pair (decode_value m)) arg rest)
                    else map_option (\<lambda>(v, r). (CTag (of_nat arg) v, r)) (decode_value m rest)))"

declare decode_value.simps [simp del]

lemma read_many_concat:
  assumes "\<forall>x \<in> set xs. \<forall>r. f (g x @ r) = Some (x, r)"
  shows "read_many f (length xs) (concat (map g xs) @ r) = Some (xs, r)"
  using assms by (induction xs) auto

lemma char_of_as_bytes [simp]: "map (\<lambda>c. char_of (unat c)) (as_bytes s) = s"
proof -
  have "char_of (unat (of_char c :: u8)) = c" for c
  proof -
    have "unat (of_nat (of_char c) :: u8) = (of_char c :: nat)"
      by (simp only: unat_of_nat) simp
    then show ?thesis by (simp add: of_nat_of_char)
  qed
  then show ?thesis by (simp add: as_bytes_def comp_def)
qed

lemma decode_encode_value: "plain n v \<Longrightarrow> decode_value n (encode_value v @ r) = Some (v, r)"
proof (induction n v arbitrary: r rule: plain.induct)
  case (10 n vs)
  then show ?case
    by (subst decode_value.simps) (simp add: read_head_bytes read_many_concat)
next
  case (12 n kvs)
  have "\<forall>kv \<in> set kvs. \<forall>r. read_pair (decode_value n)
      ((\<lambda>(k, v). encode_value k @ encode_value v) kv @ r) = Some (kv, r)"
    using 12 by (fastforce simp: read_pair_def split_beta)
  with 12 show ?case
    by (subst decode_value.simps) (simp add: read_head_bytes read_many_concat)
next
  case (8 n t v)
  moreover have "unat t < 2 ^ 64" using unat_lt_pow [of t] by simp
  ultimately show ?case
    by (subst decode_value.simps) (simp add: read_head_bytes)
qed (subst decode_value.simps; force simp: read_head_bytes)+

section \<open>The instance\<close>

definition rfc8949 :: cbor_lib where
  "rfc8949 = \<lparr>
     into_writer = (\<lambda>v. if plain NESTING v then Some (encode_value v) else None),
     from_reader = (\<lambda>bs. map_option (\<lambda>(v, rest). (v, length bs - length rest))
                           (decode_value NESTING bs))\<rparr>"

lemma rfc8949_roundtrips: "cbor_roundtrips rfc8949"
  by (simp add: cbor_roundtrips_def rfc8949_def decode_encode_value)

lemma into_writer_rfc8949: "plain NESTING v \<Longrightarrow> into_writer rfc8949 v = Some (encode_value v)"
  by (simp add: rfc8949_def)

lemmas encoded_length = length_head_bytes as_bytes_append

end
