(* ===== verification/Hybrid_Properties.thy ===== *)
theory Hybrid_Properties
  imports Hybrid_Codec Codec_Contracts Cbor_Instance
begin

text \<open>
  The laws of the hybrid envelope: its decoders are strict and lossless, the signed bytes are an
  injective encoding of what they commit to, and verification accepts exactly the envelopes both
  signatures of which are valid under the keys and the generation the verifier asked for.
\<close>

section \<open>Reading canonical CBOR\<close>

lemma require_nonempty_bounded_ok_iff [ok_iff]:
  "require_nonempty_bounded v = Inr u \<longleftrightarrow> v \<noteq> [] \<and> length v \<le> MAX_FIELD_BYTES"
  by (auto simp: require_nonempty_bounded_def)

lemma check_kid_ok_iff [ok_iff]:
  "check_kid k = Inr u \<longleftrightarrow> k \<noteq> [] \<and> length k \<le> MAX_KEY_ID_BYTES"
  by (auto simp: check_kid_def)

lemma validate_optional_ok_iff [ok_iff]:
  "validate_optional v = Inr u \<longleftrightarrow> (\<forall>b. v = Some b \<longrightarrow> b \<noteq> [] \<and> length b \<le> MAX_FIELD_BYTES)"
  by (auto simp: validate_optional_def ok_iff split: option.split)

lemma require_present_ok_iff [ok_iff]: "require_present v = Inr u \<longleftrightarrow> v \<noteq> None"
  by (auto simp: require_present_def)

lemma require_absent_ok_iff [ok_iff]: "require_absent v = Inr u \<longleftrightarrow> v = None"
  by (auto simp: require_absent_def)

lemma cbor_integer_ok_iff [ok_iff]: "cbor_integer v = Inr k \<longleftrightarrow> v = CInt (uint k)"
proof (cases v)
  case (CInt i)
  have "0 \<le> i \<and> i < 2 ^ 64 \<and> of_int i = k \<longleftrightarrow> i = uint k"
    using unsigned_less [of k] by (auto simp: unsigned_of_int take_bit_int_eq_self)
  with CInt show ?thesis by auto
qed auto

declare cbor_integer.simps (1) [simp del]

lemma cbor_integer_uint [simp]: "cbor_integer (CInt (uint k)) = Inr k"
  by (simp add: cbor_integer_ok_iff)

lemma cbor_text_ok_iff [ok_iff]: "cbor_text v = Inr s \<longleftrightarrow> v = CText s"
  by (cases v) auto

lemma cbor_bytes_ok_iff [ok_iff]: "cbor_bytes v = Inr s \<longleftrightarrow> v = CBytes s"
  by (cases v) auto

lemma cbor_byte_array_ok_iff [ok_iff]: "cbor_byte_array v = Inr bs \<longleftrightarrow> v = CArray (map CBytes bs)"
proof (cases v)
  case (CArray vs)
  have "list_all2 (\<lambda>x y. x = CBytes y) vs bs \<longleftrightarrow> vs = map CBytes bs"
    by (induction vs arbitrary: bs) (auto simp: list_all2_Cons1 Cons_eq_map_conv)
  with CArray show ?thesis by (simp add: ok_iff)
qed auto

lemma cbor_byte_array_bytes [simp]: "cbor_byte_array (CArray (map CBytes bs)) = Inr bs"
  by (subst cbor_byte_array_ok_iff) (rule refl)

declare cbor_byte_array.simps (1) [simp del]

lemma cbor_map_ok_iff [ok_iff]: "cbor_map v = Inr es \<longleftrightarrow> v = CMap es"
  by (cases v) auto

lemma purpose_try_from_ids:
  "purpose_try_from (purpose_id WalletExportV1) = Inr WalletExportV1"
  "purpose_try_from (purpose_id WalletRecoveryV1) = Inr WalletRecoveryV1"
  "purpose_try_from (purpose_id PrivateProviderMessageV1) = Inr PrivateProviderMessageV1"
  "purpose_try_from (purpose_id TestSdJwtWrapperV1) = Inr TestSdJwtWrapperV1"
  "purpose_try_from (purpose_id TestMdocWrapperV1) = Inr TestMdocWrapperV1"
  by code_simp+

lemma purpose_try_from_id [simp]: "purpose_try_from (purpose_id p) = Inr p"
  by (cases p) (simp_all only: purpose_try_from_ids)

lemma if_eq_ok_elim: "(if s = a then Inr x else k) = Inr p \<Longrightarrow> s = a \<and> p = x \<or> k = Inr p"
  by (simp split: if_splits)

lemma purpose_try_fromD:
  assumes "purpose_try_from s = Inr p"
  shows "s = purpose_id p"
  using assms unfolding purpose_try_from_def
  by (elim if_eq_ok_elim [elim_format] disjE conjE) (simp_all only: purpose_id.simps sum.distinct)

lemma purpose_try_from_ok_iff [ok_iff]: "purpose_try_from s = Inr p \<longleftrightarrow> s = purpose_id p"
  using purpose_try_fromD by auto

lemma purpose_id_inject [simp]: "purpose_id p = purpose_id q \<longleftrightarrow> p = q"
  by (metis purpose_try_from_id sum.inject(2))

lemma read_canonical_ok_iff [ok_iff]:
  "read_canonical lib body = Inr v \<longleftrightarrow>
     from_reader lib body = Some (v, length body) \<and> into_writer lib v = Some body"
  by (auto simp: read_canonical_def ok_iff)

lemma read_canonical_written:
  assumes "cbor_roundtrips lib" and "plain NESTING v" and "into_writer lib v = Some b"
  shows "read_canonical lib b = Inr v"
proof -
  from assms obtain b' where "into_writer lib v = Some b'"
    and "\<And>rest. from_reader lib (b' @ rest) = Some (v, length b')"
    using cbor_roundtripsD by blast
  with assms(3) have "from_reader lib (b @ []) = Some (v, length b)"
    by (metis option.inject)
  with assms(3) show ?thesis by (simp add: ok_iff)
qed

text \<open>Both field loops return the entries with their keys read.\<close>

definition unread :: "(u64 \<times> cbor) list \<Rightarrow> (cbor \<times> cbor) list" where
  "unread fs = map (\<lambda>(k, v). pair k v) fs"

lemma unread_simps [simp]:
  "unread [] = []"
  "unread ((k, v) # fs) = pair k v # unread fs"
  by (simp_all add: unread_def)

lemma unread_Nil_iff [simp]: "[] = unread fs \<longleftrightarrow> fs = []"
  by (auto simp: unread_def)

lemma length_unread [simp]: "length (unread fs) = length fs"
  by (simp add: unread_def)

lemma component_fields_ok_iff [ok_iff]:
  "component_fields i es = Inr fs \<longleftrightarrow>
     es = unread fs \<and> map fst fs = map (\<lambda>j. of_nat (j + 1)) [i..<i + length fs]"
proof (induction i es arbitrary: fs rule: component_fields.induct)
  case (2 i key v es)
  show ?case
  proof (cases fs)
    case (Cons f fs')
    obtain k w where "f = (k, w)" by (cases f)
    with Cons 2 show ?thesis
      by (auto simp: ok_iff pair_def upt_conv_Cons simp del: upt_Suc)
  qed (simp add: ok_iff)
qed auto

lemma wrapper_fields_ok_iff [ok_iff]:
  "wrapper_fields seen es = Inr fs \<longleftrightarrow>
     es = unread fs \<and> distinct (map fst fs) \<and> set (map fst fs) \<inter> seen = {}"
proof (induction es arbitrary: seen fs)
  case (Cons e es)
  obtain key v where e: "e = (key, v)" by (cases e)
  have "wrapper_fields seen (e # es) = Inr fs \<longleftrightarrow>
      (\<exists>k fs'. key = CInt (uint k) \<and> k \<notin> seen \<and> fs = (k, v) # fs' \<and>
         wrapper_fields (insert k seen) es = Inr fs')"
    by (auto simp: e ok_iff)
  also have "\<dots> \<longleftrightarrow> (\<exists>k fs'. key = CInt (uint k) \<and> k \<notin> seen \<and> fs = (k, v) # fs' \<and>
      es = unread fs' \<and> distinct (map fst fs') \<and> set (map fst fs') \<inter> insert k seen = {})"
    by (simp only: Cons)
  also have "\<dots> \<longleftrightarrow> e # es = unread fs \<and> distinct (map fst fs) \<and> set (map fst fs) \<inter> seen = {}"
  proof (cases fs)
    case (Cons f fs')
    obtain k w where f: "f = (k, w)" by (cases f)
    have "set (map fst fs') \<inter> insert k seen = {} \<longleftrightarrow>
        k \<notin> set (map fst fs') \<and> set (map fst fs') \<inter> seen = {}" by blast
    then show ?thesis by (auto simp: Cons f e pair_def)
  qed simp
  finally show ?case .
qed auto

lemma one_to_five: "map (\<lambda>j. of_nat (j + 1)) [0..<5] = [1, 2, 3, 4, 5 :: u64]"
  by (simp add: upt_rec)

lemma one_to_six: "map (\<lambda>j. of_nat (j + 1)) [0..<6] = [1, 2, 3, 4, 5, 6 :: u64]"
  by (simp add: upt_rec)

lemma one_to_eleven: "map of_nat [1..<12] = [1, 2, 3, 4, 5, 6, 7, 8, 9, 10, 11 :: u64]"
  by (simp add: upt_rec)

lemma keys_Nil_iff: "map fst fs = [] \<longleftrightarrow> fs = []"
  by simp

lemma keys_Cons_iff: "map fst fs = k # ks \<longleftrightarrow> (\<exists>v fs'. fs = (k, v) # fs' \<and> map fst fs' = ks)"
  by (cases fs) auto

lemmas keys_iff = keys_Nil_iff keys_Cons_iff

section \<open>The credential wrapper\<close>

text \<open>What the encoder checks and the decoder checks again.\<close>

definition envelope_ok :: "unsigned_envelope \<Rightarrow> envelope_signatures \<Rightarrow> bool" where
  "envelope_ok u s \<longleftrightarrow>
     signature_sizes_ok s \<and>
     envelope_payload u \<noteq> [] \<and> length (envelope_payload u) \<le> MAX_FIELD_BYTES \<and>
     (\<forall>d \<in> set (disclosures u). d \<noteq> [] \<and> length d \<le> MAX_FIELD_BYTES) \<and>
     (\<forall>k \<in> {classical_kid u, pq_kid u}. k \<noteq> [] \<and> length k \<le> MAX_KEY_ID_BYTES) \<and>
     generation u \<noteq> 0"

definition is_envelope ::
  "cbor_lib \<Rightarrow> unsigned_envelope \<Rightarrow> envelope_signatures \<Rightarrow> bytes \<Rightarrow> bool" where
  "is_envelope lib u s e \<longleftrightarrow>
     (\<exists>b. into_writer lib (wrapper_value u s) = Some b \<and> e = ENVELOPE_MAGIC @ b) \<and>
     length e \<le> MAX_ENVELOPE_BYTES"

lemma signatures_eta [simp]:
  "\<lparr>classical = classical s, post_quantum = post_quantum s\<rparr> = s"
  by simp

lemma encode_ok_iff [ok_iff]:
  "encode lib u s = Inr e \<longleftrightarrow> envelope_ok u s \<and> is_envelope lib u s e"
  by (auto simp: encode_def ok_iff envelope_ok_def is_envelope_def)

lemma unread_eleven:
  assumes "map fst fs = map of_nat [Suc 0..<12]"
  shows "unread fs =
     [pair 1 (snd (fs ! 0)), pair 2 (snd (fs ! 1)), pair 3 (snd (fs ! 2)), pair 4 (snd (fs ! 3)),
      pair 5 (snd (fs ! 4)), pair 6 (snd (fs ! 5)), pair 7 (snd (fs ! 6)), pair 8 (snd (fs ! 7)),
      pair 9 (snd (fs ! 8)), pair 10 (snd (fs ! 9)), pair 11 (snd (fs ! 10))]"
  using assms one_to_eleven by (auto simp: keys_Cons_iff)

lemma decode_strict:
  assumes "decode lib e p ctx = Inr (u, s)"
  shows "envelope_ok u s \<and> is_envelope lib u s e \<and> purpose u = p \<and> envelope_context u = ctx"
  using assms unfolding decode_def ok_iff
  by (clarsimp simp: ok_iff prefix_def unread_eleven envelope_ok_def is_envelope_def
      wrapper_value_def not_less)

lemma decode_fields:
  assumes "length e \<le> MAX_ENVELOPE_BYTES" and "e = ENVELOPE_MAGIC @ body"
    and "read_canonical lib body = Inr (wrapper_value u s)" and "envelope_ok u s"
  shows "decode lib e (purpose u) (envelope_context u) = Inr (u, s)"
proof -
  define fs where "fs = [(1, CInt (uint VERSION)), (2, CText PROFILE),
    (3, CText (purpose_id (purpose u))), (4, CText FORMAT), (5, CBytes (envelope_payload u)),
    (6, CArray (map CBytes (disclosures u))), (7, CText (classical_kid u)),
    (8, CText (pq_kid u)), (9, CInt (uint (generation u))), (10, CBytes (classical s)),
    (11 :: u64, CBytes (post_quantum s))]"
  have keys: "map fst fs = [1, 2, 3, 4, 5, 6, 7, 8, 9, 10, 11]" by (simp add: fs_def)
  then have "wrapper_fields {} (unread fs) = Inr fs" by (simp add: wrapper_fields_ok_iff)
  moreover have wv: "wrapper_value u s = CMap (unread fs)"
    by (simp add: wrapper_value_def fs_def)
  moreover have "length fs = 11" by (simp add: fs_def)
  ultimately show ?thesis
    using assms keys unfolding decode_def one_to_eleven wv
    by (simp add: prefix_def not_less)
       (simp add: fs_def envelope_ok_def require_nonempty_bounded_def check_kid_def not_less)
qed

lemma decode_written:
  assumes "cbor_roundtrips lib" and "plain NESTING (wrapper_value u s)"
    and "envelope_ok u s" and "is_envelope lib u s e"
  shows "decode lib e (purpose u) (envelope_context u) = Inr (u, s)"
  using assms by (auto simp: is_envelope_def intro!: decode_fields read_canonical_written)

section \<open>The component containers\<close>

lemma utf8_PROFILE: "utf8 PROFILE" and length_PROFILE: "length PROFILE = 21"
  by code_simp+

lemma utf8_FORMAT: "utf8 FORMAT" and length_FORMAT: "length FORMAT = 18"
  by code_simp+

lemma utf8_purpose_id: "utf8 (purpose_id p)"
  by (cases p; simp only:; code_simp)

lemma length_purpose_id: "length (purpose_id p) \<le> 27"
  by (cases p; simp only:; code_simp)

lemma uint_u64_bounds:
  fixes k :: u64
  shows "- 18446744073709551616 \<le> uint k" and "uint k < 18446744073709551616"
  using unsigned_less [of k] by (simp_all add: order.trans [OF _ uint_ge_0])

lemma purpose_length_bounds:
  "length (purpose_id p) < 4294967296" "length (purpose_id p) < 18446744073709551616"
  using length_purpose_id [of p] by simp_all

lemmas plain_value_simps =
  plain_nested pair_def NESTING_def uint_u64_bounds
  utf8_PROFILE length_PROFILE utf8_FORMAT length_FORMAT utf8_purpose_id purpose_length_bounds

definition key_value :: "hybrid_public_components \<Rightarrow> cbor" where
  "key_value k = CMap
     [pair 1 (CInt (uint VERSION)), pair 2 (CInt 1), pair 3 (CText PROFILE),
      pair 4 (CBytes (classical_key k)), pair 5 (CBytes (post_quantum_key k))]"

definition signature_value :: "hybrid_purpose \<Rightarrow> envelope_signatures \<Rightarrow> cbor" where
  "signature_value p s = CMap
     [pair 1 (CInt (uint VERSION)), pair 2 (CInt 2), pair 3 (CText PROFILE),
      pair 4 (CBytes (classical s)), pair 5 (CBytes (post_quantum s)),
      pair 6 (CText (purpose_id p))]"

definition is_component :: "cbor_lib \<Rightarrow> cbor \<Rightarrow> bytes \<Rightarrow> bool" where
  "is_component lib v e \<longleftrightarrow>
     (\<exists>b. into_writer lib v = Some b \<and> e = ENVELOPE_MAGIC @ b) \<and>
     length e \<le> MAX_COMPONENT_ENVELOPE_BYTES"

lemma encode_component_ok_iff [ok_iff]:
  "encode_component_envelope lib es = Inr e \<longleftrightarrow> is_component lib (CMap es) e"
  by (auto simp: encode_component_envelope_def ok_iff is_component_def)

lemma decode_component_ok_iff [ok_iff]:
  "decode_component_envelope lib e n = Inr fs \<longleftrightarrow>
     is_component lib (CMap (unread fs)) e \<and> length fs = n \<and>
     map fst fs = map (\<lambda>j. of_nat (j + 1)) [0..<n] \<and>
     read_canonical lib (drop (length ENVELOPE_MAGIC) e) = Inr (CMap (unread fs))"
  unfolding decode_component_envelope_def ok_iff is_component_def
  by (auto simp: ok_iff strip_prefix_Some_iff)

lemma public_key_encode_ok_iff [ok_iff]:
  "encode_public_key_envelope lib c q = Inr e \<longleftrightarrow>
     public_key_sizes_ok c q \<and>
     is_component lib (key_value \<lparr>classical_key = c, post_quantum_key = q\<rparr>) e"
  by (simp add: encode_public_key_envelope_def ok_iff key_value_def)

lemma signature_encode_ok_iff [ok_iff]:
  "encode_signature_envelope lib p s = Inr e \<longleftrightarrow>
     signature_sizes_ok s \<and> is_component lib (signature_value p s) e"
  by (simp add: encode_signature_envelope_def ok_iff signature_value_def)

lemma unread_five:
  assumes "map fst fs = map (\<lambda>j. of_nat (j + 1)) [0..<5]"
  shows "unread fs =
     [pair 1 (snd (fs ! 0)), pair 2 (snd (fs ! 1)), pair 3 (snd (fs ! 2)), pair 4 (snd (fs ! 3)),
      pair 5 (snd (fs ! 4))]"
  using assms unfolding one_to_five by (auto simp: keys_Cons_iff)

lemma unread_six:
  assumes "map fst fs = map (\<lambda>j. of_nat (j + 1)) [0..<6]"
  shows "unread fs =
     [pair 1 (snd (fs ! 0)), pair 2 (snd (fs ! 1)), pair 3 (snd (fs ! 2)), pair 4 (snd (fs ! 3)),
      pair 5 (snd (fs ! 4)), pair 6 (snd (fs ! 5))]"
  using assms unfolding one_to_six by (auto simp: keys_Cons_iff)

lemma decode_public_key_strict:
  assumes "decode_public_key_envelope lib e = Inr k"
  shows "encode_public_key_envelope lib (classical_key k) (post_quantum_key k) = Inr e"
proof -
  from assms obtain fs c q where
    comp: "is_component lib (CMap (unread fs)) e"
    and keys: "map fst fs = map (\<lambda>j. of_nat (j + 1)) [0..<5]"
    and vals: "snd (fs ! 0) = CInt (uint VERSION)" "snd (fs ! 1) = CInt 1"
      "snd (fs ! 2) = CText PROFILE" "snd (fs ! 3) = CBytes c" "snd (fs ! 4) = CBytes q"
    and k: "k = \<lparr>classical_key = c, post_quantum_key = q\<rparr>" and "public_key_sizes_ok c q"
    unfolding decode_public_key_envelope_def ok_iff by (clarsimp simp: ok_iff)
  then show ?thesis
    by (simp add: ok_iff unread_five [OF keys] vals key_value_def)
qed

lemma decode_signature_strict:
  assumes "decode_signature_envelope lib e p = Inr s"
  shows "encode_signature_envelope lib p s = Inr e"
proof -
  from assms obtain fs c q where
    comp: "is_component lib (CMap (unread fs)) e"
    and keys: "map fst fs = map (\<lambda>j. of_nat (j + 1)) [0..<6]"
    and vals: "snd (fs ! 0) = CInt (uint VERSION)" "snd (fs ! 1) = CInt 2"
      "snd (fs ! 2) = CText PROFILE" "snd (fs ! 3) = CBytes c" "snd (fs ! 4) = CBytes q"
      "snd (fs ! 5) = CText (purpose_id p)"
    and k: "s = \<lparr>classical = c, post_quantum = q\<rparr>" and "signature_sizes_ok s"
    unfolding decode_signature_envelope_def ok_iff by (clarsimp simp: ok_iff)
  then show ?thesis
    by (simp add: ok_iff unread_six [OF keys] vals signature_value_def)
qed

lemma component_written:
  assumes "cbor_roundtrips lib" and "is_component lib (CMap (unread fs)) e"
    and "plain NESTING (CMap (unread fs))"
    and "map fst fs = map (\<lambda>j. of_nat (j + 1)) [0..<length fs]"
  shows "decode_component_envelope lib e (length fs) = Inr fs"
  using assms by (auto simp: decode_component_ok_iff is_component_def intro!: read_canonical_written)

lemma decode_public_key_written:
  assumes "cbor_roundtrips lib" and "encode_public_key_envelope lib c q = Inr e"
  shows "decode_public_key_envelope lib e = Inr \<lparr>classical_key = c, post_quantum_key = q\<rparr>"
proof -
  define fs where "fs = [(1, CInt (uint VERSION)), (2, CInt 1), (3, CText PROFILE), (4, CBytes c),
    (5 :: u64, CBytes q)]"
  have kv: "key_value \<lparr>classical_key = c, post_quantum_key = q\<rparr> = CMap (unread fs)"
    by (simp add: key_value_def fs_def)
  have sizes: "public_key_sizes_ok c q" using assms by (simp add: ok_iff)
  then have "plain NESTING (CMap (unread fs))"
    by (simp add: fs_def plain_value_simps public_key_sizes_ok_def bound_defs)
  moreover have "map fst fs = map (\<lambda>j. of_nat (j + 1)) [0..<length fs]"
    by (simp add: fs_def upt_rec)
  ultimately have "decode_component_envelope lib e (length fs) = Inr fs"
    using assms kv by (intro component_written) (simp_all add: ok_iff)
  moreover have "length fs = 5" by (simp add: fs_def)
  ultimately have "decode_component_envelope lib e 5 = Inr fs" by simp
  then show ?thesis
    using sizes cbor_integer_uint [of 1]
    by (simp add: decode_public_key_envelope_def fs_def)
qed

lemma decode_signature_written:
  assumes "cbor_roundtrips lib" and "encode_signature_envelope lib p s = Inr e"
  shows "decode_signature_envelope lib e p = Inr s"
proof -
  define fs where "fs = [(1, CInt (uint VERSION)), (2, CInt 2), (3, CText PROFILE),
    (4, CBytes (classical s)), (5 :: u64, CBytes (post_quantum s)), (6, CText (purpose_id p))]"
  have sv: "signature_value p s = CMap (unread fs)"
    by (simp add: signature_value_def fs_def)
  have sizes: "signature_sizes_ok s" using assms by (simp add: ok_iff)
  then have "plain NESTING (CMap (unread fs))"
    by (simp add: fs_def plain_value_simps signature_sizes_ok_def bound_defs)
  moreover have "map fst fs = map (\<lambda>j. of_nat (j + 1)) [0..<length fs]"
    by (simp add: fs_def upt_rec)
  ultimately have "decode_component_envelope lib e (length fs) = Inr fs"
    using assms sv by (intro component_written) (simp_all add: ok_iff)
  moreover have "length fs = 6" by (simp add: fs_def)
  ultimately have "decode_component_envelope lib e 6 = Inr fs" by simp
  then show ?thesis
    using sizes cbor_integer_uint [of 2]
    by (simp add: decode_signature_envelope_def fs_def)
qed

section \<open>The bytes that are signed\<close>

definition context_typed :: "hybrid_context \<Rightarrow> bool" where
  "context_typed c \<longleftrightarrow> (\<forall>h. transcript_hash c = Some h \<longrightarrow> length h = 32)"

definition optional_bytes :: "bytes option \<Rightarrow> bytes" where
  "optional_bytes v = (case v of None \<Rightarrow> [] | Some b \<Rightarrow> b)"

definition context_fields :: "hybrid_context \<Rightarrow> (u8 \<times> bytes) list" where
  "context_fields c =
     [(1, wallet_identity c), (2, optional_bytes (issuer_identity c)),
      (3, be_bytes 8 (key_generation c)), (4, optional_bytes (transaction_id c)),
      (5, optional_bytes (ctx_session_id c)), (6, optional_bytes (ctx_audience c)),
      (7, ctx_nonce c), (8, be_bytes 8 (created_at_epoch_seconds c)),
      (9, be_bytes 8 (expires_at_epoch_seconds c)), (10, optional_bytes (transcript_hash c))]"

definition tagged :: "(u8 \<times> bytes) list \<Rightarrow> bytes" where
  "tagged fs = concat (map (\<lambda>(t, v). t # framed v) fs)"

lemma tagged_simps [simp]:
  "tagged [] = []"
  "tagged ((t, v) # fs) = t # framed v @ tagged fs"
  by (simp_all add: tagged_def)

lemma tagged_inject:
  assumes "\<forall>f \<in> set fs. length (snd f) < 2 ^ 32" and "\<forall>g \<in> set gs. length (snd g) < 2 ^ 32"
    and "tagged fs = tagged gs" and "length fs = length gs"
  shows "fs = gs"
  using assms(4,1-3)
proof (induction fs gs rule: list_induct2)
  case (Cons f fs g gs)
  then show ?case
    by (cases f; cases g) (auto simp: framed_append_inject)
qed simp

lemma append_component_ok_iff [ok_iff]:
  "append_component out v = Inr r \<longleftrightarrow> length v < 2 ^ 32 \<and> r = out @ framed v"
  by (auto simp: append_component_def framed_def)

lemma encode_context_field_ok_iff [ok_iff]:
  "encode_context_field out t v = Inr r \<longleftrightarrow>
     length (optional_bytes v) < 2 ^ 32 \<and> r = out @ t # framed (optional_bytes v)"
  by (auto simp: encode_context_field_def optional_bytes_def ok_iff)

definition context_valid :: "hybrid_context \<Rightarrow> hybrid_purpose \<Rightarrow> bool" where
  "context_valid c p \<longleftrightarrow> validate_common c = Inr () \<and> validate_for c p = Inr ()"

lemma encode_for_ok_iff [ok_iff]:
  "encode_for c p = Inr e \<longleftrightarrow>
     context_valid c p \<and> (\<forall>f \<in> set (context_fields c). length (snd f) < 2 ^ 32) \<and>
     e = CONTEXT_DOMAIN @ tagged (context_fields c)"
  unfolding encode_for_def context_valid_def context_fields_def
  by (auto simp: ok_iff optional_bytes_def)

lemma optional_bytes_inject:
  "v \<noteq> Some [] \<Longrightarrow> w \<noteq> Some [] \<Longrightarrow> optional_bytes v = optional_bytes w \<longleftrightarrow> v = w"
  by (auto simp: optional_bytes_def split: option.splits)

lemma context_fields_inject:
  assumes "context_valid c p" and "context_valid d q" and "context_typed c" and "context_typed d"
    and "context_fields c = context_fields d"
  shows "c = d"
proof -
  have "x \<noteq> Some []" if "x \<in> {issuer_identity e, transaction_id e, ctx_session_id e,
      ctx_audience e, transcript_hash e}" "context_valid e r" "context_typed e" for e r x
    using that by (auto simp: context_valid_def context_typed_def validate_common_def ok_iff
        dest!: sym [of "Some []"])
  from this [OF _ assms(1,3)] this [OF _ assms(2,4)] assms(5) show ?thesis
    by (intro hybrid_context.equality)
      (simp_all add: context_fields_def optional_bytes_inject be_bytes_inject)
qed

definition signed_parts ::
  "hybrid_purpose \<Rightarrow> hybrid_context \<Rightarrow> bytes \<Rightarrow> bytes" where
  "signed_parts p c payload =
     DOMAIN @ framed (as_bytes PROFILE) @ framed (as_bytes (purpose_id p)) @
     framed (CONTEXT_DOMAIN @ tagged (context_fields c)) @ framed payload"

definition context_encodable :: "hybrid_context \<Rightarrow> hybrid_purpose \<Rightarrow> bool" where
  "context_encodable c p \<longleftrightarrow>
     context_valid c p \<and> (\<forall>f \<in> set (context_fields c). length (snd f) < 2 ^ 32) \<and>
     length (CONTEXT_DOMAIN @ tagged (context_fields c)) < 2 ^ 32"

lemma build_tbs_ok_iff [ok_iff]:
  "build_tbs p c payload = Inr b \<longleftrightarrow>
     length payload \<le> MAX_FIELD_BYTES \<and> context_encodable c p \<and> b = signed_parts p c payload"
proof -
  have "length (as_bytes PROFILE) < 2 ^ 32" "length (as_bytes (purpose_id p)) < 2 ^ 32"
    using length_purpose_id [of p] by (simp_all add: length_PROFILE)
  then show ?thesis
    by (auto simp: build_tbs_def ok_iff context_encodable_def signed_parts_def bound_defs)
qed

lemma signed_parts_inject:
  assumes "context_encodable c p" and "context_encodable d q"
    and "context_typed c" and "context_typed d"
    and "length a \<le> MAX_FIELD_BYTES" and "length b \<le> MAX_FIELD_BYTES"
    and "signed_parts p c a = signed_parts q d b"
  shows "p = q \<and> c = d \<and> a = b"
proof -
  have "length a < 2 ^ 32" "length b < 2 ^ 32"
    using assms(5,6) by (simp_all add: bound_defs)
  with assms(1,2,7) have "p = q \<and> tagged (context_fields c) = tagged (context_fields d) \<and> a = b"
    by (simp add: signed_parts_def framed_append_inject framed_inject purpose_length_bounds
        context_encodable_def del: length_append)
  moreover from this assms(1,2) have "context_fields c = context_fields d"
    by (intro tagged_inject) (simp_all add: context_encodable_def context_fields_def)
  ultimately show ?thesis
    using assms(1-4) by (auto simp: context_encodable_def intro: context_fields_inject)
qed

section \<open>The envelopes as codecs\<close>

text \<open>What the Rust types of an envelope guarantee: digests of 32 bytes, text that is text.\<close>

definition envelope_typed :: "unsigned_envelope \<Rightarrow> bool" where
  "envelope_typed u \<longleftrightarrow>
     context_typed (envelope_context u) \<and> utf8 (classical_kid u) \<and> utf8 (pq_kid u) \<and>
     length (envelope_payload u) < 2 ^ 64 \<and> length (disclosures u) < 2 ^ 64 \<and>
     (\<forall>d \<in> set (disclosures u). length d < 2 ^ 64)"

lemma plain_wrapper:
  assumes "envelope_ok u s" and "envelope_typed u"
  shows "plain NESTING (wrapper_value u s)"
proof -
  have "length (classical_kid u) < 18446744073709551616" "length (pq_kid u) < 18446744073709551616"
    using assms(1) by (simp_all add: envelope_ok_def bound_defs)
  with assms show ?thesis
    by (simp add: wrapper_value_def plain_value_simps envelope_ok_def envelope_typed_def
        signature_sizes_ok_def bound_defs)
qed

interpretation wrapper_codec:
  lossless_codec "\<lambda>(u, s). encode lib u s" "\<lambda>e. decode lib e p ctx"
    "\<lambda>(u, s). cbor_roundtrips lib \<and> envelope_typed u \<and> purpose u = p \<and> envelope_context u = ctx"
  for lib p ctx
proof unfold_locales
  fix e x assume "decode lib e p ctx = Inr x"
  then show "(case x of (u, s) \<Rightarrow> encode lib u s) = Inr e"
    by (cases x) (auto simp: ok_iff dest: decode_strict)
next
  fix e x
  assume "case x of (u, s) \<Rightarrow>
      cbor_roundtrips lib \<and> envelope_typed u \<and> purpose u = p \<and> envelope_context u = ctx"
    and "(case x of (u, s) \<Rightarrow> encode lib u s) = Inr e"
  then show "decode lib e p ctx = Inr x"
    by (cases x) (auto simp: ok_iff intro!: decode_written plain_wrapper)
qed

interpretation public_key_codec:
  lossless_codec "\<lambda>k :: hybrid_public_components.
      encode_public_key_envelope lib (classical_key k) (post_quantum_key k)"
    "decode_public_key_envelope lib" "\<lambda>k. cbor_roundtrips lib"
  for lib
proof unfold_locales
  fix e and k :: hybrid_public_components
  assume "decode_public_key_envelope lib e = Inr k"
  then show "encode_public_key_envelope lib (classical_key k) (post_quantum_key k) = Inr e"
    by (rule decode_public_key_strict)
next
  fix k :: hybrid_public_components and e
  assume "cbor_roundtrips lib"
    and "encode_public_key_envelope lib (classical_key k) (post_quantum_key k) = Inr e"
  then have "decode_public_key_envelope lib e =
      Inr \<lparr>classical_key = classical_key k, post_quantum_key = post_quantum_key k\<rparr>"
    by (rule decode_public_key_written)
  then show "decode_public_key_envelope lib e = Inr k" by simp
qed

interpretation signature_codec:
  lossless_codec "encode_signature_envelope lib p" "\<lambda>e. decode_signature_envelope lib e p"
    "\<lambda>s. cbor_roundtrips lib"
  for lib p
  by unfold_locales (erule decode_signature_strict, erule decode_signature_written)

section \<open>What the signed bytes commit to\<close>

lemma committed_payload_inject:
  assumes "cbor_roundtrips lib" and "envelope_typed u" and "envelope_typed v"
    and "committed_payload lib u = Inr b" and "committed_payload lib v = Inr b"
  shows "envelope_payload u = envelope_payload v \<and> disclosures u = disclosures v"
proof -
  let ?payload = "\<lambda>u. CMap [pair 1 (CBytes (envelope_payload u)),
    pair 2 (CArray (map CBytes (disclosures u)))]"
  have "plain NESTING (?payload w)" if "envelope_typed w" for w
    using that by (simp add: plain_value_simps envelope_typed_def)
  with assms have "?payload u = ?payload v"
    by (intro into_writer_inject [of lib]) (simp_all add: committed_payload_def ok_iff)
  then show ?thesis by (simp add: pair_def inj_map_eq_map inj_def)
qed

lemma tbs_ok_iff [ok_iff]:
  "tbs lib u = Inr b \<longleftrightarrow>
     (\<exists>c. committed_payload lib u = Inr c \<and> length c \<le> MAX_FIELD_BYTES \<and>
        context_encodable (envelope_context u) (purpose u) \<and>
        b = signed_parts (purpose u) (envelope_context u) c)"
  by (auto simp: tbs_def ok_iff)

section \<open>Verification\<close>

lemma verify_signature_ok_iff [ok_iff]:
  "verify_signature pq key m s = Inr u \<longleftrightarrow>
     length key = PUBLIC_KEY_BYTES \<and> length s = SIGNATURE_BYTES \<and> mldsa_verify pq key m s"
  by (auto simp: verify_signature_def)

text \<open>Both halves of the hybrid signature over the same bytes.\<close>

definition both_signatures_valid ::
  "('k, 's) ecdsa_lib \<Rightarrow> mldsa_lib \<Rightarrow> bytes \<Rightarrow> bytes \<Rightarrow> bytes \<Rightarrow> envelope_signatures \<Rightarrow> bool" where
  "both_signatures_valid ec pq classical_pk pq_pk m s \<longleftrightarrow>
     (\<exists>key sig. key_from_sec1 ec classical_pk = Some key \<and>
        sig_from_slice ec (classical s) = Some sig \<and> ecdsa_verify ec key m sig) \<and>
     length pq_pk = PUBLIC_KEY_BYTES \<and> mldsa_verify pq pq_pk m (post_quantum s)"

lemma verify_ok_iff [ok_iff]:
  "verify lib ec pq e p = Inr x \<longleftrightarrow>
     (\<exists>u s m.
        decode lib e (vp_purpose p) (vp_context p) = Inr (u, s) \<and>
        generation u = vp_generation p \<and> key_generation (envelope_context u) = vp_generation p \<and>
        classical_kid u = vp_classical_kid p \<and> pq_kid u = vp_pq_kid p \<and>
        tbs lib u = Inr m \<and>
        both_signatures_valid ec pq (vp_classical_public_key p) (vp_pq_public_key p) m s)"
proof -
  have "decode lib e (vp_purpose p) (vp_context p) = Inr (u, s) \<Longrightarrow>
      length (post_quantum s) = SIGNATURE_BYTES" for u s
    by (auto dest!: decode_strict simp: envelope_ok_def signature_sizes_ok_def)
  then show ?thesis
    by (auto simp: verify_def and_then_ok_iff ok_or_ok_iff both_signatures_valid_def
        verify_signature_ok_iff split: sum.splits if_splits)
       (auto simp: verify_signature_def split: if_splits)
qed

section \<open>Examples\<close>

text \<open>
  A wrapper of generation 1 under a toy signature scheme: a signature is valid when every byte of
  it is the sum of the key and the message.
\<close>

definition checksum :: "bytes \<Rightarrow> bytes \<Rightarrow> u8" where
  "checksum key m = sum_list key + sum_list m"

definition toy_ec :: "(bytes, bytes) ecdsa_lib" where
  "toy_ec = \<lparr>key_from_sec1 = Some, key_from_affine = (\<lambda>x y. Some (4 # x @ y)),
     sig_from_slice = (\<lambda>b. if length b = 64 then Some b else None), sig_from_der = Some,
     ecdsa_verify = (\<lambda>k m s. s = replicate 64 (checksum k m))\<rparr>"

definition toy_pq :: mldsa_lib where
  "toy_pq = \<lparr>mldsa_verify = (\<lambda>k m s. s = replicate SIGNATURE_BYTES (checksum (take 1 k) m)),
     mldsa_sign = (\<lambda>k m r. Some (replicate SIGNATURE_BYTES (checksum (take 1 k) m))),
     mldsa_generate = (\<lambda>r. (replicate SECRET_KEY_BYTES (hd r), replicate PUBLIC_KEY_BYTES (hd r)))\<rparr>"

definition demo_context :: hybrid_context where
  "demo_context = \<lparr>wallet_identity = [1], issuer_identity = Some [2], key_generation = 1,
     transaction_id = Some [3], ctx_session_id = None, ctx_audience = Some [4],
     ctx_nonce = replicate 16 5, created_at_epoch_seconds = 10, expires_at_epoch_seconds = 20,
     transcript_hash = None\<rparr>"

definition demo_envelope :: unsigned_envelope where
  "demo_envelope = \<lparr>purpose = TestSdJwtWrapperV1, envelope_context = demo_context,
     envelope_payload = [1, 2, 3], disclosures = [[9], [8]], classical_kid = ''k'',
     pq_kid = ''q'', generation = 1\<rparr>"

definition demo_signatures :: "bytes \<Rightarrow> envelope_signatures" where
  "demo_signatures m = \<lparr>classical = replicate 64 (checksum [4] m),
     post_quantum = replicate SIGNATURE_BYTES (checksum [7] m)\<rparr>"

definition demo_parameters :: verification_parameters where
  "demo_parameters = \<lparr>vp_purpose = TestSdJwtWrapperV1, vp_context = demo_context,
     vp_classical_kid = ''k'', vp_pq_kid = ''q'', vp_classical_public_key = [4],
     vp_pq_public_key = replicate PUBLIC_KEY_BYTES 7, vp_generation = 1\<rparr>"

definition demo_bytes :: "bytes \<Rightarrow> bytes" where
  "demo_bytes m =
     ENVELOPE_MAGIC @ encode_value (wrapper_value demo_envelope (demo_signatures m))"

lemma demo_envelope_ok: "envelope_ok demo_envelope (demo_signatures m)"
  by (simp add: envelope_ok_def demo_envelope_def demo_signatures_def signature_sizes_ok_def
      bound_defs)

lemma demo_envelope_typed: "envelope_typed demo_envelope"
  by (simp add: envelope_typed_def demo_envelope_def demo_context_def context_typed_def
      is_ascii_utf8 is_ascii_def)

lemma length_encode_bytes_bound: "length (encode_value (CBytes b)) \<le> 9 + length b"
  by (simp add: length_head_bytes)

lemma length_ENVELOPE_MAGIC: "length ENVELOPE_MAGIC = 35"
  by code_simp

lemma is_envelope_demo: "is_envelope rfc8949 demo_envelope (demo_signatures m) (demo_bytes m)"
proof -
  have "length (demo_bytes m) \<le> MAX_ENVELOPE_BYTES"
    by (simp add: demo_bytes_def wrapper_value_def demo_envelope_def demo_signatures_def pair_def
        length_head_bytes length_ENVELOPE_MAGIC bound_defs length_PROFILE length_FORMAT)
      (simp add: PURPOSE_def)
  then show ?thesis
    by (auto simp: is_envelope_def demo_bytes_def
        intro: into_writer_rfc8949 plain_wrapper demo_envelope_ok demo_envelope_typed)
qed

lemma demo_encodes: "encode rfc8949 demo_envelope (demo_signatures m) = Inr (demo_bytes m)"
  by (simp add: ok_iff demo_envelope_ok is_envelope_demo)

lemma demo_context_encodable: "context_encodable demo_context TestSdJwtWrapperV1"
proof -
  have "length CONTEXT_DOMAIN = 26" by code_simp
  then show ?thesis
    by (simp add: context_encodable_def context_valid_def demo_context_def validate_common_def
        validate_for_def validate_optional_def require_nonempty_bounded_def require_present_def
        bound_defs context_fields_def optional_bytes_def)
qed

text \<open>The payload may be any short one; \<open>demo_with\<close> is the example with another payload.\<close>

definition demo_with :: "bytes \<Rightarrow> unsigned_envelope" where
  "demo_with b = demo_envelope\<lparr>envelope_payload := b\<rparr>"

lemma demo_with_typed: "length b < 2 ^ 64 \<Longrightarrow> envelope_typed (demo_with b)"
  using demo_envelope_typed by (simp add: envelope_typed_def demo_with_def)

lemma demo_with_tbs:
  assumes "length b \<le> 64"
  shows "\<exists>m. tbs rfc8949 (demo_with b) = Inr m"
proof -
  let ?v = "CMap [pair 1 (CBytes b), pair 2 (CArray (map CBytes (disclosures demo_envelope)))]"
  have "plain NESTING ?v"
    using assms by (simp add: plain_value_simps demo_envelope_def)
  moreover have "length (encode_value ?v) \<le> MAX_FIELD_BYTES"
    using assms by (simp add: pair_def length_head_bytes demo_envelope_def bound_defs)
  ultimately show ?thesis
    using demo_context_encodable
    by (simp add: ok_iff committed_payload_def into_writer_rfc8949 demo_with_def)
      (simp add: demo_envelope_def)
qed

section \<open>Properties\<close>

text \<open>
  C16. The wrapper has one spelling: whatever \<open>decode\<close> accepts is, byte for
  byte, what \<open>encode\<close> writes for the envelope it returns, under the purpose and the context the
  caller expected, so two accepted messages with the same content are the same message. No
  assumption on the CBOR library is made: the re-encoding check of the code gives it.
\<close>

theorem hybrid_wrapper_strict:
  assumes "decode lib e p ctx = Inr (u, s)"
  shows "encode lib u s = Inr e \<and> purpose u = p \<and> envelope_context u = ctx \<and>
     (\<forall>e'. decode lib e' p ctx = Inr (u, s) \<longrightarrow> e' = e)"
proof (intro conjI allI impI)
  show "encode lib u s = Inr e"
    using wrapper_codec.strict [OF assms] by simp
next
  fix e' assume "decode lib e' p ctx = Inr (u, s)"
  then show "e' = e"
    using assms by (rule wrapper_codec.one_spelling)
qed (simp_all add: decode_strict [OF assms])

theorem hybrid_wrapper_strict_witness:
  "decode rfc8949 (demo_bytes []) TestSdJwtWrapperV1 demo_context =
     Inr (demo_envelope, demo_signatures []) \<and>
   encode rfc8949 demo_envelope (demo_signatures []) = Inr (demo_bytes [])"
proof -
  have "purpose demo_envelope = TestSdJwtWrapperV1" "envelope_context demo_envelope = demo_context"
    by (simp_all add: demo_envelope_def)
  then have "decode rfc8949 (demo_bytes []) TestSdJwtWrapperV1 demo_context =
      Inr (demo_envelope, demo_signatures [])"
    using wrapper_codec.lossless
      [where x = "(demo_envelope, demo_signatures [])" and lib = rfc8949
        and p = TestSdJwtWrapperV1 and ctx = demo_context and b = "demo_bytes []"]
    by (simp add: rfc8949_roundtrips demo_envelope_typed demo_encodes)
  with hybrid_wrapper_strict [OF this] show ?thesis by blast
qed

text \<open>
  The wrapper loses nothing: given a CBOR library that reads back
  what it writes, a well-typed envelope is encoded to \<open>e\<close> exactly when decoding \<open>e\<close> for its
  purpose and context gives the envelope and its signatures back.
\<close>

theorem hybrid_wrapper_roundtrip:
  assumes "cbor_roundtrips lib" and "envelope_typed u"
  shows "decode lib e (purpose u) (envelope_context u) = Inr (u, s) \<longleftrightarrow> encode lib u s = Inr e"
  using wrapper_codec.accepts_exactly [where x = "(u, s)" and lib = lib and p = "purpose u"
      and ctx = "envelope_context u" and b = e] assms
  by simp

theorem hybrid_wrapper_roundtrip_witness:
  "decode rfc8949 (demo_bytes []) (purpose demo_envelope) (envelope_context demo_envelope) =
     Inr (demo_envelope, demo_signatures [])"
  using hybrid_wrapper_roundtrip [OF rfc8949_roundtrips demo_envelope_typed] demo_encodes
  by blast

text \<open>
  The standalone public-key and signature containers are strict and
  lossless in the same way: a container is accepted exactly when it is the encoding of the
  components it is decoded to, with their sizes checked on both sides.
\<close>

theorem hybrid_containers_roundtrip:
  assumes "cbor_roundtrips lib"
  shows "(decode_public_key_envelope lib e = Inr \<lparr>classical_key = c, post_quantum_key = q\<rparr> \<longleftrightarrow>
      encode_public_key_envelope lib c q = Inr e) \<and>
     (decode_signature_envelope lib e p = Inr s \<longleftrightarrow> encode_signature_envelope lib p s = Inr e)"
  using public_key_codec.accepts_exactly
      [where lib = lib and b = e and x = "\<lparr>classical_key = c, post_quantum_key = q\<rparr>"]
    signature_codec.accepts_exactly [where lib = lib and p = p and b = e and x = s] assms
  by simp

theorem hybrid_containers_roundtrip_witness:
  "\<exists>e. decode_public_key_envelope rfc8949 e =
     Inr \<lparr>classical_key = 4 # replicate 64 0, post_quantum_key = replicate PUBLIC_KEY_BYTES 7\<rparr>"
proof -
  let ?k = "\<lparr>classical_key = 4 # replicate 64 0, post_quantum_key = replicate PUBLIC_KEY_BYTES 7\<rparr>"
  let ?e = "ENVELOPE_MAGIC @ encode_value (key_value ?k)"
  have "plain NESTING (key_value ?k)"
    by (simp add: key_value_def plain_value_simps bound_defs)
  moreover have "length ?e \<le> MAX_COMPONENT_ENVELOPE_BYTES"
    by (simp add: key_value_def pair_def length_head_bytes length_ENVELOPE_MAGIC bound_defs
        length_PROFILE)
  ultimately have "encode_public_key_envelope rfc8949 (classical_key ?k) (post_quantum_key ?k) =
      Inr ?e"
    by (simp add: ok_iff is_component_def into_writer_rfc8949 public_key_sizes_ok_def)
  with hybrid_containers_roundtrip [OF rfc8949_roundtrips, of ?e "classical_key ?k"
      "post_quantum_key ?k"] show ?thesis by auto
qed

text \<open>
  C12. The bytes that both keys sign determine the purpose, the whole context
  (identities, generation, transaction, session, audience, nonce, validity and transcript hash),
  the credential payload and the list of disclosures: no two envelopes that differ in any of them
  have the same to-be-signed bytes, so a signature cannot be moved from one to the other.
\<close>

theorem hybrid_tbs_commits:
  assumes "cbor_roundtrips lib" and "envelope_typed u" and "envelope_typed v"
    and "tbs lib u = Inr b" and "tbs lib v = Inr b"
  shows "purpose u = purpose v \<and> envelope_context u = envelope_context v \<and>
     envelope_payload u = envelope_payload v \<and> disclosures u = disclosures v"
proof -
  from assms obtain c d where
    "committed_payload lib u = Inr c" "length c \<le> MAX_FIELD_BYTES"
    "context_encodable (envelope_context u) (purpose u)"
    "b = signed_parts (purpose u) (envelope_context u) c"
    and "committed_payload lib v = Inr d" "length d \<le> MAX_FIELD_BYTES"
    "context_encodable (envelope_context v) (purpose v)"
    "b = signed_parts (purpose v) (envelope_context v) d"
    by (auto simp: ok_iff)
  moreover from this assms have "purpose u = purpose v \<and> envelope_context u = envelope_context v \<and>
      c = d"
    by (intro signed_parts_inject) (simp_all add: envelope_typed_def)
  ultimately show ?thesis
    using assms(1-3) by (auto dest!: committed_payload_inject [of lib u v])
qed

theorem hybrid_tbs_commits_witness:
  "tbs rfc8949 (demo_with [1]) \<noteq> tbs rfc8949 (demo_with [2])"
proof
  assume same: "tbs rfc8949 (demo_with [1]) = tbs rfc8949 (demo_with [2])"
  obtain m where "tbs rfc8949 (demo_with [1]) = Inr m"
    using demo_with_tbs [of "[1]"] by auto
  with same have "tbs rfc8949 (demo_with [1]) = Inr m" "tbs rfc8949 (demo_with [2]) = Inr m"
    by simp_all
  with hybrid_tbs_commits [OF rfc8949_roundtrips, of "demo_with [1]" "demo_with [2]" m]
  have "envelope_payload (demo_with [1]) = envelope_payload (demo_with [2])"
    by (simp add: demo_with_typed)
  then show False by (simp add: demo_with_def)
qed

text \<open>
  C11. Verification cannot be downgraded: when \<open>verify\<close> accepts, the message is
  the encoding of an envelope for the expected purpose and context, its generation and the
  context's are both the expected one, its key identifiers are the expected ones, and the ECDSA
  signature and the ML-DSA-65 signature are both valid, under the two keys of the verifier, over
  the to-be-signed bytes of that envelope.
\<close>

theorem hybrid_verify_sound:
  assumes "verify lib ec pq e p = Inr x"
  shows "\<exists>u s m.
     encode lib u s = Inr e \<and> purpose u = vp_purpose p \<and> envelope_context u = vp_context p \<and>
     generation u = vp_generation p \<and> key_generation (vp_context p) = vp_generation p \<and>
     generation u \<noteq> 0 \<and> classical_kid u = vp_classical_kid p \<and> pq_kid u = vp_pq_kid p \<and>
     tbs lib u = Inr m \<and>
     both_signatures_valid ec pq (vp_classical_public_key p) (vp_pq_public_key p) m s"
proof -
  from assms obtain u s m where
    d: "decode lib e (vp_purpose p) (vp_context p) = Inr (u, s)"
    and rest: "generation u = vp_generation p" "key_generation (envelope_context u) = vp_generation p"
    "classical_kid u = vp_classical_kid p" "pq_kid u = vp_pq_kid p" "tbs lib u = Inr m"
    "both_signatures_valid ec pq (vp_classical_public_key p) (vp_pq_public_key p) m s"
    unfolding verify_ok_iff by blast
  moreover from d have "generation u \<noteq> 0"
    by (auto dest!: decode_strict simp: envelope_ok_def)
  moreover from d have "encode lib u s = Inr e \<and> purpose u = vp_purpose p \<and>
      envelope_context u = vp_context p"
    by (simp add: ok_iff decode_strict)
  ultimately show ?thesis
    by (intro exI [of _ u] exI [of _ s] exI [of _ m]) simp
qed

theorem hybrid_verify_sound_witness:
  "\<exists>e m. verify rfc8949 toy_ec toy_pq e demo_parameters = Inr () \<and>
     (\<exists>u s. both_signatures_valid toy_ec toy_pq [4] (replicate PUBLIC_KEY_BYTES 7) m s \<and>
        tbs rfc8949 u = Inr m)"
proof -
  obtain m where m: "tbs rfc8949 (demo_with [1, 2, 3]) = Inr m"
    using demo_with_tbs [of "[1, 2, 3]"] by auto
  have same: "demo_with [1, 2, 3] = demo_envelope"
    by (simp add: demo_with_def demo_envelope_def)
  have "decode rfc8949 (demo_bytes m) TestSdJwtWrapperV1 demo_context =
      Inr (demo_envelope, demo_signatures m)"
    using decode_written [OF rfc8949_roundtrips plain_wrapper demo_envelope_ok is_envelope_demo]
      demo_envelope_ok demo_envelope_typed
    by (simp add: demo_envelope_def)
  moreover have "both_signatures_valid toy_ec toy_pq [4] (replicate PUBLIC_KEY_BYTES 7) m
      (demo_signatures m)"
    by (simp add: both_signatures_valid_def toy_ec_def toy_pq_def demo_signatures_def bound_defs)
  moreover have "generation demo_envelope = 1" "classical_kid demo_envelope = ''k''"
    "pq_kid demo_envelope = ''q''" "envelope_context demo_envelope = demo_context"
    "key_generation demo_context = 1"
    by (simp_all add: demo_envelope_def demo_context_def)
  ultimately have "verify rfc8949 toy_ec toy_pq (demo_bytes m) demo_parameters = Inr ()"
    using m by (auto simp: verify_ok_iff demo_parameters_def same)
  from this hybrid_verify_sound [OF this] show ?thesis
    by (auto simp: demo_parameters_def)
qed

end
