(* ===== verification/Keychain_Signer.thy ===== *)
theory Keychain_Signer
  imports Libraries
begin

text \<open>
  The development signer of \<open>issuer-service/src/signer.rs\<close>: a P-256 key in the Keychain, looked
  up by label, replaced when its public key has an unexpected encoding, and named by the
  thumbprint of its public JWK. The Keychain is a package outside this repository: \<open>'w\<close> is its
  state and \<open>'h\<close> a private-key handle. The certificates are in \<open>Certificates\<close>.
\<close>

datatype signer_error =
    Keychain string
  | InvalidPublicKey nat u8
  | InvalidSignature
  | Certificate string

datatype 'h search_result = RefKey 'h | OtherResult

record ('w, 'h) keychain_lib =
  kc_search :: "string \<Rightarrow> 'w \<Rightarrow> int \<times> string + 'h search_result list"
  kc_delete :: "'h \<Rightarrow> 'w \<Rightarrow> string + 'w"
  kc_create :: "string \<Rightarrow> 'w \<Rightarrow> string + 'w"
  kc_public :: "'h \<Rightarrow> bytes option"
  kc_sign :: "'h \<Rightarrow> bytes \<Rightarrow> string + bytes"
  kc_raw_signature :: "bytes \<Rightarrow> bytes option"

record 'h keychain_signer =
  signer_key :: 'h
  signer_kid :: string
  signer_x :: string
  signer_y :: string
  signer_public_key :: bytes

fun first_key :: "'h search_result list \<Rightarrow> 'h option" where
  "first_key [] = None"
| "first_key (RefKey k # rs) = Some k"
| "first_key (OtherResult # rs) = first_key rs"

definition find_private_key ::
  "('w, 'h) keychain_lib \<Rightarrow> string \<Rightarrow> 'w \<Rightarrow> signer_error + 'h option" where
  "find_private_key kc label w =
     (case kc_search kc label w of
        Inr results \<Rightarrow> Inr (first_key results)
      | Inl (code, message) \<Rightarrow>
          if code = - 25300 then Inr None else Inl (Keychain message))"

definition create_key :: "('w, 'h) keychain_lib \<Rightarrow> string \<Rightarrow> 'w \<Rightarrow> signer_error + 'w" where
  "create_key kc label w =
     (case kc_create kc label w of Inr w' \<Rightarrow> Inr w' | Inl message \<Rightarrow> Inl (Keychain message))"

definition canonical_jwk :: "string \<Rightarrow> string \<Rightarrow> string" where
  \<open>canonical_jwk x y =
     ''{"crv":"P-256","kty":"EC","x":"'' @ x @ ''","y":"'' @ y @ ''"}''\<close>

definition from_key ::
  "codec_lib \<Rightarrow> ('w, 'h) keychain_lib \<Rightarrow> 'h \<Rightarrow> signer_error + 'h keychain_signer" where
  "from_key codec kc key =
     and_then (ok_or (InvalidPublicKey 0 0) (kc_public kc key)) (\<lambda>encoded.
       if length encoded \<noteq> 65 \<or> encoded ! 0 \<noteq> 0x04
       then Inl (InvalidPublicKey (length encoded) (case encoded of [] \<Rightarrow> 0 | b # _ \<Rightarrow> b))
       else
         let x = b64url_encode codec (take 32 (drop 1 encoded));
             y = b64url_encode codec (take 32 (drop 33 encoded));
             kid = b64url_encode codec (sha256 codec (as_bytes (canonical_jwk x y)))
         in Inr \<lparr>signer_key = key, signer_kid = kid, signer_x = x, signer_y = y,
                 signer_public_key = encoded\<rparr>)"

text \<open>The second half of \<open>find_or_create\<close>, after the label has no usable key.\<close>

definition create_and_find ::
  "codec_lib \<Rightarrow> ('w, 'h) keychain_lib \<Rightarrow> string \<Rightarrow> 'w \<Rightarrow> (signer_error + 'h keychain_signer) \<times> 'w" where
  "create_and_find codec kc label w =
     (case create_key kc label w of
        Inl e \<Rightarrow> (Inl e, w)
      | Inr w' \<Rightarrow>
          (and_then (find_private_key kc label w') (\<lambda>found.
           and_then (ok_or (Keychain ''generated key was not found in the Keychain'') found)
             (from_key codec kc)), w'))"

definition keychain_find_or_create ::
  "codec_lib \<Rightarrow> ('w, 'h) keychain_lib \<Rightarrow> string \<Rightarrow> 'w \<Rightarrow> (signer_error + 'h keychain_signer) \<times> 'w" where
  "keychain_find_or_create codec kc label w =
     (case find_private_key kc label w of
        Inl e \<Rightarrow> (Inl e, w)
      | Inr None \<Rightarrow> create_and_find codec kc label w
      | Inr (Some key) \<Rightarrow>
          (case from_key codec kc key of
             Inr signer \<Rightarrow> (Inr signer, w)
           | Inl (InvalidPublicKey _ _) \<Rightarrow>
               (case find_private_key kc label w of
                  Inl e \<Rightarrow> (Inl e, w)
                | Inr None \<Rightarrow> (Inl (Keychain ''invalid key disappeared during replacement''), w)
                | Inr (Some stale) \<Rightarrow>
                    (case kc_delete kc stale w of
                       Inl message \<Rightarrow> (Inl (Keychain message), w)
                     | Inr w' \<Rightarrow> create_and_find codec kc label w'))
           | Inl e \<Rightarrow> (Inl e, w)))"

definition sign_der ::
  "('w, 'h) keychain_lib \<Rightarrow> 'h keychain_signer \<Rightarrow> bytes \<Rightarrow> signer_error + bytes" where
  "sign_der kc signer msg =
     (case kc_sign kc (signer_key signer) msg of
        Inr der \<Rightarrow> Inr der
      | Inl message \<Rightarrow> Inl (Keychain message))"

definition sign_es256 ::
  "('w, 'h) keychain_lib \<Rightarrow> 'h keychain_signer \<Rightarrow> bytes \<Rightarrow> signer_error + bytes" where
  "sign_es256 kc signer msg =
     and_then (sign_der kc signer msg) (\<lambda>der. ok_or InvalidSignature (kc_raw_signature kc der))"

section \<open>What a signer is\<close>

definition keychain_signer_ok ::
  "codec_lib \<Rightarrow> ('w, 'h) keychain_lib \<Rightarrow> 'h keychain_signer \<Rightarrow> bool" where
  "keychain_signer_ok codec kc s \<longleftrightarrow>
     kc_public kc (signer_key s) = Some (signer_public_key s) \<and>
     length (signer_public_key s) = 65 \<and> signer_public_key s ! 0 = 0x04 \<and>
     signer_kid s = b64url_encode codec
       (sha256 codec (as_bytes (canonical_jwk (signer_x s) (signer_y s)))) \<and>
     signer_x s = b64url_encode codec (take 32 (tl (signer_public_key s))) \<and>
     signer_y s = b64url_encode codec (drop 32 (tl (signer_public_key s)))"

lemma from_key_ok: "from_key codec kc key = Inr s \<Longrightarrow> keychain_signer_ok codec kc s"
proof -
  assume "from_key codec kc key = Inr s"
  moreover have "drop 33 b = drop 32 (tl b)" for b :: bytes
    by (simp add: tl_drop [symmetric] drop_Suc numeral_eq_Suc)
  ultimately show ?thesis
    by (auto simp: from_key_def ok_iff keychain_signer_ok_def Let_def drop_Suc
        split: if_splits)
qed

lemma from_key_err: "from_key codec kc key = Inl e \<Longrightarrow> \<exists>n p. e = InvalidPublicKey n p"
  by (auto simp: from_key_def err_iff Let_def split: if_splits)

lemma create_and_find_ok:
  "create_and_find codec kc label w = (Inr s, w') \<Longrightarrow> keychain_signer_ok codec kc s"
  by (auto simp: create_and_find_def ok_iff dest: from_key_ok split: sum.splits)

lemma keychain_find_or_create_ok:
  "keychain_find_or_create codec kc label w = (Inr s, w') \<Longrightarrow> keychain_signer_ok codec kc s"
  unfolding keychain_find_or_create_def
  by (auto simp: create_and_find_ok from_key_ok
      split: sum.splits option.splits signer_error.splits)

text \<open>
  A key that is found and usable is used as it is; the label gets a new key only when it had none
  or its key was deleted because its public key does not have the expected encoding.
\<close>

lemma keychain_find_or_create_existing:
  assumes "find_private_key kc label w = Inr (Some key)" and "from_key codec kc key = Inr s"
  shows "keychain_find_or_create codec kc label w = (Inr s, w)"
  using assms by (simp add: keychain_find_or_create_def)

end
