(* ===== verification/Hybrid_Signer.thy ===== *)
theory Hybrid_Signer
  imports Keychain_Signer Hybrid_Properties
begin

text \<open>
  The logical hybrid signing identity of \<open>issuer-service/src/hybrid_signer.rs\<close>: the encrypted
  record of the ML-DSA key on disk, its atomic replacement, the generation that follows the
  classical key, and the two ways to sign. \<open>hybrid_store\<close> is what persists (the record, the
  temporary file beside it, the wrapping key in the Keychain); \<open>os_answers\<close> is what the operating
  system answers during one call: the randomness it hands out and the operations that fail.
\<close>

section \<open>State and environment\<close>

record aead_lib =
  aes_encrypt :: "bytes \<Rightarrow> bytes \<Rightarrow> bytes \<Rightarrow> bytes option"
  aes_decrypt :: "bytes \<Rightarrow> bytes \<Rightarrow> bytes \<Rightarrow> bytes option"

text \<open>
  AES-256-GCM adds a tag of 16 bytes, and decrypts under a key and a nonce what was encrypted under
  them.
\<close>

definition aead_correct :: "aead_lib \<Rightarrow> bool" where
  "aead_correct lib \<longleftrightarrow>
     (\<forall>k n m c. aes_encrypt lib k n m = Some c \<longrightarrow>
        length c = length m + 16 \<and> aes_decrypt lib k n c = Some m)"

definition STORE_VERSION :: u8 where "STORE_VERSION = 1"
definition NONCE_BYTES :: nat where "NONCE_BYTES = 12"

record hybrid_store =
  record_file :: "bytes option"
  temporary_file :: "bytes option"
  wrapping_item :: "bytes option"

record os_answers =
  os_read_error :: "string option"
  os_get_password_error :: "string option"
  os_set_password_error :: "string option"
  os_wrapping_random :: "bytes option"
  os_seed :: "bytes option"
  os_nonce :: "bytes option"
  os_sign_random :: "bytes option"
  os_create_dir_error :: "string option"
  os_open_error :: "string option"
  os_write_error :: "(string \<times> nat) option"
  os_rename_error :: "string option"

datatype hybrid_signer_error =
    HsClassical signer_error
  | HsStorage string
  | HsWrapping
  | HsPostQuantum pq_backend_error
  | HsEnvelope

record stored_key =
  stored_generation :: u64
  stored_kid_hash :: bytes
  stored_public_key :: bytes
  stored_secret_key :: bytes

record 'h hybrid_signer =
  hs_classical :: "'h keychain_signer"
  hs_pq_public_key :: bytes
  hs_pq_kid :: string
  hs_generation :: u64
  hs_wrapping_key :: bytes

record generated_key_pair =
  gen_public_key :: bytes
  gen_secret_key :: bytes

definition pq_generate :: "mldsa_lib \<Rightarrow> bytes option \<Rightarrow> pq_backend_error + generated_key_pair" where
  "pq_generate pq seed =
     and_then (ok_or PqRandom seed) (\<lambda>s.
       let key_pair = mldsa_generate pq s in
       Inr \<lparr>gen_public_key = snd key_pair, gen_secret_key = fst key_pair\<rparr>)"

definition map_err :: "('e \<Rightarrow> 'f) \<Rightarrow> 'e + 'a \<Rightarrow> 'f + 'a" where
  "map_err f m = (case m of Inl e \<Rightarrow> Inl (f e) | Inr x \<Rightarrow> Inr x)"

lemma map_err_ok_iff [ok_iff]: "map_err f m = Inr x \<longleftrightarrow> m = Inr x"
  by (cases m) (auto simp: map_err_def)

lemma map_err_simps [simp]: "map_err f (Inr x) = Inr x" "map_err f (Inl e) = Inl (f e)"
  by (simp_all add: map_err_def)

section \<open>The wrapping key\<close>

definition load_or_create_wrapping_key ::
  "os_answers \<Rightarrow> hybrid_store \<Rightarrow> (hybrid_signer_error + bytes) \<times> hybrid_store" where
  "load_or_create_wrapping_key os st =
     (case (case os_get_password_error os of
              Some e \<Rightarrow> Inl e
            | None \<Rightarrow> ok_or ''The specified item could not be found in the keychain.''
                       (wrapping_item st)) of
        Inr key \<Rightarrow>
          if length key = 32 then (Inr key, st)
          else (Inl (HsStorage ''Keychain wrapping key has an invalid length''), st)
      | Inl e \<Rightarrow>
          if record_file st \<noteq> None then
            (Inl (HsStorage
               (''Keychain wrapping key is unavailable for the existing PQ record: '' @ e)), st)
          else (case os_wrapping_random os of
                  None \<Rightarrow> (Inl (HsStorage ''system CSPRNG unavailable''), st)
                | Some key \<Rightarrow>
                    (case os_set_password_error os of
                       Some e' \<Rightarrow> (Inl (HsStorage e'), st)
                     | None \<Rightarrow> (Inr key, st\<lparr>wrapping_item := Some key\<rparr>))))"

section \<open>The encrypted record\<close>

definition aes_new :: "bytes \<Rightarrow> hybrid_signer_error + unit" where
  "aes_new key = (if length key = 32 then Inr () else Inl HsWrapping)"

definition encode_record :: "u64 \<Rightarrow> bytes \<Rightarrow> bytes \<Rightarrow> bytes \<Rightarrow> bytes \<Rightarrow> bytes" where
  "encode_record gen kid_hash nonce public_key ciphertext =
     [STORE_VERSION] @ be_bytes 8 gen @ kid_hash @ nonce @ public_key @ ciphertext"

text \<open>Writing the temporary file: a failed write leaves a prefix of the record in it.\<close>

definition persist_key ::
  "aead_lib \<Rightarrow> os_answers \<Rightarrow> bytes \<Rightarrow> u64 \<Rightarrow> bytes \<Rightarrow> bytes \<Rightarrow> bytes \<Rightarrow> hybrid_store \<Rightarrow>
     (hybrid_signer_error + unit) \<times> hybrid_store" where
  "persist_key aead os wrapping_key gen kid_hash public_key secret_key st =
     (case and_then (aes_new wrapping_key) (\<lambda>_.
           and_then (ok_or (HsStorage ''system CSPRNG unavailable'') (os_nonce os)) (\<lambda>nonce.
           and_then (ok_or HsWrapping (aes_encrypt aead wrapping_key nonce secret_key)) (\<lambda>c.
             Inr (encode_record gen kid_hash nonce public_key c)))) of
        Inl e \<Rightarrow> (Inl e, st)
      | Inr encoded \<Rightarrow>
          (case os_create_dir_error os of
             Some e \<Rightarrow> (Inl (HsStorage e), st)
           | None \<Rightarrow>
          (case os_open_error os of
             Some e \<Rightarrow> (Inl (HsStorage e), st)
           | None \<Rightarrow>
          (case os_write_error os of
             Some (e, n) \<Rightarrow> (Inl (HsStorage e), st\<lparr>temporary_file := Some (take n encoded)\<rparr>)
           | None \<Rightarrow>
          (case os_rename_error os of
             Some e \<Rightarrow> (Inl (HsStorage e), st\<lparr>temporary_file := Some encoded\<rparr>)
           | None \<Rightarrow> (Inr (), st\<lparr>temporary_file := None, record_file := Some encoded\<rparr>))))))"

definition RECORD_HEADER :: nat where
  "RECORD_HEADER = 1 + 8 + 32 + NONCE_BYTES + PUBLIC_KEY_BYTES"

text \<open>\<open>load_stored_key\<close> after the file was read.\<close>

definition decode_record ::
  "aead_lib \<Rightarrow> bytes \<Rightarrow> bytes \<Rightarrow> hybrid_signer_error + stored_key" where
  "decode_record aead wrapping_key encoded =
     (if length encoded \<noteq> RECORD_HEADER + SECRET_KEY_BYTES + 16
         \<or> (case encoded of [] \<Rightarrow> True | b # _ \<Rightarrow> b \<noteq> STORE_VERSION)
      then Inl (HsStorage ''encrypted ML-DSA key record is malformed'')
      else
        let gen = from_be_bytes (slice 1 9 encoded);
            kid_hash = slice 9 41 encoded;
            nonce = slice 41 (41 + NONCE_BYTES) encoded;
            public_start = 41 + NONCE_BYTES;
            public_end = public_start + PUBLIC_KEY_BYTES;
            public_key = slice public_start public_end encoded
        in and_then (aes_new wrapping_key) (\<lambda>_.
           and_then (ok_or HsWrapping (aes_decrypt aead wrapping_key nonce (drop public_end encoded)))
             (\<lambda>secret_key.
             if length secret_key \<noteq> SECRET_KEY_BYTES
             then Inl (HsStorage ''decrypted ML-DSA key has an invalid length'')
             else Inr \<lparr>stored_generation = gen, stored_kid_hash = kid_hash,
                       stored_public_key = public_key, stored_secret_key = secret_key\<rparr>)))"

definition load_stored_key ::
  "aead_lib \<Rightarrow> os_answers \<Rightarrow> bytes \<Rightarrow> hybrid_store \<Rightarrow> hybrid_signer_error + stored_key" where
  "load_stored_key aead os wrapping_key st =
     and_then (case os_read_error os of
                 Some e \<Rightarrow> Inl (HsStorage e)
               | None \<Rightarrow> ok_or (HsStorage ''No such file or directory'') (record_file st))
       (decode_record aead wrapping_key)"

section \<open>The signing identity\<close>

definition generate_and_persist ::
  "aead_lib \<Rightarrow> mldsa_lib \<Rightarrow> os_answers \<Rightarrow> bytes \<Rightarrow> u64 \<Rightarrow> bytes \<Rightarrow> hybrid_store \<Rightarrow>
     (hybrid_signer_error + u64 \<times> bytes) \<times> hybrid_store" where
  "generate_and_persist aead pq os wrapping_key gen kid_hash st =
     (case pq_generate pq (os_seed os) of
        Inl e \<Rightarrow> (Inl (HsPostQuantum e), st)
      | Inr g \<Rightarrow>
          (case persist_key aead os wrapping_key gen kid_hash (gen_public_key g)
                  (gen_secret_key g) st of
             (Inl e, st') \<Rightarrow> (Inl e, st')
           | (Inr _, st') \<Rightarrow> (Inr (gen, gen_public_key g), st')))"

definition kid_hash_of :: "codec_lib \<Rightarrow> 'h keychain_signer \<Rightarrow> bytes" where
  "kid_hash_of codec signer = sha256 codec (as_bytes (signer_kid signer))"

text \<open>
  \<open>find_or_create\<close> once the classical signer is there: the stored key is kept while the classical
  key is the same, replaced by a key of the next generation when it is another one, and created
  with generation 1 when there is none.
\<close>

definition select_generation ::
  "codec_lib \<Rightarrow> aead_lib \<Rightarrow> mldsa_lib \<Rightarrow> os_answers \<Rightarrow> 'h keychain_signer \<Rightarrow> bytes \<Rightarrow> hybrid_store \<Rightarrow>
     (hybrid_signer_error + u64 \<times> bytes) \<times> hybrid_store" where
  "select_generation codec aead pq os signer wrapping_key st =
     (case (if record_file st \<noteq> None
            then and_then (load_stored_key aead os wrapping_key st) (\<lambda>k. Inr (Some k))
            else Inr None) of
        Inl e \<Rightarrow> (Inl e, st)
      | Inr (Some k) \<Rightarrow>
          if stored_kid_hash k = kid_hash_of codec signer
          then (Inr (stored_generation k, stored_public_key k), st)
          else generate_and_persist aead pq os wrapping_key
                 (saturating_add (stored_generation k) 1) (kid_hash_of codec signer) st
      | Inr None \<Rightarrow>
          generate_and_persist aead pq os wrapping_key 1 (kid_hash_of codec signer) st)"

definition hybrid_find_or_create ::
  "codec_lib \<Rightarrow> aead_lib \<Rightarrow> mldsa_lib \<Rightarrow> ('w, 'h) keychain_lib \<Rightarrow> os_answers \<Rightarrow> string \<Rightarrow>
     'w \<Rightarrow> hybrid_store \<Rightarrow> (hybrid_signer_error + 'h hybrid_signer) \<times> 'w \<times> hybrid_store" where
  "hybrid_find_or_create codec aead pq kc os label w st =
     (case keychain_find_or_create codec kc label w of
        (Inl e, w') \<Rightarrow> (Inl (HsClassical e), w', st)
      | (Inr signer, w') \<Rightarrow>
          (case load_or_create_wrapping_key os st of
             (Inl e, st') \<Rightarrow> (Inl e, w', st')
           | (Inr wrapping_key, st') \<Rightarrow>
               (case select_generation codec aead pq os signer wrapping_key st' of
                  (Inl e, st'') \<Rightarrow> (Inl e, w', st'')
                | (Inr (gen, public_key), st'') \<Rightarrow>
                    (Inr \<lparr>hs_classical = signer, hs_pq_public_key = public_key,
                          hs_pq_kid = b64url_encode codec (sha256 codec public_key),
                          hs_generation = gen, hs_wrapping_key = wrapping_key\<rparr>, w', st''))))"

section \<open>Signing\<close>

text \<open>The stored key must still be the one the signer was made with.\<close>

definition load_current_key ::
  "codec_lib \<Rightarrow> aead_lib \<Rightarrow> os_answers \<Rightarrow> 'h hybrid_signer \<Rightarrow> hybrid_store \<Rightarrow>
     hybrid_signer_error + stored_key" where
  "load_current_key codec aead os hs st =
     and_then (load_stored_key aead os (hs_wrapping_key hs) st) (\<lambda>k.
       if stored_generation k \<noteq> hs_generation hs
          \<or> stored_public_key k \<noteq> hs_pq_public_key hs
          \<or> stored_kid_hash k \<noteq> kid_hash_of codec (hs_classical hs)
       then Inl (HsStorage ''logical key generation changed during signing'')
       else Inr k)"

definition sign_envelope ::
  "codec_lib \<Rightarrow> cbor_lib \<Rightarrow> aead_lib \<Rightarrow> mldsa_lib \<Rightarrow> ('w, 'h) keychain_lib \<Rightarrow> os_answers \<Rightarrow>
     'h hybrid_signer \<Rightarrow> hybrid_store \<Rightarrow> unsigned_envelope \<Rightarrow> hybrid_signer_error + bytes" where
  "sign_envelope codec lib aead pq kc os hs st u =
     (if classical_kid u \<noteq> signer_kid (hs_classical hs) \<or> pq_kid u \<noteq> hs_pq_kid hs
         \<or> generation u \<noteq> hs_generation hs
      then Inl HsEnvelope
      else
        and_then (map_err (\<lambda>_. HsEnvelope) (tbs lib u)) (\<lambda>msg.
        and_then (map_err HsClassical (sign_es256 kc (hs_classical hs) msg)) (\<lambda>c.
        and_then (load_current_key codec aead os hs st) (\<lambda>k.
        and_then (map_err HsPostQuantum (sign_once pq (os_sign_random os) (stored_secret_key k) msg))
          (\<lambda>q.
          map_err (\<lambda>_. HsEnvelope) (encode lib u \<lparr>classical = c, post_quantum = q\<rparr>))))))"

definition sign_pq_raw ::
  "codec_lib \<Rightarrow> aead_lib \<Rightarrow> mldsa_lib \<Rightarrow> os_answers \<Rightarrow> 'h hybrid_signer \<Rightarrow> hybrid_store \<Rightarrow> bytes \<Rightarrow>
     hybrid_signer_error + bytes" where
  "sign_pq_raw codec aead pq os hs st message =
     and_then (load_current_key codec aead os hs st) (\<lambda>k.
       map_err HsPostQuantum (sign_once pq (os_sign_random os) (stored_secret_key k) message))"

end
