(* ===== verification/Hybrid_Signer_Properties.thy ===== *)
theory Hybrid_Signer_Properties
  imports Hybrid_Signer
begin

text \<open>
  What the hybrid signing identity guarantees: the record on disk is replaced atomically and read
  back exactly, a generation names one key pair over every sequence of restarts, a signer whose
  record was replaced refuses to sign, and an envelope it does sign is accepted by \<open>verify\<close>.
\<close>

section \<open>Assumptions on the packages\<close>

definition digest_of_32 :: "codec_lib \<Rightarrow> bool" where
  "digest_of_32 codec \<longleftrightarrow> (\<forall>b. length (sha256 codec b) = 32)"

text \<open>ML-DSA-65: the sizes of FIPS 204, and signatures that verify under the generated key.\<close>

definition mldsa_correct :: "mldsa_lib \<Rightarrow> bool" where
  "mldsa_correct pq \<longleftrightarrow>
     (\<forall>seed. length (fst (mldsa_generate pq seed)) = SECRET_KEY_BYTES \<and>
        length (snd (mldsa_generate pq seed)) = PUBLIC_KEY_BYTES \<and>
        (\<forall>m r s. mldsa_sign pq (fst (mldsa_generate pq seed)) m r = Some s \<longrightarrow>
           length s = SIGNATURE_BYTES \<and> mldsa_verify pq (snd (mldsa_generate pq seed)) m s))"

text \<open>The Keychain signs with the key whose public half it reports.\<close>

definition keychain_correct :: "('w, 'h) keychain_lib \<Rightarrow> ('k, 's) ecdsa_lib \<Rightarrow> bool" where
  "keychain_correct kc ec \<longleftrightarrow>
     (\<forall>h pk m der raw. kc_public kc h = Some pk \<longrightarrow> kc_sign kc h m = Inr der \<longrightarrow>
        kc_raw_signature kc der = Some raw \<longrightarrow>
        length raw = 64 \<and>
        (\<exists>key sig. key_from_sec1 ec pk = Some key \<and> sig_from_slice ec raw = Some sig \<and>
           ecdsa_verify ec key m sig))"

text \<open>The buffers the operating system fills have the lengths the code allocates.\<close>

definition os_typed :: "os_answers \<Rightarrow> bool" where
  "os_typed os \<longleftrightarrow> (\<forall>n. os_nonce os = Some n \<longrightarrow> length n = NONCE_BYTES)"

section \<open>The record\<close>

lemma slice_append_exact: "a = length xs \<Longrightarrow> b = a + length ys \<Longrightarrow> slice a b (xs @ ys @ zs) = ys"
  by (simp add: slice_def)

lemma aes_new_ok_iff [ok_iff]: "aes_new k = Inr u \<longleftrightarrow> length k = 32"
  by (simp add: aes_new_def)

lemma encode_record_slices:
  assumes "length h = 32" and "length n = NONCE_BYTES" and "length pk = PUBLIC_KEY_BYTES"
    and r: "r = encode_record g h n pk c"
  shows "slice 1 9 r = be_bytes 8 g" and "slice 9 41 r = h"
    and "slice 41 (41 + NONCE_BYTES) r = n"
    and "slice (41 + NONCE_BYTES) (41 + NONCE_BYTES + PUBLIC_KEY_BYTES) r = pk"
    and "drop (41 + NONCE_BYTES + PUBLIC_KEY_BYTES) r = c"
proof -
  note r = r [unfolded encode_record_def]
  show "slice 1 9 r = be_bytes 8 g"
    unfolding r by (rule slice_append_exact) simp_all
  have "r = ([STORE_VERSION] @ be_bytes 8 g) @ h @ n @ pk @ c" by (simp add: r)
  then show "slice 9 41 r = h" using assms(1-3) by (simp add: slice_def)
  have "r = ([STORE_VERSION] @ be_bytes 8 g @ h) @ n @ pk @ c" by (simp add: r)
  then show "slice 41 (41 + NONCE_BYTES) r = n" using assms(1-3) by (simp add: slice_def)
  have "r = ([STORE_VERSION] @ be_bytes 8 g @ h @ n) @ pk @ c" by (simp add: r)
  then show "slice (41 + NONCE_BYTES) (41 + NONCE_BYTES + PUBLIC_KEY_BYTES) r = pk"
    using assms(1-3) by (simp add: slice_def NONCE_BYTES_def)
  show "drop (41 + NONCE_BYTES + PUBLIC_KEY_BYTES) r = c"
    using assms(1-3) by (simp add: r NONCE_BYTES_def bound_defs)
qed

lemma decode_encode_record:
  assumes "length h = 32" and "length n = NONCE_BYTES" and "length pk = PUBLIC_KEY_BYTES"
    and "length sk = SECRET_KEY_BYTES" and "length wk = 32"
    and "aead_correct aead" and "aes_encrypt aead wk n sk = Some c"
  shows "decode_record aead wk (encode_record g h n pk c) =
     Inr \<lparr>stored_generation = g, stored_kid_hash = h, stored_public_key = pk,
          stored_secret_key = sk\<rparr>"
proof -
  have c: "length c = SECRET_KEY_BYTES + 16" "aes_decrypt aead wk n c = Some sk"
    using assms by (auto simp: aead_correct_def)
  have "length (encode_record g h n pk c) = RECORD_HEADER + SECRET_KEY_BYTES + 16"
    using assms c by (simp add: encode_record_def RECORD_HEADER_def)
  moreover have "\<exists>t. encode_record g h n pk c = STORE_VERSION # t"
    by (simp add: encode_record_def)
  ultimately show ?thesis
    using assms(4,5) c encode_record_slices [OF assms(1-3) refl]
    by (auto simp: decode_record_def Let_def ok_iff aes_new_def from_be_bytes_be_bytes)
qed

text \<open>What the record on disk says, whether or not it can be read at the moment.\<close>

definition stored :: "aead_lib \<Rightarrow> bytes \<Rightarrow> hybrid_store \<Rightarrow> stored_key \<Rightarrow> bool" where
  "stored aead wk st k \<longleftrightarrow> (\<exists>r. record_file st = Some r \<and> decode_record aead wk r = Inr k)"

lemma load_stored_ok_iff [ok_iff]:
  "load_stored_key aead os wk st = Inr k \<longleftrightarrow> os_read_error os = None \<and> stored aead wk st k"
  by (auto simp: stored_def load_stored_key_def ok_iff split: option.splits)

lemma stored_unique: "stored aead wk st k \<Longrightarrow> stored aead wk st k' \<Longrightarrow> k = k'"
  by (auto simp: stored_def)

lemma stored_record_cong:
  "record_file st = record_file st' \<Longrightarrow> stored aead wk st k \<longleftrightarrow> stored aead wk st' k"
  by (simp add: stored_def)

text \<open>Every way \<open>persist_key\<close> can end: the record is replaced as a whole or not touched.\<close>

lemma persist_key_cases:
  assumes "persist_key aead os wk g h pk sk st = (r, st')"
  shows "(is_ok r \<and> length wk = 32 \<and>
      (\<exists>n c. os_nonce os = Some n \<and> aes_encrypt aead wk n sk = Some c \<and>
         record_file st' = Some (encode_record g h n pk c))) \<or>
     (\<not> is_ok r \<and> record_file st' = record_file st)"
  using assms unfolding persist_key_def
  by (auto simp: is_ok_iff ok_iff err_iff split: sum.splits option.splits prod.splits)

lemma persist_key_stored:
  assumes "persist_key aead os wk g h pk sk st = (Inr u, st')"
    and "aead_correct aead" and "os_typed os"
    and "length h = 32" and "length pk = PUBLIC_KEY_BYTES" and "length sk = SECRET_KEY_BYTES"
  shows "stored aead wk st' \<lparr>stored_generation = g, stored_kid_hash = h, stored_public_key = pk,
     stored_secret_key = sk\<rparr>"
  using persist_key_cases [OF assms(1)] assms(2-)
  by (auto simp: stored_def os_typed_def decode_encode_record)

section \<open>Generations\<close>

text \<open>The outcome of one start: what the record says afterwards, in terms of what it said before.\<close>

definition identity_of :: "codec_lib \<Rightarrow> 'h keychain_signer \<Rightarrow> u64 \<Rightarrow> bytes \<Rightarrow> stored_key \<Rightarrow> bool" where
  "identity_of codec signer g pk k \<longleftrightarrow>
     stored_generation k = g \<and> stored_public_key k = pk \<and>
     stored_kid_hash k = kid_hash_of codec signer"

lemma generate_and_persist_cases:
  assumes "generate_and_persist aead pq os wk g h st = (r, st')"
    and "aead_correct aead" and "mldsa_correct pq" and "os_typed os" and "length h = 32"
  shows "(\<exists>pk k. r = Inr (g, pk) \<and> stored aead wk st' k \<and> stored_generation k = g \<and>
        stored_public_key k = pk \<and> stored_kid_hash k = h) \<or>
     (\<not> is_ok r \<and> record_file st' = record_file st)"
proof (cases "pq_generate pq (os_seed os)")
  case (Inr key_pair)
  then have sizes: "length (gen_public_key key_pair) = PUBLIC_KEY_BYTES"
    "length (gen_secret_key key_pair) = SECRET_KEY_BYTES"
    using assms(3) by (auto simp: pq_generate_def ok_iff mldsa_correct_def Let_def)
  obtain q where q: "persist_key aead os wk g h (gen_public_key key_pair)
      (gen_secret_key key_pair) st = (q, st')"
    using assms(1) Inr by (auto simp: generate_and_persist_def split: prod.splits sum.splits)
  show ?thesis
  proof (cases q)
    case (Inl e)
    with q assms(1) Inr persist_key_cases [OF q] show ?thesis
      by (auto simp: generate_and_persist_def)
  next
    case (Inr u)
    with q have "persist_key aead os wk g h (gen_public_key key_pair)
      (gen_secret_key key_pair) st = (Inr u, st')" by simp
    note s = persist_key_stored [OF this assms(2,4,5) sizes]
    have "r = Inr (g, gen_public_key key_pair)"
      using q assms(1) Inr \<open>pq_generate pq (os_seed os) = Inr key_pair\<close>
      by (auto simp: generate_and_persist_def)
    with s show ?thesis
      by (intro disjI1 exI [of _ "gen_public_key key_pair"] exI [of _ "\<lparr>stored_generation = g,
          stored_kid_hash = h, stored_public_key = gen_public_key key_pair,
          stored_secret_key = gen_secret_key key_pair\<rparr>"]) simp
  qed
qed (use assms(1) in \<open>auto simp: generate_and_persist_def\<close>)

lemma select_generation_cases:
  assumes "select_generation codec aead pq os signer wk st = (r, st')"
    and "aead_correct aead" and "mldsa_correct pq" and "os_typed os" and "digest_of_32 codec"
  shows "(\<not> is_ok r \<and> record_file st' = record_file st) \<or>
     (\<exists>g pk k. r = Inr (g, pk) \<and> stored aead wk st' k \<and> identity_of codec signer g pk k \<and>
        (record_file st = None \<and> g = 1 \<or>
         (\<exists>k0. stored aead wk st k0 \<and>
            (if stored_kid_hash k0 = kid_hash_of codec signer then k = k0
             else g = saturating_add (stored_generation k0) 1))))"
proof -
  have h: "length (kid_hash_of codec signer) = 32"
    using assms(5) by (simp add: digest_of_32_def kid_hash_of_def)
  note fresh = generate_and_persist_cases [OF _ assms(2-4) h]
  show ?thesis
  proof (cases "record_file st")
    case None
    with assms(1) have "generate_and_persist aead pq os wk 1 (kid_hash_of codec signer) st = (r, st')"
      by (simp add: select_generation_def)
    from fresh [OF this] None show ?thesis
      by (auto simp: identity_of_def)
  next
    case (Some rec)
    show ?thesis
    proof (cases "load_stored_key aead os wk st")
      case (Inl e)
      with assms(1) Some show ?thesis by (auto simp: select_generation_def)
    next
      case (Inr k0)
      then have k0: "stored aead wk st k0" by (simp add: ok_iff)
      show ?thesis
      proof (cases "stored_kid_hash k0 = kid_hash_of codec signer")
        case True
        with assms(1) Some Inr k0 show ?thesis
          by (auto simp: select_generation_def identity_of_def)
      next
        case False
        with assms(1) Some Inr have "generate_and_persist aead pq os wk
            (saturating_add (stored_generation k0) 1) (kid_hash_of codec signer) st = (r, st')"
          by (simp add: select_generation_def)
        from fresh [OF this] k0 False show ?thesis
          by (auto simp: identity_of_def)
      qed
    qed
  qed
qed

text \<open>
  Who a record names: the generation, the ML-DSA key and the hash of the classical key identifier
  stand in it unencrypted, so they do not depend on the wrapping key.
\<close>

definition record_identity :: "bytes \<Rightarrow> u64 \<times> bytes \<times> bytes" where
  "record_identity r =
     (from_be_bytes (slice 1 9 r),
      slice (41 + NONCE_BYTES) (41 + NONCE_BYTES + PUBLIC_KEY_BYTES) r, slice 9 41 r)"

lemma stored_record:
  "stored aead wk st k \<Longrightarrow> \<exists>r. record_file st = Some r \<and>
     record_identity r = (stored_generation k, stored_public_key k, stored_kid_hash k)"
  by (auto simp: stored_def decode_record_def record_identity_def Let_def ok_iff split: if_splits)

definition signer_identity :: "codec_lib \<Rightarrow> 'h hybrid_signer \<Rightarrow> u64 \<times> bytes \<times> bytes" where
  "signer_identity codec hs =
     (hs_generation hs, hs_pq_public_key hs, kid_hash_of codec (hs_classical hs))"

lemma load_or_create_record:
  "load_or_create_wrapping_key os st = (r, st') \<Longrightarrow> record_file st' = record_file st"
  by (auto simp: load_or_create_wrapping_key_def split: option.splits sum.splits if_splits)

lemma select_generation_identity:
  assumes "select_generation codec aead pq os signer wk st = (Inr (g, pk), st')"
    and "aead_correct aead" and "mldsa_correct pq" and "os_typed os" and "digest_of_32 codec"
  obtains r where "record_file st' = Some r" "record_identity r = (g, pk, kid_hash_of codec signer)"
    "\<forall>r0. record_file st = Some r0 \<longrightarrow> record_identity r = record_identity r0 \<or>
       g = saturating_add (fst (record_identity r0)) 1"
proof -
  from select_generation_cases [OF assms] obtain k where k: "stored aead wk st' k"
    and id: "identity_of codec signer g pk k"
    and before: "record_file st = None \<or> (\<exists>k0. stored aead wk st k0 \<and>
        (if stored_kid_hash k0 = kid_hash_of codec signer then k = k0
         else g = saturating_add (stored_generation k0) 1))"
    by auto
  obtain r where r: "record_file st' = Some r"
      "record_identity r = (stored_generation k, stored_public_key k, stored_kid_hash k)"
    using stored_record [OF k] by blast
  have "record_identity r = record_identity r0 \<or> g = saturating_add (fst (record_identity r0)) 1"
    if "record_file st = Some r0" for r0
    using before that r(2) by (auto dest!: stored_record split: if_splits)
  with that r id show ?thesis by (auto simp: identity_of_def)
qed

text \<open>One start of the service: what it does to the record, and the signer it returns.\<close>

lemma find_or_create_cases:
  assumes "hybrid_find_or_create codec aead pq kc os label w st = (r, w', st')"
    and "aead_correct aead" and "mldsa_correct pq" and "os_typed os" and "digest_of_32 codec"
  shows "(\<not> is_ok r \<and> record_file st' = record_file st) \<or>
     (\<exists>hs rec. r = Inr hs \<and> record_file st' = Some rec \<and>
        record_identity rec = signer_identity codec hs \<and>
        hs_pq_kid hs = b64url_encode codec (sha256 codec (hs_pq_public_key hs)) \<and>
        (\<forall>rec0. record_file st = Some rec0 \<longrightarrow> record_identity rec = record_identity rec0 \<or>
           fst (record_identity rec) = saturating_add (fst (record_identity rec0)) 1))"
proof -
  obtain r1 w1 where classical: "keychain_find_or_create codec kc label w = (r1, w1)"
    by (rule prod.exhaust)
  obtain r2 st1 where wrapping: "load_or_create_wrapping_key os st = (r2, st1)"
    by (rule prod.exhaust)
  note st1 = load_or_create_record [OF wrapping]
  show ?thesis
  proof (cases "is_ok r1 \<and> is_ok r2")
    case False
    then show ?thesis
      using assms(1) classical wrapping st1
      by (auto simp: hybrid_find_or_create_def is_ok_iff split: sum.splits prod.splits)
  next
    case True
    then obtain signer wk where ok: "r1 = Inr signer" "r2 = Inr wk" by (auto simp: is_ok_iff)
    obtain r3 st3 where sel: "select_generation codec aead pq os signer wk st1 = (r3, st3)"
      by (rule prod.exhaust)
    show ?thesis
    proof (cases r3)
      case (Inl e)
      with select_generation_cases [OF sel assms(2-)] have "record_file st3 = record_file st1"
        by auto
      then show ?thesis
        using assms(1) classical wrapping ok sel Inl st1 by (auto simp: hybrid_find_or_create_def)
    next
      case (Inr gpk)
      obtain g pk where gpk: "gpk = (g, pk)" by (rule prod.exhaust)
      from select_generation_identity [OF sel [unfolded Inr gpk] assms(2-)] obtain rec where
        rec: "record_file st3 = Some rec" "record_identity rec = (g, pk, kid_hash_of codec signer)"
          "\<forall>rec0. record_file st1 = Some rec0 \<longrightarrow> record_identity rec = record_identity rec0 \<or>
             g = saturating_add (fst (record_identity rec0)) 1" .
      moreover have "r = Inr \<lparr>hs_classical = signer, hs_pq_public_key = pk,
          hs_pq_kid = b64url_encode codec (sha256 codec pk), hs_generation = g,
          hs_wrapping_key = wk\<rparr>" "st' = st3"
        using assms(1) classical wrapping ok sel Inr gpk by (simp_all add: hybrid_find_or_create_def)
      ultimately show ?thesis using st1 by (simp add: signer_identity_def)
    qed
  qed
qed

text \<open>
  A sequence of starts of the service: each with the answers of the operating system, the Keychain
  and the wrapping item it finds, whatever has happened to these in between. Only the record and
  its temporary file pass from one start to the next. The result lists the signers of the starts
  that succeeded.
\<close>

fun service_starts ::
  "codec_lib \<Rightarrow> aead_lib \<Rightarrow> mldsa_lib \<Rightarrow> ('w, 'h) keychain_lib \<Rightarrow> string \<Rightarrow>
     (os_answers \<times> 'w \<times> bytes option) list \<Rightarrow> hybrid_store \<Rightarrow> 'h hybrid_signer list" where
  "service_starts codec aead pq kc label [] st = []"
| "service_starts codec aead pq kc label ((os, w, item) # rs) st =
     (case hybrid_find_or_create codec aead pq kc os label w (st\<lparr>wrapping_item := item\<rparr>) of
        (Inl _, _, st') \<Rightarrow> service_starts codec aead pq kc label rs st'
      | (Inr hs, _, st') \<Rightarrow> hs # service_starts codec aead pq kc label rs st')"

definition same_or_later :: "u64 \<times> bytes \<times> bytes \<Rightarrow> u64 \<times> bytes \<times> bytes \<Rightarrow> bool" where
  "same_or_later i j \<longleftrightarrow> j = i \<or> fst i < fst j \<or> fst i = - 1 \<and> fst j = - 1"

lemma same_or_later_step:
  assumes "same_or_later i j" and "fst i = saturating_add (fst i0) 1"
  shows "same_or_later i0 j"
proof (cases "fst i0 = - 1")
  case True
  then have i: "fst i = - 1"
    using assms(2) by (simp only: saturating_add_max)
  have "\<not> - 1 < fst j" by (rule leD) (rule word_n1_ge)
  with assms(1) i have "fst j = - 1" unfolding same_or_later_def by auto
  with True show ?thesis unfolding same_or_later_def by blast
next
  case False
  then have "fst i0 < fst i"
    unfolding assms(2) by (rule saturating_add_gt) simp
  moreover from assms(1) have "fst i \<le> fst j"
    unfolding same_or_later_def by auto
  ultimately show ?thesis
    unfolding same_or_later_def by (blast intro: order.strict_trans2)
qed

lemma starts_from_record:
  assumes "aead_correct aead" and "mldsa_correct pq" and "digest_of_32 codec"
    and "\<forall>(os, w, item) \<in> set rs. os_typed os" and "record_file st = Some rec"
  shows "\<forall>hs \<in> set (service_starts codec aead pq kc label rs st).
    same_or_later (record_identity rec) (signer_identity codec hs) \<and>
    hs_pq_kid hs = b64url_encode codec (sha256 codec (hs_pq_public_key hs))"
  using assms(4,5)
proof (induction rs arbitrary: st rec)
  case (Cons start rs)
  obtain os w item where start: "start = (os, w, item)" by (cases start)
  obtain r w' st' where step: "hybrid_find_or_create codec aead pq kc os label w
      (st\<lparr>wrapping_item := item\<rparr>) = (r, w', st')"
    using prod_cases3 by blast
  from Cons.prems(1) start have typed: "os_typed os"
    and rest: "\<forall>(os, w, item) \<in> set rs. os_typed os" by auto
  from find_or_create_cases [OF step assms(1,2) typed assms(3)] Cons.prems(2)
  consider (failed) "\<not> is_ok r" "record_file st' = Some rec"
    | (started) hs rec' where "r = Inr hs" "record_file st' = Some rec'"
        "record_identity rec' = signer_identity codec hs"
        "hs_pq_kid hs = b64url_encode codec (sha256 codec (hs_pq_public_key hs))"
        "record_identity rec' = record_identity rec \<or>
         fst (record_identity rec') = saturating_add (fst (record_identity rec)) 1"
    by auto
  then show ?case
  proof cases
    case failed
    from Cons.IH [OF rest failed(2)] failed(1) start step show ?thesis
      by (auto simp: is_ok_iff split: sum.splits)
  next
    case started
    have "same_or_later (record_identity rec) j" if "same_or_later (record_identity rec') j" for j
      using started(5) that same_or_later_step [of "record_identity rec'" j "record_identity rec"] by auto
    moreover have "same_or_later (record_identity rec') (signer_identity codec hs)"
      using started(3) by (simp add: same_or_later_def)
    ultimately show ?thesis
      using Cons.IH [OF rest started(2)] start step started(1,4) by auto
  qed
qed simp

lemma starts_first:
  assumes "aead_correct aead" and "mldsa_correct pq" and "digest_of_32 codec"
    and "\<forall>(os, w, item) \<in> set rs. os_typed os"
    and "service_starts codec aead pq kc label rs st = pre @ hs # post"
  shows "hs_pq_kid hs = b64url_encode codec (sha256 codec (hs_pq_public_key hs)) \<and>
    (\<forall>hs' \<in> set post. same_or_later (signer_identity codec hs) (signer_identity codec hs') \<and>
       hs_pq_kid hs' = b64url_encode codec (sha256 codec (hs_pq_public_key hs')))"
  using assms(4,5)
proof (induction rs arbitrary: st pre)
  case (Cons start rs)
  obtain os w item where start: "start = (os, w, item)" by (cases start)
  obtain r w' st' where step: "hybrid_find_or_create codec aead pq kc os label w
      (st\<lparr>wrapping_item := item\<rparr>) = (r, w', st')"
    using prod_cases3 by blast
  from Cons.prems(1) start have typed: "os_typed os"
    and rest: "\<forall>(os, w, item) \<in> set rs. os_typed os" by auto
  show ?case
  proof (cases r)
    case (Inl e)
    with Cons.prems(2) start step
    have "service_starts codec aead pq kc label rs st' = pre @ hs # post" by simp
    from Cons.IH [OF rest this] show ?thesis .
  next
    case (Inr first)
    from find_or_create_cases [OF step assms(1,2) typed assms(3)] Inr obtain rec where
      rec: "record_file st' = Some rec" "record_identity rec = signer_identity codec first"
        "hs_pq_kid first = b64url_encode codec (sha256 codec (hs_pq_public_key first))"
      by auto
    from Cons.prems(2) start step Inr have
      list: "first # service_starts codec aead pq kc label rs st' = pre @ hs # post"
      by simp
    show ?thesis
    proof (cases pre)
      case Nil
      with list starts_from_record [OF assms(1-3) rest rec(1)] rec(2,3) show ?thesis by auto
    next
      case (Cons p pre')
      with list have "service_starts codec aead pq kc label rs st' = pre' @ hs # post" by simp
      from Cons.IH [OF rest this] show ?thesis .
    qed
  qed
qed simp

section \<open>Signing\<close>

lemma load_current_ok_iff [ok_iff]:
  "load_current_key codec aead os hs st = Inr k \<longleftrightarrow>
     os_read_error os = None \<and> stored aead (hs_wrapping_key hs) st k \<and>
     identity_of codec (hs_classical hs) (hs_generation hs) (hs_pq_public_key hs) k"
  by (auto simp: load_current_key_def ok_iff identity_of_def)

lemma sign_once_ok_iff [ok_iff]:
  "sign_once pq r sk m = Inr s \<longleftrightarrow>
     length sk = SECRET_KEY_BYTES \<and> (\<exists>x. r = Some x \<and> mldsa_sign pq sk m x = Some s)"
  by (auto simp: sign_once_def ok_iff)

text \<open>The stored secret key belongs to the stored public key: what \<open>persist_key\<close> was given.\<close>

definition key_pair_stored :: "mldsa_lib \<Rightarrow> stored_key \<Rightarrow> bool" where
  "key_pair_stored pq k \<longleftrightarrow>
     (\<exists>seed. mldsa_generate pq seed = (stored_secret_key k, stored_public_key k))"

text \<open>This is what a start leaves behind.\<close>

lemma persist_key_pair:
  assumes "generate_and_persist aead pq os wk g h st = (Inr x, st')"
    and "aead_correct aead" and "mldsa_correct pq" and "os_typed os" and "length h = 32"
    and "stored aead wk st' k"
  shows "key_pair_stored pq k"
proof -
  obtain p where p: "pq_generate pq (os_seed os) = Inr p"
    using assms(1) by (auto simp: generate_and_persist_def split: sum.splits)
  then obtain seed where seed: "mldsa_generate pq seed = (gen_secret_key p, gen_public_key p)"
    by (auto simp: pq_generate_def ok_iff Let_def)
  with assms(3) have sizes: "length (gen_public_key p) = PUBLIC_KEY_BYTES"
      "length (gen_secret_key p) = SECRET_KEY_BYTES"
    by (auto simp: mldsa_correct_def dest: spec [of _ seed])
  obtain u where "persist_key aead os wk g h (gen_public_key p) (gen_secret_key p) st = (Inr u, st')"
    using assms(1) p by (auto simp: generate_and_persist_def split: sum.splits prod.splits)
  from persist_key_stored [OF this assms(2,4,5) sizes] assms(6) have
    "k = \<lparr>stored_generation = g, stored_kid_hash = h, stored_public_key = gen_public_key p,
       stored_secret_key = gen_secret_key p\<rparr>"
    by (rule stored_unique [rotated])
  with seed show ?thesis by (auto simp: key_pair_stored_def)
qed

lemma find_or_create_key_pair:
  assumes "hybrid_find_or_create codec aead pq kc os label w st = (Inr hs, w', st')"
    and "aead_correct aead" and "mldsa_correct pq" and "os_typed os" and "digest_of_32 codec"
    and "\<forall>k. stored aead (hs_wrapping_key hs) st k \<longrightarrow> key_pair_stored pq k"
  shows "keychain_signer_ok codec kc (hs_classical hs) \<and>
    (\<forall>k. stored aead (hs_wrapping_key hs) st' k \<longrightarrow> key_pair_stored pq k)"
proof -
  obtain signer wk st1 g pk where classical: "keychain_find_or_create codec kc label w = (Inr signer, w')"
    and wrapping: "load_or_create_wrapping_key os st = (Inr wk, st1)"
    and sel: "select_generation codec aead pq os signer wk st1 = (Inr (g, pk), st')"
    and hs: "hs_classical hs = signer" "hs_wrapping_key hs = wk"
    using assms(1) by (auto simp: hybrid_find_or_create_def split: sum.splits prod.splits)
  have old: "key_pair_stored pq k" if "stored aead wk st1 k" for k
    using that assms(6) hs(2) stored_record_cong [OF load_or_create_record [OF wrapping]] by blast
  have h: "length (kid_hash_of codec signer) = 32"
    using assms(5) by (simp add: digest_of_32_def kid_hash_of_def)
  have "key_pair_stored pq k" if k: "stored aead wk st' k" for k
    using sel old k persist_key_pair [OF _ assms(2-4) h k]
    by (auto simp: select_generation_def split: sum.splits option.splits if_splits)
  then show ?thesis using hs keychain_find_or_create_ok [OF classical] by simp
qed

definition signer_parameters :: "'h hybrid_signer \<Rightarrow> unsigned_envelope \<Rightarrow> verification_parameters" where
  "signer_parameters hs u =
     \<lparr>vp_purpose = purpose u, vp_context = envelope_context u,
      vp_classical_kid = signer_kid (hs_classical hs), vp_pq_kid = hs_pq_kid hs,
      vp_classical_public_key = signer_public_key (hs_classical hs),
      vp_pq_public_key = hs_pq_public_key hs, vp_generation = hs_generation hs\<rparr>"

lemma sign_es256_ok:
  assumes "keychain_correct kc ec" and "keychain_signer_ok codec kc s" and "sign_es256 kc s m = Inr raw"
  shows "length raw = 64 \<and> (\<exists>key sig. key_from_sec1 ec (signer_public_key s) = Some key \<and>
     sig_from_slice ec raw = Some sig \<and> ecdsa_verify ec key m sig)"
  using assms unfolding keychain_correct_def keychain_signer_ok_def sign_es256_def sign_der_def
  by (auto simp: ok_iff split: sum.splits)

section \<open>Examples\<close>

text \<open>A toy cipher (the tag is sixteen bytes of the key's checksum), Keychain and hash.\<close>

definition toy_aead :: aead_lib where
  "toy_aead = \<lparr>aes_encrypt = (\<lambda>k n m. Some (m @ replicate 16 (sum_list k))),
     aes_decrypt = (\<lambda>k n c. if drop (length c - 16) c = replicate 16 (sum_list k)
                            then Some (take (length c - 16) c) else None)\<rparr>"

definition toy_codec :: codec_lib where
  "toy_codec = \<lparr>sha256 = (\<lambda>b. replicate 32 (sum_list b)), b64url_encode = (\<lambda>b. ''k''),
     b64url_decode = (\<lambda>s. None), b64_decode = (\<lambda>s. None)\<rparr>"

definition toy_keychain :: "(unit, unit) keychain_lib" where
  "toy_keychain = \<lparr>kc_search = (\<lambda>l w. Inr [RefKey ()]), kc_delete = (\<lambda>h w. Inr w),
     kc_create = (\<lambda>l w. Inr w), kc_public = (\<lambda>h. Some (4 # replicate 64 0)),
     kc_sign = (\<lambda>h m. Inr (replicate 64 (checksum [4] m))),
     kc_raw_signature = (\<lambda>d. if length d = 64 then Some d else None)\<rparr>"

lemma toy_aead_correct: "aead_correct toy_aead"
  by (simp add: aead_correct_def toy_aead_def)

lemma toy_codec_digest: "digest_of_32 toy_codec"
  by (simp add: digest_of_32_def toy_codec_def)

lemma toy_pq_correct: "mldsa_correct toy_pq"
  by (simp add: mldsa_correct_def toy_pq_def bound_defs)

lemma checksum_demo_key: "checksum (4 # replicate 64 0) m = checksum [4] m"
  by (simp add: checksum_def sum_list_replicate)

lemma toy_keychain_correct: "keychain_correct toy_keychain toy_ec"
  by (auto simp: keychain_correct_def toy_keychain_def toy_ec_def checksum_demo_key
      split: if_splits)

definition calm_os :: os_answers where
  "calm_os = \<lparr>os_read_error = None, os_get_password_error = None, os_set_password_error = None,
     os_wrapping_random = Some (replicate 32 6), os_seed = Some [7], os_nonce = Some (replicate 12 5),
     os_sign_random = Some [1], os_create_dir_error = None, os_open_error = None,
     os_write_error = None, os_rename_error = None\<rparr>"

lemma calm_os_typed: "os_typed calm_os"
  by (simp add: os_typed_def calm_os_def NONCE_BYTES_def)

definition empty_store :: hybrid_store where
  "empty_store = \<lparr>record_file = None, temporary_file = None, wrapping_item = None\<rparr>"

definition demo_signer :: "unit keychain_signer" where
  "demo_signer = \<lparr>signer_key = (), signer_kid = ''k'', signer_x = ''k'', signer_y = ''k'',
     signer_public_key = 4 # replicate 64 0\<rparr>"

lemma demo_signer_ok: "keychain_signer_ok toy_codec toy_keychain demo_signer"
  by (simp add: keychain_signer_ok_def toy_codec_def toy_keychain_def demo_signer_def)

definition demo_stored :: "u64 \<Rightarrow> stored_key" where
  "demo_stored g = \<lparr>stored_generation = g, stored_kid_hash = kid_hash_of toy_codec demo_signer,
     stored_public_key = replicate PUBLIC_KEY_BYTES 7,
     stored_secret_key = replicate SECRET_KEY_BYTES 7\<rparr>"

definition demo_store :: "u64 \<Rightarrow> hybrid_store" where
  "demo_store g = empty_store\<lparr>record_file := Some (encode_record g
     (kid_hash_of toy_codec demo_signer) (replicate 12 5) (replicate PUBLIC_KEY_BYTES 7)
     (replicate SECRET_KEY_BYTES 7 @ replicate 16 (sum_list (replicate 32 6))))\<rparr>"

lemma demo_stored: "stored toy_aead (replicate 32 6) (demo_store g) (demo_stored g)"
proof -
  have "length (kid_hash_of toy_codec demo_signer) = 32"
    by (simp add: kid_hash_of_def toy_codec_def)
  then show ?thesis
    by (simp add: stored_def demo_store_def demo_stored_def)
      (rule decode_encode_record; simp add: toy_aead_correct [unfolded toy_aead_def] NONCE_BYTES_def
        toy_aead_def)
qed

definition demo_hybrid :: "u64 \<Rightarrow> unit hybrid_signer" where
  "demo_hybrid g = \<lparr>hs_classical = demo_signer, hs_pq_public_key = replicate PUBLIC_KEY_BYTES 7,
     hs_pq_kid = ''q'', hs_generation = g, hs_wrapping_key = replicate 32 6\<rparr>"

lemma demo_persisted:
  "persist_key toy_aead calm_os (replicate 32 6) g (kid_hash_of toy_codec demo_signer)
     (replicate PUBLIC_KEY_BYTES 7) (replicate SECRET_KEY_BYTES 7) empty_store =
   (Inr (), demo_store g)"
  by (simp add: persist_key_def aes_new_def calm_os_def toy_aead_def demo_store_def empty_store_def)

section \<open>Properties\<close>

text \<open>
  C31. The encrypted key record is replaced as a whole or not at
  all, whatever fails on the way (randomness, encryption, the directory, opening, writing or
  renaming the temporary file): when \<open>persist_key\<close> returns an error the record is the one that was
  there, and when it succeeds reading it gives back the generation, the hash, the public key and
  the secret key that were stored.
\<close>

theorem key_record_replaced_atomically:
  assumes "persist_key aead os wk g h pk sk st = (r, st')"
    and "aead_correct aead" and "os_typed os"
    and "length h = 32" and "length pk = PUBLIC_KEY_BYTES" and "length sk = SECRET_KEY_BYTES"
  shows "case r of
       Inl e \<Rightarrow> record_file st' = record_file st
     | Inr u \<Rightarrow> \<forall>os'. os_read_error os' = None \<longrightarrow> load_stored_key aead os' wk st' =
         Inr \<lparr>stored_generation = g, stored_kid_hash = h, stored_public_key = pk,
              stored_secret_key = sk\<rparr>"
proof (cases r)
  case (Inl e)
  with persist_key_cases [OF assms(1)] show ?thesis by auto
next
  case (Inr u)
  with assms(1) have "persist_key aead os wk g h pk sk st = (Inr u, st')" by simp
  from persist_key_stored [OF this assms(2-)] Inr show ?thesis
    by (simp add: ok_iff)
qed

theorem key_record_replaced_atomically_witness:
  "load_stored_key toy_aead calm_os (replicate 32 6) (demo_store 3) = Inr (demo_stored 3)"
proof -
  have "length (kid_hash_of toy_codec demo_signer) = 32"
    by (simp add: kid_hash_of_def toy_codec_def)
  from key_record_replaced_atomically [OF demo_persisted [of 3] toy_aead_correct calm_os_typed this]
  show ?thesis
    by (simp add: demo_stored_def calm_os_def)
qed


definition demo_item :: hybrid_store where
  "demo_item = (demo_store 1)\<lparr>wrapping_item := Some (replicate 32 6)\<rparr>"

definition demo_started :: "unit hybrid_signer" where
  "demo_started = \<lparr>hs_classical = demo_signer, hs_pq_public_key = replicate PUBLIC_KEY_BYTES 7,
     hs_pq_kid = ''k'', hs_generation = 1, hs_wrapping_key = replicate 32 6\<rparr>"

lemma toy_encode: "b64url_encode toy_codec b = ''k''"
  by (simp add: toy_codec_def)

lemma demo_classical:
  "keychain_find_or_create toy_codec toy_keychain l () = (Inr demo_signer, ())"
  by (simp add: keychain_find_or_create_def find_private_key_def toy_keychain_def from_key_def
      demo_signer_def toy_encode)

lemma demo_start_first:
  "hybrid_find_or_create toy_codec toy_aead toy_pq toy_keychain calm_os l ()
     (empty_store\<lparr>wrapping_item := None\<rparr>) = (Inr demo_started, (), demo_item)"
proof -
  let ?st = "empty_store\<lparr>wrapping_item := Some (replicate 32 6)\<rparr>"
  have "load_or_create_wrapping_key calm_os (empty_store\<lparr>wrapping_item := None\<rparr>) =
      (Inr (replicate 32 6), ?st)"
    by (simp add: load_or_create_wrapping_key_def calm_os_def empty_store_def)
  moreover have "pq_generate toy_pq (os_seed calm_os) = Inr \<lparr>
      gen_public_key = replicate PUBLIC_KEY_BYTES 7, gen_secret_key = replicate SECRET_KEY_BYTES 7\<rparr>"
    by (simp add: pq_generate_def toy_pq_def calm_os_def)
  moreover have "persist_key toy_aead calm_os (replicate 32 6) 1 (kid_hash_of toy_codec demo_signer)
      (replicate PUBLIC_KEY_BYTES 7) (replicate SECRET_KEY_BYTES 7) ?st = (Inr (), demo_item)"
    by (simp add: persist_key_def aes_new_def calm_os_def toy_aead_def demo_store_def empty_store_def
        demo_item_def)
  ultimately show ?thesis
    by (simp add: hybrid_find_or_create_def demo_classical select_generation_def
        generate_and_persist_def toy_encode demo_started_def)
      (simp add: empty_store_def)
qed

lemma demo_start_again:
  "hybrid_find_or_create toy_codec toy_aead toy_pq toy_keychain calm_os l ()
     (demo_item\<lparr>wrapping_item := Some (replicate 32 6)\<rparr>) = (Inr demo_started, (), demo_item)"
proof -
  have item: "demo_item\<lparr>wrapping_item := Some (replicate 32 6)\<rparr> = demo_item"
    by (simp add: demo_item_def)
  have "stored toy_aead (replicate 32 6) demo_item (demo_stored 1)"
    using demo_stored [of 1] stored_record_cong [of demo_item "demo_store 1"]
    by (simp add: demo_item_def)
  then have "load_stored_key toy_aead calm_os (replicate 32 6) demo_item = Inr (demo_stored 1)"
    by (simp add: load_stored_ok_iff calm_os_def)
  moreover have "record_file demo_item \<noteq> None" by (simp add: demo_item_def demo_store_def)
  ultimately have "select_generation toy_codec toy_aead toy_pq calm_os demo_signer (replicate 32 6)
      demo_item = (Inr (1, replicate PUBLIC_KEY_BYTES 7), demo_item)"
    by (simp add: select_generation_def demo_stored_def)
  moreover have "load_or_create_wrapping_key calm_os demo_item = (Inr (replicate 32 6), demo_item)"
    by (simp add: load_or_create_wrapping_key_def calm_os_def demo_item_def)
  ultimately show ?thesis
    unfolding item
    by (simp add: hybrid_find_or_create_def demo_classical toy_encode demo_started_def)
qed


text \<open>
  A signer signs only with the identity it was created with: both ways to
  sign succeed only while the record on disk holds the signer's generation, its ML-DSA public key
  and the hash of its classical key identifier, so after a rotation by another process the old
  signer returns an error instead of a signature.
\<close>

theorem stale_signer_refuses:
  assumes "stored aead (hs_wrapping_key hs) st k"
    and "\<not> identity_of codec (hs_classical hs) (hs_generation hs) (hs_pq_public_key hs) k"
  shows "\<not> is_ok (sign_pq_raw codec aead pq os hs st m) \<and>
     \<not> is_ok (sign_envelope codec lib aead pq kc os hs st u)"
  using assms by (auto simp: is_ok_iff sign_pq_raw_def sign_envelope_def ok_iff dest: stored_unique)

theorem stale_signer_refuses_witness:
  "\<not> is_ok (sign_pq_raw toy_codec toy_aead toy_pq calm_os (demo_hybrid 1) (demo_store 2) [1]) \<and>
   is_ok (sign_pq_raw toy_codec toy_aead toy_pq calm_os (demo_hybrid 2) (demo_store 2) [1])"
proof
  have "\<not> identity_of toy_codec (hs_classical (demo_hybrid 1)) (hs_generation (demo_hybrid 1))
      (hs_pq_public_key (demo_hybrid 1)) (demo_stored 2)"
    by (simp add: identity_of_def demo_hybrid_def demo_stored_def)
  moreover have "stored toy_aead (hs_wrapping_key (demo_hybrid 1)) (demo_store 2) (demo_stored 2)"
    using demo_stored [of 2] by (simp add: demo_hybrid_def)
  ultimately show
    "\<not> is_ok (sign_pq_raw toy_codec toy_aead toy_pq calm_os (demo_hybrid 1) (demo_store 2) [1])"
    using stale_signer_refuses by blast
next
  have "load_current_key toy_codec toy_aead calm_os (demo_hybrid 2) (demo_store 2) =
      Inr (demo_stored 2)"
    using demo_stored [of 2]
    by (simp add: ok_iff identity_of_def demo_hybrid_def demo_stored_def calm_os_def)
  then show "is_ok (sign_pq_raw toy_codec toy_aead toy_pq calm_os (demo_hybrid 2) (demo_store 2) [1])"
    by (simp add: sign_pq_raw_def sign_once_def demo_stored_def calm_os_def toy_pq_def)
qed

text \<open>
  C26. What the hybrid signer signs, the hybrid verifier accepts, given
  packages that behave as documented, a classical signer as \<open>find_or_create\<close> makes it and a record
  that holds the two halves of one generated key pair, as \<open>find_or_create\<close> leaves it
  (\<open>find_or_create_key_pair\<close>). Every envelope \<open>sign_envelope\<close> returns passes \<open>verify\<close> for the signer's
  keys, key identifiers and generation, the envelope's purpose and its context, exactly when the key
  generation inside the context is the signer's too. The signer does not look at that field, and on
  an envelope with another value there \<open>verify\<close> answers \<open>GenerationMismatch\<close>.
\<close>

theorem signed_envelope_verifies:
  assumes "cbor_roundtrips lib" and "mldsa_correct pq" and "keychain_correct kc ec"
    and "keychain_signer_ok codec kc (hs_classical hs)"
    and "\<forall>k. stored aead (hs_wrapping_key hs) st k \<longrightarrow> key_pair_stored pq k"
    and "envelope_typed u" and "sign_envelope codec lib aead pq kc os hs st u = Inr e"
  shows "verify lib ec pq e (signer_parameters hs u) =
    (if key_generation (envelope_context u) = hs_generation hs then Inr ()
     else Inl GenerationMismatch)"
proof -
  from assms(7) obtain m c k q where
    ids: "classical_kid u = signer_kid (hs_classical hs)" "pq_kid u = hs_pq_kid hs"
      "generation u = hs_generation hs"
    and m: "tbs lib u = Inr m" and c: "sign_es256 kc (hs_classical hs) m = Inr c"
    and k: "stored aead (hs_wrapping_key hs) st k"
      "identity_of codec (hs_classical hs) (hs_generation hs) (hs_pq_public_key hs) k"
    and q: "sign_once pq (os_sign_random os) (stored_secret_key k) m = Inr q"
    and e: "encode lib u \<lparr>classical = c, post_quantum = q\<rparr> = Inr e"
    unfolding sign_envelope_def
    by (auto simp: and_then_ok_iff map_err_ok_iff load_current_ok_iff split: if_splits)
  let ?s = "\<lparr>classical = c, post_quantum = q\<rparr>"
  have d: "decode lib e (purpose u) (envelope_context u) = Inr (u, ?s)"
    using wrapper_codec.lossless [where x = "(u, ?s)" and lib = lib] assms(1,6) e by simp
  obtain seed where "mldsa_generate pq seed = (stored_secret_key k, hs_pq_public_key hs)"
    using assms(5) k by (auto simp: key_pair_stored_def identity_of_def)
  with assms(2) q have "length (hs_pq_public_key hs) = PUBLIC_KEY_BYTES"
    "mldsa_verify pq (hs_pq_public_key hs) m q"
    by (auto simp: mldsa_correct_def ok_iff dest: spec [of _ seed])
  with sign_es256_ok [OF assms(3,4) c] have "both_signatures_valid ec pq
      (signer_public_key (hs_classical hs)) (hs_pq_public_key hs) m ?s"
    by (simp add: both_signatures_valid_def)
  with d m ids have "key_generation (envelope_context u) = hs_generation hs \<Longrightarrow> ?thesis"
    by (simp add: verify_ok_iff signer_parameters_def)
  moreover have "key_generation (envelope_context u) \<noteq> hs_generation hs \<Longrightarrow> ?thesis"
    using d by (simp add: verify_def signer_parameters_def)
  ultimately show ?thesis by blast
qed

lemma demo_key_pair:
  assumes "stored toy_aead (hs_wrapping_key (demo_hybrid g)) (demo_store g) k"
  shows "key_pair_stored toy_pq k"
proof -
  have "k = demo_stored g"
    using assms demo_stored [of g] by (simp add: demo_hybrid_def stored_unique)
  then show ?thesis
    by (simp add: key_pair_stored_def demo_stored_def toy_pq_def) (metis list.sel(1))
qed

theorem signed_envelope_verifies_witness:
  "\<exists>e. sign_envelope toy_codec rfc8949 toy_aead toy_pq toy_keychain calm_os (demo_hybrid 1)
      (demo_store 1) demo_envelope = Inr e \<and>
     verify rfc8949 toy_ec toy_pq e (signer_parameters (demo_hybrid 1) demo_envelope) = Inr ()"
proof -
  obtain m where "tbs rfc8949 (demo_with [1, 2, 3]) = Inr m"
    using demo_with_tbs [of "[1, 2, 3]"] by auto
  then have m: "tbs rfc8949 demo_envelope = Inr m"
    by (simp add: demo_with_def demo_envelope_def)
  have "load_current_key toy_codec toy_aead calm_os (demo_hybrid 1) (demo_store 1) =
      Inr (demo_stored 1)"
    using demo_stored [of 1]
    by (simp add: ok_iff identity_of_def demo_hybrid_def demo_stored_def calm_os_def)
  moreover have "sign_es256 toy_keychain demo_signer m = Inr (replicate 64 (checksum [4] m))"
    by (simp add: sign_es256_def sign_der_def toy_keychain_def)
  moreover have "sign_once toy_pq (os_sign_random calm_os) (stored_secret_key (demo_stored 1)) m =
      Inr (replicate SIGNATURE_BYTES (checksum [7] m))"
    by (simp add: sign_once_def calm_os_def demo_stored_def toy_pq_def bound_defs)
  ultimately have signed_ok: "sign_envelope toy_codec rfc8949 toy_aead toy_pq toy_keychain calm_os
      (demo_hybrid 1) (demo_store 1) demo_envelope = Inr (demo_bytes m)"
    using m demo_encodes [of m, unfolded demo_signatures_def]
    by (simp add: sign_envelope_def)
      (simp add: demo_hybrid_def demo_signer_def demo_envelope_def)
  from signed_ok have "verify rfc8949 toy_ec toy_pq (demo_bytes m)
      (signer_parameters (demo_hybrid 1) demo_envelope) = Inr ()"
    using signed_envelope_verifies [OF rfc8949_roundtrips toy_pq_correct toy_keychain_correct,
        where hs = "demo_hybrid 1" and codec = toy_codec and aead = toy_aead and st = "demo_store 1"
        and u = demo_envelope]
      demo_signer_ok demo_envelope_typed demo_key_pair
    by (simp add: demo_hybrid_def demo_envelope_def demo_context_def)
  with signed_ok show ?thesis by blast
qed

end
