(* ===== verification/Service_Types.thy ===== *)
theory Service_Types
  imports Kernel Keychain_Signer
begin

text \<open>
  The data of the issuer service: its errors, the JSON values it reads and writes, the packages it
  calls (as records of functions), the claims and evidence it verifies, and the constants and profile
  identifiers of \<open>issuer-service/src/main.rs\<close>.
\<close>

section \<open>Errors\<close>

record oauth_error =
  err_status :: nat
  err_code :: string
  err_description :: string

type_synonym 'a oauth = "oauth_error + 'a"

definition oauth_error :: "nat \<Rightarrow> string \<Rightarrow> string \<Rightarrow> oauth_error" where
  "oauth_error status error description =
     \<lparr>err_status = status, err_code = error, err_description = description\<rparr>"

text \<open>
  A panic (\<open>expect\<close>, \<open>unreachable!\<close>) sends no response: it is kept as an error value with the
  status 0, which no response has.
\<close>

definition panic :: "string \<Rightarrow> oauth_error" where
  "panic message = oauth_error 0 ''panic'' message"

definition panics :: "oauth_error \<Rightarrow> bool" where
  "panics e \<longleftrightarrow> err_status e = 0"

abbreviation BAD_REQUEST :: nat where "BAD_REQUEST \<equiv> 400"
abbreviation UNAUTHORIZED :: nat where "UNAUTHORIZED \<equiv> 401"
abbreviation FORBIDDEN :: nat where "FORBIDDEN \<equiv> 403"
abbreviation NOT_FOUND :: nat where "NOT_FOUND \<equiv> 404"
abbreviation CONFLICT :: nat where "CONFLICT \<equiv> 409"
abbreviation GONE :: nat where "GONE \<equiv> 410"
abbreviation PAYLOAD_TOO_LARGE :: nat where "PAYLOAD_TOO_LARGE \<equiv> 413"
abbreviation INTERNAL_SERVER_ERROR :: nat where "INTERNAL_SERVER_ERROR \<equiv> 500"
abbreviation NOT_IMPLEMENTED :: nat where "NOT_IMPLEMENTED \<equiv> 501"
abbreviation BAD_GATEWAY :: nat where "BAD_GATEWAY \<equiv> 502"

text \<open>\<open>guard_err c e\<close> is \<open>if c { return Err(e); }\<close> followed by the rest.\<close>

definition guard_err :: "bool \<Rightarrow> 'e \<Rightarrow> 'e + unit" where
  "guard_err c e = (if c then Inl e else Inr ())"

lemma guard_err_ok_iff [ok_iff]: "guard_err c e = Inr u \<longleftrightarrow> \<not> c"
  by (simp add: guard_err_def)

lemma guard_err_err_iff [err_iff]: "guard_err c e = Inl e' \<longleftrightarrow> c \<and> e' = e"
  by (auto simp: guard_err_def)

lemma guard_err_simps [simp]: "guard_err False e = Inr ()" "guard_err True e = Inl e"
  by (simp_all add: guard_err_def)

text \<open>Elimination of one step of a handler that returned a value.\<close>

lemma guard_okE: "and_then (guard_err c e) f = Inr y \<Longrightarrow> (\<not> c \<Longrightarrow> f () = Inr y \<Longrightarrow> P) \<Longrightarrow> P"
  by (cases c) simp_all

lemma ok_or_okE:
  "and_then (ok_or e m) f = Inr y \<Longrightarrow> (\<And>x. m = Some x \<Longrightarrow> f x = Inr y \<Longrightarrow> P) \<Longrightarrow> P"
  by (cases m) simp_all

lemma triple_okE:
  "and_then m (\<lambda>(a, b, c). f a b c) = Inr y \<Longrightarrow>
   (\<And>a b c. m = Inr (a, b, c) \<Longrightarrow> f a b c = Inr y \<Longrightarrow> P) \<Longrightarrow> P"
  by (cases m) auto

lemma step_okE: "and_then m f = Inr y \<Longrightarrow> (\<And>x. m = Inr x \<Longrightarrow> f x = Inr y \<Longrightarrow> P) \<Longrightarrow> P"
  by (cases m) simp_all

lemmas handler_okE = guard_okE ok_or_okE triple_okE step_okE

section \<open>JSON\<close>

text \<open>
  \<open>serde_json::Value\<close>; an object is the list of its members in the order \<open>serde_json\<close> keeps them
  (sorted, without duplicates). A negative or fractional number is kept as its text.
\<close>

datatype json =
    JNull
  | JBool bool
  | JNat u64
  | JNumber string
  | JStr string
  | JArr "json list"
  | JObj "(string \<times> json) list"

fun json_get :: "string \<Rightarrow> json \<Rightarrow> json option" where
  "json_get k (JObj ms) = map_of ms k"
| "json_get k _ = None"

fun as_str :: "json \<Rightarrow> string option" where
  "as_str (JStr s) = Some s"
| "as_str _ = None"

fun as_u64 :: "json \<Rightarrow> u64 option" where
  "as_u64 (JNat n) = Some n"
| "as_u64 _ = None"

fun as_array :: "json \<Rightarrow> json list option" where
  "as_array (JArr js) = Some js"
| "as_array _ = None"

section \<open>Claims\<close>

record ec_jwk =
  jwk_kty :: string
  jwk_crv :: string
  jwk_x :: string
  jwk_y :: string

record dpop_header =
  hdr_alg :: string
  hdr_typ :: string
  hdr_jwk :: ec_jwk

record dpop_claims =
  dpop_htm :: string
  dpop_htu :: string
  dpop_iat :: u64
  dpop_jti :: string

record credential_proof_claims =
  cp_aud :: string
  cp_iat :: u64
  cp_nonce :: string

record binding_proof_claims =
  bp_aud :: string
  bp_iat :: u64
  bp_nonce :: string
  bp_jti :: string
  bp_pid_sd_hash :: string
  bp_new_holder_jkt :: string

record emrtd_mrz_claim =
  mrz_family_name :: string
  mrz_given_name :: string
  mrz_birthdate :: string
  mrz_nationality :: string
  mrz_issuing_country :: string
  mrz_document_number :: string
  mrz_date_of_expiry :: string

record emrtd_evidence_claims =
  em_aud :: string
  em_iat :: u64
  em_exp :: u64
  em_nonce :: string
  em_jti :: string
  em_new_holder_jkt :: string
  em_passive_authentication :: bool
  em_chip_authentic :: bool
  em_assurance :: string
  em_matched_portrait :: bool
  em_mrz :: emrtd_mrz_claim
  em_portrait :: "string option"

record pid_subject_claims =
  pid_family_name :: string
  pid_given_name :: string
  pid_birthdate :: string
  pid_nationality :: string
  pid_issuing_country :: string
  pid_age_over_18 :: bool
  pid_portrait :: "string option"

record verified_pid_binding =
  vpb_subject :: subject_id
  vpb_jti :: string

record verified_chip_liveness =
  vcl_subject :: subject_id
  vcl_jti :: string
  vcl_sod_passive_auth :: bool
  vcl_chip_authentic :: bool
  vcl_liveness_matched :: bool
  vcl_claims :: pid_subject_claims

record verified_credential_proof =
  vcp_holder_jkt :: string
  vcp_holder_jwk :: json
  vcp_nonce :: string

record verified_dpop =
  vd_jkt :: string
  vd_jti :: string

record tlsn_payload =
  tp_version :: string
  tp_session_id :: string
  tp_issued_at :: u64
  tp_verifier_output :: json

record signed_tlsn_artifact =
  ta_payload :: tlsn_payload
  ta_algorithm :: string
  ta_public_key :: string
  ta_signature :: string
  ta_pq_algorithm :: "string option"
  ta_pq_public_key :: "string option"
  ta_pq_signature :: "string option"

record verified_tlsn_evidence =
  vt_session_id :: string
  vt_issued_at :: u64
  vt_verifier_output :: json

section \<open>The packages\<close>

text \<open>
  The deserialisers that \<open>serde\<close> derives for the structures above, the JSON reader and writer,
  the date arithmetic of \<open>time\<close> and the URL operations of \<open>url\<close>.
\<close>

record serde_lib =
  json_from_slice :: "bytes \<Rightarrow> json option"
  json_to_vec :: "json \<Rightarrow> bytes"
  dpop_header_from_slice :: "bytes \<Rightarrow> dpop_header option"
  dpop_claims_from_slice :: "bytes \<Rightarrow> dpop_claims option"
  proof_claims_from_slice :: "bytes \<Rightarrow> credential_proof_claims option"
  ec_jwk_from_value :: "json \<Rightarrow> ec_jwk option"
  binding_claims_from_value :: "json \<Rightarrow> binding_proof_claims option"
  emrtd_claims_from_value :: "json \<Rightarrow> emrtd_evidence_claims option"
  tlsn_payload_to_vec :: "tlsn_payload \<Rightarrow> bytes option"

record time_lib =
  date_of_timestamp :: "int \<Rightarrow> (int \<times> nat \<times> nat) option"
  rfc3339_of_timestamp :: "int \<Rightarrow> string option"

text \<open>\<open>None\<close> is the error of \<open>Url::join\<close>, for a base that no path can be joined to.\<close>

record url_lib =
  url_join :: "string \<Rightarrow> string \<Rightarrow> string option"
  url_append_pair :: "string \<Rightarrow> string \<Rightarrow> string \<Rightarrow> string"

record ('k, 's) packages =
  ec :: "('k, 's) ecdsa_lib"
  pq :: mldsa_lib
  codec :: codec_lib
  serde :: serde_lib
  clock :: time_lib
  urls :: url_lib

section \<open>Profiles\<close>

definition PID_SD_JWT :: string where
  "PID_SD_JWT = ''eu.europa.ec.eudi.pid_vc_sd_jwt.de''"
definition PID_MDOC :: string where
  "PID_MDOC = ''eu.europa.ec.eudi.pid_mso_mdoc.de''"
definition EAA_MDOC :: string where
  "EAA_MDOC = ''org.iso.18013.5.1.mDL.de''"
definition QEAA_SD_JWT :: string where
  "QEAA_SD_JWT = ''urn:eu.europa.ec.eudi:learning:credential:1:dc+sd-jwt:de''"
definition QEAA_PID_BOUND_SD_JWT :: string where
  "QEAA_PID_BOUND_SD_JWT =
     ''urn:eu.europa.ec.eudi:learning:credential:1:dc+sd-jwt:de:pid-bound''"
definition PID_VCT :: string where
  "PID_VCT = ''eu.europa.ec.eudi.pid.1''"
definition PID_FROM_EMRTD_SD_JWT :: string where
  "PID_FROM_EMRTD_SD_JWT = ''eu.europa.ec.eudi.pid_vc_sd_jwt.de:nfc''"
definition PID_FROM_EMRTD_MDOC :: string where
  "PID_FROM_EMRTD_MDOC = ''eu.europa.ec.eudi.pid_mso_mdoc.de:nfc''"
definition EMRTD_REQUIRED_LIVENESS :: string where
  "EMRTD_REQUIRED_LIVENESS = ''iproov:gpa''"
definition MAX_EMRTD_EVIDENCE_BYTES :: nat where
  "MAX_EMRTD_EVIDENCE_BYTES = 256 * 1024"
definition DEV_SVIPE_PID_SD_JWT :: string where
  "DEV_SVIPE_PID_SD_JWT = ''dev.svipe.pid.sd-jwt''"
definition TLSN_EVIDENCE_SD_JWT :: string where
  "TLSN_EVIDENCE_SD_JWT = ''dev.advatar.tlsn.evidence.sd-jwt''"
definition TLSN_EVIDENCE_VCT :: string where
  "TLSN_EVIDENCE_VCT = ''dev.advatar.tlsn.evidence.1''"
definition HYBRID_PQ_SD_JWT :: string where
  "HYBRID_PQ_SD_JWT = ''dev.advatar.hybrid-pq.sd-jwt.v1''"
definition MANDATE_SD_JWT :: string where
  "MANDATE_SD_JWT = ''urn:eudi:mandate:1:dc+sd-jwt:de''"
definition MANDATE_LIFETIME_SECONDS :: u64 where
  "MANDATE_LIFETIME_SECONDS = 900"
definition DEMO_MANDATE_POWERS :: u64 where
  "DEMO_MANDATE_POWERS = 0b11"
definition TLSN_ARTIFACT_VERSION :: string where
  "TLSN_ARTIFACT_VERSION = ''tlsn.notary-artifact.v1''"
definition MAX_TLSN_ARTIFACT_BYTES :: nat where
  "MAX_TLSN_ARTIFACT_BYTES = 256 * 1024"
definition TLSN_EVIDENCE_LIFETIME_SECONDS :: u64 where
  "TLSN_EVIDENCE_LIFETIME_SECONDS = 300"
definition TLSN_ARTIFACT_PQ_ALGORITHM :: string where
  "TLSN_ARTIFACT_PQ_ALGORITHM = ''ML-DSA-65''"

definition is_nfc_pid :: "string \<Rightarrow> bool" where
  "is_nfc_pid profile \<longleftrightarrow> profile = PID_FROM_EMRTD_SD_JWT \<or> profile = PID_FROM_EMRTD_MDOC"

lemmas profile_defs =
  PID_SD_JWT_def PID_MDOC_def EAA_MDOC_def QEAA_SD_JWT_def QEAA_PID_BOUND_SD_JWT_def
  PID_FROM_EMRTD_SD_JWT_def PID_FROM_EMRTD_MDOC_def DEV_SVIPE_PID_SD_JWT_def
  TLSN_EVIDENCE_SD_JWT_def HYBRID_PQ_SD_JWT_def MANDATE_SD_JWT_def

text \<open>The profile identifiers are pairwise different, so the matches below do not overlap.\<close>

definition all_profiles :: "string list" where
  "all_profiles =
     [PID_SD_JWT, PID_FROM_EMRTD_SD_JWT, PID_FROM_EMRTD_MDOC, PID_MDOC, EAA_MDOC, QEAA_SD_JWT,
      QEAA_PID_BOUND_SD_JWT, DEV_SVIPE_PID_SD_JWT, TLSN_EVIDENCE_SD_JWT, HYBRID_PQ_SD_JWT,
      MANDATE_SD_JWT]"

lemma distinct_profiles: "distinct all_profiles"
  by code_simp

lemmas profiles_neq = distinct_profiles [unfolded all_profiles_def, simplified distinct.simps
    list.set insert_iff empty_iff de_Morgan_disj simp_thms]

end
