(* ===== verification/Proof_Verification.thy ===== *)
theory Proof_Verification
  imports Service_Types
begin

text \<open>
  The checks of \<open>main.rs\<close> that need no shared state: compact JWS, JWK thumbprints, the OpenID4VCI
  credential proof, the DPoP proof, PKCE, scopes and the calendar checks. Every error is returned
  in the order the code finds it. The clock is an argument: \<open>None\<close> is a clock before the epoch.
\<close>

section \<open>Small helpers\<close>

definition unix_time :: "u64 option \<Rightarrow> u64 oauth" where
  "unix_time clk = ok_or (oauth_error INTERNAL_SERVER_ERROR ''server_error''
     ''system clock is before the Unix epoch'') clk"

definition invalid_proof :: "string \<Rightarrow> oauth_error" where
  "invalid_proof description = oauth_error BAD_REQUEST ''invalid_proof'' description"

definition invalid_dpop :: "string \<Rightarrow> oauth_error" where
  "invalid_dpop description = oauth_error BAD_REQUEST ''invalid_dpop_proof'' description"

definition same_url :: "string \<Rightarrow> string \<Rightarrow> bool" where
  "same_url a b \<longleftrightarrow> trim_end_matches CHR ''/'' a = trim_end_matches CHR ''/'' b"

definition signing_input :: "string list \<Rightarrow> bytes" where
  "signing_input parts = as_bytes (parts ! 0 @ ''.'' @ parts ! 1)"

definition hash_b64 :: "codec_lib \<Rightarrow> string \<Rightarrow> string" where
  "hash_b64 c s = b64url_encode c (sha256 c (as_bytes s))"

text \<open>Accepted clock skew of 5 seconds into the future and an age of at most \<open>limit\<close> seconds.\<close>

definition stale :: "u64 \<Rightarrow> u64 \<Rightarrow> u64 \<Rightarrow> bool" where
  "stale limit iat now \<longleftrightarrow> saturating_add now 5 < iat \<or> limit < saturating_sub now iat"

definition hash_u128 :: "codec_lib \<Rightarrow> string \<Rightarrow> u128" where
  "hash_u128 c value = from_be_bytes (take 16 (sha256 c (as_bytes value)))"

definition pkce_matches :: "codec_lib \<Rightarrow> string \<Rightarrow> string \<Rightarrow> bool" where
  "pkce_matches c verifier challenge \<longleftrightarrow> hash_b64 c verifier = challenge"

definition valid_scope :: "string \<Rightarrow> bool \<Rightarrow> bool" where
  "valid_scope scope hybrid_pq_enabled \<longleftrightarrow>
     (let allowed = [PID_SD_JWT, PID_FROM_EMRTD_SD_JWT, PID_MDOC, EAA_MDOC, QEAA_SD_JWT,
            QEAA_PID_BOUND_SD_JWT, DEV_SVIPE_PID_SD_JWT, TLSN_EVIDENCE_SD_JWT, MANDATE_SD_JWT];
          items = split_ascii_whitespace scope
      in list_all (\<lambda>item. item \<in> set allowed \<or> hybrid_pq_enabled \<and> item = HYBRID_PQ_SD_JWT) items
         \<and> 0 < length items)"

definition key_label :: "string \<Rightarrow> string option" where
  "key_label profile =
     (if profile = PID_SD_JWT then Some ''pid-sd-jwt''
      else if profile = PID_FROM_EMRTD_SD_JWT then Some ''pid-from-emrtd-sd-jwt''
      else if profile = PID_FROM_EMRTD_MDOC then Some ''pid-from-emrtd-mdoc''
      else if profile = PID_MDOC then Some ''pid-mdoc''
      else if profile = EAA_MDOC then Some ''eaa-mdoc''
      else if profile = QEAA_SD_JWT then Some ''qeaa-sd-jwt''
      else if profile = QEAA_PID_BOUND_SD_JWT then Some ''qeaa-pid-bound-sd-jwt''
      else if profile = DEV_SVIPE_PID_SD_JWT then Some ''svipe-pid-sd-jwt''
      else if profile = TLSN_EVIDENCE_SD_JWT then Some ''tlsn-evidence-sd-jwt''
      else if profile = MANDATE_SD_JWT then Some ''mandate-sd-jwt''
      else None)"

definition single_credential_proof :: "string list \<Rightarrow> string option" where
  "single_credential_proof jwt = (case jwt of [proof] \<Rightarrow> Some proof | _ \<Rightarrow> None)"

definition bearer :: "string option \<Rightarrow> string oauth" where
  "bearer authorization =
     ok_or (oauth_error UNAUTHORIZED ''invalid_token'' ''DPoP access token is required'')
       (case authorization of None \<Rightarrow> None | Some v \<Rightarrow> strip_prefix ''DPoP '' v)"

section \<open>Keys and signatures\<close>

definition verifying_key_and_jwk ::
  "('k, 's) packages \<Rightarrow> ec_jwk \<Rightarrow> string \<Rightarrow> ('k \<times> string \<times> json) oauth" where
  "verifying_key_and_jwk pk jwk error_code =
     (let bad = oauth_error BAD_REQUEST error_code in
      and_then (guard_err (jwk_kty jwk \<noteq> ''EC'' \<or> jwk_crv jwk \<noteq> ''P-256'')
        (bad ''JWK must be an EC P-256 public key'')) (\<lambda>_.
      and_then (ok_or (bad ''JWK x is malformed'') (b64url_decode (codec pk) (jwk_x jwk))) (\<lambda>x.
      and_then (ok_or (bad ''JWK y is malformed'') (b64url_decode (codec pk) (jwk_y jwk))) (\<lambda>y.
      and_then (guard_err (length x \<noteq> 32 \<or> length y \<noteq> 32)
        (bad ''P-256 coordinates must be 32 octets'')) (\<lambda>_.
      and_then (ok_or (bad ''JWK is not a valid P-256 point'') (key_from_affine (ec pk) x y)) (\<lambda>key.
        Inr (key, hash_b64 (codec pk) (canonical_jwk (jwk_x jwk) (jwk_y jwk)),
             JObj [(''crv'', JStr ''P-256''), (''kty'', JStr ''EC''),
                   (''x'', JStr (jwk_x jwk)), (''y'', JStr (jwk_y jwk))])))))))"

definition verify_jws_payload ::
  "('k, 's) packages \<Rightarrow> string \<Rightarrow> 'k \<Rightarrow> string \<Rightarrow> json oauth" where
  "verify_jws_payload pk compact key label =
     (let parts = split_char CHR ''.'' compact in
      and_then (guard_err (length parts \<noteq> 3) (invalid_proof (label @ '' is not a compact JWS''))) (\<lambda>_.
      and_then (ok_or (invalid_proof (label @ '' signature is malformed''))
        (case b64url_decode (codec pk) (parts ! 2) of
           None \<Rightarrow> None | Some raw \<Rightarrow> sig_from_slice (ec pk) raw)) (\<lambda>sig.
      and_then (guard_err (\<not> ecdsa_verify (ec pk) key (signing_input parts) sig)
        (invalid_proof (label @ '' signature is invalid''))) (\<lambda>_.
      and_then (ok_or (invalid_proof (label @ '' payload is malformed''))
        (b64url_decode (codec pk) (parts ! 1))) (\<lambda>payload.
        ok_or (invalid_proof (label @ '' payload is not JSON''))
          (json_from_slice (serde pk) payload))))))"

definition verify_credential_proof ::
  "('k, 's) packages \<Rightarrow> string \<Rightarrow> string \<Rightarrow> u64 option \<Rightarrow> verified_credential_proof oauth" where
  "verify_credential_proof pk proof issuer clk =
     (let parts = split_char CHR ''.'' proof in
      and_then (guard_err (length parts \<noteq> 3)
        (invalid_proof ''credential proof must be a three-part compact JWS'')) (\<lambda>_.
      and_then (ok_or (invalid_proof ''credential proof header is malformed'')
        (b64url_decode (codec pk) (parts ! 0))) (\<lambda>header_bytes.
      and_then (ok_or (invalid_proof ''credential proof header is not valid JSON'')
        (dpop_header_from_slice (serde pk) header_bytes)) (\<lambda>header.
      and_then (guard_err (hdr_alg header \<noteq> ''ES256'' \<or> hdr_typ header \<noteq> ''openid4vci-proof+jwt'')
        (invalid_proof ''credential proof must use typ=openid4vci-proof+jwt and alg=ES256'')) (\<lambda>_.
      and_then (verifying_key_and_jwk pk (hdr_jwk header) ''invalid_proof'') (\<lambda>(key, jkt, jwk).
      and_then (ok_or (invalid_proof ''credential proof signature is malformed'')
        (b64url_decode (codec pk) (parts ! 2))) (\<lambda>signature_bytes.
      and_then (ok_or (invalid_proof ''credential proof signature must be ES256'')
        (sig_from_slice (ec pk) signature_bytes)) (\<lambda>sig.
      and_then (guard_err (\<not> ecdsa_verify (ec pk) key (signing_input parts) sig)
        (invalid_proof ''credential proof signature verification failed'')) (\<lambda>_.
      and_then (ok_or (invalid_proof ''credential proof claims are malformed'')
        (b64url_decode (codec pk) (parts ! 1))) (\<lambda>claims_bytes.
      and_then (ok_or (invalid_proof ''credential proof claims are not valid JSON'')
        (proof_claims_from_slice (serde pk) claims_bytes)) (\<lambda>claims.
      and_then (guard_err (\<not> same_url (cp_aud claims) issuer)
        (invalid_proof ''credential proof audience does not match the issuer'')) (\<lambda>_.
      and_then (unix_time clk) (\<lambda>now.
      and_then (guard_err (stale 300 (cp_iat claims) now)
        (invalid_proof ''credential proof iat is outside the accepted freshness window'')) (\<lambda>_.
      and_then (guard_err (cp_nonce claims = [] \<or> 256 < length (cp_nonce claims))
        (invalid_proof ''credential proof nonce is missing or too long'')) (\<lambda>_.
        Inr \<lparr>vcp_holder_jkt = jkt, vcp_holder_jwk = jwk, vcp_nonce = cp_nonce claims\<rparr>)))))))))))))))"

definition verify_dpop ::
  "('k, 's) packages \<Rightarrow> string \<Rightarrow> string \<Rightarrow> string \<Rightarrow> u64 option \<Rightarrow> verified_dpop oauth" where
  "verify_dpop pk proof expected_method expected_uri clk =
     (let parts = split_char CHR ''.'' proof in
      and_then (guard_err (length parts \<noteq> 3)
        (invalid_dpop ''DPoP proof must be a three-part compact JWS'')) (\<lambda>_.
      and_then (ok_or (invalid_dpop ''malformed protected header'')
        (b64url_decode (codec pk) (parts ! 0))) (\<lambda>decoded.
      and_then (ok_or (invalid_dpop ''protected header is not JSON'')
        (dpop_header_from_slice (serde pk) decoded)) (\<lambda>header.
      and_then (guard_err (hdr_alg header \<noteq> ''ES256'' \<or> hdr_typ header \<noteq> ''dpop+jwt'')
        (invalid_dpop ''DPoP protected header must use typ=dpop+jwt and alg=ES256'')) (\<lambda>_.
      and_then (guard_err (jwk_kty (hdr_jwk header) \<noteq> ''EC'' \<or> jwk_crv (hdr_jwk header) \<noteq> ''P-256'')
        (invalid_dpop ''DPoP jwk must be an EC P-256 public key'')) (\<lambda>_.
      and_then (ok_or (invalid_dpop ''DPoP jwk x coordinate is malformed'')
        (b64url_decode (codec pk) (jwk_x (hdr_jwk header)))) (\<lambda>x.
      and_then (ok_or (invalid_dpop ''DPoP jwk y coordinate is malformed'')
        (b64url_decode (codec pk) (jwk_y (hdr_jwk header)))) (\<lambda>y.
      and_then (guard_err (length x \<noteq> 32 \<or> length y \<noteq> 32)
        (invalid_dpop ''DPoP P-256 coordinates must be 32 octets'')) (\<lambda>_.
      and_then (ok_or (invalid_dpop ''DPoP jwk is not a valid P-256 point'')
        (key_from_affine (ec pk) x y)) (\<lambda>key.
      and_then (ok_or (invalid_dpop ''DPoP signature is malformed'')
        (b64url_decode (codec pk) (parts ! 2))) (\<lambda>signature_bytes.
      and_then (ok_or (invalid_dpop ''DPoP signature must be an ES256 signature'')
        (sig_from_slice (ec pk) signature_bytes)) (\<lambda>sig.
      and_then (guard_err (\<not> ecdsa_verify (ec pk) key (signing_input parts) sig)
        (invalid_dpop ''DPoP signature verification failed'')) (\<lambda>_.
      and_then (ok_or (invalid_dpop ''DPoP claims are malformed'')
        (b64url_decode (codec pk) (parts ! 1))) (\<lambda>claims_bytes.
      and_then (ok_or (invalid_dpop ''DPoP claims are not valid JSON'')
        (dpop_claims_from_slice (serde pk) claims_bytes)) (\<lambda>claims.
      and_then (guard_err (dpop_htm claims \<noteq> expected_method \<or>
          \<not> same_url (dpop_htu claims) expected_uri)
        (invalid_dpop ''DPoP htm or htu does not match this request'')) (\<lambda>_.
      and_then (guard_err (dpop_jti claims = [] \<or> 256 < length (dpop_jti claims))
        (invalid_dpop ''DPoP jti is missing or too long'')) (\<lambda>_.
      and_then (unix_time clk) (\<lambda>now.
      and_then (guard_err (stale 60 (dpop_iat claims) now)
        (invalid_dpop ''DPoP iat is outside the accepted freshness window'')) (\<lambda>_.
        Inr \<lparr>vd_jkt = hash_b64 (codec pk)
               (canonical_jwk (jwk_x (hdr_jwk header)) (jwk_y (hdr_jwk header))),
             vd_jti = dpop_jti claims\<rparr>)))))))))))))))))))"

section \<open>Dates\<close>

text \<open>\<open>str::parse\<close> of the integer types: an optional sign, at least one digit, in range.\<close>

definition is_digit :: "char \<Rightarrow> bool" where
  "is_digit c \<longleftrightarrow> 48 \<le> (of_char c :: nat) \<and> (of_char c :: nat) \<le> 57"

definition parse_digits :: "string \<Rightarrow> nat option" where
  "parse_digits s =
     (if s \<noteq> [] \<and> list_all is_digit s
      then Some (foldl (\<lambda>n c. 10 * n + (of_char c - 48)) 0 s) else None)"

definition parse_i32 :: "string \<Rightarrow> int option" where
  "parse_i32 s =
     (let (negative, digits) =
        (case s of CHR ''-'' # ds \<Rightarrow> (True, ds) | CHR ''+'' # ds \<Rightarrow> (False, ds) | _ \<Rightarrow> (False, s))
      in case parse_digits digits of
           None \<Rightarrow> None
         | Some n \<Rightarrow>
             (let i = (if negative then - int n else int n) in
              if - (2 ^ 31) \<le> i \<and> i < 2 ^ 31 then Some i else None))"

definition parse_u8 :: "string \<Rightarrow> nat option" where
  "parse_u8 s =
     (let digits = (case s of CHR ''+'' # ds \<Rightarrow> ds | _ \<Rightarrow> s)
      in case parse_digits digits of None \<Rightarrow> None | Some n \<Rightarrow> if n < 256 then Some n else None)"

text \<open>\<open>i32\<close> addition as a release build does it: it wraps.\<close>

definition wrapping_add_i32 :: "int \<Rightarrow> int \<Rightarrow> int" where
  "wrapping_add_i32 a b = (a + b + 2 ^ 31) mod 2 ^ 32 - 2 ^ 31"

definition nth_or_default :: "string list \<Rightarrow> nat \<Rightarrow> string" where
  "nth_or_default parts n = (if n < length parts then parts ! n else [])"

definition parse_date :: "string \<Rightarrow> (int \<times> nat \<times> nat) option" where
  "parse_date s =
     (let parts = split_char CHR ''-'' s in
      case (parse_i32 (nth_or_default parts 0), parse_u8 (nth_or_default parts 1),
            parse_u8 (nth_or_default parts 2)) of
        (Some year, Some month, Some day) \<Rightarrow> Some (year, month, day)
      | _ \<Rightarrow> None)"

definition today :: "time_lib \<Rightarrow> u64 \<Rightarrow> (int \<times> nat \<times> nat) option" where
  "today t now = (if unat now < 2 ^ 63 then date_of_timestamp t (uint now) else None)"

text \<open>The comparison of tuples is lexicographic.\<close>

fun date_less :: "int \<times> nat \<times> nat \<Rightarrow> int \<times> nat \<times> nat \<Rightarrow> bool" where
  "date_less (y, m, d) (y', m', d') \<longleftrightarrow> y < y' \<or> y = y' \<and> (m < m' \<or> m = m' \<and> d < d')"

definition age_over_18 :: "time_lib \<Rightarrow> string \<Rightarrow> u64 \<Rightarrow> bool" where
  "age_over_18 t birthdate_iso now =
     (case parse_date birthdate_iso of
        None \<Rightarrow> False
      | Some (year, month, day) \<Rightarrow>
          (case today t now of
             None \<Rightarrow> False
           | Some date \<Rightarrow> \<not> date_less date (wrapping_add_i32 year 18, month, day)))"

definition is_expired_document :: "time_lib \<Rightarrow> string \<Rightarrow> u64 \<Rightarrow> bool" where
  "is_expired_document t expiry_iso now =
     (case parse_date expiry_iso of
        None \<Rightarrow> True
      | Some expiry \<Rightarrow>
          (case today t now of None \<Rightarrow> True | Some date \<Rightarrow> date_less expiry date))"

section \<open>What the checks accept\<close>

lemma unix_time_ok_iff [ok_iff]: "unix_time clk = Inr now \<longleftrightarrow> clk = Some now"
  by (simp add: unix_time_def ok_iff)

lemma same_url_trans: "same_url a b \<Longrightarrow> same_url b c \<Longrightarrow> same_url a c"
  by (simp add: same_url_def)

text \<open>The thumbprint by which the service names a key.\<close>

definition jwk_thumbprint :: "('k, 's) packages \<Rightarrow> ec_jwk \<Rightarrow> string" where
  "jwk_thumbprint pk jwk = hash_b64 (codec pk) (canonical_jwk (jwk_x jwk) (jwk_y jwk))"

definition jwk_key :: "('k, 's) packages \<Rightarrow> ec_jwk \<Rightarrow> 'k \<Rightarrow> bool" where
  "jwk_key pk jwk key \<longleftrightarrow>
     jwk_kty jwk = ''EC'' \<and> jwk_crv jwk = ''P-256'' \<and>
     (\<exists>x y. b64url_decode (codec pk) (jwk_x jwk) = Some x \<and>
        b64url_decode (codec pk) (jwk_y jwk) = Some y \<and> length x = 32 \<and> length y = 32 \<and>
        key_from_affine (ec pk) x y = Some key)"

definition public_jwk_value :: "ec_jwk \<Rightarrow> json" where
  "public_jwk_value jwk = JObj [(''crv'', JStr ''P-256''), (''kty'', JStr ''EC''),
     (''x'', JStr (jwk_x jwk)), (''y'', JStr (jwk_y jwk))]"

lemma verifying_key_and_jwk_ok_iff [ok_iff]:
  "verifying_key_and_jwk pk jwk code = Inr (key, jkt, value) \<longleftrightarrow>
     jwk_key pk jwk key \<and> jkt = jwk_thumbprint pk jwk \<and> value = public_jwk_value jwk"
  unfolding verifying_key_and_jwk_def Let_def
  by (auto simp: ok_iff jwk_key_def jwk_thumbprint_def public_jwk_value_def)

text \<open>A compact JWS whose third part is a valid signature by \<open>key\<close> over the first two.\<close>

definition jws_signed_by :: "('k, 's) packages \<Rightarrow> string \<Rightarrow> 'k \<Rightarrow> bool" where
  "jws_signed_by pk compact key \<longleftrightarrow>
     (let parts = split_char CHR ''.'' compact in
      length parts = 3 \<and>
      (\<exists>raw sig. b64url_decode (codec pk) (parts ! 2) = Some raw \<and>
         sig_from_slice (ec pk) raw = Some sig \<and>
         ecdsa_verify (ec pk) key (signing_input parts) sig))"

definition jws_part :: "('k, 's) packages \<Rightarrow> string \<Rightarrow> nat \<Rightarrow> bytes option" where
  "jws_part pk compact n = b64url_decode (codec pk) (split_char CHR ''.'' compact ! n)"

lemma verify_jws_payload_ok_iff [ok_iff]:
  "verify_jws_payload pk compact key label = Inr v \<longleftrightarrow>
     jws_signed_by pk compact key \<and>
     (\<exists>b. jws_part pk compact 1 = Some b \<and> json_from_slice (serde pk) b = Some v)"
  by (auto simp: verify_jws_payload_def jws_signed_by_def jws_part_def ok_iff Let_def
      split: option.splits)

lemma verify_credential_proof_ok_iff [ok_iff]:
  "verify_credential_proof pk proof issuer clk = Inr v \<longleftrightarrow>
     (\<exists>hb header key cb claims now.
        jws_part pk proof 0 = Some hb \<and> dpop_header_from_slice (serde pk) hb = Some header \<and>
        hdr_alg header = ''ES256'' \<and> hdr_typ header = ''openid4vci-proof+jwt'' \<and>
        jwk_key pk (hdr_jwk header) key \<and> jws_signed_by pk proof key \<and>
        jws_part pk proof 1 = Some cb \<and> proof_claims_from_slice (serde pk) cb = Some claims \<and>
        same_url (cp_aud claims) issuer \<and> clk = Some now \<and> \<not> stale 300 (cp_iat claims) now \<and>
        cp_nonce claims \<noteq> [] \<and> length (cp_nonce claims) \<le> 256 \<and>
        v = \<lparr>vcp_holder_jkt = jwk_thumbprint pk (hdr_jwk header),
             vcp_holder_jwk = public_jwk_value (hdr_jwk header), vcp_nonce = cp_nonce claims\<rparr>)"
  unfolding verify_credential_proof_def jws_signed_by_def jws_part_def Let_def
  by (auto simp: ok_iff)

lemma verify_dpop_ok_iff [ok_iff]:
  "verify_dpop pk proof m uri clk = Inr v \<longleftrightarrow>
     (\<exists>hb header key cb claims now.
        jws_part pk proof 0 = Some hb \<and> dpop_header_from_slice (serde pk) hb = Some header \<and>
        hdr_alg header = ''ES256'' \<and> hdr_typ header = ''dpop+jwt'' \<and>
        jwk_key pk (hdr_jwk header) key \<and> jws_signed_by pk proof key \<and>
        jws_part pk proof 1 = Some cb \<and> dpop_claims_from_slice (serde pk) cb = Some claims \<and>
        dpop_htm claims = m \<and> same_url (dpop_htu claims) uri \<and>
        dpop_jti claims \<noteq> [] \<and> length (dpop_jti claims) \<le> 256 \<and>
        clk = Some now \<and> \<not> stale 60 (dpop_iat claims) now \<and>
        v = \<lparr>vd_jkt = jwk_thumbprint pk (hdr_jwk header), vd_jti = dpop_jti claims\<rparr>)"
  unfolding verify_dpop_def jws_signed_by_def jws_part_def jwk_key_def jwk_thumbprint_def Let_def
  by (auto simp: ok_iff)

end
