(* ===== verification/Evidence_Verification.thy ===== *)
theory Evidence_Verification
  imports Proof_Verification Hybrid_Codec
begin

text \<open>
  The evidence a credential request may carry, as \<open>main.rs\<close> verifies it: the cross-attestation of
  an existing PID, the attestation of a trusted \<open>eMRTD\<close> reader, and the artifact of a TLSNotary
  notary, with the reservation of its session.
\<close>

section \<open>The PID binding\<close>

text \<open>The loop over the disclosures, with the three claims found so far.\<close>

record pid_disclosures =
  found_family_name :: "string option"
  found_given_name :: "string option"
  found_birthdate :: "string option"

definition no_disclosures :: pid_disclosures where
  "no_disclosures = \<lparr>found_family_name = None, found_given_name = None, found_birthdate = None\<rparr>"

definition record_disclosure :: "json list \<Rightarrow> pid_disclosures \<Rightarrow> pid_disclosures" where
  "record_disclosure values acc =
     (if length values \<noteq> 3 then acc
      else if as_str (values ! 1) = Some ''family_name''
        then acc\<lparr>found_family_name := as_str (values ! 2)\<rparr>
      else if as_str (values ! 1) = Some ''given_name''
        then acc\<lparr>found_given_name := as_str (values ! 2)\<rparr>
      else if as_str (values ! 1) = Some ''birthdate''
        then acc\<lparr>found_birthdate := as_str (values ! 2)\<rparr>
      else acc)"

fun read_disclosures ::
  "('k, 's) packages \<Rightarrow> string list \<Rightarrow> string list \<Rightarrow> pid_disclosures \<Rightarrow> pid_disclosures oauth" where
  "read_disclosures pk allowed [] acc = Inr acc"
| "read_disclosures pk allowed (encoded # rest) acc =
     and_then (guard_err (hash_b64 (codec pk) encoded \<notin> set allowed)
       (invalid_proof ''PID disclosure is not committed by the issuer'')) (\<lambda>_.
     and_then (ok_or (invalid_proof ''PID disclosure is malformed'')
       (b64url_decode (codec pk) encoded)) (\<lambda>decoded.
     and_then (ok_or (invalid_proof ''PID disclosure is not JSON'')
       (json_from_slice (serde pk) decoded)) (\<lambda>disclosure.
     and_then (ok_or (invalid_proof ''PID disclosure is not an array'')
       (as_array disclosure)) (\<lambda>values.
       read_disclosures pk allowed rest (record_disclosure values acc)))))"

text \<open>\<open>Value::pointer("/cnf/jwk")\<close> on a payload whose \<open>cnf\<close> is an object.\<close>

definition cnf_jwk :: "json \<Rightarrow> json option" where
  "cnf_jwk payload =
     (case json_get ''cnf'' payload of None \<Rightarrow> None | Some cnf \<Rightarrow> json_get ''jwk'' cnf)"

definition claim_str :: "string \<Rightarrow> json \<Rightarrow> string option" where
  "claim_str key payload = (case json_get key payload of None \<Rightarrow> None | Some v \<Rightarrow> as_str v)"

definition claim_u64 :: "string \<Rightarrow> json \<Rightarrow> u64 option" where
  "claim_u64 key payload = (case json_get key payload of None \<Rightarrow> None | Some v \<Rightarrow> as_u64 v)"

definition claim_array :: "string \<Rightarrow> json \<Rightarrow> json list option" where
  "claim_array key payload = (case json_get key payload of None \<Rightarrow> None | Some v \<Rightarrow> as_array v)"

fun filter_map :: "('a \<Rightarrow> 'b option) \<Rightarrow> 'a list \<Rightarrow> 'b list" where
  "filter_map f [] = []"
| "filter_map f (x # xs) = (case f x of None \<Rightarrow> filter_map f xs | Some y \<Rightarrow> y # filter_map f xs)"

definition pid_validity_ok :: "json \<Rightarrow> string \<Rightarrow> u64 \<Rightarrow> bool" where
  "pid_validity_ok payload issuer now \<longleftrightarrow>
     map_option (trim_end_matches CHR ''/'') (claim_str ''iss'' payload) =
       Some (trim_end_matches CHR ''/'' issuer) \<and>
     (case claim_u64 ''nbf'' payload of None \<Rightarrow> False | Some nbf \<Rightarrow> nbf \<le> now) \<and>
     (case claim_u64 ''exp'' payload of None \<Rightarrow> False | Some e \<Rightarrow> now < e)"

definition binding_claims_ok ::
  "('k, 's) packages \<Rightarrow> binding_proof_claims \<Rightarrow> string \<Rightarrow> string \<Rightarrow> string \<Rightarrow> string \<Rightarrow> u64 \<Rightarrow> bool" where
  "binding_claims_ok pk claims issuer exp_nonce expected_jkt issuer_jwt now \<longleftrightarrow>
     \<not> (\<not> same_url (bp_aud claims) issuer
        \<or> bp_nonce claims \<noteq> exp_nonce
        \<or> bp_new_holder_jkt claims \<noteq> expected_jkt
        \<or> bp_pid_sd_hash claims \<noteq> hash_b64 (codec pk) issuer_jwt
        \<or> bp_jti claims = [] \<or> 256 < length (bp_jti claims)
        \<or> stale 300 (bp_iat claims) now)"

definition last_or_none :: "'a list \<Rightarrow> 'a option" where
  "last_or_none xs = (if xs = [] then None else Some (last xs))"

definition canonical_pid_subject :: "string \<Rightarrow> string \<Rightarrow> string \<Rightarrow> string" where
  "canonical_pid_subject family given birth = family @ [CHR 0x1F] @ given @ [CHR 0x1F] @ birth"

text \<open>The presentation up to its first \<open>~\<close>, and the non-empty pieces after it.\<close>

definition pid_vp_parts :: "string \<Rightarrow> string \<times> string list" where
  "pid_vp_parts pid_vp =
     (let parts = split_char CHR ''~'' pid_vp
      in (hd parts, filter (\<lambda>part. part \<noteq> []) (tl parts)))"

definition verify_pid_binding ::
  "('k, 's) packages \<Rightarrow> string \<Rightarrow> string \<Rightarrow> json \<Rightarrow> string \<Rightarrow> string \<Rightarrow> string \<Rightarrow> u64 \<Rightarrow>
     verified_pid_binding oauth" where
  "verify_pid_binding pk pid_vp proof_jwt trusted_pid_issuer_jwk issuer exp_nonce
       expected_new_holder_jkt now =
     and_then (guard_err (32768 < length pid_vp \<or> 8192 < length proof_jwt)
       (invalid_proof ''PID binding evidence exceeds the accepted size'')) (\<lambda>_.
     let issuer_jwt = fst (pid_vp_parts pid_vp);
         tail = snd (pid_vp_parts pid_vp) in
     and_then (guard_err (issuer_jwt = [] \<or> last_or_none tail \<noteq> Some proof_jwt)
       (invalid_proof ''PID VP must end in the supplied cross-attestation proof JWT'')) (\<lambda>_.
     and_then (ok_or (oauth_error INTERNAL_SERVER_ERROR ''server_error''
         ''configured PID issuer key is malformed'')
       (ec_jwk_from_value (serde pk) trusted_pid_issuer_jwk)) (\<lambda>trusted_jwk.
     and_then (verifying_key_and_jwk pk trusted_jwk ''invalid_proof'') (\<lambda>(issuer_key, _, _).
     and_then (verify_jws_payload pk issuer_jwt issuer_key ''PID credential'') (\<lambda>pid_payload.
     and_then (guard_err (claim_str ''vct'' pid_payload \<noteq> Some PID_VCT)
       (invalid_proof ''presented credential is not the required PID type'')) (\<lambda>_.
     and_then (guard_err (\<not> pid_validity_ok pid_payload issuer now)
       (invalid_proof ''presented PID issuer or validity interval is not accepted'')) (\<lambda>_.
     and_then (ok_or (invalid_proof ''PID has no selective-disclosure digests'')
       (claim_array ''_sd'' pid_payload)) (\<lambda>sd.
     let allowed_disclosures = filter_map as_str sd in
     and_then (ok_or (invalid_proof ''PID has no holder key'') (cnf_jwk pid_payload)) (\<lambda>holder_value.
     and_then (ok_or (invalid_proof ''PID holder key is malformed'')
       (ec_jwk_from_value (serde pk) holder_value)) (\<lambda>pid_holder_jwk.
     and_then (verifying_key_and_jwk pk pid_holder_jwk ''invalid_proof'') (\<lambda>(pid_holder_key, _, _).
     and_then (verify_jws_payload pk proof_jwt pid_holder_key ''PID binding proof'') (\<lambda>proof_payload.
     and_then (ok_or (invalid_proof ''PID binding proof claims are malformed'')
       (binding_claims_from_value (serde pk) proof_payload)) (\<lambda>claims.
     and_then (guard_err (\<not> binding_claims_ok pk claims issuer exp_nonce
         expected_new_holder_jkt issuer_jwt now)
       (invalid_proof ''PID binding proof is stale or does not bind this PID, nonce, issuer, and new holder key'')) (\<lambda>_.
     and_then (read_disclosures pk allowed_disclosures (butlast tail) no_disclosures) (\<lambda>found.
     and_then (guard_err (found_family_name found \<noteq> Some ''Mustermann''
         \<or> found_given_name found \<noteq> Some ''Erika'' \<or> found_birthdate found \<noteq> Some ''1990-01-01'')
       (oauth_error FORBIDDEN ''credential_request_denied''
         ''PID subject does not match the authoritative education record'')) (\<lambda>_.
     and_then (ok_or (panic ''matched'') (found_family_name found)) (\<lambda>family_name.
     and_then (ok_or (panic ''matched'') (found_given_name found)) (\<lambda>given_name.
     and_then (ok_or (panic ''matched'') (found_birthdate found)) (\<lambda>birthdate.
       Inr \<lparr>vpb_subject =
              Id (hash_u128 (codec pk) (canonical_pid_subject family_name given_name birthdate)),
            vpb_jti = bp_jti claims\<rparr>)))))))))))))))))))"

section \<open>The eMRTD attestation\<close>

definition mrz_fields :: "emrtd_mrz_claim \<Rightarrow> string list" where
  "mrz_fields mrz =
     [mrz_family_name mrz, mrz_given_name mrz, mrz_birthdate mrz, mrz_nationality mrz,
      mrz_issuing_country mrz, mrz_document_number mrz]"

definition accepted_portrait :: "string option \<Rightarrow> string option oauth" where
  "accepted_portrait portrait =
     (case portrait of
        None \<Rightarrow> Inr None
      | Some p \<Rightarrow>
          if MAX_EMRTD_EVIDENCE_BYTES < length p
          then Inl (invalid_proof ''`eMRTD` portrait exceeds the accepted size'')
          else if trim p = [] then Inr None
          else Inr (Some p))"

definition verify_emrtd_evidence ::
  "('k, 's) packages \<Rightarrow> string \<Rightarrow> bytes \<Rightarrow> string \<Rightarrow> string \<Rightarrow> string \<Rightarrow> u64 \<Rightarrow>
     verified_chip_liveness oauth" where
  "verify_emrtd_evidence pk attestation trusted_reader_key issuer exp_nonce
       expected_new_holder_jkt now =
     and_then (guard_err (MAX_EMRTD_EVIDENCE_BYTES < length attestation)
       (invalid_proof ''`eMRTD` evidence attestation exceeds the accepted size'')) (\<lambda>_.
     and_then (ok_or (oauth_error INTERNAL_SERVER_ERROR ''server_error''
         ''configured `eMRTD` reader key is malformed'')
       (key_from_sec1 (ec pk) trusted_reader_key)) (\<lambda>key.
     and_then (verify_jws_payload pk attestation key ''`eMRTD` evidence'') (\<lambda>payload.
     and_then (ok_or (invalid_proof ''`eMRTD` evidence attestation is missing required claims'')
       (emrtd_claims_from_value (serde pk) payload)) (\<lambda>claims.
     and_then (guard_err (\<not> same_url (em_aud claims) issuer \<or> now < em_iat claims
         \<or> em_exp claims \<le> now)
       (invalid_proof ''`eMRTD` evidence audience or validity interval is not accepted'')) (\<lambda>_.
     and_then (guard_err (em_nonce claims \<noteq> exp_nonce
         \<or> em_new_holder_jkt claims \<noteq> expected_new_holder_jkt)
       (invalid_proof ''`eMRTD` evidence is not bound to this session and holder key'')) (\<lambda>_.
     and_then (guard_err (\<not> str_contains (em_assurance claims) EMRTD_REQUIRED_LIVENESS)
       (invalid_proof ''`eMRTD` evidence lacks the required genuine-presence liveness assurance'')) (\<lambda>_.
     and_then (guard_err (is_expired_document (clock pk) (mrz_date_of_expiry (em_mrz claims)) now)
       (invalid_proof ''the read travel document is expired'')) (\<lambda>_.
     and_then (for_each (\<lambda>value. guard_err (trim value = [] \<or> 512 < length value)
         (invalid_proof ''`eMRTD` evidence identity claim is missing or oversized''))
       (mrz_fields (em_mrz claims))) (\<lambda>_.
     and_then (accepted_portrait (em_portrait claims)) (\<lambda>portrait.
       Inr \<lparr>vcl_subject = Id (hash_u128 (codec pk) (''emrtd:'' @
              mrz_issuing_country (em_mrz claims) @ '':'' @ mrz_document_number (em_mrz claims))),
            vcl_jti = em_jti claims,
            vcl_sod_passive_auth = em_passive_authentication claims,
            vcl_chip_authentic = em_chip_authentic claims,
            vcl_liveness_matched = em_matched_portrait claims,
            vcl_claims =
              \<lparr>pid_family_name = mrz_family_name (em_mrz claims),
               pid_given_name = mrz_given_name (em_mrz claims),
               pid_birthdate = mrz_birthdate (em_mrz claims),
               pid_nationality = mrz_nationality (em_mrz claims),
               pid_issuing_country = mrz_issuing_country (em_mrz claims),
               pid_age_over_18 = age_over_18 (clock pk) (mrz_birthdate (em_mrz claims)) now,
               pid_portrait = portrait\<rparr>\<rparr>))))))))))"

section \<open>The TLSNotary artifact\<close>

definition invalid_evidence :: "nat \<Rightarrow> string \<Rightarrow> oauth_error" where
  "invalid_evidence status description = oauth_error status ''invalid_evidence'' description"

definition default_str :: "string option \<Rightarrow> string" where
  "default_str s = (case s of None \<Rightarrow> [] | Some v \<Rightarrow> v)"

text \<open>The second signature: required exactly when a post-quantum notary key is configured.\<close>

definition verify_tlsn_pq ::
  "('k, 's) packages \<Rightarrow> signed_tlsn_artifact \<Rightarrow> bytes option \<Rightarrow> bytes \<Rightarrow> unit oauth" where
  "verify_tlsn_pq pk artifact trusted_pq_key message =
     (case trusted_pq_key of
        None \<Rightarrow> Inr ()
      | Some pq_key \<Rightarrow>
          and_then (guard_err (ta_pq_algorithm artifact \<noteq> Some TLSN_ARTIFACT_PQ_ALGORITHM)
            (invalid_evidence BAD_REQUEST
               ''a post-quantum notary signature is required but missing or of an unknown algorithm''))
            (\<lambda>_.
          and_then (ok_or (invalid_evidence BAD_REQUEST
              ''TLSNotary post-quantum public key is malformed'')
            (b64url_decode (codec pk) (default_str (ta_pq_public_key artifact)))) (\<lambda>embedded_pq_key.
          and_then (guard_err (embedded_pq_key \<noteq> pq_key)
            (invalid_evidence FORBIDDEN
               ''TLSNotary artifact was not post-quantum signed by the configured notary'')) (\<lambda>_.
          and_then (ok_or (invalid_evidence BAD_REQUEST
              ''TLSNotary post-quantum signature is malformed'')
            (b64url_decode (codec pk) (default_str (ta_pq_signature artifact)))) (\<lambda>pq_signature.
            (case verify_signature (pq pk) pq_key message pq_signature of
               Inl _ \<Rightarrow> Inl (invalid_evidence FORBIDDEN
                 ''TLSNotary post-quantum signature verification failed'')
             | Inr _ \<Rightarrow> Inr ()))))))"

definition verify_tlsn_artifact ::
  "('k, 's) packages \<Rightarrow> signed_tlsn_artifact \<Rightarrow> bytes \<Rightarrow> bytes option \<Rightarrow> u64 \<Rightarrow>
     verified_tlsn_evidence oauth" where
  "verify_tlsn_artifact pk artifact trusted_key trusted_pq_key now =
     (let payload = ta_payload artifact in
      and_then (guard_err (tp_version payload \<noteq> TLSN_ARTIFACT_VERSION
          \<or> ta_algorithm artifact \<noteq> ''ES256'')
        (invalid_evidence BAD_REQUEST ''unsupported TLSNotary artifact version or algorithm'')) (\<lambda>_.
      and_then (guard_err (tp_session_id payload = [] \<or> 256 < length (tp_session_id payload)
          \<or> stale TLSN_EVIDENCE_LIFETIME_SECONDS (tp_issued_at payload) now)
        (invalid_evidence BAD_REQUEST
           ''TLSNotary artifact is stale, future-dated, or has an invalid session identifier'')) (\<lambda>_.
      and_then (ok_or (invalid_evidence BAD_REQUEST
          ''TLSNotary artifact payload cannot be encoded'')
        (tlsn_payload_to_vec (serde pk) payload)) (\<lambda>message.
      and_then (guard_err (MAX_TLSN_ARTIFACT_BYTES < length message)
        (invalid_evidence PAYLOAD_TOO_LARGE ''TLSNotary artifact exceeds the accepted size'')) (\<lambda>_.
      and_then (ok_or (invalid_evidence BAD_REQUEST ''TLSNotary public key is malformed'')
        (b64url_decode (codec pk) (ta_public_key artifact))) (\<lambda>embedded_key.
      and_then (guard_err (embedded_key \<noteq> trusted_key)
        (invalid_evidence FORBIDDEN
           ''TLSNotary artifact was not signed by the configured notary'')) (\<lambda>_.
      and_then (ok_or (invalid_evidence BAD_REQUEST ''TLSNotary signature is malformed'')
        (b64url_decode (codec pk) (ta_signature artifact))) (\<lambda>signature_bytes.
      and_then (ok_or (invalid_evidence BAD_REQUEST
          ''TLSNotary signature has an invalid length'')
        (sig_from_slice (ec pk) signature_bytes)) (\<lambda>sig.
      and_then (ok_or (oauth_error INTERNAL_SERVER_ERROR ''server_error''
          ''configured TLSNotary key is invalid'')
        (key_from_sec1 (ec pk) trusted_key)) (\<lambda>key.
      and_then (guard_err (\<not> ecdsa_verify (ec pk) key message sig)
        (invalid_evidence FORBIDDEN ''TLSNotary artifact signature verification failed'')) (\<lambda>_.
      and_then (verify_tlsn_pq pk artifact trusted_pq_key message) (\<lambda>_.
        Inr \<lparr>vt_session_id = tp_session_id payload, vt_issued_at = tp_issued_at payload,
             vt_verifier_output = tp_verifier_output payload\<rparr>))))))))))))"

definition reserve_tlsn_session :: "string set \<Rightarrow> string \<Rightarrow> unit oauth \<times> string set" where
  "reserve_tlsn_session sessions session_id =
     (if session_id \<notin> sessions then (Inr (), insert session_id sessions)
      else (Inl (oauth_error CONFLICT ''invalid_request''
              ''TLSNotary session has already created an issuance offer''), sessions))"

end
