(* ===== verification/Authorize_Kernel.thy ===== *)
theory Authorize_Kernel
  imports Evidence_Verification
begin

text \<open>
  \<open>authorize_kernel\<close> of \<open>main.rs\<close>: the session and the request the service builds for a profile,
  and the decision of the kernel on them. The two random tokens the session and request identifiers
  are hashed from are arguments.
\<close>

definition profile_role :: "string \<Rightarrow> issuer_role option" where
  "profile_role name =
     (if name \<in> set [PID_SD_JWT, PID_FROM_EMRTD_SD_JWT, PID_FROM_EMRTD_MDOC, PID_MDOC]
        then Some Pid
      else if name \<in> set [QEAA_SD_JWT, QEAA_PID_BOUND_SD_JWT, DEV_SVIPE_PID_SD_JWT]
        then Some Qeaa
      else if name = EAA_MDOC then Some NonQualifiedEaa
      else if name \<in> set [TLSN_EVIDENCE_SD_JWT, HYBRID_PQ_SD_JWT] then Some DevelopmentEvidence
      else if name = MANDATE_SD_JWT then Some Representation
      else None)"

text \<open>\<open>None\<close> is the arm \<open>unreachable!\<close>.\<close>

definition profile_format :: "string \<Rightarrow> credential_format option" where
  "profile_format name =
     (if name \<in> set [PID_SD_JWT, PID_FROM_EMRTD_SD_JWT, QEAA_SD_JWT, QEAA_PID_BOUND_SD_JWT,
           DEV_SVIPE_PID_SD_JWT, TLSN_EVIDENCE_SD_JWT, HYBRID_PQ_SD_JWT, MANDATE_SD_JWT]
        then Some SdJwtVc
      else if name \<in> set [PID_FROM_EMRTD_MDOC, PID_MDOC, EAA_MDOC] then Some Mdoc
      else None)"

definition demo_mandate_delegation ::
  "subject_id \<Rightarrow> key_thumbprint \<Rightarrow> evidence \<Rightarrow> delegation \<times> powers" where
  "demo_mandate_delegation who key ev =
     (\<lparr>delegator_evidence = ev, delegator = who, delegate_key = key,
       grant = Powers TAXONOMY_MASK, mandate_not_revoked = True\<rparr>,
      Powers DEMO_MANDATE_POWERS)"

record mandate_grant =
  mg_on_behalf_of :: subject_id
  mg_granted_powers :: powers

definition kernel_evidence :: "u64 \<Rightarrow> evidence" where
  "kernel_evidence now =
     \<lparr>valid_from = Instant (saturating_sub now 1), valid_until = Instant (saturating_add now 300),
      fresh_until = Instant (saturating_add now 60), accepted = True\<rparr>"

definition kernel_profile ::
  "codec_lib \<Rightarrow> string \<Rightarrow> issuer_role \<Rightarrow> credential_format \<Rightarrow> credential_profile" where
  "kernel_profile c name r fmt =
     \<lparr>prof_id = Id (hash_u128 c name), role = r, format = fmt, enabled = True,
      device_binding_required = True, pid_binding_required = (name = QEAA_PID_BOUND_SD_JWT),
      require_hybrid_pq = False, require_chip_liveness = is_nfc_pid name\<rparr>"

definition kernel_subject ::
  "codec_lib \<Rightarrow> subject_id option \<Rightarrow> verified_chip_liveness option \<Rightarrow> subject_id" where
  "kernel_subject c pid_subject chip =
     (case chip of
        Some v \<Rightarrow> vcl_subject v
      | None \<Rightarrow> (case pid_subject of
                  Some s \<Rightarrow> s
                | None \<Rightarrow> Id (hash_u128 c ''demo-education-subject'')))"

definition kernel_request ::
  "codec_lib \<Rightarrow> string \<Rightarrow> string \<Rightarrow> string \<Rightarrow> subject_id \<Rightarrow> powers \<Rightarrow> string \<Rightarrow> u64 \<Rightarrow> request" where
  "kernel_request c name holder_jkt nonce subject requested rnd now =
     \<lparr>req_id = Id (hash_u128 c rnd), req_profile = Id (hash_u128 c name), req_subject = subject,
      req_dataset = Id (hash_u128 c name), req_dpop_key = Id (hash_u128 c holder_jkt),
      req_proof = \<lparr>proof_evidence = kernel_evidence now, proof_nonce = Id (hash_u128 c nonce),
                   proof_holder_key = Id (hash_u128 c holder_jkt), possession_valid = True\<rparr>,
      req_expiry = Instant (saturating_add now 3600), requested_powers = requested\<rparr>"

definition chip_all_verdicts :: "verified_chip_liveness \<Rightarrow> bool" where
  "chip_all_verdicts v \<longleftrightarrow>
     vcl_sod_passive_auth v \<and> vcl_chip_authentic v \<and> vcl_liveness_matched v"

definition kernel_session ::
  "codec_lib \<Rightarrow> string \<Rightarrow> issuer_role \<Rightarrow> credential_format \<Rightarrow> string \<Rightarrow> string \<Rightarrow> subject_id \<Rightarrow>
     subject_id option \<Rightarrow> verified_chip_liveness option \<Rightarrow> delegation option \<Rightarrow> string \<Rightarrow> u64 \<Rightarrow> session" where
  "kernel_session c name r fmt holder_jkt nonce subject pid_subject chip deleg rnd now =
     (let ev = kernel_evidence now in
      \<lparr>sess_id = Id (hash_u128 c rnd), sess_profile = kernel_profile c name r fmt,
       sess_authorization = \<lparr>auth_evidence = ev, auth_profile = Id (hash_u128 c name),
                             auth_subject = subject, auth_dataset = Id (hash_u128 c name)\<rparr>,
       sess_token = \<lparr>token_evidence = ev, token_dpop_key = Id (hash_u128 c holder_jkt)\<rparr>,
       sess_wallet = \<lparr>wia = ev, ka = Some ev, wallet_not_revoked = True,
                      holder_key_approved = True\<rparr>,
       sess_subject = \<lparr>subj_evidence = ev, subj_subject = subject,
                       loa_high = (if is_nfc_pid name
                                   then (case chip of None \<Rightarrow> False | Some v \<Rightarrow> chip_all_verdicts v)
                                   else True),
                       entitled = True, claims_current = True,
                       subj_dataset = Id (hash_u128 c name),
                       pid_binding_verified = (pid_subject \<noteq> None)\<rparr>,
       expected_nonce = Id (hash_u128 c nonce), nonce_unused = True, issuer_entitled = True,
       status_reserved = True, already_issued = False,
       wia_ka_maintenance_end = Instant (saturating_add now 86400), hybrid_pq_bound = False,
       sess_delegation = deleg,
       chip_evidence = map_option (\<lambda>v. \<lparr>chip_window = ev, chip_subject = vcl_subject v,
         sod_passive_auth = vcl_sod_passive_auth v, chip_authentic = vcl_chip_authentic v,
         liveness_matched = vcl_liveness_matched v\<rparr>) chip\<rparr>)"

definition authorize_kernel ::
  "codec_lib \<Rightarrow> string \<Rightarrow> string \<Rightarrow> string \<Rightarrow> subject_id option \<Rightarrow> verified_chip_liveness option \<Rightarrow>
     u64 \<Rightarrow> string \<Rightarrow> string \<Rightarrow> mandate_grant option oauth" where
  "authorize_kernel c name holder_jkt nonce pid_subject chip now rnd_request rnd_session =
     (case profile_role name of
        None \<Rightarrow> Inl (oauth_error BAD_REQUEST ''unknown_credential_configuration''
                      ''credential configuration is unknown'')
      | Some r \<Rightarrow>
          and_then (ok_or (panic ''profile was checked above'') (profile_format name)) (\<lambda>fmt.
          and_then (guard_err ((name = QEAA_PID_BOUND_SD_JWT \<or> name = MANDATE_SD_JWT)
              \<and> pid_subject = None)
            (oauth_error FORBIDDEN ''credential_request_denied''
               ''PID-bound issuance has no verified PID subject'')) (\<lambda>_.
          and_then (guard_err (is_nfc_pid name \<and> chip = None)
            (oauth_error FORBIDDEN ''credential_request_denied''
               ''NFC-sourced PID issuance has no verified chip + liveness evidence'')) (\<lambda>_.
          let subject = kernel_subject c pid_subject chip;
              mandate_context =
                (if r = Representation
                 then Some (demo_mandate_delegation subject (Id (hash_u128 c holder_jkt))
                        (kernel_evidence now))
                 else None);
              requested = (case mandate_context of None \<Rightarrow> Powers 0 | Some (_, p) \<Rightarrow> p);
              request = kernel_request c name holder_jkt nonce subject requested rnd_request now;
              session = kernel_session c name r fmt holder_jkt nonce subject pid_subject chip
                (map_option fst mandate_context) rnd_session now
          in case authorize_sign session request (Instant now) of
               Inl _ \<Rightarrow> Inl (oauth_error FORBIDDEN ''credential_request_denied''
                         ''verified issuer kernel denied the signing command'')
             | Inr command \<Rightarrow>
                 Inr (map_option (\<lambda>who. \<lparr>mg_on_behalf_of = who,
                        mg_granted_powers = granted_powers command\<rparr>) (on_behalf_of command))))))"

section \<open>When the kernel is satisfied\<close>

lemma kernel_evidence_usable:
  "usable_at (kernel_evidence now) (Instant now) \<longleftrightarrow> now \<noteq> - 1"
proof -
  have "now < saturating_add now 300 \<longleftrightarrow> now \<noteq> - 1"
    using saturating_add_gt [of now 300] saturating_add_max [of "300 :: u64"] by auto
  then show ?thesis
    by (simp add: usable_at_def kernel_evidence_def saturating_sub_le saturating_add_ge)
qed

lemma profile_role_nfc: "is_nfc_pid name \<Longrightarrow> profile_role name = Some Pid"
  by (auto simp: is_nfc_pid_def profile_role_def)

lemma profile_format_Some: "profile_role name = Some r \<Longrightarrow> \<exists>fmt. profile_format name = Some fmt"
  by (auto simp: profile_role_def profile_format_def split: if_splits)

lemma profile_role_Representation_iff: "profile_role name = Some Representation \<longleftrightarrow> name = MANDATE_SD_JWT"
  using profiles_neq by (auto simp: profile_role_def split: if_splits)

lemma demo_mandate_powers: "\<not> is_empty (Powers DEMO_MANDATE_POWERS)"
  "subset_of (Powers DEMO_MANDATE_POWERS) (Powers TAXONOMY_MASK)"
  by (simp_all add: is_empty_def subset_of_def DEMO_MANDATE_POWERS_def TAXONOMY_MASK_eval)

lemma kernel_representation_ok:
  assumes "r = Representation \<Longrightarrow>
      deleg = Some (fst (demo_mandate_delegation subject (Id (hash_u128 c jkt)) (kernel_evidence now)))
      \<and> requested = Powers DEMO_MANDATE_POWERS"
    and "now \<noteq> - 1"
  shows "representation_ok
     (kernel_session c name r fmt jkt nonce subject pid chip deleg rnd now)
     (kernel_request c name jkt nonce subject requested rnd' now) (Instant now)"
proof (cases "r = Representation")
  case True
  with assms show ?thesis
    by (simp add: representation_ok_Representation kernel_session_def kernel_profile_def Let_def
        kernel_request_def demo_mandate_delegation_def kernel_evidence_usable demo_mandate_powers)
next
  case False
  then show ?thesis
    by (intro representation_ok_other) (simp add: kernel_session_def kernel_profile_def Let_def)
qed

lemma kernel_chip_ok:
  "chip_liveness_ok
     (kernel_session c name r fmt jkt nonce (kernel_subject c pid chip) pid chip deleg rnd now)
     (kernel_request c name jkt nonce (kernel_subject c pid chip) requested rnd' now) (Instant now)
   \<longleftrightarrow> now \<noteq> - 1 \<and> (\<exists>v. chip = Some v \<and> chip_all_verdicts v)"
  by (cases chip)
    (auto simp: chip_liveness_ok_iff kernel_session_def kernel_request_def Let_def kernel_subject_def
      kernel_evidence_usable chip_all_verdicts_def)

lemma kernel_may_issue:
  assumes "r = Representation \<Longrightarrow>
      deleg = Some (fst (demo_mandate_delegation (kernel_subject c pid chip)
        (Id (hash_u128 c jkt)) (kernel_evidence now)))
      \<and> requested = Powers DEMO_MANDATE_POWERS"
    and "name = QEAA_PID_BOUND_SD_JWT \<Longrightarrow> pid \<noteq> None"
  shows "may_issue
     (kernel_session c name r fmt jkt nonce (kernel_subject c pid chip) pid chip deleg rnd now)
     (kernel_request c name jkt nonce (kernel_subject c pid chip) requested rnd' now) (Instant now)
   \<longleftrightarrow> now \<noteq> - 1 \<and> (is_nfc_pid name \<longrightarrow> (\<exists>v. chip = Some v \<and> chip_all_verdicts v))"
    (is "may_issue ?s ?q _ \<longleftrightarrow> _")
proof (cases "now = - 1")
  case True
  then have "\<not> usable_at (auth_evidence (sess_authorization ?s)) (Instant now)"
    by (simp add: kernel_session_def Let_def kernel_evidence_usable)
  with True show ?thesis by (simp add: may_issue_def)
next
  case False
  have "representation_ok ?s ?q (Instant now)"
    by (rule kernel_representation_ok) (use assms False in auto)
  moreover have "saturating_add now 3600 \<le> saturating_add now 86400"
    by (rule saturating_add_mono) simp
  moreover have "role_evidence_ok r (sess_subject ?s) \<longleftrightarrow>
      (r = Pid \<longrightarrow> loa_high (sess_subject ?s))"
    by (cases r) simp_all
  moreover note kernel_chip_ok [of c name r fmt jkt nonce pid chip deleg rnd now requested rnd']
  ultimately show ?thesis
    using False assms(2)
    unfolding may_issue_def
    by (auto simp: kernel_session_def kernel_request_def kernel_profile_def Let_def
        kernel_evidence_usable device_binding_ok_def)
qed

lemma authorize_kernel_ok_iff [ok_iff]:
  "authorize_kernel c name jkt nonce pid chip now rnd rnd' = Inr g \<longleftrightarrow>
     profile_role name \<noteq> None \<and> now \<noteq> - 1 \<and>
     (name = QEAA_PID_BOUND_SD_JWT \<or> name = MANDATE_SD_JWT \<longrightarrow> pid \<noteq> None) \<and>
     (is_nfc_pid name \<longrightarrow> (\<exists>v. chip = Some v \<and> chip_all_verdicts v)) \<and>
     g = (if name = MANDATE_SD_JWT
          then Some \<lparr>mg_on_behalf_of = kernel_subject c pid chip,
                     mg_granted_powers = Powers DEMO_MANDATE_POWERS\<rparr>
          else None)"
proof (cases "profile_role name")
  case None
  then show ?thesis by (simp add: authorize_kernel_def)
next
  case (Some r)
  have rep: "r = Representation \<longleftrightarrow> name = MANDATE_SD_JWT"
    using Some profile_role_Representation_iff [of name] by auto
  obtain fmt where fmt: "profile_format name = Some fmt"
    using profile_format_Some [OF Some] by blast
  define deleg where "deleg =
    (if r = Representation then Some (fst (demo_mandate_delegation (kernel_subject c pid chip)
        (Id (hash_u128 c jkt)) (kernel_evidence now))) else None)"
  define requested where
    "requested = (if r = Representation then Powers DEMO_MANDATE_POWERS else Powers 0)"
  let ?s = "kernel_session c name r fmt jkt nonce (kernel_subject c pid chip) pid chip deleg rnd' now"
    and ?q = "kernel_request c name jkt nonce (kernel_subject c pid chip) requested rnd now"
  have "authorize_kernel c name jkt nonce pid chip now rnd rnd' = Inr g \<longleftrightarrow>
     ((name = QEAA_PID_BOUND_SD_JWT \<or> name = MANDATE_SD_JWT) \<longrightarrow> pid \<noteq> None) \<and>
     (is_nfc_pid name \<longrightarrow> chip \<noteq> None) \<and>
     (\<exists>cmd. authorize_sign ?s ?q (Instant now) = Inr cmd \<and>
        g = map_option (\<lambda>who. \<lparr>mg_on_behalf_of = who, mg_granted_powers = granted_powers cmd\<rparr>)
              (on_behalf_of cmd))"
    by (auto simp: authorize_kernel_def Some fmt and_then_ok_iff guard_err_ok_iff Let_def deleg_def
        requested_def demo_mandate_delegation_def split: sum.splits)
  also have "\<dots> \<longleftrightarrow>
     ((name = QEAA_PID_BOUND_SD_JWT \<or> name = MANDATE_SD_JWT) \<longrightarrow> pid \<noteq> None) \<and>
     (is_nfc_pid name \<longrightarrow> chip \<noteq> None) \<and> may_issue ?s ?q (Instant now) \<and>
     g = (if r = Representation
          then Some \<lparr>mg_on_behalf_of = kernel_subject c pid chip,
                     mg_granted_powers = Powers DEMO_MANDATE_POWERS\<rparr>
          else None)"
    by (auto simp: authorize_sign_ok_iff kernel_session_def kernel_profile_def Let_def deleg_def
        requested_def demo_mandate_delegation_def kernel_request_def)
  also have "\<dots> \<longleftrightarrow> profile_role name \<noteq> None \<and> now \<noteq> - 1 \<and>
     (name = QEAA_PID_BOUND_SD_JWT \<or> name = MANDATE_SD_JWT \<longrightarrow> pid \<noteq> None) \<and>
     (is_nfc_pid name \<longrightarrow> (\<exists>v. chip = Some v \<and> chip_all_verdicts v)) \<and>
     g = (if name = MANDATE_SD_JWT
          then Some \<lparr>mg_on_behalf_of = kernel_subject c pid chip,
                     mg_granted_powers = Powers DEMO_MANDATE_POWERS\<rparr>
          else None)"
    using kernel_may_issue [of r deleg c pid chip jkt now requested name fmt nonce rnd' rnd]
    by (auto simp: Some rep deleg_def requested_def)
  finally show ?thesis .
qed

end
