(* ===== verification/Toy_Packages.thy ===== *)
theory Toy_Packages
  imports Authorize_Kernel
begin

text \<open>
  Concrete packages for the examples of the service: the transfer encoding is the identity, the
  digest of a string is its first bytes padded with zeros, a signature is valid when it is the
  single byte 7, and the deserialisers know the few documents the examples use.
\<close>

definition toy_b64 :: "bytes \<Rightarrow> string" where
  "toy_b64 b = map (\<lambda>w. char_of (unat w)) b"

definition service_codec :: codec_lib where
  "service_codec = \<lparr>sha256 = (\<lambda>b. take 32 (b @ replicate 32 0)), b64url_encode = toy_b64,
     b64url_decode = (\<lambda>s. Some (as_bytes s)), b64_decode = (\<lambda>s. Some (as_bytes s))\<rparr>"

definition service_ec :: "(bytes, bytes) ecdsa_lib" where
  "service_ec = \<lparr>key_from_sec1 = Some, key_from_affine = (\<lambda>x y. Some (4 # x @ y)),
     sig_from_slice = Some, sig_from_der = Some, ecdsa_verify = (\<lambda>k m s. s = as_bytes ''7'')\<rparr>"

definition service_pq :: mldsa_lib where
  "service_pq = \<lparr>mldsa_verify = (\<lambda>k m s. True), mldsa_sign = (\<lambda>k m r. Some []),
     mldsa_generate = (\<lambda>r. ([], []))\<rparr>"

definition service_clock :: time_lib where
  "service_clock = \<lparr>date_of_timestamp = (\<lambda>t. Some (2026, 6, 15)),
     rfc3339_of_timestamp = (\<lambda>t. Some ''2026-06-15T00:00:00Z'')\<rparr>"

definition service_urls :: url_lib where
  "service_urls = \<lparr>url_join = (\<lambda>base path. Some (base @ path)),
     url_append_pair = (\<lambda>u k v. u @ ''?'' @ k @ ''='' @ v)\<rparr>"

lemma length_toy_b64 [simp]: "length (toy_b64 b) = length b"
  by (simp add: toy_b64_def)

lemma toy_b64_Nil_iff [simp]: "toy_b64 b = [] \<longleftrightarrow> b = []"
  by (simp add: toy_b64_def)

text \<open>A key with coordinates of 32 characters.\<close>

definition demo_jwk :: ec_jwk where
  "demo_jwk = \<lparr>jwk_kty = ''EC'', jwk_crv = ''P-256'',
     jwk_x = ''abcdefghijklmnopqrstuvwxyzabcdef'', jwk_y = ''ABCDEFGHIJKLMNOPQRSTUVWXYZABCDEF''\<rparr>"

definition demo_jkt :: string where
  "demo_jkt = hash_b64 service_codec (canonical_jwk (jwk_x demo_jwk) (jwk_y demo_jwk))"

definition demo_issuer :: string where "demo_issuer = ''https://i/''"

definition demo_mrz :: emrtd_mrz_claim where
  "demo_mrz = \<lparr>mrz_family_name = ''Lovelace'', mrz_given_name = ''Ada'',
     mrz_birthdate = ''1990-12-10'', mrz_nationality = ''DE'', mrz_issuing_country = ''DE'',
     mrz_document_number = ''C01'', mrz_date_of_expiry = ''2030-01-01''\<rparr>"

definition demo_emrtd_claims :: emrtd_evidence_claims where
  "demo_emrtd_claims = \<lparr>em_aud = ''https://i'', em_iat = 90, em_exp = 200, em_nonce = ''5'',
     em_jti = ''j'', em_new_holder_jkt = demo_jkt, em_passive_authentication = True,
     em_chip_authentic = True, em_assurance = ''face iproov:gpa'', em_matched_portrait = True,
     em_mrz = demo_mrz, em_portrait = None\<rparr>"

definition demo_pid_payload :: json where
  "demo_pid_payload = JObj
     [(''_sd'', JArr [JStr (hash_b64 service_codec ''f''), JStr (hash_b64 service_codec ''g''),
                      JStr (hash_b64 service_codec ''b'')]),
      (''cnf'', JObj [(''jwk'', JNull)]), (''exp'', JNat 500), (''iss'', JStr ''https://i''),
      (''nbf'', JNat 1), (''vct'', JStr ''eu.europa.ec.eudi.pid.1'')]"

definition demo_binding_claims :: "string \<Rightarrow> binding_proof_claims" where
  "demo_binding_claims jwt = \<lparr>bp_aud = ''https://i'', bp_iat = 100, bp_nonce = ''5'', bp_jti = ''j'',
     bp_pid_sd_hash = hash_b64 service_codec jwt, bp_new_holder_jkt = demo_jkt\<rparr>"

definition demo_json :: "bytes \<Rightarrow> json option" where
  "demo_json b =
     (if b = as_bytes ''p'' then Some demo_pid_payload
      else if b = as_bytes ''f'' then
        Some (JArr [JStr ''s'', JStr ''family_name'', JStr ''Mustermann''])
      else if b = as_bytes ''g'' then Some (JArr [JStr ''s'', JStr ''given_name'', JStr ''Erika''])
      else if b = as_bytes ''b'' then
        Some (JArr [JStr ''s'', JStr ''birthdate'', JStr ''1990-01-01''])
      else if b = as_bytes ''E'' then Some (JBool True)
      else Some JNull)"

definition service_serde :: serde_lib where
  "service_serde = \<lparr>json_from_slice = demo_json, json_to_vec = (\<lambda>j. []),
     dpop_header_from_slice = (\<lambda>b. Some \<lparr>hdr_alg = ''ES256'',
       hdr_typ = (if b = as_bytes ''h'' then ''openid4vci-proof+jwt'' else ''dpop+jwt''),
       hdr_jwk = demo_jwk\<rparr>),
     dpop_claims_from_slice = (\<lambda>b. Some \<lparr>dpop_htm = ''POST'',
       dpop_htu = (if b = as_bytes ''t'' then ''https://i/token'' else ''https://i/credential''),
       dpop_iat = 100, dpop_jti = toy_b64 b\<rparr>),
     proof_claims_from_slice = (\<lambda>b. Some \<lparr>cp_aud = ''https://i'', cp_iat = 100, cp_nonce = ''5''\<rparr>),
     ec_jwk_from_value = (\<lambda>j. Some demo_jwk),
     binding_claims_from_value = (\<lambda>j. Some (demo_binding_claims ''h.p.7'')),
     emrtd_claims_from_value = (\<lambda>j. Some (if j = JBool True then demo_emrtd_claims\<lparr>em_jti := ''k''\<rparr>
       else demo_emrtd_claims)),
     tlsn_payload_to_vec = (\<lambda>p. Some (as_bytes (tp_session_id p)))\<rparr>"

definition service_packages :: "(bytes, bytes) packages" where
  "service_packages = \<lparr>ec = service_ec, pq = service_pq, codec = service_codec,
     serde = service_serde, clock = service_clock, urls = service_urls\<rparr>"

lemma service_packages_simps [simp]:
  "ec service_packages = service_ec" "pq service_packages = service_pq"
  "codec service_packages = service_codec" "serde service_packages = service_serde"
  "clock service_packages = service_clock" "urls service_packages = service_urls"
  by (simp_all add: service_packages_def)

lemma service_codec_simps [simp]:
  "b64url_decode service_codec s = Some (as_bytes s)" "b64_decode service_codec s = Some (as_bytes s)"
  by (simp_all add: service_codec_def)

lemma service_ec_simps [simp]:
  "key_from_sec1 service_ec k = Some k" "key_from_affine service_ec x y = Some (4 # x @ y)"
  "sig_from_slice service_ec b = Some b" "sig_from_der service_ec b = Some b"
  "ecdsa_verify service_ec k m s \<longleftrightarrow> s = as_bytes ''7''"
  by (simp_all add: service_ec_def)

lemma service_serde_simps [simp]:
  "ec_jwk_from_value service_serde j = Some demo_jwk"
  "binding_claims_from_value service_serde j = Some (demo_binding_claims ''h.p.7'')"
  "emrtd_claims_from_value service_serde j = Some (if j = JBool True
     then demo_emrtd_claims\<lparr>em_jti := ''k''\<rparr> else demo_emrtd_claims)"
  "json_from_slice service_serde b = demo_json b"
  "tlsn_payload_to_vec service_serde p = Some (as_bytes (tp_session_id p))"
  by (simp_all add: service_serde_def)

lemma stale_100 [simp]: "\<not> stale 60 100 100" "\<not> stale 300 100 100"
  by (simp_all add: stale_def saturating_add_def saturating_sub_def)

lemma demo_jwk_key: "jwk_key service_packages demo_jwk (4 # as_bytes (jwk_x demo_jwk) @ as_bytes (jwk_y demo_jwk))"
  by (simp add: jwk_key_def demo_jwk_def)

lemma demo_jwk_value:
  "verifying_key_and_jwk service_packages demo_jwk code =
     Inr (4 # as_bytes (jwk_x demo_jwk) @ as_bytes (jwk_y demo_jwk), demo_jkt, public_jwk_value demo_jwk)"
  by (simp add: verifying_key_and_jwk_ok_iff demo_jwk_key jwk_thumbprint_def demo_jkt_def)

definition demo_artifact :: signed_tlsn_artifact where
  "demo_artifact = \<lparr>ta_payload = \<lparr>tp_version = TLSN_ARTIFACT_VERSION, tp_session_id = ''s1'',
       tp_issued_at = 100, tp_verifier_output = JNull\<rparr>,
     ta_algorithm = ''ES256'', ta_public_key = ''N'', ta_signature = ''7'',
     ta_pq_algorithm = None, ta_pq_public_key = None, ta_pq_signature = None\<rparr>"

lemma demo_artifact_verifies:
  "verify_tlsn_artifact service_packages demo_artifact (as_bytes ''N'') None 100 =
     Inr \<lparr>vt_session_id = ''s1'', vt_issued_at = 100, vt_verifier_output = JNull\<rparr>"
  by (simp add: verify_tlsn_artifact_def demo_artifact_def verify_tlsn_pq_def Let_def
      TLSN_EVIDENCE_LIFETIME_SECONDS_def MAX_TLSN_ARTIFACT_BYTES_def)

lemma demo_compact:
  "split_char CHR ''.'' ''h.e.7'' = [''h'', ''e'', ''7'']"
  "split_char CHR ''.'' ''h.E.7'' = [''h'', ''E'', ''7'']"
  "split_char CHR ''.'' ''h.p.7'' = [''h'', ''p'', ''7'']"
  "split_char CHR ''.'' ''h.q.7'' = [''h'', ''q'', ''7'']"
  "split_char CHR ''.'' ''h.c.7'' = [''h'', ''c'', ''7'']"
  "split_char CHR ''.'' ''d.t.7'' = [''d'', ''t'', ''7'']"
  "split_char CHR ''.'' ''d.c.7'' = [''d'', ''c'', ''7'']"
  "split_char CHR ''~'' ''h.p.7~f~g~b~h.q.7'' = [''h.p.7'', ''f'', ''g'', ''b'', ''h.q.7'']"
  by (simp_all add: split_char_Cons)

lemma demo_jws:
  "split_char CHR ''.'' s = [a, b, ''7''] \<Longrightarrow>
   verify_jws_payload service_packages s key label =
     ok_or (invalid_proof (label @ '' payload is not JSON'')) (demo_json (as_bytes b))"
  by (simp add: verify_jws_payload_def Let_def)

lemma demo_same_url:
  "same_url ''https://i'' demo_issuer" "same_url ''https://i/token'' ''https://i/token''"
  "same_url ''https://i/credential'' ''https://i/credential''"
  by (simp_all add: same_url_def demo_issuer_def trim_end_matches_def)

lemma demo_today: "today service_clock 100 = Some (2026, 6, 15)"
  by (simp add: today_def service_clock_def)

lemmas date_eval_defs =
  parse_date_def split_char_Cons parse_i32_def parse_u8_def parse_digits_def is_digit_def
  nth_or_default_def Let_def

lemma demo_not_expired: "\<not> is_expired_document service_clock ''2030-01-01'' 100"
  by (simp add: is_expired_document_def demo_today date_eval_defs)

lemma demo_assurance: "str_contains ''face iproov:gpa'' EMRTD_REQUIRED_LIVENESS"
  by code_simp

lemma demo_trim: "trim ''Lovelace'' = ''Lovelace''" "trim ''Ada'' = ''Ada''"
  "trim ''1990-12-10'' = ''1990-12-10''" "trim ''DE'' = ''DE''" "trim ''C01'' = ''C01''"
  by (simp_all add: trim_printable printable_def)

lemma demo_mrz_fields:
  "mrz_family_name demo_mrz = ''Lovelace''" "mrz_given_name demo_mrz = ''Ada''"
  "mrz_birthdate demo_mrz = ''1990-12-10''" "mrz_nationality demo_mrz = ''DE''"
  "mrz_issuing_country demo_mrz = ''DE''" "mrz_document_number demo_mrz = ''C01''"
  "mrz_date_of_expiry demo_mrz = ''2030-01-01''"
  by (simp_all add: demo_mrz_def)

lemma demo_pid_accepted:
  "for_each (\<lambda>v. guard_err (trim v = [] \<or> 512 < length v) e) (mrz_fields demo_mrz) = Inr ()"
  by (simp add: mrz_fields_def demo_mrz_def demo_trim)

text \<open>What the two attestations of the examples prove.\<close>

definition demo_chip :: "string \<Rightarrow> verified_chip_liveness" where
  "demo_chip jti = \<lparr>vcl_subject = Id (hash_u128 service_codec ''emrtd:DE:C01''), vcl_jti = jti,
     vcl_sod_passive_auth = True, vcl_chip_authentic = True, vcl_liveness_matched = True,
     vcl_claims = \<lparr>pid_family_name = ''Lovelace'', pid_given_name = ''Ada'',
       pid_birthdate = ''1990-12-10'', pid_nationality = ''DE'', pid_issuing_country = ''DE'',
       pid_age_over_18 = True, pid_portrait = None\<rparr>\<rparr>"

lemma demo_adult: "age_over_18 service_clock ''1990-12-10'' 100"
  by (simp add: age_over_18_def demo_today date_eval_defs wrapping_add_i32_def)

lemma demo_emrtd_verified:
  "verify_emrtd_evidence service_packages ''h.e.7'' [4] demo_issuer ''5'' demo_jkt 100 =
     Inr (demo_chip ''j'')"
  "verify_emrtd_evidence service_packages ''h.E.7'' [4] demo_issuer ''5'' demo_jkt 100 =
     Inr (demo_chip ''k'')"
  by (simp_all add: verify_emrtd_evidence_def demo_jws [OF demo_compact(1)]
      demo_jws [OF demo_compact(2)] demo_json_def demo_emrtd_claims_def demo_same_url
      demo_not_expired demo_assurance demo_pid_accepted accepted_portrait_def demo_chip_def
      demo_adult demo_mrz_fields MAX_EMRTD_EVIDENCE_BYTES_def)

lemma demo_emrtd_verifies:
  "is_ok (verify_emrtd_evidence service_packages ''h.e.7'' [4] demo_issuer ''5'' demo_jkt 100)"
  by (simp add: demo_emrtd_verified)

lemma demo_pid_binding_verifies:
  "is_ok (verify_pid_binding service_packages ''h.p.7~f~g~b~h.q.7'' ''h.q.7'' JNull demo_issuer
     ''5'' demo_jkt 100)"
proof -
  have parts: "pid_vp_parts ''h.p.7~f~g~b~h.q.7'' = (''h.p.7'', [''f'', ''g'', ''b'', ''h.q.7''])"
    by (simp add: pid_vp_parts_def demo_compact)
  have trim: "trim_end_matches CHR ''/'' demo_issuer = ''https://i''"
    "trim_end_matches CHR ''/'' ''https://i'' = ''https://i''"
    by (simp_all add: demo_issuer_def trim_end_matches_def)
  have valid: "pid_validity_ok demo_pid_payload demo_issuer 100"
    by (simp add: pid_validity_ok_def demo_pid_payload_def claim_str_def claim_u64_def trim)
  have binding: "binding_claims_ok service_packages (demo_binding_claims ''h.p.7'') demo_issuer ''5''
      demo_jkt ''h.p.7'' 100"
    by (simp add: binding_claims_ok_def demo_binding_claims_def demo_same_url)
  have sd: "claim_array ''_sd'' demo_pid_payload = Some [JStr (hash_b64 service_codec ''f''),
      JStr (hash_b64 service_codec ''g''), JStr (hash_b64 service_codec ''b'')]"
    by (simp add: claim_array_def demo_pid_payload_def)
  have "claim_str ''vct'' demo_pid_payload = Some PID_VCT" "cnf_jwk demo_pid_payload = Some JNull"
    by (simp_all add: claim_str_def demo_pid_payload_def PID_VCT_def cnf_jwk_def)
  with parts valid binding sd show ?thesis
    by (simp add: verify_pid_binding_def Let_def last_or_none_def demo_jwk_value
        demo_jws [OF demo_compact(3)] demo_jws [OF demo_compact(4)] demo_json_def no_disclosures_def record_disclosure_def)
qed

lemma demo_dpop_verifies:
  "verify_dpop service_packages ''d.t.7'' ''POST'' ''https://i/token'' (Some 100) =
     Inr \<lparr>vd_jkt = demo_jkt, vd_jti = toy_b64 (as_bytes ''t'')\<rparr>"
  by (simp add: verify_dpop_def Let_def demo_compact service_serde_def demo_jwk_def demo_jkt_def
      demo_same_url unix_time_def)

lemma demo_credential_dpop_verifies:
  "verify_dpop service_packages ''d.c.7'' ''POST'' ''https://i/credential'' (Some 100) =
     Inr \<lparr>vd_jkt = demo_jkt, vd_jti = toy_b64 (as_bytes ''c'')\<rparr>"
  by (simp add: verify_dpop_def Let_def demo_compact service_serde_def demo_jwk_def demo_jkt_def
      demo_same_url unix_time_def)

lemma demo_credential_proof_verifies:
  "verify_credential_proof service_packages ''h.c.7'' demo_issuer (Some 100) =
     Inr \<lparr>vcp_holder_jkt = demo_jkt, vcp_holder_jwk = public_jwk_value demo_jwk, vcp_nonce = ''5''\<rparr>"
  by (simp add: verify_credential_proof_def Let_def demo_compact service_serde_def demo_jwk_value
      demo_same_url unix_time_def)

end
