(* ===== verification/Evidence_Properties.thy ===== *)
theory Evidence_Properties
  imports Toy_Packages
begin

text \<open>
  What accepted evidence proves: the credential proof and the DPoP proof, the PID binding, the
  eMRTD attestation, the TLSNotary artifact and the calendar checks, and what the service's call of
  the kernel decides for every profile.
\<close>

section \<open>The PID binding\<close>

lemma read_disclosures_committed:
  "read_disclosures pk allowed ds acc = Inr found \<Longrightarrow>
   \<forall>d \<in> set ds. hash_b64 (codec pk) d \<in> set allowed"
  by (induction ds arbitrary: acc) (auto simp: ok_iff)

text \<open>The claims found are the last disclosures of that name.\<close>

lemma record_disclosure_cases:
  "record_disclosure values acc = acc \<or>
   (length values = 3 \<and>
    (record_disclosure values acc = acc\<lparr>found_family_name := as_str (values ! 2)\<rparr> \<or>
     record_disclosure values acc = acc\<lparr>found_given_name := as_str (values ! 2)\<rparr> \<or>
     record_disclosure values acc = acc\<lparr>found_birthdate := as_str (values ! 2)\<rparr>))"
  by (auto simp: record_disclosure_def)

definition disclosed :: "('k, 's) packages \<Rightarrow> string list \<Rightarrow> string \<Rightarrow> string \<Rightarrow> bool" where
  "disclosed pk ds name value \<longleftrightarrow>
     (\<exists>d \<in> set ds. \<exists>b vs. b64url_decode (codec pk) d = Some b \<and>
        json_from_slice (serde pk) b = Some (JArr vs) \<and> length vs = 3 \<and>
        vs ! 1 = JStr name \<and> vs ! 2 = JStr value)"

lemma as_str_Some_iff: "as_str v = Some s \<longleftrightarrow> v = JStr s"
  by (cases v) auto

lemma as_array_Some_iff: "as_array v = Some vs \<longleftrightarrow> v = JArr vs"
  by (cases v) auto

lemma disclosed_Cons:
  "disclosed pk ds n v \<Longrightarrow> disclosed pk (d # ds) n v"
  by (auto simp: disclosed_def)

lemma read_disclosures_found:
  assumes "read_disclosures pk allowed ds acc = Inr found"
  shows "(found_family_name found = Some v \<longrightarrow>
       found_family_name acc = Some v \<or> disclosed pk ds ''family_name'' v) \<and>
     (found_given_name found = Some v \<longrightarrow>
       found_given_name acc = Some v \<or> disclosed pk ds ''given_name'' v) \<and>
     (found_birthdate found = Some v \<longrightarrow>
       found_birthdate acc = Some v \<or> disclosed pk ds ''birthdate'' v)"
  using assms
proof (induction ds arbitrary: acc)
  case (Cons d ds)
  from Cons.prems obtain b vs where
    d: "b64url_decode (codec pk) d = Some b" "json_from_slice (serde pk) b = Some (JArr vs)"
    and rest: "read_disclosures pk allowed ds (record_disclosure vs acc) = Inr found"
    by (auto simp: ok_iff as_array_Some_iff)
  have here: "disclosed pk (d # ds) n w"
    if "length vs = 3" "vs ! 1 = JStr n" "vs ! 2 = JStr w" for n w
    using that d by (auto simp: disclosed_def)
  have later: "disclosed pk ds n w \<Longrightarrow> disclosed pk (d # ds) n w" for n w
    by (rule disclosed_Cons)
  from Cons.IH [OF rest] here later show ?case
    by (auto simp: record_disclosure_def as_str_Some_iff split: if_splits)
qed simp

text \<open>What every accepted binding has gone through, step by step.\<close>

lemma verify_pid_bindingE:
  assumes "verify_pid_binding pk vp proof trusted issuer nonce jkt now = Inr v"
  obtains trusted_jwk issuer_key jkt1 val1 payload sd holder_value holder_jwk holder_key jkt2 val2
    claims_value claims found family_name given_name birthdate where
    "\<not> (32768 < length vp \<or> 8192 < length proof)"
    "\<not> (fst (pid_vp_parts vp) = [] \<or> last_or_none (snd (pid_vp_parts vp)) \<noteq> Some proof)"
    "ec_jwk_from_value (serde pk) trusted = Some trusted_jwk"
    "verifying_key_and_jwk pk trusted_jwk ''invalid_proof'' = Inr (issuer_key, jkt1, val1)"
    "verify_jws_payload pk (fst (pid_vp_parts vp)) issuer_key ''PID credential'' = Inr payload"
    "\<not> claim_str ''vct'' payload \<noteq> Some PID_VCT" "\<not> \<not> pid_validity_ok payload issuer now"
    "claim_array ''_sd'' payload = Some sd" "cnf_jwk payload = Some holder_value"
    "ec_jwk_from_value (serde pk) holder_value = Some holder_jwk"
    "verifying_key_and_jwk pk holder_jwk ''invalid_proof'' = Inr (holder_key, jkt2, val2)"
    "verify_jws_payload pk proof holder_key ''PID binding proof'' = Inr claims_value"
    "binding_claims_from_value (serde pk) claims_value = Some claims"
    "\<not> \<not> binding_claims_ok pk claims issuer nonce jkt (fst (pid_vp_parts vp)) now"
    "read_disclosures pk (filter_map as_str sd) (butlast (snd (pid_vp_parts vp))) no_disclosures =
       Inr found"
    "\<not> (found_family_name found \<noteq> Some ''Mustermann'' \<or>
        found_given_name found \<noteq> Some ''Erika'' \<or> found_birthdate found \<noteq> Some ''1990-01-01'')"
    "found_family_name found = Some family_name" "found_given_name found = Some given_name"
    "found_birthdate found = Some birthdate"
    "(Inr \<lparr>vpb_subject =
            Id (hash_u128 (codec pk) (canonical_pid_subject family_name given_name birthdate)),
          vpb_jti = bp_jti claims\<rparr> :: verified_pid_binding oauth) = Inr v"
  using assms
  unfolding verify_pid_binding_def Let_def
  by (elim handler_okE) (rule that, assumption+)

definition education_record :: "('k, 's) packages \<Rightarrow> string list \<Rightarrow> bool" where
  "education_record pk ds \<longleftrightarrow>
     disclosed pk ds ''family_name'' ''Mustermann'' \<and> disclosed pk ds ''given_name'' ''Erika'' \<and>
     disclosed pk ds ''birthdate'' ''1990-01-01''"

lemma read_disclosures_education:
  assumes "read_disclosures pk allowed ds no_disclosures = Inr found"
    and "\<not> (found_family_name found \<noteq> Some ''Mustermann'' \<or>
        found_given_name found \<noteq> Some ''Erika'' \<or> found_birthdate found \<noteq> Some ''1990-01-01'')"
  shows "education_record pk ds"
  using read_disclosures_found [OF assms(1)] assms(2)
  unfolding education_record_def no_disclosures_def pid_disclosures.simps by blast

definition jws_payload :: "('k, 's) packages \<Rightarrow> string \<Rightarrow> json option" where
  "jws_payload pk compact =
     (case jws_part pk compact 1 of None \<Rightarrow> None | Some b \<Rightarrow> json_from_slice (serde pk) b)"

lemma verify_jws_payload_ok:
  "verify_jws_payload pk compact key label = Inr v \<longleftrightarrow>
     jws_signed_by pk compact key \<and> jws_payload pk compact = Some v"
  by (auto simp: verify_jws_payload_ok_iff jws_payload_def split: option.splits)

section \<open>Properties\<close>

text \<open>
  C28. What the kernel decides on the session the service builds, for
  every profile: it signs exactly when the profile is a known one, the clock is not at its last
  second, a PID-bound or mandate profile has a verified PID subject, and a profile proofed by NFC
  has chip evidence with all three verdicts true. Only a mandate yields a grant, on behalf of the
  subject of the chip or of the presented PID, with the two demo powers.
\<close>

theorem kernel_decision_per_profile:
  "authorize_kernel c name jkt nonce pid chip now rnd rnd' = Inr g \<longleftrightarrow>
     profile_role name \<noteq> None \<and> now \<noteq> - 1 \<and>
     (name = QEAA_PID_BOUND_SD_JWT \<or> name = MANDATE_SD_JWT \<longrightarrow> pid \<noteq> None) \<and>
     (is_nfc_pid name \<longrightarrow> (\<exists>v. chip = Some v \<and> chip_all_verdicts v)) \<and>
     g = (if name = MANDATE_SD_JWT
          then Some \<lparr>mg_on_behalf_of = kernel_subject c pid chip,
                     mg_granted_powers = Powers 3\<rparr>
          else None)"
  using authorize_kernel_ok_iff [of c name jkt nonce pid chip now rnd rnd' g]
  by (simp only: DEMO_MANDATE_POWERS_def)

lemma kernel_decision_per_profile_witness:
  "\<not> is_ok (authorize_kernel service_codec PID_FROM_EMRTD_SD_JWT demo_jkt ''5'' None None 100 [] []) \<and>
   authorize_kernel service_codec MANDATE_SD_JWT demo_jkt ''5'' (Some (Id 5)) None 100 [] [] =
     Inr (Some \<lparr>mg_on_behalf_of = Id 5, mg_granted_powers = Powers 3\<rparr>)"
proof
  show "\<not> is_ok (authorize_kernel service_codec PID_FROM_EMRTD_SD_JWT demo_jkt ''5'' None None 100 [] [])"
    unfolding is_ok_iff kernel_decision_per_profile by (simp add: is_nfc_pid_def)
  have "profile_role MANDATE_SD_JWT = Some Representation"
    by (simp add: profile_role_Representation_iff)
  moreover have "\<not> is_nfc_pid MANDATE_SD_JWT"
    using profiles_neq by (auto simp: is_nfc_pid_def)
  ultimately show "authorize_kernel service_codec MANDATE_SD_JWT demo_jkt ''5'' (Some (Id 5)) None 100
      [] [] = Inr (Some \<lparr>mg_on_behalf_of = Id 5, mg_granted_powers = Powers 3\<rparr>)"
    unfolding kernel_decision_per_profile by (simp add: kernel_subject_def)
qed

text \<open>
  C23. An accepted PID binding is a chain of two signatures: the presented PID is
  signed by the issuer's own PID key, is of the PID type, names this issuer and is inside its
  validity interval; the proof that ends the presentation is signed by the holder key in the PID's
  \<open>cnf\<close>, and binds this issuer, the expected nonce, the thumbprint of the new holder key and the
  digest of that very PID, with a fresh \<open>iat\<close> and a bounded non-empty \<open>jti\<close>. Every disclosure shown
  is committed by the PID, and together they are those of the education record's subject.
\<close>

theorem pid_binding_sound:
  assumes "verify_pid_binding pk vp proof trusted issuer nonce jkt now = Inr v"
  defines "pid \<equiv> fst (pid_vp_parts vp)" and "shown \<equiv> butlast (snd (pid_vp_parts vp))"
  shows "\<exists>issuer_jwk issuer_key payload sd holder_jwk holder_key claims.
     ec_jwk_from_value (serde pk) trusted = Some issuer_jwk \<and> jwk_key pk issuer_jwk issuer_key \<and>
     jws_signed_by pk pid issuer_key \<and> jws_payload pk pid = Some payload \<and>
     claim_str ''vct'' payload = Some PID_VCT \<and> pid_validity_ok payload issuer now \<and>
     Option.bind (cnf_jwk payload) (ec_jwk_from_value (serde pk)) = Some holder_jwk \<and>
     jwk_key pk holder_jwk holder_key \<and> jws_signed_by pk proof holder_key \<and>
     Option.bind (jws_payload pk proof) (binding_claims_from_value (serde pk)) = Some claims \<and>
     same_url (bp_aud claims) issuer \<and> bp_nonce claims = nonce \<and> bp_new_holder_jkt claims = jkt \<and>
     bp_pid_sd_hash claims = hash_b64 (codec pk) pid \<and> \<not> stale 300 (bp_iat claims) now \<and>
     vpb_jti v = bp_jti claims \<and> bp_jti claims \<noteq> [] \<and> length (bp_jti claims) \<le> 256 \<and>
     claim_array ''_sd'' payload = Some sd \<and>
     (\<forall>d \<in> set shown. hash_b64 (codec pk) d \<in> set (filter_map as_str sd)) \<and>
     education_record pk shown \<and> last_or_none (snd (pid_vp_parts vp)) = Some proof"
  using assms(1)
proof (rule verify_pid_bindingE)
  fix trusted_jwk issuer_key jkt1 val1 payload sd holder_value holder_jwk holder_key jkt2 val2
    claims_value claims found family_name given_name birthdate
  assume steps: "\<not> (fst (pid_vp_parts vp) = [] \<or> last_or_none (snd (pid_vp_parts vp)) \<noteq> Some proof)"
    "ec_jwk_from_value (serde pk) trusted = Some trusted_jwk"
    "verifying_key_and_jwk pk trusted_jwk ''invalid_proof'' = Inr (issuer_key, jkt1, val1)"
    "verify_jws_payload pk (fst (pid_vp_parts vp)) issuer_key ''PID credential'' = Inr payload"
    "\<not> claim_str ''vct'' payload \<noteq> Some PID_VCT" "\<not> \<not> pid_validity_ok payload issuer now"
    "claim_array ''_sd'' payload = Some sd" "cnf_jwk payload = Some holder_value"
    "ec_jwk_from_value (serde pk) holder_value = Some holder_jwk"
    "verifying_key_and_jwk pk holder_jwk ''invalid_proof'' = Inr (holder_key, jkt2, val2)"
    "verify_jws_payload pk proof holder_key ''PID binding proof'' = Inr claims_value"
    "binding_claims_from_value (serde pk) claims_value = Some claims"
    "\<not> \<not> binding_claims_ok pk claims issuer nonce jkt (fst (pid_vp_parts vp)) now"
    and found: "read_disclosures pk (filter_map as_str sd) (butlast (snd (pid_vp_parts vp)))
        no_disclosures = Inr found"
      "\<not> (found_family_name found \<noteq> Some ''Mustermann'' \<or>
        found_given_name found \<noteq> Some ''Erika'' \<or> found_birthdate found \<noteq> Some ''1990-01-01'')"
    and v: "(Inr \<lparr>vpb_subject =
            Id (hash_u128 (codec pk) (canonical_pid_subject family_name given_name birthdate)),
          vpb_jti = bp_jti claims\<rparr> :: verified_pid_binding oauth) = Inr v"
  from v have jti: "vpb_jti v = bp_jti claims" by auto
  note committed = read_disclosures_committed [OF found(1)] read_disclosures_education [OF found]
  show ?thesis
    unfolding pid_def shown_def
    by (rule exI [of _ trusted_jwk], rule exI [of _ issuer_key], rule exI [of _ payload],
        rule exI [of _ sd], rule exI [of _ holder_jwk], rule exI [of _ holder_key],
        rule exI [of _ claims])
      (use steps committed jti in \<open>simp add: verifying_key_and_jwk_ok_iff verify_jws_payload_ok
          binding_claims_ok_def\<close>)
qed

lemma pid_binding_sound_witness:
  "\<exists>v. verify_pid_binding service_packages ''h.p.7~f~g~b~h.q.7'' ''h.q.7'' JNull demo_issuer
      ''5'' demo_jkt 100 = Inr v \<and> vpb_jti v \<noteq> []"
proof -
  obtain v where v: "verify_pid_binding service_packages ''h.p.7~f~g~b~h.q.7'' ''h.q.7'' JNull
      demo_issuer ''5'' demo_jkt 100 = Inr v"
    using demo_pid_binding_verifies by (auto simp: is_ok_iff)
  from pid_binding_sound [OF v] have "vpb_jti v \<noteq> []" by force
  with v show ?thesis by blast
qed

text \<open>
  C24. Accepted chip evidence is signed by the configured reader key, addressed
  to this issuer, inside its validity interval, bound to the expected nonce and holder key, and
  claims genuine-presence assurance; the document has not expired and its identity fields are
  present and bounded. The identifier, the three verdicts and all five identity fields are passed on
  exactly as attested, the portrait too unless it is blank, the subject is the document's, and the
  age flag is the issuer's own computation.
\<close>

theorem emrtd_evidence_sound:
  assumes "verify_emrtd_evidence pk attestation reader_key issuer nonce jkt now = Inr v"
  shows "\<exists>key payload claims.
     key_from_sec1 (ec pk) reader_key = Some key \<and> jws_signed_by pk attestation key \<and>
     jws_payload pk attestation = Some payload \<and>
     emrtd_claims_from_value (serde pk) payload = Some claims \<and>
     same_url (em_aud claims) issuer \<and> em_iat claims \<le> now \<and> now < em_exp claims \<and>
     em_nonce claims = nonce \<and> em_new_holder_jkt claims = jkt \<and>
     str_contains (em_assurance claims) ''iproov:gpa'' \<and>
     \<not> is_expired_document (clock pk) (mrz_date_of_expiry (em_mrz claims)) now \<and>
     (\<forall>f \<in> set (mrz_fields (em_mrz claims)). trim f \<noteq> [] \<and> length f \<le> 512) \<and>
     vcl_jti v = em_jti claims \<and>
     vcl_sod_passive_auth v = em_passive_authentication claims \<and>
     vcl_chip_authentic v = em_chip_authentic claims \<and>
     vcl_liveness_matched v = em_matched_portrait claims \<and>
     vcl_subject v = Id (hash_u128 (codec pk) (''emrtd:'' @ mrz_issuing_country (em_mrz claims) @
       '':'' @ mrz_document_number (em_mrz claims))) \<and>
     pid_family_name (vcl_claims v) = mrz_family_name (em_mrz claims) \<and>
     pid_given_name (vcl_claims v) = mrz_given_name (em_mrz claims) \<and>
     pid_birthdate (vcl_claims v) = mrz_birthdate (em_mrz claims) \<and>
     pid_nationality (vcl_claims v) = mrz_nationality (em_mrz claims) \<and>
     pid_issuing_country (vcl_claims v) = mrz_issuing_country (em_mrz claims) \<and>
     pid_age_over_18 (vcl_claims v) = age_over_18 (clock pk) (mrz_birthdate (em_mrz claims)) now \<and>
     pid_portrait (vcl_claims v) =
       (case em_portrait claims of None \<Rightarrow> None | Some p \<Rightarrow> if trim p = [] then None else Some p) \<and>
     (\<forall>p. em_portrait claims = Some p \<longrightarrow> length p \<le> MAX_EMRTD_EVIDENCE_BYTES)"
  using assms unfolding verify_emrtd_evidence_def
proof (elim handler_okE)
  fix key payload claims u portrait
  assume steps: "key_from_sec1 (ec pk) reader_key = Some key"
    "verify_jws_payload pk attestation key ''`eMRTD` evidence'' = Inr payload"
    "emrtd_claims_from_value (serde pk) payload = Some claims"
    "\<not> (\<not> same_url (em_aud claims) issuer \<or> now < em_iat claims \<or> em_exp claims \<le> now)"
    "\<not> (em_nonce claims \<noteq> nonce \<or> em_new_holder_jkt claims \<noteq> jkt)"
    "\<not> \<not> str_contains (em_assurance claims) EMRTD_REQUIRED_LIVENESS"
    "\<not> is_expired_document (clock pk) (mrz_date_of_expiry (em_mrz claims)) now"
    and fields: "for_each (\<lambda>value. guard_err (trim value = [] \<or> 512 < length value)
         (invalid_proof ''`eMRTD` evidence identity claim is missing or oversized''))
       (mrz_fields (em_mrz claims)) = Inr u"
    and portrait: "accepted_portrait (em_portrait claims) = Inr portrait"
    and v: "(Inr \<lparr>vcl_subject = Id (hash_u128 (codec pk) (''emrtd:'' @
              mrz_issuing_country (em_mrz claims) @ '':'' @ mrz_document_number (em_mrz claims))),
            vcl_jti = em_jti claims,
            vcl_sod_passive_auth = em_passive_authentication claims,
            vcl_chip_authentic = em_chip_authentic claims,
            vcl_liveness_matched = em_matched_portrait claims,
            vcl_claims =
              \<lparr>pid_family_name = mrz_family_name (em_mrz claims),
               pid_given_name = mrz_given_name (em_mrz claims),
               pid_birthdate = mrz_birthdate (em_mrz claims),
               pid_nationality = mrz_nationality (em_mrz claims),
               pid_issuing_country = mrz_issuing_country (em_mrz claims),
               pid_age_over_18 = age_over_18 (clock pk) (mrz_birthdate (em_mrz claims)) now,
               pid_portrait = portrait\<rparr>\<rparr> :: verified_chip_liveness oauth) = Inr v"
  have "portrait = (case em_portrait claims of None \<Rightarrow> None
        | Some p \<Rightarrow> if trim p = [] then None else Some p)"
    and "\<forall>p. em_portrait claims = Some p \<longrightarrow> length p \<le> MAX_EMRTD_EVIDENCE_BYTES"
    using portrait by (auto simp: accepted_portrait_def not_less split: option.splits if_splits)
  moreover have "\<forall>f \<in> set (mrz_fields (em_mrz claims)). trim f \<noteq> [] \<and> length f \<le> 512"
    using fields by (auto simp: for_each_ok_iff guard_err_ok_iff not_less)
  ultimately show ?thesis
    using steps v
    by (intro exI [of _ key] exI [of _ payload] exI [of _ claims])
      (auto simp: verify_jws_payload_ok EMRTD_REQUIRED_LIVENESS_def)
qed

lemma emrtd_evidence_sound_witness:
  "verify_emrtd_evidence service_packages ''h.e.7'' [4] demo_issuer ''5'' demo_jkt 100 =
     Inr (demo_chip ''j'') \<and>
   (\<exists>claims :: emrtd_evidence_claims. same_url (em_aud claims) demo_issuer \<and> em_nonce claims = ''5'' \<and> em_jti claims = ''j'')"
proof
  from emrtd_evidence_sound [OF demo_emrtd_verified(1)] obtain claims :: emrtd_evidence_claims where
    "same_url (em_aud claims) demo_issuer" "em_nonce claims = ''5''"
    "vcl_jti (demo_chip ''j'') = em_jti claims"
    by blast
  then show "\<exists>claims :: emrtd_evidence_claims. same_url (em_aud claims) demo_issuer \<and> em_nonce claims = ''5'' \<and>
      em_jti claims = ''j''"
    by (auto simp: demo_chip_def)
qed (rule demo_emrtd_verified(1))

text \<open>
  C25. Accepted TLSNotary evidence is exactly the artifact's own payload, fresh
  and signed by the configured notary key; when a post-quantum notary key is configured too, the
  artifact also carries that key and a valid ML-DSA-65 signature by it over the same bytes, so the
  hybrid attestation cannot be stripped to its classical half.
\<close>

theorem tlsn_artifact_sound:
  assumes "verify_tlsn_artifact pk a notary pq_notary now = Inr v"
  shows "\<exists>m key raw sig.
     tlsn_payload_to_vec (serde pk) (ta_payload a) = Some m \<and> length m \<le> MAX_TLSN_ARTIFACT_BYTES \<and>
     b64url_decode (codec pk) (ta_public_key a) = Some notary \<and>
     key_from_sec1 (ec pk) notary = Some key \<and>
     b64url_decode (codec pk) (ta_signature a) = Some raw \<and> sig_from_slice (ec pk) raw = Some sig \<and>
     ecdsa_verify (ec pk) key m sig \<and>
     \<not> stale 300 (tp_issued_at (ta_payload a)) now \<and> tp_session_id (ta_payload a) \<noteq> [] \<and>
     (\<forall>pk'. pq_notary = Some pk' \<longrightarrow>
        ta_pq_algorithm a = Some ''ML-DSA-65'' \<and>
        (\<exists>sig'. b64url_decode (codec pk) (default_str (ta_pq_public_key a)) = Some pk' \<and>
           b64url_decode (codec pk) (default_str (ta_pq_signature a)) = Some sig' \<and>
           length pk' = PUBLIC_KEY_BYTES \<and> length sig' = SIGNATURE_BYTES \<and>
           mldsa_verify (pq pk) pk' m sig')) \<and>
     v = \<lparr>vt_session_id = tp_session_id (ta_payload a), vt_issued_at = tp_issued_at (ta_payload a),
          vt_verifier_output = tp_verifier_output (ta_payload a)\<rparr>"
  using assms unfolding verify_tlsn_artifact_def Let_def
proof (elim handler_okE)
  fix m embedded raw sig key u
  assume steps: "\<not> (tp_session_id (ta_payload a) = [] \<or> 256 < length (tp_session_id (ta_payload a)) \<or>
       stale TLSN_EVIDENCE_LIFETIME_SECONDS (tp_issued_at (ta_payload a)) now)"
    "tlsn_payload_to_vec (serde pk) (ta_payload a) = Some m"
    "\<not> MAX_TLSN_ARTIFACT_BYTES < length m"
    "b64url_decode (codec pk) (ta_public_key a) = Some embedded" "\<not> embedded \<noteq> notary"
    "b64url_decode (codec pk) (ta_signature a) = Some raw" "sig_from_slice (ec pk) raw = Some sig"
    "key_from_sec1 (ec pk) notary = Some key" "\<not> \<not> ecdsa_verify (ec pk) key m sig"
    and hybrid: "verify_tlsn_pq pk a pq_notary m = Inr u"
    and v: "(Inr \<lparr>vt_session_id = tp_session_id (ta_payload a),
        vt_issued_at = tp_issued_at (ta_payload a),
        vt_verifier_output = tp_verifier_output (ta_payload a)\<rparr> :: verified_tlsn_evidence oauth) =
      Inr v"
  have "ta_pq_algorithm a = Some TLSN_ARTIFACT_PQ_ALGORITHM \<and>
        (\<exists>sig'. b64url_decode (codec pk) (default_str (ta_pq_public_key a)) = Some pk' \<and>
           b64url_decode (codec pk) (default_str (ta_pq_signature a)) = Some sig' \<and>
           verify_signature (pq pk) pk' m sig' = Inr ())" if "pq_notary = Some pk'" for pk'
    using hybrid that
    by (auto simp: verify_tlsn_pq_def and_then_ok_iff ok_or_ok_iff guard_err_ok_iff
        discard_ok_iff)
  then have "ta_pq_algorithm a = Some ''ML-DSA-65'' \<and>
        (\<exists>sig'. b64url_decode (codec pk) (default_str (ta_pq_public_key a)) = Some pk' \<and>
           b64url_decode (codec pk) (default_str (ta_pq_signature a)) = Some sig' \<and>
           length pk' = PUBLIC_KEY_BYTES \<and> length sig' = SIGNATURE_BYTES \<and>
           mldsa_verify (pq pk) pk' m sig')" if "pq_notary = Some pk'" for pk'
    using that unfolding TLSN_ARTIFACT_PQ_ALGORITHM_def
    by (simp add: verify_signature_def split: if_splits)
  then show ?thesis
    using steps v
    by (intro exI [of _ m] exI [of _ key] exI [of _ raw] exI [of _ sig])
      (simp add: TLSN_EVIDENCE_LIFETIME_SECONDS_def not_less)
qed

lemma tlsn_artifact_sound_witness:
  "vt_session_id \<lparr>vt_session_id = ''s1'', vt_issued_at = 100, vt_verifier_output = JNull\<rparr> =
     tp_session_id (ta_payload demo_artifact) \<and>
   verify_tlsn_artifact service_packages demo_artifact (as_bytes ''N'') None 100 =
     Inr \<lparr>vt_session_id = ''s1'', vt_issued_at = 100, vt_verifier_output = JNull\<rparr>"
  using tlsn_artifact_sound [OF demo_artifact_verifies] demo_artifact_verifies by force

text \<open>Timestamps after the epoch are dates of 1970 or later.\<close>

definition calendar_starts_1970 :: "time_lib \<Rightarrow> bool" where
  "calendar_starts_1970 t \<longleftrightarrow>
     (\<forall>x y m d. 0 \<le> x \<longrightarrow> date_of_timestamp t x = Some (y, m, d) \<longrightarrow> 1970 \<le> y)"

lemma parse_date_year: "parse_date s = Some (y, m, d) \<Longrightarrow> - 2147483648 \<le> y \<and> y < 2147483648"
  by (auto simp: parse_date_def parse_i32_def Let_def split: option.splits prod.splits if_splits)

lemma wrapping_add_i32_18:
  assumes "- 2147483648 \<le> y" and "y < 2147483648"
  shows "wrapping_add_i32 y 18 = (if y \<le> 2147483629 then y + 18 else y + 18 - 4294967296)"
proof (cases "y \<le> 2147483629")
  case True
  with assms show ?thesis by (simp add: wrapping_add_i32_def)
next
  case False
  have "(y + 18 + 2 ^ 31) mod 2 ^ 32 = (y + 18 + 2 ^ 31 - 2 ^ 32) mod (2 ^ 32 :: int)"
    by (simp only: minus_mod_self2)
  also have "\<dots> = y + 18 + 2 ^ 31 - 2 ^ 32"
    using assms False by (intro mod_pos_pos_trivial) simp_all
  finally show ?thesis using False by (simp add: wrapping_add_i32_def)
qed

text \<open>
  C39. The age check fails closed: it holds only when the birthdate
  and the clock can both be read, and then exactly when today is not before the date eighteen years
  after the birthdate, for every birth year up to 2147483629. The eighteen years after that are the
  exception: the addition of 18 wraps round in 32 bits, and every birthdate in them passes.
\<close>

theorem age_check_exact_until_overflow:
  assumes "calendar_starts_1970 t"
  shows "age_over_18 t birthdate now \<longleftrightarrow>
     (\<exists>y m d date. parse_date birthdate = Some (y, m, d) \<and> today t now = Some date \<and>
        (\<not> date_less date (y + 18, m, d) \<or> 2147483629 < y))"
proof (cases "parse_date birthdate")
  case (Some ymd)
  obtain y m d where ymd: "ymd = (y, m, d)" by (cases ymd)
  have y: "- 2147483648 \<le> y" "y < 2147483648"
    using parse_date_year Some ymd by auto
  show ?thesis
  proof (cases "today t now")
    case (Some date)
    obtain ty tm td where date: "date = (ty, tm, td)" by (cases date)
    have "1970 \<le> ty"
      using assms Some date by (auto simp: calendar_starts_1970_def today_def split: if_splits)
    then show ?thesis
      using Some \<open>parse_date birthdate = Some ymd\<close> ymd date y
      by (auto simp: age_over_18_def wrapping_add_i32_18)
  qed (simp add: age_over_18_def Some ymd)
qed (simp add: age_over_18_def)

lemma demo_birthdates:
  "parse_date ''2008-06-15'' = Some (2008, 6, 15)"
  "parse_date ''2008-06-16'' = Some (2008, 6, 16)"
  "parse_date ''2147483640-01-01'' = Some (2147483640, 1, 1)"
  by (simp_all add: date_eval_defs)

lemma age_check_exact_until_overflow_witness:
  "age_over_18 service_clock ''2008-06-15'' 100 \<and> \<not> age_over_18 service_clock ''2008-06-16'' 100 \<and>
   age_over_18 service_clock ''2147483640-01-01'' 100"
proof -
  have c: "calendar_starts_1970 service_clock"
    by (simp add: calendar_starts_1970_def service_clock_def)
  show ?thesis
    unfolding age_check_exact_until_overflow [OF c] demo_birthdates demo_today by simp
qed

end
