(* ===== verification/Issuing.thy ===== *)
theory Issuing
  imports Authorize_Kernel Hybrid_Signer
begin

text \<open>
  The encoders of the issued credentials, \<open>main.rs\<close>: SD-JWT VC, the mandate SD-JWT VC, the
  experimental hybrid wrapper and the ISO mdoc. The random bytes an encoder draws are an argument,
  indexed in the order of the draws; \<open>signing_env\<close> is what signing needs beside the packages. The
  self-signed certificate of the mdoc path comes from \<open>rcgen\<close> and is a function of the label.
\<close>

record ('w, 'h) signing_env =
  sg_keychain :: "('w, 'h) keychain_lib"
  sg_aead :: aead_lib
  sg_cbor :: cbor_lib
  sg_os :: os_answers
  sg_store :: hybrid_store
  sg_certificate :: "string \<Rightarrow> signer_error + bytes"

type_synonym draws = "nat \<Rightarrow> bytes"

definition random_token :: "codec_lib \<Rightarrow> bytes \<Rightarrow> string" where
  "random_token c value = b64url_encode c value"

definition server_error :: "string \<Rightarrow> oauth_error" where
  "server_error description = oauth_error INTERNAL_SERVER_ERROR ''server_error'' description"

section \<open>SD-JWT VC\<close>

definition pid_from_emrtd_claims :: "pid_subject_claims \<Rightarrow> (string \<times> json) list" where
  "pid_from_emrtd_claims pid =
     [(''family_name'', JStr (pid_family_name pid)), (''given_name'', JStr (pid_given_name pid)),
      (''birthdate'', JStr (pid_birthdate pid)), (''age_over_18'', JBool (pid_age_over_18 pid)),
      (''nationality'', JStr (pid_nationality pid)),
      (''issuing_country'', JStr (pid_issuing_country pid))] @
     (case pid_portrait pid of None \<Rightarrow> [] | Some portrait \<Rightarrow> [(''portrait'', JStr portrait)])"

definition demo_pid_claims :: "(string \<times> json) list" where
  "demo_pid_claims =
     [(''family_name'', JStr ''Mustermann''), (''given_name'', JStr ''Erika''),
      (''birthdate'', JStr ''1990-01-01''), (''age_over_18'', JBool True),
      (''issuing_country'', JStr ''DE'')]"

definition sd_jwt_claims ::
  "string \<Rightarrow> verified_tlsn_evidence option \<Rightarrow> pid_subject_claims option \<Rightarrow>
     (string \<times> (string \<times> json) list) oauth" where
  "sd_jwt_claims profile tlsn pid_claims =
     (if profile = PID_SD_JWT \<or> profile = DEV_SVIPE_PID_SD_JWT
        then Inr (''eu.europa.ec.eudi.pid.1'', demo_pid_claims)
      else if profile = PID_FROM_EMRTD_SD_JWT then
        and_then (ok_or (panic ''NFC-sourced PID checked chip + liveness evidence'') pid_claims)
          (\<lambda>pid. Inr (''eu.europa.ec.eudi.pid.1'', pid_from_emrtd_claims pid))
      else if profile = QEAA_SD_JWT \<or> profile = QEAA_PID_BOUND_SD_JWT
        then Inr (''urn:eu.europa.ec.eudi:learning:credential:1'',
          [(''credential_name'', JStr ''Hochschulabschluss''),
           (''awarding_body'', JStr ''German Development University''),
           (''qualification'', JStr ''Master of Science''), (''issuing_country'', JStr ''DE'')])
      else if profile = TLSN_EVIDENCE_SD_JWT then
        and_then (ok_or (panic ''TLSNotary profile checked evidence binding'') tlsn)
          (\<lambda>ev. Inr (TLSN_EVIDENCE_VCT,
             [(''tlsn_session_id'', JStr (vt_session_id ev)),
              (''tlsn_issued_at'', JNat (vt_issued_at ev)),
              (''tlsn_verifier_output'', vt_verifier_output ev),
              (''assurance'', JStr ''tlsnotary-development-evidence'')]))
      else Inl (panic ''only SD-JWT profiles call this encoder''))"

definition sd_disclosure ::
  "('k, 's) packages \<Rightarrow> draws \<Rightarrow> nat \<times> string \<times> json \<Rightarrow> string" where
  "sd_disclosure pk rnd = (\<lambda>(i, name, value).
     b64url_encode (codec pk) (json_to_vec (serde pk)
       (JArr [JStr (random_token (codec pk) (rnd i)), JStr name, value])))"

definition sd_disclosures ::
  "('k, 's) packages \<Rightarrow> draws \<Rightarrow> (string \<times> json) list \<Rightarrow> string list" where
  "sd_disclosures pk rnd claims = map (sd_disclosure pk rnd) (enumerate 0 claims)"

definition sd_digests :: "('k, 's) packages \<Rightarrow> string list \<Rightarrow> json" where
  "sd_digests pk ds = JArr (map (\<lambda>d. JStr (hash_b64 (codec pk) d)) ds)"

definition sd_jwt_payload ::
  "('k, 's) packages \<Rightarrow> string \<Rightarrow> string \<Rightarrow> json \<Rightarrow> u64 \<Rightarrow> string \<Rightarrow> string list \<Rightarrow> json" where
  "sd_jwt_payload pk issuer profile holder_jwk now vct ds = JObj
     ([(''_sd'', sd_digests pk ds), (''_sd_alg'', JStr ''sha-256''),
       (''cnf'', JObj [(''jwk'', holder_jwk)])] @
      (if profile = QEAA_PID_BOUND_SD_JWT
       then [(''cryptographically_bound_to'', JStr PID_VCT)] else []) @
      [(''exp'', JNat (saturating_add now 3600)), (''iat'', JNat now),
       (''iss'', JStr (trim_end_matches CHR ''/'' issuer)), (''nbf'', JNat now),
       (''vct'', JStr vct)])"

text \<open>The signature and the compact form, which the two SD-JWT encoders share.\<close>

definition sign_sd_jwt ::
  "('k, 's) packages \<Rightarrow> ('w, 'h) signing_env \<Rightarrow> 'h keychain_signer \<Rightarrow> json \<Rightarrow> string list \<Rightarrow>
     string oauth" where
  "sign_sd_jwt pk env signer payload ds =
     (let header = JObj [(''alg'', JStr ''ES256''), (''kid'', JStr (signer_kid signer)),
            (''typ'', JStr ''dc+sd-jwt'')];
          input = b64url_encode (codec pk) (json_to_vec (serde pk) header) @ ''.'' @
            b64url_encode (codec pk) (json_to_vec (serde pk) payload) in
      and_then (map_err (\<lambda>_. server_error ''credential signing is unavailable'')
        (sign_es256 (sg_keychain env) signer (as_bytes input))) (\<lambda>signature.
        Inr (input @ ''.'' @ b64url_encode (codec pk) signature @ ''~'' @
             join ''~'' ds @ ''~'')))"

definition issue_sd_jwt ::
  "('k, 's) packages \<Rightarrow> ('w, 'h) signing_env \<Rightarrow> draws \<Rightarrow> 'h keychain_signer \<Rightarrow> string \<Rightarrow> string \<Rightarrow>
     json \<Rightarrow> u64 \<Rightarrow> verified_tlsn_evidence option \<Rightarrow> pid_subject_claims option \<Rightarrow> string oauth" where
  "issue_sd_jwt pk env rnd signer issuer profile holder_jwk now tlsn pid_claims =
     and_then (sd_jwt_claims profile tlsn pid_claims) (\<lambda>(vct, claims).
       let ds = sd_disclosures pk rnd claims in
       sign_sd_jwt pk env signer
         (sd_jwt_payload pk issuer profile holder_jwk now vct ds) ds)"

section \<open>The mandate\<close>

definition mandate_claims :: "string \<Rightarrow> powers \<Rightarrow> string \<Rightarrow> (string \<times> json) list" where
  "mandate_claims mandator granted mandate_jti =
     [(''mandator'', JStr mandator), (''scope'', JArr (map JStr (powers_to_scope_urns granted))),
      (''mandate_jti'', JStr mandate_jti)]"

definition mandate_sd_jwt_payload ::
  "('k, 's) packages \<Rightarrow> draws \<Rightarrow> string \<Rightarrow> json \<Rightarrow> string \<Rightarrow> powers \<Rightarrow> string \<Rightarrow> u64 \<Rightarrow>
     json \<times> string list" where
  "mandate_sd_jwt_payload pk rnd issuer delegate_jwk mandator granted mandate_jti now =
     (let ds = sd_disclosures pk rnd (mandate_claims mandator granted mandate_jti) in
      (JObj [(''_sd'', sd_digests pk ds), (''_sd_alg'', JStr ''sha-256''),
             (''cnf'', JObj [(''jwk'', delegate_jwk)]),
             (''cryptographically_bound_to'', JStr PID_VCT),
             (''exp'', JNat (saturating_add now MANDATE_LIFETIME_SECONDS)), (''iat'', JNat now),
             (''iss'', JStr (trim_end_matches CHR ''/'' issuer)), (''nbf'', JNat now),
             (''vct'', JStr MANDATE_VCT)], ds))"

definition issue_mandate_sd_jwt ::
  "('k, 's) packages \<Rightarrow> ('w, 'h) signing_env \<Rightarrow> draws \<Rightarrow> 'h keychain_signer \<Rightarrow> string \<Rightarrow> json \<Rightarrow>
     string \<Rightarrow> powers \<Rightarrow> string \<Rightarrow> u64 \<Rightarrow> string oauth" where
  "issue_mandate_sd_jwt pk env rnd signer issuer delegate_jwk mandator granted mandate_jti now =
     (let (payload, ds) =
        mandate_sd_jwt_payload pk rnd issuer delegate_jwk mandator granted mandate_jti now in
      sign_sd_jwt pk env signer payload ds)"

text \<open>\<open>format!("urn:eudi:subject:{:032x}", id)\<close>.\<close>

definition hex_digit :: "nat \<Rightarrow> char" where
  "hex_digit n = (''0123456789abcdef'' ! n)"

definition mandator_urn :: "subject_id \<Rightarrow> string" where
  "mandator_urn s =
     ''urn:eudi:subject:'' @
     map (\<lambda>i. hex_digit (unat (drop_bit (4 * (31 - i)) (id_val s)) mod 16)) [0..<32]"

section \<open>The hybrid credential\<close>

definition encode_canonical_cbor :: "cbor_lib \<Rightarrow> cbor \<Rightarrow> bytes oauth" where
  "encode_canonical_cbor lib v =
     ok_or (server_error ''experimental hybrid credential encoding failed'') (into_writer lib v)"

definition cbor_pair :: "u64 \<Rightarrow> cbor \<Rightarrow> cbor \<times> cbor" where
  "cbor_pair key v = (CInt (uint key), v)"

definition hybrid_claims :: "(string \<times> json) list" where
  "hybrid_claims =
     [(''credential_name'', JStr ''Experimental hybrid credential''),
      (''assurance'', JStr ''development-only-non-eudi''), (''issuing_country'', JStr ''DE'')]"

definition hybrid_disclosure ::
  "('k, 's) packages \<Rightarrow> cbor_lib \<Rightarrow> draws \<Rightarrow> nat \<times> string \<times> json \<Rightarrow> bytes oauth" where
  "hybrid_disclosure pk lib rnd = (\<lambda>(i, name, value).
     encode_canonical_cbor lib (CArray
       [CText (random_token (codec pk) (rnd i)), CText name,
        CBytes (json_to_vec (serde pk) value)]))"

definition hybrid_payload ::
  "('k, 's) packages \<Rightarrow> string \<Rightarrow> json \<Rightarrow> u64 \<Rightarrow> bytes list \<Rightarrow> cbor" where
  "hybrid_payload pk issuer holder_jwk now ds = CMap
     [cbor_pair 1 (CText (trim_end_matches CHR ''/'' issuer)),
      cbor_pair 2 (CInt (uint now)), cbor_pair 3 (CInt (uint (saturating_add now 3600))),
      cbor_pair 4 (CText ''dev.advatar.hybrid-pq.credential.v1''),
      cbor_pair 5 (CBytes (json_to_vec (serde pk) holder_jwk)),
      cbor_pair 6 (CArray (map (\<lambda>d. CBytes (sha256 (codec pk) d)) ds)),
      cbor_pair 7 (CBool True)]"

definition hybrid_issuing_context ::
  "codec_lib \<Rightarrow> string \<Rightarrow> string \<Rightarrow> string \<Rightarrow> u64 \<Rightarrow> u64 \<Rightarrow> hybrid_context" where
  "hybrid_issuing_context c issuer holder_jkt nonce gen now =
     (let identity = as_bytes (trim_end_matches CHR ''/'' issuer) in
      \<lparr>wallet_identity = as_bytes holder_jkt, issuer_identity = Some identity,
       key_generation = gen, transaction_id = Some (as_bytes nonce), ctx_session_id = None,
       ctx_audience = Some identity, ctx_nonce = sha256 c (as_bytes nonce),
       created_at_epoch_seconds = now, expires_at_epoch_seconds = saturating_add now 3600,
       transcript_hash = None\<rparr>)"

definition issue_hybrid_credential ::
  "('k, 's) packages \<Rightarrow> ('w, 'h) signing_env \<Rightarrow> draws \<Rightarrow> 'h hybrid_signer \<Rightarrow> string \<Rightarrow> json \<Rightarrow>
     string \<Rightarrow> string \<Rightarrow> u64 \<Rightarrow> bytes oauth" where
  "issue_hybrid_credential pk env rnd signer issuer holder_jwk holder_jkt nonce now =
     and_then (collect_results (hybrid_disclosure pk (sg_cbor env) rnd) (enumerate 0 hybrid_claims))
       (\<lambda>ds.
     and_then (encode_canonical_cbor (sg_cbor env)
         (hybrid_payload pk issuer holder_jwk now ds)) (\<lambda>payload.
       map_err (\<lambda>_. server_error ''experimental hybrid credential signing is unavailable'')
         (sign_envelope (codec pk) (sg_cbor env) (sg_aead env) (pq pk) (sg_keychain env) (sg_os env)
            signer (sg_store env)
            \<lparr>purpose = TestSdJwtWrapperV1,
             envelope_context = hybrid_issuing_context (codec pk) issuer holder_jkt nonce
               (hs_generation signer) now,
             envelope_payload = payload, disclosures = ds,
             classical_kid = signer_kid (hs_classical signer), pq_kid = hs_pq_kid signer,
             generation = hs_generation signer\<rparr>)))"

section \<open>The mdoc\<close>

definition HYBRID_PQ_MDOC_SIGNATURE_LABEL :: int where
  "HYBRID_PQ_MDOC_SIGNATURE_LABEL = - 65537"
definition HYBRID_PQ_MDOC_PUBLIC_KEY_LABEL :: int where
  "HYBRID_PQ_MDOC_PUBLIC_KEY_LABEL = - 65538"

definition cbor_encode :: "cbor_lib \<Rightarrow> cbor \<Rightarrow> bytes oauth" where
  "cbor_encode lib v = ok_or (server_error ''credential CBOR encoding failed'') (into_writer lib v)"

definition cbor_int :: "int \<Rightarrow> cbor" where "cbor_int v = CInt v"
definition cbor_uint :: "u64 \<Rightarrow> cbor" where "cbor_uint v = CInt (uint v)"
definition cbor_datetime :: "string \<Rightarrow> cbor" where "cbor_datetime v = CTag 0 (CText v)"

text \<open>\<open>rsplit_once(',')\<close>: what follows the last comma, or the whole string.\<close>

definition after_last :: "char \<Rightarrow> string \<Rightarrow> string" where
  "after_last ch s = rev (takeWhile (\<lambda>x. x \<noteq> ch) (rev s))"

definition decode_portrait_bytes :: "codec_lib \<Rightarrow> string option \<Rightarrow> bytes" where
  "decode_portrait_bytes c portrait =
     (case portrait of
        None \<Rightarrow> []
      | Some raw \<Rightarrow>
          (let b64 = trim (after_last CHR '','' raw) in
           case b64_decode c b64 of
             Some b \<Rightarrow> b
           | None \<Rightarrow> (case b64url_decode c b64 of Some b \<Rightarrow> b | None \<Rightarrow> [])))"

definition decode_jwk_coordinate :: "('k, 's) packages \<Rightarrow> json \<Rightarrow> string \<Rightarrow> bytes oauth" where
  "decode_jwk_coordinate pk jwk name =
     and_then (ok_or (invalid_proof ''holder JWK coordinate is missing'')
       (Option.bind (json_get name jwk) as_str)) (\<lambda>encoded.
     and_then (ok_or (invalid_proof ''holder JWK coordinate is malformed'')
       (b64url_decode (codec pk) encoded)) (\<lambda>decoded.
     and_then (guard_err (length decoded \<noteq> 32)
       (invalid_proof ''holder P-256 coordinate must be 32 octets'')) (\<lambda>_. Inr decoded)))"

definition rfc3339 :: "time_lib \<Rightarrow> u64 \<Rightarrow> string oauth" where
  "rfc3339 t timestamp =
     and_then (guard_err (2 ^ 63 \<le> unat timestamp)
       (server_error ''credential timestamp is out of range'')) (\<lambda>_.
     and_then (ok_or (server_error ''credential timestamp conversion failed'')
       (date_of_timestamp t (uint timestamp))) (\<lambda>_.
       ok_or (server_error ''credential timestamp formatting failed'')
         (rfc3339_of_timestamp t (uint timestamp))))"

definition mdoc_claims ::
  "codec_lib \<Rightarrow> string \<Rightarrow> pid_subject_claims option \<Rightarrow>
     (string \<times> string \<times> (string \<times> cbor) list) oauth" where
  "mdoc_claims c profile pid_claims =
     (if profile = PID_FROM_EMRTD_MDOC then
        and_then (ok_or (panic ''NFC-sourced PID mdoc checked chip + liveness evidence'') pid_claims)
          (\<lambda>pid. Inr (''eu.europa.ec.eudi.pid.1'', ''eu.europa.ec.eudi.pid.1'',
             [(''family_name'', CText (pid_family_name pid)),
              (''given_name'', CText (pid_given_name pid)),
              (''birth_date'', CText (pid_birthdate pid)),
              (''age_over_18'', CBool (pid_age_over_18 pid)),
              (''nationality'', CText (pid_nationality pid)),
              (''issuing_country'', CText (pid_issuing_country pid)),
              (''portrait'', CBytes (decode_portrait_bytes c (pid_portrait pid)))]))
      else if profile = PID_MDOC then
        Inr (''eu.europa.ec.eudi.pid.1'', ''eu.europa.ec.eudi.pid.1'',
             [(''family_name'', CText ''Mustermann''), (''given_name'', CText ''Erika''),
              (''birth_date'', CText ''1990-01-01''), (''age_over_18'', CBool True),
              (''issuing_country'', CText ''DE'')])
      else if profile = EAA_MDOC then
        Inr (''org.iso.18013.5.1.mDL'', ''org.iso.18013.5.1'',
             [(''family_name'', CText ''Mustermann''), (''given_name'', CText ''Erika''),
              (''birth_date'', CText ''1990-01-01''), (''issuing_country'', CText ''DE''),
              (''document_number'', CText ''DEV-MDL-0001'')])
      else Inl (panic ''only mdoc profiles call this encoder''))"

text \<open>The items of the name space, each with its entry of \<open>valueDigests\<close>.\<close>

definition mdoc_item ::
  "codec_lib \<Rightarrow> cbor_lib \<Rightarrow> draws \<Rightarrow> nat \<times> string \<times> cbor \<Rightarrow> (cbor \<times> (cbor \<times> cbor)) oauth" where
  "mdoc_item c lib rnd = (\<lambda>(digest_id, element_identifier, element_value).
     and_then (cbor_encode lib (CMap
       [(CText ''digestID'', cbor_uint (of_nat digest_id)),
        (CText ''random'', CBytes (rnd digest_id)),
        (CText ''elementIdentifier'', CText element_identifier),
        (CText ''elementValue'', element_value)])) (\<lambda>item_bytes.
     let tagged_item = CTag 24 (CBytes item_bytes) in
     and_then (cbor_encode lib tagged_item) (\<lambda>tagged_bytes.
       Inr (tagged_item,
            (cbor_uint (of_nat digest_id), CBytes (sha256 c tagged_bytes))))))"

definition mdoc_device_key :: "bytes \<Rightarrow> bytes \<Rightarrow> cbor" where
  "mdoc_device_key x y = CMap
     [(cbor_int 1, cbor_int 2), (cbor_int (- 1), cbor_int 1), (cbor_int (- 2), CBytes x),
      (cbor_int (- 3), CBytes y)]"

definition mobile_security_object ::
  "string \<Rightarrow> string \<Rightarrow> (cbor \<times> cbor) list \<Rightarrow> cbor \<Rightarrow> string \<Rightarrow> string \<Rightarrow> cbor" where
  "mobile_security_object doc_type namespace digest_entries device_key signed_at until_text = CMap
     [(CText ''version'', CText ''1.0''), (CText ''digestAlgorithm'', CText ''SHA-256''),
      (CText ''valueDigests'', CMap [(CText namespace, CMap digest_entries)]),
      (CText ''deviceKeyInfo'', CMap [(CText ''deviceKey'', device_key)]),
      (CText ''docType'', CText doc_type),
      (CText ''validityInfo'', CMap
         [(CText ''signed'', cbor_datetime signed_at),
          (CText ''validFrom'', cbor_datetime signed_at),
          (CText ''validUntil'', cbor_datetime until_text)])]"

definition mdoc_sig_structure :: "bytes \<Rightarrow> bytes \<Rightarrow> cbor" where
  "mdoc_sig_structure protected mso_payload =
     CArray [CText ''Signature1'', CBytes protected, CBytes [], CBytes mso_payload]"

text \<open>The unprotected header: the certificate, and the second signature when there is a signer.\<close>

definition mdoc_unprotected ::
  "('k, 's) packages \<Rightarrow> ('w, 'h) signing_env \<Rightarrow> 'h hybrid_signer option \<Rightarrow> bytes \<Rightarrow> bytes \<Rightarrow>
     (cbor \<times> cbor) list oauth" where
  "mdoc_unprotected pk env hybrid certificate msg =
     (let x5chain = (cbor_int 33, CArray [CBytes certificate]) in
      case hybrid of
        None \<Rightarrow> Inr [x5chain]
      | Some hs \<Rightarrow>
          and_then (map_err (\<lambda>_. server_error ''hybrid-PQ mdoc signing is unavailable'')
            (sign_pq_raw (codec pk) (sg_aead env) (pq pk) (sg_os env) hs (sg_store env) msg))
            (\<lambda>pq_signature. Inr
              [x5chain, (cbor_int HYBRID_PQ_MDOC_SIGNATURE_LABEL, CBytes pq_signature),
               (cbor_int HYBRID_PQ_MDOC_PUBLIC_KEY_LABEL, CBytes (hs_pq_public_key hs))]))"

definition issuer_signed ::
  "string \<Rightarrow> cbor list \<Rightarrow> bytes \<Rightarrow> (cbor \<times> cbor) list \<Rightarrow> bytes \<Rightarrow> bytes \<Rightarrow> cbor" where
  "issuer_signed namespace issuer_items protected unprotected mso_payload signature = CMap
     [(CText ''nameSpaces'', CMap [(CText namespace, CArray issuer_items)]),
      (CText ''issuerAuth'', CTag 18 (CArray
         [CBytes protected, CMap unprotected, CBytes mso_payload, CBytes signature]))]"

definition issue_mdoc ::
  "('k, 's) packages \<Rightarrow> ('w, 'h) signing_env \<Rightarrow> draws \<Rightarrow> 'h keychain_signer \<Rightarrow> string \<Rightarrow> json \<Rightarrow>
     u64 \<Rightarrow> pid_subject_claims option \<Rightarrow> 'h hybrid_signer option \<Rightarrow> string oauth" where
  "issue_mdoc pk env rnd signer profile holder_jwk now pid_claims hybrid =
     (let lib = sg_cbor env in
      and_then (mdoc_claims (codec pk) profile pid_claims) (\<lambda>(doc_type, namespace, claims).
      and_then (collect_results (mdoc_item (codec pk) lib rnd) (enumerate 0 claims)) (\<lambda>items.
      and_then (decode_jwk_coordinate pk holder_jwk ''x'') (\<lambda>holder_x.
      and_then (decode_jwk_coordinate pk holder_jwk ''y'') (\<lambda>holder_y.
      and_then (rfc3339 (clock pk) now) (\<lambda>signed_at.
      and_then (rfc3339 (clock pk) (saturating_add now 3600)) (\<lambda>until_text.
      and_then (cbor_encode lib (mobile_security_object doc_type namespace (map snd items)
        (mdoc_device_key holder_x holder_y) signed_at until_text)) (\<lambda>mso.
      and_then (cbor_encode lib (CTag 24 (CBytes mso))) (\<lambda>mso_payload.
      and_then (cbor_encode lib (CMap
        [(cbor_int 1, cbor_int (- 7)), (cbor_int 4, CBytes (as_bytes (signer_kid signer)))]))
        (\<lambda>protected.
      and_then (cbor_encode lib (mdoc_sig_structure protected mso_payload)) (\<lambda>msg.
      and_then (map_err (\<lambda>_. server_error ''mdoc signing is unavailable'')
        (sign_es256 (sg_keychain env) signer msg)) (\<lambda>signature.
      and_then (ok_or (panic ''only closed profile identifiers are used'') (key_label profile))
        (\<lambda>label.
      and_then (map_err (\<lambda>_. server_error ''mdoc issuer certificate is unavailable'')
        (sg_certificate env (''dev.advatar.vcissuer.'' @ label))) (\<lambda>certificate.
      and_then (mdoc_unprotected pk env hybrid certificate msg) (\<lambda>unprotected.
      and_then (cbor_encode lib (issuer_signed namespace (map fst items) protected unprotected
        mso_payload signature)) (\<lambda>document.
        Inr (b64url_encode (codec pk) document)))))))))))))))))"

end
