(* ===== verification/App_Attest.thy ===== *)
theory App_Attest
  imports Libraries
begin

text \<open>
  Apple App Attest, \<open>issuer-service/src/app_attest.rs\<close>: the verification of an attestation that
  registers an app instance, of an assertion that a registered instance signs over a request, and
  the table of instances with its file. X.509 and P-384 are packages: \<open>'c\<close> is a parsed certificate.
\<close>

section \<open>Packages\<close>

record ('c, 'k3, 's3) x509_lib =
  cert_from_der :: "bytes \<Rightarrow> 'c option"
  cert_tbs_der :: "'c \<Rightarrow> bytes option"
  cert_signature :: "'c \<Rightarrow> bytes"
  cert_public_key :: "'c \<Rightarrow> bytes option"
  cert_not_before :: "'c \<Rightarrow> u64"
  cert_not_after :: "'c \<Rightarrow> u64"
  cert_extensions :: "'c \<Rightarrow> (string \<times> bytes) list option"
  p384 :: "('k3, 's3) ecdsa_lib"

record ('k, 's, 'c, 'k3, 's3) attest_lib =
  at_cbor :: cbor_lib
  at_ec :: "('k, 's) ecdsa_lib"
  at_codec :: codec_lib
  at_x509 :: "('c, 'k3, 's3) x509_lib"

section \<open>Constants and configuration\<close>

definition APPLE_ROOT_CA_DER :: bytes where
  "APPLE_ROOT_CA_DER =
     [0x30, 0x82, 0x02, 0x21, 0x30, 0x82, 0x01, 0xa7, 0xa0, 0x03, 0x02, 0x01, 0x02, 0x02, 0x10, 0x0b,
      0xf3, 0xbe, 0x0e, 0xf1, 0xcd, 0xd2, 0xe0, 0xfb, 0x8c, 0x6e, 0x72, 0x1f, 0x62, 0x17, 0x98, 0x30,
      0x0a, 0x06, 0x08, 0x2a, 0x86, 0x48, 0xce, 0x3d, 0x04, 0x03, 0x03, 0x30, 0x52, 0x31, 0x26, 0x30,
      0x24, 0x06, 0x03, 0x55, 0x04, 0x03, 0x0c, 0x1d, 0x41, 0x70, 0x70, 0x6c, 0x65, 0x20, 0x41, 0x70,
      0x70, 0x20, 0x41, 0x74, 0x74, 0x65, 0x73, 0x74, 0x61, 0x74, 0x69, 0x6f, 0x6e, 0x20, 0x52, 0x6f,
      0x6f, 0x74, 0x20, 0x43, 0x41, 0x31, 0x13, 0x30, 0x11, 0x06, 0x03, 0x55, 0x04, 0x0a, 0x0c, 0x0a,
      0x41, 0x70, 0x70, 0x6c, 0x65, 0x20, 0x49, 0x6e, 0x63, 0x2e, 0x31, 0x13, 0x30, 0x11, 0x06, 0x03,
      0x55, 0x04, 0x08, 0x0c, 0x0a, 0x43, 0x61, 0x6c, 0x69, 0x66, 0x6f, 0x72, 0x6e, 0x69, 0x61, 0x30,
      0x1e, 0x17, 0x0d, 0x32, 0x30, 0x30, 0x33, 0x31, 0x38, 0x31, 0x38, 0x33, 0x32, 0x35, 0x33, 0x5a,
      0x17, 0x0d, 0x34, 0x35, 0x30, 0x33, 0x31, 0x35, 0x30, 0x30, 0x30, 0x30, 0x30, 0x30, 0x5a, 0x30,
      0x52, 0x31, 0x26, 0x30, 0x24, 0x06, 0x03, 0x55, 0x04, 0x03, 0x0c, 0x1d, 0x41, 0x70, 0x70, 0x6c,
      0x65, 0x20, 0x41, 0x70, 0x70, 0x20, 0x41, 0x74, 0x74, 0x65, 0x73, 0x74, 0x61, 0x74, 0x69, 0x6f,
      0x6e, 0x20, 0x52, 0x6f, 0x6f, 0x74, 0x20, 0x43, 0x41, 0x31, 0x13, 0x30, 0x11, 0x06, 0x03, 0x55,
      0x04, 0x0a, 0x0c, 0x0a, 0x41, 0x70, 0x70, 0x6c, 0x65, 0x20, 0x49, 0x6e, 0x63, 0x2e, 0x31, 0x13,
      0x30, 0x11, 0x06, 0x03, 0x55, 0x04, 0x08, 0x0c, 0x0a, 0x43, 0x61, 0x6c, 0x69, 0x66, 0x6f, 0x72,
      0x6e, 0x69, 0x61, 0x30, 0x76, 0x30, 0x10, 0x06, 0x07, 0x2a, 0x86, 0x48, 0xce, 0x3d, 0x02, 0x01,
      0x06, 0x05, 0x2b, 0x81, 0x04, 0x00, 0x22, 0x03, 0x62, 0x00, 0x04, 0x45, 0x31, 0xe1, 0x98, 0xb5,
      0xb4, 0xec, 0x04, 0xda, 0x15, 0x02, 0x04, 0x57, 0x04, 0xed, 0x4f, 0x87, 0x72, 0x72, 0xd7, 0x61,
      0x35, 0xb2, 0x61, 0x16, 0xcf, 0xc8, 0x8b, 0x61, 0x5d, 0x0a, 0x00, 0x07, 0x19, 0xba, 0x69, 0x85,
      0x8d, 0xfe, 0x77, 0xca, 0xa3, 0xb8, 0x39, 0xe0, 0x20, 0xdd, 0xd6, 0x56, 0x14, 0x14, 0x04, 0x70,
      0x28, 0x31, 0xe4, 0x3f, 0x70, 0xb8, 0x8f, 0xd6, 0xc3, 0x94, 0xb6, 0x08, 0xea, 0x2b, 0xd6, 0xae,
      0x61, 0xe9, 0xf5, 0x98, 0xc1, 0x2f, 0x46, 0xaf, 0x52, 0x93, 0x72, 0x66, 0xe5, 0x7f, 0x14, 0xeb,
      0x61, 0xfe, 0xc5, 0x30, 0xf7, 0x14, 0x4f, 0x53, 0x81, 0x2e, 0x35, 0xa3, 0x42, 0x30, 0x40, 0x30,
      0x0f, 0x06, 0x03, 0x55, 0x1d, 0x13, 0x01, 0x01, 0xff, 0x04, 0x05, 0x30, 0x03, 0x01, 0x01, 0xff,
      0x30, 0x1d, 0x06, 0x03, 0x55, 0x1d, 0x0e, 0x04, 0x16, 0x04, 0x14, 0xac, 0x91, 0x10, 0x53, 0x33,
      0xbd, 0xbe, 0x68, 0x41, 0xff, 0xa7, 0x0c, 0xa9, 0xe5, 0xfa, 0xea, 0xe5, 0xe5, 0x8a, 0xa1, 0x30,
      0x0e, 0x06, 0x03, 0x55, 0x1d, 0x0f, 0x01, 0x01, 0xff, 0x04, 0x04, 0x03, 0x02, 0x01, 0x06, 0x30,
      0x0a, 0x06, 0x08, 0x2a, 0x86, 0x48, 0xce, 0x3d, 0x04, 0x03, 0x03, 0x03, 0x68, 0x00, 0x30, 0x65,
      0x02, 0x30, 0x42, 0x01, 0x46, 0x9c, 0x1c, 0xaf, 0xb2, 0x25, 0x5b, 0xa5, 0x32, 0xb0, 0x4a, 0x06,
      0xb4, 0x90, 0xfd, 0x1e, 0xf0, 0x47, 0x83, 0x4b, 0x8f, 0xac, 0x42, 0x64, 0xef, 0x6f, 0xbb, 0xe7,
      0xe7, 0x73, 0xb9, 0xf8, 0x54, 0x57, 0x81, 0xe2, 0xe1, 0xa4, 0x9d, 0x3a, 0xca, 0xc0, 0xb9, 0x3e,
      0xb3, 0xb2, 0x02, 0x31, 0x00, 0xa7, 0x95, 0x38, 0xc4, 0x38, 0x04, 0x82, 0x59, 0x45, 0xec, 0x49,
      0xf7, 0x55, 0xc1, 0x37, 0x89, 0xec, 0x59, 0x66, 0xd2, 0x9e, 0x62, 0x7a, 0x6a, 0xb6, 0x28, 0xd5,
      0xa3, 0x21, 0x6b, 0x69, 0x65, 0x48, 0xc9, 0xdf, 0xdd, 0x81, 0xa9, 0xe6, 0xad, 0xdb, 0x82, 0xd5,
      0xb9, 0x93, 0x04, 0x6c, 0x03]"

definition NONCE_OID :: string where "NONCE_OID = ''1.2.840.113635.100.8.2''"
definition AAGUID_PROD :: bytes where
  "AAGUID_PROD = as_bytes ''appattest'' @ replicate 7 0"
definition AAGUID_DEV :: bytes where "AAGUID_DEV = as_bytes ''appattestdevelop''"

record app_attest_config =
  app_ids :: "string list"
  allow_development :: bool

record registered_instance =
  ri_app_id :: string
  ri_public_key :: bytes
  ri_sign_count :: u32

definition app_id_for_rp_id_hash ::
  "codec_lib \<Rightarrow> app_attest_config \<Rightarrow> bytes \<Rightarrow> string option" where
  "app_id_for_rp_id_hash c config rp_id_hash =
     List.find (\<lambda>id. sha256 c (as_bytes id) = rp_id_hash) (app_ids config)"

text \<open>\<open>from_env\<close>, on the values of the two variables.\<close>

definition is_true_flag :: "string \<Rightarrow> bool" where
  "is_true_flag v \<longleftrightarrow>
     v = ''1'' \<or> length v = 4 \<and>
       list_all2 (\<lambda>a b. a = b \<or> of_char a + (32 :: nat) = of_char b) v ''true''"

definition app_attest_from_env :: "string option \<Rightarrow> string option \<Rightarrow> app_attest_config option" where
  "app_attest_from_env app_id_var development_var =
     (case app_id_var of
        None \<Rightarrow> None
      | Some raw \<Rightarrow>
          (let ids = filter (\<lambda>s. s \<noteq> []) (map trim (split_char CHR '','' raw)) in
           if ids = [] then None
           else Some \<lparr>app_ids = ids,
                      allow_development =
                        (case development_var of None \<Rightarrow> False | Some v \<Rightarrow> is_true_flag v)\<rparr>))"

section \<open>CBOR and certificate helpers\<close>

fun as_map :: "cbor \<Rightarrow> (cbor \<times> cbor) list option" where
  "as_map (CMap entries) = Some entries"
| "as_map _ = None"

fun as_cbor_bytes :: "cbor \<Rightarrow> bytes option" where
  "as_cbor_bytes (CBytes b) = Some b"
| "as_cbor_bytes _ = None"

fun as_cbor_array :: "cbor \<Rightarrow> cbor list option" where
  "as_cbor_array (CArray vs) = Some vs"
| "as_cbor_array _ = None"

definition cbor_get :: "(cbor \<times> cbor) list \<Rightarrow> string \<Rightarrow> cbor option" where
  "cbor_get m key = map_option snd (List.find (\<lambda>kv. fst kv = CText key) m)"

definition cbor_get_text :: "(cbor \<times> cbor) list \<Rightarrow> string \<Rightarrow> string option" where
  "cbor_get_text m key = (case cbor_get m key of Some (CText t) \<Rightarrow> Some t | _ \<Rightarrow> None)"

declare Option.bind_eq_Some_conv [ok_iff]

definition verify_p384_issued ::
  "('c, 'k3, 's3) x509_lib \<Rightarrow> 'c \<Rightarrow> bytes \<Rightarrow> string + unit" where
  "verify_p384_issued x cert issuer_point =
     and_then (ok_or ''issuer key is not a valid P-384 point''
       (key_from_sec1 (p384 x) issuer_point)) (\<lambda>key.
     and_then (ok_or ''cannot re-encode TBS certificate'' (cert_tbs_der x cert)) (\<lambda>tbs.
     and_then (ok_or ''certificate signature is not valid DER ECDSA''
       (sig_from_der (p384 x) (cert_signature x cert))) (\<lambda>sig.
       if ecdsa_verify (p384 x) key tbs sig then Inr ()
       else Inl ''certificate signature does not chain to the issuer'')))"

definition spki_point :: "('c, 'k3, 's3) x509_lib \<Rightarrow> 'c \<Rightarrow> string + bytes" where
  "spki_point x cert =
     ok_or ''certificate public key is not byte-aligned'' (cert_public_key x cert)"

definition within_validity :: "('c, 'k3, 's3) x509_lib \<Rightarrow> 'c \<Rightarrow> u64 \<Rightarrow> bool" where
  "within_validity x cert now \<longleftrightarrow> cert_not_before x cert \<le> now \<and> now \<le> cert_not_after x cert"

definition leaf_nonce :: "('c, 'k3, 's3) x509_lib \<Rightarrow> 'c \<Rightarrow> bytes option" where
  "leaf_nonce x cert =
     Option.bind (cert_extensions x cert) (\<lambda>extensions.
     Option.bind (List.find (\<lambda>e. fst e = NONCE_OID) extensions) (\<lambda>ext.
       let der = snd ext in
       if length der \<noteq> 38 \<or> der ! 0 \<noteq> 0x30 \<or> der ! 2 \<noteq> 0xA1 \<or> der ! 4 \<noteq> 0x04 \<or> der ! 5 \<noteq> 0x20
       then None else Some (slice 6 38 der)))"

section \<open>Attestation\<close>

definition attestation_certificates ::
  "('k, 's, 'c, 'k3, 's3) attest_lib \<Rightarrow> (cbor \<times> cbor) list \<Rightarrow> string + bytes \<times> bytes \<times> bytes" where
  "attestation_certificates L m =
     and_then (ok_or ''missing attStmt'' (Option.bind (cbor_get m ''attStmt'') as_map)) (\<lambda>att_stmt.
     and_then (ok_or ''missing x5c chain'' (Option.bind (cbor_get att_stmt ''x5c'') as_cbor_array))
       (\<lambda>x5c.
     and_then (if length x5c < 2 then Inl ''x5c must contain the leaf and the intermediate''
               else Inr ()) (\<lambda>_.
     and_then (ok_or ''x5c[0] is not bytes'' (as_cbor_bytes (x5c ! 0))) (\<lambda>cred_cert_der.
     and_then (ok_or ''x5c[1] is not bytes'' (as_cbor_bytes (x5c ! 1))) (\<lambda>ca_cert_der.
     and_then (ok_or ''missing authData'' (Option.bind (cbor_get m ''authData'') as_cbor_bytes))
       (\<lambda>auth_data. Inr (cred_cert_der, ca_cert_der, auth_data)))))))"

definition check_auth_data ::
  "codec_lib \<Rightarrow> app_attest_config \<Rightarrow> bytes \<Rightarrow> bytes \<Rightarrow> string + string" where
  "check_auth_data c config key_id auth_data =
     and_then (if length auth_data < 55 then Inl ''authData is too short'' else Inr ()) (\<lambda>_.
     and_then (ok_or ''authData rpIdHash does not match any configured app id''
       (app_id_for_rp_id_hash c config (slice 0 32 auth_data))) (\<lambda>app_id.
     let counter = (from_be_bytes (slice 33 37 auth_data) :: u32) in
     and_then (if counter \<noteq> 0 then Inl ''attestation counter must be zero'' else Inr ()) (\<lambda>_.
     let aaguid = slice 37 53 auth_data;
         aaguid_ok = (aaguid = AAGUID_PROD \<or> allow_development config \<and> aaguid = AAGUID_DEV) in
     and_then (if \<not> aaguid_ok then Inl ''attestation AAGUID is not accepted'' else Inr ()) (\<lambda>_.
     let cred_id_len = unat (from_be_bytes (slice 53 55 auth_data) :: u16);
         cred_id_end = 55 + cred_id_len in
     and_then (if length auth_data < cred_id_end then Inl ''authData credentialId is truncated''
               else Inr ()) (\<lambda>_.
       if slice 55 cred_id_end auth_data \<noteq> key_id
       then Inl ''authData credentialId does not match keyId'' else Inr app_id)))))"

definition verify_attestation ::
  "('k, 's, 'c, 'k3, 's3) attest_lib \<Rightarrow> bytes \<Rightarrow> bytes \<Rightarrow> bytes \<Rightarrow> app_attest_config \<Rightarrow> u64 \<Rightarrow>
     string + string \<times> bytes" where
  "verify_attestation L attestation_cbor challenge key_id config now =
     (let x = at_x509 L; c = at_codec L in
      and_then (ok_or ''embedded Apple App Attest root CA is malformed''
        (cert_from_der x APPLE_ROOT_CA_DER)) (\<lambda>root.
      and_then (ok_or ''attestation is not valid CBOR''
        (map_option fst (from_reader (at_cbor L) attestation_cbor))) (\<lambda>v.
      and_then (ok_or ''attestation is not a CBOR map'' (as_map v)) (\<lambda>m.
      and_then (if cbor_get_text m ''fmt'' \<noteq> Some ''apple-appattest''
                then Inl ''attestation fmt is not apple-appattest'' else Inr ()) (\<lambda>_.
      and_then (attestation_certificates L m) (\<lambda>(cred_cert_der, ca_cert_der, auth_data).
      and_then (ok_or ''credCert is malformed'' (cert_from_der x cred_cert_der)) (\<lambda>cred_cert.
      and_then (ok_or ''intermediate CA is malformed'' (cert_from_der x ca_cert_der)) (\<lambda>ca_cert.
      and_then (spki_point x ca_cert) (\<lambda>ca_point.
      and_then (verify_p384_issued x cred_cert ca_point) (\<lambda>_.
      and_then (spki_point x root) (\<lambda>root_point.
      and_then (verify_p384_issued x ca_cert root_point) (\<lambda>_.
      and_then (if \<not> within_validity x cred_cert now
                then Inl ''credCert is outside its validity window'' else Inr ()) (\<lambda>_.
      and_then (ok_or ''credCert has no App Attest nonce extension'' (leaf_nonce x cred_cert))
        (\<lambda>cert_nonce.
      and_then (if cert_nonce \<noteq> sha256 c (auth_data @ sha256 c challenge)
                then Inl ''attestation nonce does not match the issued challenge'' else Inr ()) (\<lambda>_.
      and_then (spki_point x cred_cert) (\<lambda>cred_point.
      and_then (if length key_id \<noteq> 32 \<or> key_id \<noteq> sha256 c cred_point
                then Inl ''keyId does not match the attested public key'' else Inr ()) (\<lambda>_.
      and_then (ok_or ''attested key is not a valid P-256 point''
        (key_from_sec1 (at_ec L) cred_point)) (\<lambda>_.
      and_then (check_auth_data c config key_id auth_data) (\<lambda>app_id.
        Inr (app_id, cred_point))))))))))))))))))))"

section \<open>Assertion\<close>

definition verify_assertion ::
  "('k, 's, 'c, 'k3, 's3) attest_lib \<Rightarrow> bytes \<Rightarrow> bytes \<Rightarrow> registered_instance \<Rightarrow> string + u32" where
  "verify_assertion L assertion_cbor client_data inst =
     (let c = at_codec L in
      and_then (ok_or ''assertion is not valid CBOR''
        (map_option fst (from_reader (at_cbor L) assertion_cbor))) (\<lambda>v.
      and_then (ok_or ''assertion is not a CBOR map'' (as_map v)) (\<lambda>m.
      and_then (ok_or ''assertion missing signature''
        (Option.bind (cbor_get m ''signature'') as_cbor_bytes)) (\<lambda>signature.
      and_then (ok_or ''assertion missing authenticatorData''
        (Option.bind (cbor_get m ''authenticatorData'') as_cbor_bytes)) (\<lambda>authenticator_data.
      and_then (if length authenticator_data < 37
                then Inl ''assertion authenticatorData is too short'' else Inr ()) (\<lambda>_.
      and_then (if slice 0 32 authenticator_data \<noteq> sha256 c (as_bytes (ri_app_id inst))
                then Inl ''assertion rpIdHash does not match the instance's app id''
                else Inr ()) (\<lambda>_.
      let nonce = sha256 c (authenticator_data @ sha256 c client_data) in
      and_then (ok_or ''stored instance key is malformed''
        (key_from_sec1 (at_ec L) (ri_public_key inst))) (\<lambda>key.
      and_then (ok_or ''assertion signature is not valid DER ECDSA''
        (sig_from_der (at_ec L) signature)) (\<lambda>sig.
      and_then (if \<not> ecdsa_verify (at_ec L) key nonce sig
                then Inl ''assertion signature is invalid'' else Inr ()) (\<lambda>_.
      let counter = (from_be_bytes (slice 33 37 authenticator_data) :: u32) in
      if counter \<le> ri_sign_count inst
      then Inl ''assertion counter did not increase (possible replay)''
      else Inr counter))))))))))"

section \<open>The table of instances and its file\<close>

type_synonym instances = "string \<rightharpoonup> registered_instance"

record instances_lib =
  instances_to_vec :: "instances \<Rightarrow> bytes option"
  instances_from_slice :: "bytes \<Rightarrow> instances option"

record attest_file =
  af_table :: "bytes option"
  af_temporary :: "bytes option"

datatype write_result = WriteOk | OpenFailed | WriteFailed nat

record attest_io =
  io_write :: write_result
  io_rename_fails :: bool

definition load_instances :: "instances_lib \<Rightarrow> attest_file \<Rightarrow> instances" where
  "load_instances lib file =
     (case af_table file of
        None \<Rightarrow> Map.empty
      | Some b \<Rightarrow> (case instances_from_slice lib b of None \<Rightarrow> Map.empty | Some m \<Rightarrow> m))"

definition save_instances ::
  "instances_lib \<Rightarrow> attest_io \<Rightarrow> instances \<Rightarrow> attest_file \<Rightarrow> attest_file" where
  "save_instances lib io instances file =
     (case instances_to_vec lib instances of
        None \<Rightarrow> file
      | Some b \<Rightarrow>
          (case io_write io of
             OpenFailed \<Rightarrow> file
           | WriteFailed n \<Rightarrow> file\<lparr>af_temporary := Some (take n b)\<rparr>
           | WriteOk \<Rightarrow>
               if io_rename_fails io then file\<lparr>af_temporary := Some b\<rparr>
               else file\<lparr>af_table := Some b, af_temporary := None\<rparr>))"

section \<open>What the checks accept\<close>

lemma if_Inl_ok_iff [ok_iff]: "(if b then Inl e else Inr ()) = Inr u \<longleftrightarrow> \<not> b"
  by simp

text \<open>The part of an attestation that is signed, under the accepted reading of its CBOR.\<close>

definition attested_parts ::
  "('k, 's, 'c, 'k3, 's3) attest_lib \<Rightarrow> bytes \<Rightarrow> 'c \<Rightarrow> 'c \<Rightarrow> bytes \<Rightarrow> bool" where
  "attested_parts L attestation leaf ca auth_data \<longleftrightarrow>
     (\<exists>v n m der der'. from_reader (at_cbor L) attestation = Some (v, n) \<and> as_map v = Some m \<and>
        cbor_get_text m ''fmt'' = Some ''apple-appattest'' \<and>
        attestation_certificates L m = Inr (der, der', auth_data) \<and>
        cert_from_der (at_x509 L) der = Some leaf \<and> cert_from_der (at_x509 L) der' = Some ca)"

lemma attested_parts_unique:
  "attested_parts L a leaf ca d \<Longrightarrow> attested_parts L a leaf' ca' d' \<Longrightarrow>
   leaf = leaf' \<and> ca = ca' \<and> d = d'"
  by (auto simp: attested_parts_def)

lemma check_auth_data_ok:
  assumes "check_auth_data c config key_id d = Inr app_id"
  shows "55 \<le> length d \<and> app_id \<in> set (app_ids config) \<and> sha256 c (as_bytes app_id) = take 32 d \<and>
     (from_be_bytes (slice 33 37 d) :: u32) = 0 \<and>
     (slice 37 53 d = AAGUID_PROD \<or> allow_development config \<and> slice 37 53 d = AAGUID_DEV) \<and>
     (let m = unat (from_be_bytes (slice 53 55 d) :: u16) in
        55 + m \<le> length d \<and> slice 55 (55 + m) d = key_id)"
proof -
  have find: "List.find P xs = Some y \<Longrightarrow> y \<in> set xs \<and> P y" for P and xs :: "string list" and y
    by (auto simp: find_Some_iff)
  show ?thesis
    using assms unfolding check_auth_data_def Let_def ok_iff
    by (auto simp: app_id_for_rp_id_hash_def slice_def Let_def split: if_splits dest: find)
qed

text \<open>The layout of an attestation object.\<close>

lemma cbor_shapes:
  "as_map v = Some m \<longleftrightarrow> v = CMap m" "as_cbor_array v = Some vs \<longleftrightarrow> v = CArray vs"
  "as_cbor_bytes v = Some b \<longleftrightarrow> v = CBytes b"
  by (cases v; simp)+

definition attestation_layout :: "cbor_lib \<Rightarrow> bytes \<Rightarrow> bytes \<Rightarrow> bytes \<Rightarrow> bytes \<Rightarrow> bool" where
  "attestation_layout lib attestation cred_cert_der ca_cert_der auth_data \<longleftrightarrow>
     (\<exists>n m att_stmt x5c. from_reader lib attestation = Some (CMap m, n) \<and>
        cbor_get_text m ''fmt'' = Some ''apple-appattest'' \<and>
        cbor_get m ''attStmt'' = Some (CMap att_stmt) \<and> cbor_get att_stmt ''x5c'' = Some (CArray x5c) \<and>
        2 \<le> length x5c \<and> x5c ! 0 = CBytes cred_cert_der \<and> x5c ! 1 = CBytes ca_cert_der \<and>
        cbor_get m ''authData'' = Some (CBytes auth_data))"

lemma attested_parts_layout:
  assumes "attested_parts L a leaf ca d"
  obtains der der' where "attestation_layout (at_cbor L) a der der' d"
    "cert_from_der (at_x509 L) der = Some leaf" "cert_from_der (at_x509 L) der' = Some ca"
  using assms unfolding attested_parts_def attestation_layout_def attestation_certificates_def ok_iff
  by (clarsimp simp: cbor_shapes not_less)

lemma verify_attestation_ok:
  assumes "verify_attestation L a challenge key_id config now = Inr (app_id, point)"
  obtains leaf ca root auth_data ca_point root_point key where
    "attested_parts L a leaf ca auth_data"
    "cert_from_der (at_x509 L) APPLE_ROOT_CA_DER = Some root"
    "cert_public_key (at_x509 L) ca = Some ca_point"
    "cert_public_key (at_x509 L) root = Some root_point"
    "verify_p384_issued (at_x509 L) leaf ca_point = Inr ()"
    "verify_p384_issued (at_x509 L) ca root_point = Inr ()"
    "within_validity (at_x509 L) leaf now"
    "leaf_nonce (at_x509 L) leaf =
       Some (sha256 (at_codec L) (auth_data @ sha256 (at_codec L) challenge))"
    "cert_public_key (at_x509 L) leaf = Some point"
    "length key_id = 32" "key_id = sha256 (at_codec L) point"
    "key_from_sec1 (at_ec L) point = Some key"
    "check_auth_data (at_codec L) config key_id auth_data = Inr app_id"
  using assms unfolding verify_attestation_def Let_def ok_iff
  by (clarsimp simp: ok_iff spki_point_def) (metis attested_parts_def)

lemma verify_assertion_ok_iff:
  "verify_assertion L a client_data inst = Inr n \<longleftrightarrow>
     (\<exists>v len m signature d key sig.
        from_reader (at_cbor L) a = Some (v, len) \<and> as_map v = Some m \<and>
        Option.bind (cbor_get m ''signature'') as_cbor_bytes = Some signature \<and>
        Option.bind (cbor_get m ''authenticatorData'') as_cbor_bytes = Some d \<and>
        37 \<le> length d \<and> slice 0 32 d = sha256 (at_codec L) (as_bytes (ri_app_id inst)) \<and>
        key_from_sec1 (at_ec L) (ri_public_key inst) = Some key \<and>
        sig_from_der (at_ec L) signature = Some sig \<and>
        ecdsa_verify (at_ec L) key (sha256 (at_codec L) (d @ sha256 (at_codec L) client_data)) sig \<and>
        n = from_be_bytes (slice 33 37 d) \<and> ri_sign_count inst < n)"
  unfolding verify_assertion_def Let_def
  by (auto simp: and_then_ok_iff ok_or_ok_iff if_Inl_ok_iff not_le not_less split: if_splits)

lemma verify_assertion_higher: "verify_assertion L a client_data inst = Inr n \<Longrightarrow> ri_sign_count inst < n"
  by (auto simp: verify_assertion_ok_iff)

end
