(* ===== verification/Capture.thy ===== *)
theory Capture
  imports Service_Types
begin

text \<open>
  The data of a capture session and the builders of its URLs and documents,
  \<open>issuer-service/src/capture.rs\<close>. Its handlers are in \<open>Capture_Service\<close>.
\<close>

definition CAPTURE_SESSION_TTL_SECONDS :: u64 where "CAPTURE_SESSION_TTL_SECONDS = 900"

datatype capture_status = AwaitingEvidence | Issued | Failed

record capture_session =
  cs_holder_jkt :: string
  cs_holder_jwk :: json
  cs_nonce :: string
  cs_iproov_user_id :: string
  cs_iproov_token :: "string option"
  cs_status :: capture_status
  cs_credential :: "string option"
  cs_credential_mdoc :: "string option"
  cs_expires_at :: u64
  cs_device_token :: "string option"

record create_capture_request =
  cc_holder_jwk :: json
  cc_device_token :: "string option"

record create_capture_response =
  cr_session_id :: string
  cr_nonce :: string
  cr_invocation_url :: string
  cr_iproov_token :: "string option"
  cr_iproov_streaming_url :: "string option"
  cr_iproov_assurance_type :: "string option"
  cr_expires_in :: u64

record capture_evidence_request =
  ce_attestation :: string
  ce_client_ip :: "string option"

fun status_json :: "capture_status \<Rightarrow> json" where
  "status_json AwaitingEvidence = JStr ''awaiting_evidence''"
| "status_json Issued = JStr ''issued''"
| "status_json Failed = JStr ''failed''"

definition iproov_user_id :: "string \<Rightarrow> string" where
  "iproov_user_id session_id = ''pid-capture-'' @ session_id"

definition iproov_resource :: "string \<Rightarrow> string" where
  "iproov_resource session_id = ''pid-capture:'' @ session_id"

definition invocation_url :: "string \<Rightarrow> string \<Rightarrow> string" where
  "invocation_url origin session_id =
     trim_end_matches CHR ''/'' origin @ ''/pid-capture?session='' @ session_id"

definition invocation_origin :: "string option \<Rightarrow> string \<Rightarrow> string" where
  "invocation_origin configured issuer_origin =
     (case map_option (\<lambda>v. trim_end_matches CHR ''/'' (trim v)) configured of
        Some origin \<Rightarrow> if origin = [] then trim_end_matches CHR ''/'' issuer_origin else origin
      | None \<Rightarrow> trim_end_matches CHR ''/'' issuer_origin)"

text \<open>\<open>serde_json::to_string\<close>: the text whose bytes \<open>to_vec\<close> writes.\<close>

definition json_to_string :: "serde_lib \<Rightarrow> json \<Rightarrow> string" where
  "json_to_string s j = map (\<lambda>w. char_of (unat w)) (json_to_vec s j)"

definition credential_offer_document :: "string \<Rightarrow> (string \<times> string \<times> string) list \<Rightarrow> json" where
  "credential_offer_document issuer_origin credentials = JObj
     [(''credential_configuration_ids'', JArr (map (\<lambda>(id, _, _). JStr id) credentials)),
      (''credential_issuer'', JStr issuer_origin),
      (''credentials'', JArr (map (\<lambda>(_, format, credential).
          JObj [(''credential'', JStr credential), (''format'', JStr format)]) credentials))]"

definition capture_credential_offer ::
  "('k, 's) packages \<Rightarrow> string \<Rightarrow> (string \<times> string \<times> string) list \<Rightarrow> json \<times> string" where
  "capture_credential_offer pk issuer_origin credentials =
     (let offer = credential_offer_document issuer_origin credentials in
      (offer, url_append_pair (urls pk) ''openid-credential-offer://'' ''credential_offer''
                (json_to_string (serde pk) offer)))"

definition apple_app_site_association :: "string \<Rightarrow> json" where
  "apple_app_site_association app_id =
     (let clip_id = app_id @ ''.Clip'' in JObj
       [(''appclips'', JObj [(''apps'', JArr [JStr clip_id])]),
        (''applinks'', JObj
          [(''apps'', JArr []),
           (''details'', JArr [JObj
             [(''appIDs'', JArr [JStr app_id]),
              (''components'', JArr [JObj [(''/'', JStr ''/pid-capture*''),
                 (''comment'', JStr ''PID capture companion'')]])]])])])"

lemma invocation_origin_no_slash:
  "invocation_origin configured issuer_origin = [] \<or>
   last (invocation_origin configured issuer_origin) \<noteq> CHR ''/''"
  by (auto simp: invocation_origin_def last_trim_end_matches split: option.split)

end
