(* ===== verification/Iproov.thy ===== *)
theory Iproov
  imports Service_Types
begin

text \<open>
  The client of the liveness provider, \<open>issuer-service/src/iproov.rs\<close>: configuration, request
  bodies, the readings of the two responses and the two calls. The HTTP client is a package: a call
  posts a JSON body to a URL and answers with the text of a successful response or an error.
\<close>

definition ASSURANCE_GENUINE_PRESENCE :: string where
  "ASSURANCE_GENUINE_PRESENCE = ''genuine_presence''"
definition CLIENT_ID :: string where "CLIENT_ID = ''eudi-wallet-pid-capture''"

record iproov_config =
  ip_api_key :: string
  ip_secret :: string
  ip_base_url :: string
  ip_assurance_type :: string
  ip_web_base_url :: "string option"

record validate_response =
  vr_passed :: bool
  vr_assurance_type :: "string option"

record iproov_lib =
  hex_encode :: "bytes \<Rightarrow> string"
  token_response_from_str :: "string \<Rightarrow> string + string"
  validate_response_from_str :: "string \<Rightarrow> string + validate_response"
  http_post :: "string \<Rightarrow> json \<Rightarrow> string + string"

definition host_of :: "string \<Rightarrow> string" where
  "host_of base_url =
     (let no_scheme =
        (case strip_prefix ''https://'' base_url of
           Some rest \<Rightarrow> rest
         | None \<Rightarrow> (case strip_prefix ''http://'' base_url of Some rest \<Rightarrow> rest | None \<Rightarrow> base_url))
      in hd (split_char CHR ''/'' no_scheme))"

definition safe_char :: "char \<Rightarrow> bool" where
  "safe_char ch \<longleftrightarrow>
     (let b = (of_char ch :: nat) in
      48 \<le> b \<and> b \<le> 57 \<or> 65 \<le> b \<and> b \<le> 90 \<or> 97 \<le> b \<and> b \<le> 122
      \<or> ch \<in> {CHR ''@'', CHR ''.'', CHR ''_'', CHR ''-''})"

definition safe_user_id :: "iproov_lib \<Rightarrow> codec_lib \<Rightarrow> string \<Rightarrow> string" where
  "safe_user_id L c raw =
     (if raw \<noteq> [] \<and> length raw \<le> 255 \<and> list_all safe_char raw then raw
      else hex_encode L (sha256 c (as_bytes raw)))"

definition nonempty :: "string option \<Rightarrow> string option" where
  "nonempty v = (case v of Some s \<Rightarrow> if s = [] then None else Some s | None \<Rightarrow> None)"

text \<open>\<open>from_env\<close>, on the lookup of configuration keys.\<close>

definition iproov_from_env :: "(string \<Rightarrow> string option) \<Rightarrow> iproov_config option" where
  "iproov_from_env var =
     Option.bind (nonempty (var ''MANDAMUS_IPROOV_BASE_URL'')) (\<lambda>base_url.
     Option.bind (nonempty (var ''MANDAMUS_IPROOV_API_KEY'')) (\<lambda>api_key.
     Option.bind (nonempty (var ''MANDAMUS_IPROOV_SECRET'')) (\<lambda>secret.
       Some \<lparr>ip_api_key = api_key, ip_secret = secret,
             ip_base_url = trim_end_matches CHR ''/'' base_url,
             ip_assurance_type =
               (case nonempty (var ''MANDAMUS_IPROOV_ASSURANCE_TYPE'') of
                  Some a \<Rightarrow> a | None \<Rightarrow> ASSURANCE_GENUINE_PRESENCE),
             ip_web_base_url = nonempty (var ''MANDAMUS_IPROOV_WEB_BASE_URL'')\<rparr>)))"

definition token_endpoint :: "iproov_config \<Rightarrow> string" where
  "token_endpoint cfg = ip_base_url cfg @ ''/claim/verify/token''"

definition validate_endpoint :: "iproov_config \<Rightarrow> string" where
  "validate_endpoint cfg = ip_base_url cfg @ ''/claim/verify/validate''"

definition streaming_url :: "iproov_config \<Rightarrow> string" where
  "streaming_url cfg =
     (case nonempty (ip_web_base_url cfg) of
        Some w \<Rightarrow> w
      | None \<Rightarrow> ''wss://'' @ host_of (ip_base_url cfg) @ ''/ws'')"

definition token_request_body :: "iproov_config \<Rightarrow> string \<Rightarrow> string \<Rightarrow> json" where
  "token_request_body cfg user_id resource = JObj
     [(''api_key'', JStr (ip_api_key cfg)), (''assurance_type'', JStr (ip_assurance_type cfg)),
      (''client'', JStr CLIENT_ID), (''resource'', JStr resource),
      (''secret'', JStr (ip_secret cfg)), (''user_id'', JStr user_id)]"

definition parse_token_response :: "iproov_lib \<Rightarrow> string \<Rightarrow> string + string" where
  "parse_token_response L body =
     (case token_response_from_str L body of
        Inl e \<Rightarrow> Inl (''iproov token response: '' @ e)
      | Inr token \<Rightarrow>
          if token = [] then Inl ''iproov token response carried an empty token'' else Inr token)"

definition validate_request_body :: "iproov_config \<Rightarrow> string \<Rightarrow> string \<Rightarrow> string \<Rightarrow> json" where
  "validate_request_body cfg token user_id client_ip = JObj
     [(''api_key'', JStr (ip_api_key cfg)), (''client'', JStr CLIENT_ID), (''ip'', JStr client_ip),
      (''secret'', JStr (ip_secret cfg)), (''token'', JStr token), (''user_id'', JStr user_id)]"

definition parse_validate_response :: "iproov_lib \<Rightarrow> string \<Rightarrow> string \<Rightarrow> string + bool" where
  "parse_validate_response L body required_assurance =
     (case validate_response_from_str L body of
        Inl e \<Rightarrow> Inl (''iproov validate response: '' @ e)
      | Inr r \<Rightarrow> Inr (vr_passed r \<and> vr_assurance_type r = Some required_assurance))"

definition create_token ::
  "iproov_lib \<Rightarrow> codec_lib \<Rightarrow> iproov_config \<Rightarrow> string \<Rightarrow> string \<Rightarrow> string + string" where
  "create_token L c cfg user_id resource =
     and_then (http_post L (token_endpoint cfg)
         (token_request_body cfg (safe_user_id L c user_id) resource))
       (parse_token_response L)"

definition validate ::
  "iproov_lib \<Rightarrow> codec_lib \<Rightarrow> iproov_config \<Rightarrow> string \<Rightarrow> string \<Rightarrow> string \<Rightarrow> string + bool" where
  "validate L c cfg token user_id client_ip =
     and_then (http_post L (validate_endpoint cfg)
         (validate_request_body cfg token (safe_user_id L c user_id) client_ip))
       (\<lambda>body. parse_validate_response L body (ip_assurance_type cfg))"

lemma parse_validate_response_ok_iff [ok_iff]:
  "parse_validate_response L body required = Inr b \<longleftrightarrow>
     (\<exists>r. validate_response_from_str L body = Inr r \<and>
        b = (vr_passed r \<and> vr_assurance_type r = Some required))"
  by (cases "validate_response_from_str L body") (auto simp: parse_validate_response_def)

lemma validate_True_iff:
  "validate L c cfg token user client_ip = Inr True \<longleftrightarrow>
     (\<exists>body r. http_post L (validate_endpoint cfg)
        (validate_request_body cfg token (safe_user_id L c user) client_ip) = Inr body \<and>
        validate_response_from_str L body = Inr r \<and> vr_passed r \<and>
        vr_assurance_type r = Some (ip_assurance_type cfg))"
  by (auto simp: validate_def ok_iff)

end
