(* ===== verification/Service_State.thy ===== *)
theory Service_State
  imports Issuing App_Attest Capture Iproov
begin

text \<open>
  The state of the service, \<open>main.rs\<close>: the requests after their bodies were deserialised, the
  configuration \<open>AppState\<close> and the shared \<open>VolatileState\<close> behind its lock. A \<open>HashMap\<close> is a partial
  function; where the code iterates over one, the order of the iteration is an argument.
\<close>

section \<open>Requests and responses\<close>

record par_request =
  pr_client_id :: string
  pr_redirect_uri :: string
  pr_response_type :: string
  pr_scope :: string
  pr_state :: "string option"
  pr_code_challenge :: string
  pr_code_challenge_method :: string
  pr_issuer_state :: "string option"

record par_response =
  par_request_uri :: string
  par_expires_in :: u64

record create_offer_response =
  or_credential_offer_uri :: string
  or_deep_link :: string
  or_expires_in :: u64

record tlsn_demo_request =
  td_server_name :: "string option"
  td_claim :: "json option"

record authorization_request =
  ar_client_id :: string
  ar_request_uri :: string

record token_request =
  tr_grant_type :: string
  tr_code :: string
  tr_redirect_uri :: string
  tr_client_id :: string
  tr_code_verifier :: string

record pid_binding_object =
  pb_pid_vp :: string
  pb_proof_jwt :: string

record credential_request =
  cq_configuration_id :: string
  cq_proofs_jwt :: "string list"
  cq_pid_binding :: "pid_binding_object option"
  cq_emrtd_attestation :: "string option"

record notifications_register_request =
  nr_installation_id :: string
  nr_device_token :: string

record app_attest_register_request =
  rr_key_id :: string
  rr_attestation :: string
  rr_challenge :: string

record app_attest_assert_request =
  as_key_id :: string
  as_assertion :: string
  as_client_data :: string

record app_attest_challenge_response =
  ch_challenge :: string
  ch_expires_in :: u64

section \<open>Configuration\<close>

record demo_notary =
  dn_public_key :: bytes
  dn_sign :: "bytes \<Rightarrow> bytes"

text \<open>
  \<open>AppState\<close> without its lock and its HTTP client. \<open>app_target_macos\<close> is the platform the service
  was built for; \<open>app_app_attest_store\<close> and \<open>app_apns\<close> say whether the path and the provider are
  configured.
\<close>

record 'h app_state =
  app_issuer :: string
  app_trusted_notary_key :: bytes
  app_trusted_notary_pq_key :: "bytes option"
  app_tlsn_demo_notary :: "demo_notary option"
  app_trusted_emrtd_reader_key :: "bytes option"
  app_hybrid_pq_enabled :: bool
  app_iproov :: "iproov_config option"
  app_app_attest :: "app_attest_config option"
  app_app_attest_store :: bool
  app_apns :: bool
  app_target_macos :: bool
  app_credential_signers :: "string \<rightharpoonup> 'h keychain_signer"
  app_hybrid_credential_signer :: "'h hybrid_signer option"

text \<open>The closed set of profiles for which \<open>main\<close> creates a signer.\<close>

definition signer_profiles :: "string list" where
  "signer_profiles =
     [PID_SD_JWT, PID_FROM_EMRTD_SD_JWT, PID_FROM_EMRTD_MDOC, PID_MDOC, EAA_MDOC, QEAA_SD_JWT,
      QEAA_PID_BOUND_SD_JWT, DEV_SVIPE_PID_SD_JWT, TLSN_EVIDENCE_SD_JWT, MANDATE_SD_JWT]"

definition signers_configured :: "'h app_state \<Rightarrow> bool" where
  "signers_configured cfg \<longleftrightarrow> (\<forall>p \<in> set signer_profiles. app_credential_signers cfg p \<noteq> None)"

text \<open>\<open>public_jwk\<close> of a signer.\<close>

definition signer_public_jwk :: "'h keychain_signer \<Rightarrow> json" where
  "signer_public_jwk s = JObj
     [(''alg'', JStr ''ES256''), (''crv'', JStr ''P-256''), (''kid'', JStr (signer_kid s)),
      (''kty'', JStr ''EC''), (''use'', JStr ''sig''), (''x'', JStr (signer_x s)),
      (''y'', JStr (signer_y s))]"

section \<open>The volatile state\<close>

record pushed_authorization =
  pa_client_id :: string
  pa_redirect_uri :: string
  pa_scope :: string
  pa_state :: "string option"
  pa_code_challenge :: string
  pa_tlsn_evidence :: "verified_tlsn_evidence option"

record authorization_code =
  ac_client_id :: string
  ac_redirect_uri :: string
  ac_scope :: string
  ac_code_challenge :: string
  ac_consumed :: bool
  ac_tlsn_evidence :: "verified_tlsn_evidence option"

record access_token =
  at_scope :: string
  at_dpop_jkt :: string
  at_tlsn_evidence :: "verified_tlsn_evidence option"

record credential_offer =
  co_profile :: string
  co_issuer_state :: string
  co_expires_at :: u64
  co_tlsn_evidence :: "verified_tlsn_evidence option"

record volatile_state =
  pushed :: "string \<rightharpoonup> pushed_authorization"
  codes :: "string \<rightharpoonup> authorization_code"
  tokens :: "string \<rightharpoonup> access_token"
  nonces :: "string \<rightharpoonup> bool"
  dpop_jtis :: "string set"
  binding_jtis :: "string set"
  offers :: "string \<rightharpoonup> credential_offer"
  tlsn_sessions :: "string set"
  capture_sessions :: "string \<rightharpoonup> capture_session"
  app_attest_challenges :: "string \<rightharpoonup> u64"
  app_attest_instances :: instances
  apns_tokens :: "string \<rightharpoonup> string"
  attest_store :: attest_file

text \<open>
  What \<open>main\<close> starts with; the table of instances is restored when a store is configured.
  \<open>attest_store\<close> is the file behind it.
\<close>

definition initial_state :: "instances_lib \<Rightarrow> 'h app_state \<Rightarrow> attest_file \<Rightarrow> volatile_state" where
  "initial_state lib cfg file =
     \<lparr>pushed = Map.empty, codes = Map.empty, tokens = Map.empty, nonces = Map.empty,
      dpop_jtis = {}, binding_jtis = {}, offers = Map.empty, tlsn_sessions = {},
      capture_sessions = Map.empty, app_attest_challenges = Map.empty,
      app_attest_instances =
        (if app_app_attest_store cfg then load_instances lib file else Map.empty),
      apns_tokens = Map.empty, attest_store = file\<rparr>"

text \<open>A handler returns a response or an error, and the state it leaves.\<close>

type_synonym 'a handled = "'a oauth \<times> volatile_state"

text \<open>A step of a handler that may change the state, and one that only checks.\<close>

type_synonym 'a action = "volatile_state \<Rightarrow> 'a handled"

definition bind_action :: "'a action \<Rightarrow> ('a \<Rightarrow> 'b action) \<Rightarrow> 'b action" where
  "bind_action m f st = (case m st of (Inl e, st') \<Rightarrow> (Inl e, st') | (Inr x, st') \<Rightarrow> f x st')"

definition check_only :: "'a oauth \<Rightarrow> 'a action" where
  "check_only r st = (r, st)"

lemma check_only_eq_iff [simp]: "check_only r st = (r', st') \<longleftrightarrow> r = r' \<and> st' = st"
  by (auto simp: check_only_def)

lemma bind_check [simp]:
  "bind_action (check_only r) f st = (case r of Inl e \<Rightarrow> (Inl e, st) | Inr x \<Rightarrow> f x st)"
  by (simp add: bind_action_def check_only_def split: sum.split)

lemma bind_action_ok_iff [ok_iff]:
  "bind_action m f st = (Inr y, st'') \<longleftrightarrow>
     (\<exists>x st'. m st = (Inr x, st') \<and> f x st' = (Inr y, st''))"
  by (auto simp: bind_action_def split: prod.splits sum.splits)

lemma bind_action_cases:
  assumes "bind_action m f st = (r, st'')"
  obtains e where "r = Inl e" "m st = (Inl e, st'')"
    | x st' where "m st = (Inr x, st')" "f x st' = (r, st'')"
  using assms by (auto simp: bind_action_def split: prod.splits sum.splits)

text \<open>\<open>HashSet::insert\<close>: whether the element was new, and the set with it.\<close>

definition insert_new :: "'a \<Rightarrow> 'a set \<Rightarrow> bool \<times> 'a set" where
  "insert_new x s = (x \<notin> s, insert x s)"

lemma insert_new_simps [simp]: "fst (insert_new x s) \<longleftrightarrow> x \<notin> s" "snd (insert_new x s) = insert x s"
  by (simp_all add: insert_new_def)

section \<open>Steps that several handlers share\<close>

definition use_binding_jti :: "string \<Rightarrow> string \<Rightarrow> unit action" where
  "use_binding_jti description jti st =
     (let (fresh, jtis) = insert_new jti (binding_jtis st) in
      (guard_err (\<not> fresh) (invalid_proof description), st\<lparr>binding_jtis := jtis\<rparr>))"

definition closed_signer :: "'h app_state \<Rightarrow> string \<Rightarrow> 'h keychain_signer oauth" where
  "closed_signer cfg profile =
     ok_or (panic ''closed profile has a signer'') (app_credential_signers cfg profile)"

end
