(* ===== verification/Authorization_Service.thy ===== *)
theory Authorization_Service
  imports Service_State
begin

text \<open>
  The handlers that lead to an access token, \<open>main.rs\<close>: credential offers, pushed authorization
  requests, \<open>authorize\<close>, \<open>token\<close> and \<open>nonce\<close>. A handler that takes the lock more than once is
  composed of one definition per critical section. Random values, the clock and the headers are
  arguments.
\<close>

section \<open>Offers\<close>

text \<open>The link both offer handlers build, once the offer is stored: a panic leaves it stored.\<close>

definition offer_response ::
  "('k, 's) packages \<Rightarrow> 'h app_state \<Rightarrow> string \<Rightarrow> u64 \<Rightarrow> create_offer_response oauth" where
  "offer_response pk cfg oid expires_in =
     and_then (ok_or (panic ''opaque offer ID creates a valid URL'')
       (url_join (urls pk) (app_issuer cfg) (''credential-offer/'' @ oid))) (\<lambda>uri.
       Inr \<lparr>or_credential_offer_uri = uri,
            or_deep_link = url_append_pair (urls pk) ''openid-credential-offer://''
              ''credential_offer_uri'' uri,
            or_expires_in = expires_in\<rparr>)"

definition create_credential_offer ::
  "('k, 's) packages \<Rightarrow> 'h app_state \<Rightarrow> u64 option \<Rightarrow> string \<Rightarrow> bytes \<Rightarrow> string \<Rightarrow> volatile_state \<Rightarrow>
     create_offer_response handled" where
  "create_credential_offer pk cfg clk oid rnd configuration_id st =
     (case
        and_then (guard_err (configuration_id = TLSN_EVIDENCE_SD_JWT)
          (oauth_error BAD_REQUEST ''invalid_request''
             ''TLSNotary evidence offers require verified evidence'')) (\<lambda>_.
        and_then (guard_err (\<not> valid_scope configuration_id (app_hybrid_pq_enabled cfg)
            \<or> CHR '' '' \<in> set configuration_id)
          (oauth_error BAD_REQUEST ''invalid_request'' ''credential configuration is unknown'')) (\<lambda>_.
        and_then (unix_time clk) (\<lambda>now. Inr (saturating_add now 300)))) of
        Inl e \<Rightarrow> (Inl e, st)
      | Inr expires_at \<Rightarrow>
          (offer_response pk cfg oid 300,
           st\<lparr>offers := (offers st)(oid \<mapsto>
             \<lparr>co_profile = configuration_id, co_issuer_state = random_token (codec pk) rnd,
              co_expires_at = expires_at, co_tlsn_evidence = None\<rparr>)\<rparr>))"

definition build_tlsn_offer ::
  "('k, 's) packages \<Rightarrow> 'h app_state \<Rightarrow> u64 option \<Rightarrow> string \<Rightarrow> bytes \<Rightarrow> signed_tlsn_artifact \<Rightarrow>
     volatile_state \<Rightarrow> create_offer_response handled" where
  "build_tlsn_offer pk cfg clk oid rnd artifact st =
     (case
        and_then (unix_time clk) (\<lambda>now.
        and_then (verify_tlsn_artifact pk artifact (app_trusted_notary_key cfg)
            (app_trusted_notary_pq_key cfg) now) (\<lambda>evidence. Inr (now, evidence))) of
        Inl e \<Rightarrow> (Inl e, st)
      | Inr (now, evidence) \<Rightarrow>
          (case reserve_tlsn_session (tlsn_sessions st) (vt_session_id evidence) of
             (Inl e, sessions) \<Rightarrow> (Inl e, st\<lparr>tlsn_sessions := sessions\<rparr>)
           | (Inr _, sessions) \<Rightarrow>
               (offer_response pk cfg oid TLSN_EVIDENCE_LIFETIME_SECONDS,
                st\<lparr>tlsn_sessions := sessions,
                   offers := (offers st)(oid \<mapsto>
                     \<lparr>co_profile = TLSN_EVIDENCE_SD_JWT,
                      co_issuer_state = random_token (codec pk) rnd,
                      co_expires_at = saturating_add now TLSN_EVIDENCE_LIFETIME_SECONDS,
                      co_tlsn_evidence = Some evidence\<rparr>)\<rparr>)))"

text \<open>\<open>create_tlsn_evidence_offer\<close> takes the artifact from its body and calls this.\<close>

definition demo_artifact_payload ::
  "('k, 's) packages \<Rightarrow> bytes \<Rightarrow> u64 \<Rightarrow> tlsn_demo_request option \<Rightarrow> tlsn_payload" where
  "demo_artifact_payload pk rnd now body =
     (let server_name = (case Option.bind body td_server_name of
            Some s \<Rightarrow> s | None \<Rightarrow> ''example.com'');
          claim = (case Option.bind body td_claim of
            Some j \<Rightarrow> j
          | None \<Rightarrow> JStr ''demo web fact notarised by the development notary'') in
      \<lparr>tp_version = TLSN_ARTIFACT_VERSION, tp_session_id = ''demo-'' @ random_token (codec pk) rnd,
       tp_issued_at = now,
       tp_verifier_output = JObj [(''claim'', claim), (''demo'', JBool True),
         (''serverName'', JStr server_name), (''status'', JNat 200)]\<rparr>)"

definition tlsn_demo_offer ::
  "('k, 's) packages \<Rightarrow> 'h app_state \<Rightarrow> u64 option \<Rightarrow> u64 option \<Rightarrow> string \<Rightarrow> bytes \<Rightarrow> bytes \<Rightarrow>
     tlsn_demo_request option \<Rightarrow> volatile_state \<Rightarrow> create_offer_response handled" where
  "tlsn_demo_offer pk cfg clk clk' oid rnd_session rnd body st =
     (case
        and_then (ok_or (oauth_error NOT_IMPLEMENTED ''not_enabled''
            ''TLSNotary demo mode is disabled (set ENABLE_TLSN_DEMO on the issuer)'')
          (app_tlsn_demo_notary cfg)) (\<lambda>notary.
        and_then (unix_time clk) (\<lambda>now.
        let artifact_payload = demo_artifact_payload pk rnd_session now body in
        and_then (ok_or (panic ''demo artifact payload serializes'')
          (tlsn_payload_to_vec (serde pk) artifact_payload)) (\<lambda>message.
          Inr \<lparr>ta_payload = artifact_payload, ta_algorithm = ''ES256'',
               ta_public_key = b64url_encode (codec pk) (dn_public_key notary),
               ta_signature = b64url_encode (codec pk) (dn_sign notary message),
               ta_pq_algorithm = None, ta_pq_public_key = None, ta_pq_signature = None\<rparr>))) of
        Inl e \<Rightarrow> (Inl e, st)
      | Inr artifact \<Rightarrow> build_tlsn_offer pk cfg clk' oid rnd artifact st)"

definition get_credential_offer ::
  "'h app_state \<Rightarrow> u64 option \<Rightarrow> string \<Rightarrow> volatile_state \<Rightarrow> json oauth" where
  "get_credential_offer cfg clk oid st =
     and_then (unix_time clk) (\<lambda>now.
     and_then (ok_or (oauth_error NOT_FOUND ''invalid_request'' ''credential offer is unknown'')
       (offers st oid)) (\<lambda>offer.
     and_then (guard_err (co_expires_at offer < now)
       (oauth_error GONE ''invalid_request'' ''credential offer has expired'')) (\<lambda>_.
       Inr (JObj
         [(''credential_configuration_ids'', JArr [JStr (co_profile offer)]),
          (''credential_issuer'', JStr (trim_end_matches CHR ''/'' (app_issuer cfg))),
          (''grants'', JObj [(''authorization_code'',
             JObj [(''issuer_state'', JStr (co_issuer_state offer))])])]))))"

section \<open>Pushed authorization requests\<close>

text \<open>
  The first critical section reads the offers; \<open>order\<close> is the order in which \<open>values()\<close> visits the
  identifiers of the offers.
\<close>

definition find_offer :: "string list \<Rightarrow> string \<Rightarrow> volatile_state \<Rightarrow> credential_offer option" where
  "find_offer order issuer_state st =
     List.find (\<lambda>offer. co_issuer_state offer = issuer_state) (filter_map (offers st) order)"

definition par_evidence ::
  "'h app_state \<Rightarrow> u64 option \<Rightarrow> string list \<Rightarrow> par_request \<Rightarrow> volatile_state \<Rightarrow>
     verified_tlsn_evidence option oauth" where
  "par_evidence cfg clk order request st =
     and_then (guard_err (pr_response_type request \<noteq> ''code''
         \<or> pr_code_challenge_method request \<noteq> ''S256'')
       (oauth_error BAD_REQUEST ''invalid_request''
          ''response_type=code and PKCE S256 are required'')) (\<lambda>_.
     and_then (guard_err (\<not> valid_scope (pr_scope request) (app_hybrid_pq_enabled cfg))
       (oauth_error BAD_REQUEST ''invalid_scope''
          ''scope contains an unsupported credential'')) (\<lambda>_.
     case pr_issuer_state request of
       None \<Rightarrow> Inr None
     | Some issuer_state \<Rightarrow>
         and_then (unix_time clk) (\<lambda>now.
         and_then (ok_or (oauth_error BAD_REQUEST ''invalid_request'' ''issuer_state is unknown'')
           (find_offer order issuer_state st)) (\<lambda>offer.
         and_then (guard_err (co_expires_at offer < now
             \<or> co_profile offer \<notin> set (split_ascii_whitespace (pr_scope request)))
           (oauth_error BAD_REQUEST ''invalid_request''
              ''credential offer is expired or does not match the requested scope'')) (\<lambda>_.
           Inr (co_tlsn_evidence offer))))))"

definition par_push ::
  "string \<Rightarrow> par_request \<Rightarrow> verified_tlsn_evidence option \<Rightarrow> volatile_state \<Rightarrow>
     par_response \<times> volatile_state" where
  "par_push uuid request evidence st =
     (let request_uri = ''urn:ietf:params:oauth:request_uri:'' @ uuid in
      (\<lparr>par_request_uri = request_uri, par_expires_in = 60\<rparr>,
       st\<lparr>pushed := (pushed st)(request_uri \<mapsto>
         \<lparr>pa_client_id = pr_client_id request, pa_redirect_uri = pr_redirect_uri request,
          pa_scope = pr_scope request, pa_state = pr_state request,
          pa_code_challenge = pr_code_challenge request, pa_tlsn_evidence = evidence\<rparr>)\<rparr>))"

definition par ::
  "'h app_state \<Rightarrow> u64 option \<Rightarrow> string list \<Rightarrow> string \<Rightarrow> par_request \<Rightarrow> volatile_state \<Rightarrow>
     par_response handled" where
  "par cfg clk order uuid request st =
     (case par_evidence cfg clk order request st of
        Inl e \<Rightarrow> (Inl e, st)
      | Inr evidence \<Rightarrow> apfst Inr (par_push uuid request evidence st))"

section \<open>Authorization codes\<close>

definition authorize_take ::
  "authorization_request \<Rightarrow> volatile_state \<Rightarrow> pushed_authorization handled" where
  "authorize_take request st =
     (case pushed st (ar_request_uri request) of
        None \<Rightarrow> (Inl (oauth_error BAD_REQUEST ''invalid_request_uri''
                       ''unknown or consumed request_uri''), st)
      | Some p \<Rightarrow>
          (and_then (guard_err (pa_client_id p \<noteq> ar_client_id request)
             (oauth_error BAD_REQUEST ''invalid_request'' ''client_id does not match PAR'')) (\<lambda>_.
             Inr p),
           st\<lparr>pushed := (pushed st)(ar_request_uri request := None)\<rparr>))"

definition authorize_issue ::
  "('k, 's) packages \<Rightarrow> bytes \<Rightarrow> pushed_authorization \<Rightarrow> volatile_state \<Rightarrow> string \<times> volatile_state"
  where
  "authorize_issue pk rnd p st =
     (let code = random_token (codec pk) rnd;
          redirect = url_append_pair (urls pk) (pa_redirect_uri p) ''code'' code in
      (case pa_state p of
         None \<Rightarrow> redirect
       | Some v \<Rightarrow> url_append_pair (urls pk) redirect ''state'' v,
       st\<lparr>codes := (codes st)(code \<mapsto>
         \<lparr>ac_client_id = pa_client_id p, ac_redirect_uri = pa_redirect_uri p,
          ac_scope = pa_scope p, ac_code_challenge = pa_code_challenge p, ac_consumed = False,
          ac_tlsn_evidence = pa_tlsn_evidence p\<rparr>)\<rparr>))"

definition authorize ::
  "('k, 's) packages \<Rightarrow> bytes \<Rightarrow> authorization_request \<Rightarrow> volatile_state \<Rightarrow> string handled" where
  "authorize pk rnd request st =
     (case authorize_take request st of
        (Inl e, st') \<Rightarrow> (Inl e, st')
      | (Inr p, st') \<Rightarrow> apfst Inr (authorize_issue pk rnd p st'))"

section \<open>Tokens\<close>

definition code_binding_failed ::
  "('k, 's) packages \<Rightarrow> token_request \<Rightarrow> authorization_code \<Rightarrow> bool" where
  "code_binding_failed pk request code \<longleftrightarrow>
     ac_consumed code \<or> ac_client_id code \<noteq> tr_client_id request
     \<or> ac_redirect_uri code \<noteq> tr_redirect_uri request
     \<or> \<not> pkce_matches (codec pk) (tr_code_verifier request) (ac_code_challenge code)"

definition token_response :: "string \<Rightarrow> string \<Rightarrow> json" where
  "token_response access_token scope = JObj
     [(''access_token'', JStr access_token), (''expires_in'', JNat 300), (''scope'', JStr scope),
      (''token_type'', JStr ''DPoP'')]"

text \<open>The checks before the lock, and the critical section.\<close>

definition token_dpop ::
  "('k, 's) packages \<Rightarrow> 'h app_state \<Rightarrow> u64 option \<Rightarrow> string option \<Rightarrow> token_request \<Rightarrow>
     verified_dpop oauth" where
  "token_dpop pk cfg clk dpop request =
     and_then (guard_err (tr_grant_type request \<noteq> ''authorization_code'')
       (oauth_error BAD_REQUEST ''unsupported_grant_type''
          ''only authorization_code is enabled'')) (\<lambda>_.
     and_then (ok_or (oauth_error BAD_REQUEST ''invalid_dpop_proof'' ''DPoP proof is required'')
       dpop) (\<lambda>proof.
     and_then (ok_or (panic ''static endpoint must be a valid URL'')
       (url_join (urls pk) (app_issuer cfg) ''token'')) (\<lambda>token_endpoint.
       verify_dpop pk proof ''POST'' token_endpoint clk)))"

definition token_locked ::
  "('k, 's) packages \<Rightarrow> bytes \<Rightarrow> token_request \<Rightarrow> verified_dpop \<Rightarrow> volatile_state \<Rightarrow> json handled"
  where
  "token_locked pk rnd request vd st =
     (let (fresh, jtis) = insert_new (vd_jti vd) (dpop_jtis st); st1 = st\<lparr>dpop_jtis := jtis\<rparr> in
      if \<not> fresh then
        (Inl (oauth_error BAD_REQUEST ''invalid_dpop_proof'' ''DPoP jti has already been used''), st1)
      else (case codes st1 (tr_code request) of
        None \<Rightarrow> (Inl (oauth_error BAD_REQUEST ''invalid_grant'' ''unknown authorization code''), st1)
      | Some code \<Rightarrow>
          if code_binding_failed pk request code then
            (Inl (oauth_error BAD_REQUEST ''invalid_grant'' ''authorization code binding failed''),
             st1)
          else
            (let access_token = random_token (codec pk) rnd in
             (Inr (token_response access_token (ac_scope code)),
              st1\<lparr>codes := (codes st1)(tr_code request \<mapsto> code\<lparr>ac_consumed := True\<rparr>),
                  tokens := (tokens st1)(access_token \<mapsto>
                    \<lparr>at_scope = ac_scope code, at_dpop_jkt = vd_jkt vd,
                     at_tlsn_evidence = ac_tlsn_evidence code\<rparr>)\<rparr>))))"

definition token ::
  "('k, 's) packages \<Rightarrow> 'h app_state \<Rightarrow> u64 option \<Rightarrow> bytes \<Rightarrow> string option \<Rightarrow> token_request \<Rightarrow>
     volatile_state \<Rightarrow> json handled" where
  "token pk cfg clk rnd dpop request st =
     (case token_dpop pk cfg clk dpop request of
        Inl e \<Rightarrow> (Inl e, st)
      | Inr vd \<Rightarrow> token_locked pk rnd request vd st)"

section \<open>Nonces\<close>

definition digit :: "nat \<Rightarrow> char" where "digit n = char_of (48 + n)"

fun decimal :: "nat \<Rightarrow> string" where
  "decimal n = (if n < 10 then [digit n] else decimal (n div 10) @ [digit (n mod 10)])"

declare decimal.simps [simp del]

text \<open>The loop draws until the value is not 0; \<open>None\<close> is that the draws given were all 0.\<close>

fun random_credential_nonce :: "u64 list \<Rightarrow> string option" where
  "random_credential_nonce [] = None"
| "random_credential_nonce (v # vs) =
     (if v \<noteq> 0 then Some (decimal (unat v)) else random_credential_nonce vs)"

definition nonce_handler :: "string \<Rightarrow> volatile_state \<Rightarrow> json \<times> volatile_state" where
  "nonce_handler fresh_nonce st =
     (JObj [(''c_nonce'', JStr fresh_nonce), (''c_nonce_expires_in'', JNat 300)],
      st\<lparr>nonces := (nonces st)(fresh_nonce \<mapsto> False)\<rparr>)"

end
