(* ===== verification/Credential_Service.thy ===== *)
theory Credential_Service
  imports Authorization_Service
begin

text \<open>
  The credential endpoint, \<open>credential\<close> of \<open>main.rs\<close>: the checks of the token, the DPoP proof and
  the key proof, the replay sets, the evidence of the profile, the decision of the kernel, the
  consumption of the nonce and the encoders. Everything from the first insertion to the
  consumption of the nonce is one critical section.
\<close>

record credential_draws =
  cd_request_id :: bytes
  cd_session_id :: bytes
  cd_mandate_jti :: bytes
  cd_salts :: draws

definition denied :: "string \<Rightarrow> oauth_error" where
  "denied description = oauth_error FORBIDDEN ''credential_request_denied'' description"

definition not_implemented :: "string \<Rightarrow> oauth_error" where
  "not_implemented description =
     oauth_error NOT_IMPLEMENTED ''credential_request_denied'' description"

definition invalid_token :: "string \<Rightarrow> oauth_error" where
  "invalid_token description = oauth_error UNAUTHORIZED ''invalid_token'' description"

section \<open>Before the lock\<close>

definition credential_dpop ::
  "('k, 's) packages \<Rightarrow> 'h app_state \<Rightarrow> u64 option \<Rightarrow> string option \<Rightarrow> string option \<Rightarrow>
     (string \<times> verified_dpop) oauth" where
  "credential_dpop pk cfg clk authorization_header dpop =
     and_then (bearer authorization_header) (\<lambda>token.
     and_then (ok_or (invalid_token ''DPoP proof is required'') dpop) (\<lambda>proof.
     and_then (ok_or (panic ''static endpoint must be a valid URL'')
       (url_join (urls pk) (app_issuer cfg) ''credential'')) (\<lambda>credential_endpoint.
     and_then (verify_dpop pk proof ''POST'' credential_endpoint clk)
       (\<lambda>vd. Inr (token, vd)))))"

section \<open>The critical section\<close>

definition use_dpop_jti :: "string \<Rightarrow> unit action" where
  "use_dpop_jti jti st =
     (let (fresh, jtis) = insert_new jti (dpop_jtis st) in
      (guard_err (\<not> fresh)
         (oauth_error UNAUTHORIZED ''invalid_dpop_proof'' ''DPoP jti has already been used''),
       st\<lparr>dpop_jtis := jtis\<rparr>))"

definition check_access ::
  "string \<Rightarrow> verified_dpop \<Rightarrow> credential_request \<Rightarrow> volatile_state \<Rightarrow> access_token oauth" where
  "check_access access_token vd request st =
     and_then (ok_or (invalid_token ''access token is unknown'') (tokens st access_token)) (\<lambda>access.
     and_then (guard_err (at_dpop_jkt access \<noteq> vd_jkt vd)
       (invalid_token ''DPoP key binding mismatch'')) (\<lambda>_.
     and_then (guard_err
         (cq_configuration_id request \<notin> set (split_ascii_whitespace (at_scope access)))
       (denied ''credential is outside the authorized scope'')) (\<lambda>_. Inr access)))"

definition check_credential_proof ::
  "('k, 's) packages \<Rightarrow> 'h app_state \<Rightarrow> u64 option \<Rightarrow> access_token \<Rightarrow> credential_request \<Rightarrow>
     volatile_state \<Rightarrow> verified_credential_proof oauth" where
  "check_credential_proof pk cfg clk access request st =
     and_then (ok_or (invalid_proof ''exactly one JWT credential proof is required'')
       (single_credential_proof (cq_proofs_jwt request))) (\<lambda>proof.
     and_then (verify_credential_proof pk proof (app_issuer cfg) clk) (\<lambda>vp.
     and_then (guard_err (at_dpop_jkt access \<noteq> vcp_holder_jkt vp)
       (invalid_proof ''development profile requires the credential proof and DPoP key to match''))
       (\<lambda>_.
     and_then (ok_or (invalid_proof ''credential proof nonce is unknown'')
       (nonces st (vcp_nonce vp))) (\<lambda>nonce_used.
     and_then (guard_err nonce_used
       (invalid_proof ''credential proof nonce has already been used'')) (\<lambda>_. Inr vp)))))"

definition check_tlsn :: "access_token \<Rightarrow> credential_request \<Rightarrow> unit oauth" where
  "check_tlsn access request =
     guard_err (cq_configuration_id request = TLSN_EVIDENCE_SD_JWT
         \<and> at_tlsn_evidence access = None)
       (denied ''TLSNotary evidence was not bound to this authorization'')"

text \<open>The PID binding: required by two profiles, refused by the others.\<close>

definition supplied_pid_binding ::
  "('k, 's) packages \<Rightarrow> 'h app_state \<Rightarrow> credential_request \<Rightarrow> verified_credential_proof \<Rightarrow> u64 \<Rightarrow>
     verified_pid_binding oauth" where
  "supplied_pid_binding pk cfg request vp now =
     and_then (ok_or (invalid_proof ''the PID-bound profile requires pid_binding evidence'')
       (cq_pid_binding request)) (\<lambda>supplied.
     if app_target_macos cfg then
       and_then (ok_or (panic ''PID signer is configured'')
         (app_credential_signers cfg PID_SD_JWT)) (\<lambda>signer.
         verify_pid_binding pk (pb_pid_vp supplied) (pb_proof_jwt supplied)
           (signer_public_jwk signer) (app_issuer cfg) (vcp_nonce vp) (vcp_holder_jkt vp) now)
     else Inl (not_implemented
       ''PID presentation verification requires the configured issuer key''))"

definition take_pid_binding ::
  "('k, 's) packages \<Rightarrow> 'h app_state \<Rightarrow> credential_request \<Rightarrow> verified_credential_proof \<Rightarrow> u64 \<Rightarrow>
     verified_pid_binding option action" where
  "take_pid_binding pk cfg request vp now =
     (if cq_configuration_id request = QEAA_PID_BOUND_SD_JWT
         \<or> cq_configuration_id request = MANDATE_SD_JWT then
        bind_action (check_only (supplied_pid_binding pk cfg request vp now)) (\<lambda>verified.
        bind_action (use_binding_jti ''PID binding proof jti has already been used''
          (vpb_jti verified)) (\<lambda>_. check_only (Inr (Some verified))))
      else if cq_pid_binding request \<noteq> None then
        check_only (Inl (oauth_error BAD_REQUEST ''invalid_request''
          ''pid_binding evidence is not accepted by this credential profile''))
      else check_only (Inr None))"

text \<open>The chip evidence: required by one profile, refused by the others.\<close>

definition supplied_emrtd_evidence ::
  "('k, 's) packages \<Rightarrow> 'h app_state \<Rightarrow> credential_request \<Rightarrow> verified_credential_proof \<Rightarrow> u64 \<Rightarrow>
     verified_chip_liveness oauth" where
  "supplied_emrtd_evidence pk cfg request vp now =
     and_then (ok_or (invalid_proof ''the NFC-sourced PID profile requires emrtd_evidence'')
       (cq_emrtd_attestation request)) (\<lambda>attestation.
     and_then (ok_or (not_implemented ''NFC-sourced PID issuance is not configured on this issuer'')
       (app_trusted_emrtd_reader_key cfg)) (\<lambda>reader_key.
       verify_emrtd_evidence pk attestation reader_key (app_issuer cfg) (vcp_nonce vp)
         (vcp_holder_jkt vp) now))"

definition take_emrtd_evidence ::
  "('k, 's) packages \<Rightarrow> 'h app_state \<Rightarrow> credential_request \<Rightarrow> verified_credential_proof \<Rightarrow> u64 \<Rightarrow>
     verified_chip_liveness option action" where
  "take_emrtd_evidence pk cfg request vp now =
     (if cq_configuration_id request = PID_FROM_EMRTD_SD_JWT then
        bind_action (check_only (supplied_emrtd_evidence pk cfg request vp now)) (\<lambda>verified.
        bind_action (use_binding_jti ''`eMRTD` evidence attestation jti has already been used''
          (vcl_jti verified)) (\<lambda>_. check_only (Inr (Some verified))))
      else if cq_emrtd_attestation request \<noteq> None then
        check_only (Inl (oauth_error BAD_REQUEST ''invalid_request''
          ''emrtd_evidence is not accepted by this credential profile''))
      else check_only (Inr None))"

definition consume_nonce :: "string \<Rightarrow> unit action" where
  "consume_nonce n st =
     (case nonces st n of
        None \<Rightarrow> (Inl (panic ''nonce was checked above''), st)
      | Some _ \<Rightarrow> (Inr (), st\<lparr>nonces := (nonces st)(n \<mapsto> True)\<rparr>))"

text \<open>What the section hands to the encoders.\<close>

record issue_grant =
  ig_proof :: verified_credential_proof
  ig_now :: u64
  ig_tlsn :: "verified_tlsn_evidence option"
  ig_pid :: "verified_pid_binding option"
  ig_chip :: "verified_chip_liveness option"
  ig_mandate :: "mandate_grant option"

definition credential_locked ::
  "('k, 's) packages \<Rightarrow> 'h app_state \<Rightarrow> u64 option \<Rightarrow> u64 option \<Rightarrow> credential_draws \<Rightarrow> string \<Rightarrow>
     verified_dpop \<Rightarrow> credential_request \<Rightarrow> issue_grant action" where
  "credential_locked pk cfg clk clk' draws access_token vd request =
     bind_action (use_dpop_jti (vd_jti vd)) (\<lambda>_ st.
     bind_action (check_only (check_access access_token vd request st)) (\<lambda>access.
     bind_action (check_only (check_credential_proof pk cfg clk access request st)) (\<lambda>vp.
     bind_action (check_only (unix_time clk')) (\<lambda>now.
     bind_action (check_only (check_tlsn access request)) (\<lambda>_.
     bind_action (take_pid_binding pk cfg request vp now) (\<lambda>pid_binding.
     bind_action (take_emrtd_evidence pk cfg request vp now) (\<lambda>chip.
     bind_action (check_only (authorize_kernel (codec pk) (cq_configuration_id request)
         (vcp_holder_jkt vp) (vcp_nonce vp) (map_option vpb_subject pid_binding) chip now
         (random_token (codec pk) (cd_request_id draws))
         (random_token (codec pk) (cd_session_id draws)))) (\<lambda>mandate.
     bind_action (consume_nonce (vcp_nonce vp)) (\<lambda>_.
       check_only (Inr \<lparr>ig_proof = vp, ig_now = now, ig_tlsn = at_tlsn_evidence access,
         ig_pid = pid_binding, ig_chip = chip, ig_mandate = mandate\<rparr>))))))))) st)"

section \<open>The encoders\<close>

definition credentials_response :: "string \<Rightarrow> json" where
  "credentials_response credential =
     JObj [(''credentials'', JArr [JObj [(''credential'', JStr credential)]])]"

definition hybrid_response :: "('k, 's) packages \<Rightarrow> bytes \<Rightarrow> json" where
  "hybrid_response pk credential = JObj [(''credentials'', JArr [JObj
     [(''credential'', JStr (b64url_encode (codec pk) credential)), (''format'', JStr FORMAT)]])]"

definition requires_keychain :: "oauth_error" where
  "requires_keychain = not_implemented ''this development build requires macOS Keychain''"

definition mint_credential ::
  "('k, 's) packages \<Rightarrow> ('w, 'h) signing_env \<Rightarrow> 'h app_state \<Rightarrow> credential_draws \<Rightarrow>
     credential_request \<Rightarrow> issue_grant \<Rightarrow> json oauth" where
  "mint_credential pk env cfg draws request g =
     (let profile = cq_configuration_id request; vp = ig_proof g; now = ig_now g in
      if profile \<in> set [PID_SD_JWT, PID_FROM_EMRTD_SD_JWT, QEAA_SD_JWT, QEAA_PID_BOUND_SD_JWT,
          TLSN_EVIDENCE_SD_JWT] then
        (if app_target_macos cfg then
           and_then (closed_signer cfg profile) (\<lambda>signer.
           and_then (issue_sd_jwt pk env (cd_salts draws) signer (app_issuer cfg) profile
               (vcp_holder_jwk vp) now (ig_tlsn g) (map_option vcl_claims (ig_chip g)))
             (\<lambda>credential. Inr (credentials_response credential)))
         else Inl requires_keychain)
      else if profile = HYBRID_PQ_SD_JWT then
        (if app_target_macos cfg then
           and_then (ok_or (denied ''experimental hybrid-PQ issuance is disabled'')
             (if app_hybrid_pq_enabled cfg then app_hybrid_credential_signer cfg else None)) (\<lambda>signer.
           and_then (issue_hybrid_credential pk env (cd_salts draws) signer (app_issuer cfg)
               (vcp_holder_jwk vp) (vcp_holder_jkt vp) (vcp_nonce vp) now)
             (\<lambda>credential. Inr (hybrid_response pk credential)))
         else Inl (not_implemented ''experimental hybrid-PQ issuance requires macOS Keychain''))
      else if profile = PID_MDOC \<or> profile = EAA_MDOC then
        (if app_target_macos cfg then
           and_then (closed_signer cfg profile) (\<lambda>signer.
           and_then (issue_mdoc pk env (cd_salts draws) signer profile (vcp_holder_jwk vp) now
               None None)
             (\<lambda>credential. Inr (credentials_response credential)))
         else Inl requires_keychain)
      else if profile = MANDATE_SD_JWT then
        (if app_target_macos cfg then
           and_then (ok_or (panic ''the representation kernel yields a mandate grant'')
             (ig_mandate g)) (\<lambda>grant.
           and_then (closed_signer cfg MANDATE_SD_JWT) (\<lambda>signer.
           and_then (issue_mandate_sd_jwt pk env (cd_salts draws) signer (app_issuer cfg)
               (vcp_holder_jwk vp) (mandator_urn (mg_on_behalf_of grant)) (mg_granted_powers grant)
               (random_token (codec pk) (cd_mandate_jti draws)) now)
             (\<lambda>credential. Inr (credentials_response credential))))
         else Inl requires_keychain)
      else Inl (oauth_error BAD_REQUEST ''unknown_credential_configuration''
        ''credential configuration is unknown''))"

definition credential ::
  "('k, 's) packages \<Rightarrow> ('w, 'h) signing_env \<Rightarrow> 'h app_state \<Rightarrow> u64 option \<Rightarrow> u64 option \<Rightarrow>
     u64 option \<Rightarrow> credential_draws \<Rightarrow> string option \<Rightarrow> string option \<Rightarrow> credential_request \<Rightarrow>
     json action" where
  "credential pk env cfg clk_dpop clk_proof clk draws authorization_header dpop request =
     bind_action (check_only (credential_dpop pk cfg clk_dpop authorization_header dpop))
       (\<lambda>(access_token, vd).
     bind_action (credential_locked pk cfg clk_proof clk draws access_token vd request)
       (\<lambda>g. check_only (mint_credential pk env cfg draws request g)))"

end
