(* ===== verification/Attest_Service.thy ===== *)
theory Attest_Service
  imports Service_State
begin

text \<open>
  The App Attest endpoints and the registration of push tokens, \<open>main.rs\<close>. \<open>app_attest_register\<close>
  takes the lock twice, so it is composed of two critical sections with the verification between
  them; \<open>io\<close> is how the writing of the table's file goes.
\<close>

definition MAX_APP_ATTEST_BYTES :: nat where "MAX_APP_ATTEST_BYTES = 8 * 1024"

definition invalid_request :: "string \<Rightarrow> oauth_error" where
  "invalid_request description = oauth_error BAD_REQUEST ''invalid_request'' description"

definition not_enabled :: "string \<Rightarrow> oauth_error" where
  "not_enabled description = oauth_error NOT_IMPLEMENTED ''not_enabled'' description"

section \<open>Push tokens\<close>

definition notifications_register ::
  "'h app_state \<Rightarrow> notifications_register_request \<Rightarrow> json action" where
  "notifications_register cfg request st =
     (case
        and_then (guard_err (\<not> app_apns cfg)
          (not_enabled ''push notifications are not configured on this issuer'')) (\<lambda>_.
        guard_err (nr_installation_id request = [] \<or> 128 < length (nr_installation_id request)
            \<or> nr_device_token request = [] \<or> 256 < length (nr_device_token request))
          (invalid_request ''installation_id and device_token are required and bounded'')) of
        Inl e \<Rightarrow> (Inl e, st)
      | Inr _ \<Rightarrow>
          (Inr (JObj [(''registered'', JBool True)]),
           st\<lparr>apns_tokens := (apns_tokens st)(nr_installation_id request \<mapsto>
                nr_device_token request)\<rparr>))"

section \<open>Challenges\<close>

text \<open>\<open>HashMap::retain\<close> on the challenges that have not expired.\<close>

definition retain_fresh :: "u64 \<Rightarrow> (string \<rightharpoonup> u64) \<Rightarrow> (string \<rightharpoonup> u64)" where
  "retain_fresh now m = (\<lambda>c. case m c of None \<Rightarrow> None | Some e \<Rightarrow> if now < e then Some e else None)"

definition app_attest_challenge ::
  "('k, 's) packages \<Rightarrow> 'h app_state \<Rightarrow> u64 option \<Rightarrow> bytes \<Rightarrow> app_attest_challenge_response action"
  where
  "app_attest_challenge pk cfg clk rnd st =
     (case
        and_then (guard_err (app_app_attest cfg = None)
          (not_enabled ''App Attest is not configured on this issuer'')) (\<lambda>_. unix_time clk) of
        Inl e \<Rightarrow> (Inl e, st)
      | Inr now \<Rightarrow>
          (let challenge = random_token (codec pk) rnd in
           (Inr \<lparr>ch_challenge = challenge, ch_expires_in = 300\<rparr>,
            st\<lparr>app_attest_challenges :=
                (retain_fresh now (app_attest_challenges st))
                  (challenge \<mapsto> saturating_add now 300)\<rparr>)))"

section \<open>Registration\<close>

definition consume_challenge :: "u64 \<Rightarrow> string \<Rightarrow> unit action" where
  "consume_challenge now challenge st =
     (guard_err (case app_attest_challenges st challenge of None \<Rightarrow> True | Some e \<Rightarrow> \<not> now < e)
        (invalid_request ''unknown or expired App Attest challenge''),
      st\<lparr>app_attest_challenges := (app_attest_challenges st)(challenge := None)\<rparr>)"

definition attested_instance ::
  "('k, 's, 'c, 'k3, 's3) attest_lib \<Rightarrow> app_attest_config \<Rightarrow> u64 \<Rightarrow> app_attest_register_request \<Rightarrow>
     registered_instance oauth" where
  "attested_instance L config now request =
     and_then (ok_or (invalid_request ''keyId is not base64'')
       (b64_decode (at_codec L) (rr_key_id request))) (\<lambda>key_id.
     and_then (ok_or (invalid_request ''attestation is not base64'')
       (b64_decode (at_codec L) (rr_attestation request))) (\<lambda>attestation.
     and_then (guard_err (MAX_APP_ATTEST_BYTES < length attestation)
       (oauth_error PAYLOAD_TOO_LARGE ''invalid_request''
          ''attestation exceeds the accepted size'')) (\<lambda>_.
     and_then (map_err (\<lambda>_. oauth_error BAD_REQUEST ''invalid_attestation''
           ''App Attest attestation was rejected'')
         (verify_attestation L attestation (as_bytes (rr_challenge request)) key_id config now))
       (\<lambda>(app_id, public_key). Inr \<lparr>ri_app_id = app_id, ri_public_key = public_key,
          ri_sign_count = 0\<rparr>))))"

text \<open>The table is written to its file when a store is configured.\<close>

definition save_store :: "instances_lib \<Rightarrow> attest_io \<Rightarrow> 'h app_state \<Rightarrow> volatile_state \<Rightarrow> volatile_state"
  where
  "save_store IL io cfg st =
     (if app_app_attest_store cfg
      then st\<lparr>attest_store := save_instances IL io (app_attest_instances st) (attest_store st)\<rparr>
      else st)"

definition insert_instance ::
  "instances_lib \<Rightarrow> attest_io \<Rightarrow> 'h app_state \<Rightarrow> string \<Rightarrow> registered_instance \<Rightarrow> json action" where
  "insert_instance IL io cfg key_id inst st =
     (Inr (JObj [(''registered'', JBool True)]),
      save_store IL io cfg
        (st\<lparr>app_attest_instances := (app_attest_instances st)(key_id \<mapsto> inst)\<rparr>))"

definition app_attest_register ::
  "('k, 's, 'c, 'k3, 's3) attest_lib \<Rightarrow> instances_lib \<Rightarrow> attest_io \<Rightarrow> 'h app_state \<Rightarrow> u64 option \<Rightarrow>
     app_attest_register_request \<Rightarrow> json action" where
  "app_attest_register L IL io cfg clk request =
     bind_action (check_only (ok_or (not_enabled ''App Attest is not configured on this issuer'')
       (app_app_attest cfg))) (\<lambda>config.
     bind_action (check_only (unix_time clk)) (\<lambda>now.
     bind_action (consume_challenge now (rr_challenge request)) (\<lambda>_.
     bind_action (check_only (attested_instance L config now request)) (\<lambda>inst.
       insert_instance IL io cfg (rr_key_id request) inst))))"

section \<open>Assertions\<close>

definition verify_app_attest_assertion ::
  "('k, 's, 'c, 'k3, 's3) attest_lib \<Rightarrow> instances_lib \<Rightarrow> attest_io \<Rightarrow> 'h app_state \<Rightarrow> string \<Rightarrow>
     bytes \<Rightarrow> bytes \<Rightarrow> unit action" where
  "verify_app_attest_assertion L IL io cfg key_id assertion client_data st =
     (case app_attest_instances st key_id of
        None \<Rightarrow> (Inl (oauth_error UNAUTHORIZED ''unknown_instance''
                       ''App Attest instance is not registered''), st)
      | Some inst \<Rightarrow>
          (case verify_assertion L assertion client_data inst of
             Inl _ \<Rightarrow> (Inl (oauth_error UNAUTHORIZED ''invalid_assertion''
                             ''App Attest assertion was rejected''), st)
           | Inr new_count \<Rightarrow>
               (Inr (),
                save_store IL io cfg (st\<lparr>app_attest_instances :=
                  (app_attest_instances st)(key_id \<mapsto> inst\<lparr>ri_sign_count := new_count\<rparr>)\<rparr>))))"

definition app_attest_assert ::
  "('k, 's, 'c, 'k3, 's3) attest_lib \<Rightarrow> instances_lib \<Rightarrow> attest_io \<Rightarrow> 'h app_state \<Rightarrow>
     app_attest_assert_request \<Rightarrow> json action" where
  "app_attest_assert L IL io cfg request =
     bind_action (check_only (
       and_then (guard_err (app_app_attest cfg = None)
         (not_enabled ''App Attest is not configured on this issuer'')) (\<lambda>_.
       and_then (ok_or (invalid_request ''assertion is not base64'')
         (b64_decode (at_codec L) (as_assertion request))) (\<lambda>assertion.
       and_then (ok_or (invalid_request ''client_data is not base64'')
         (b64_decode (at_codec L) (as_client_data request))) (\<lambda>client_data.
         Inr (assertion, client_data)))))) (\<lambda>(assertion, client_data).
     bind_action (verify_app_attest_assertion L IL io cfg (as_key_id request) assertion client_data)
       (\<lambda>_. check_only (Inr (JObj [(''ok'', JBool True)]))))"

text \<open>The gate before a protected mutation; the headers are \<open>x-app-attest-*\<close>.\<close>

definition enforce_app_attest ::
  "('k, 's, 'c, 'k3, 's3) attest_lib \<Rightarrow> instances_lib \<Rightarrow> attest_io \<Rightarrow> 'h app_state \<Rightarrow>
     string option \<Rightarrow> string option \<Rightarrow> bytes \<Rightarrow> unit action" where
  "enforce_app_attest L IL io cfg key_id_header assertion_header body =
     (let required = oauth_error UNAUTHORIZED ''app_attest_required''
            ''this request requires an App Attest assertion'' in
      if app_app_attest cfg = None then check_only (Inr ())
      else
        bind_action (check_only (ok_or required key_id_header)) (\<lambda>key_id.
        bind_action (check_only (ok_or required assertion_header)) (\<lambda>assertion_b64.
        bind_action (check_only (ok_or (invalid_request ''x-app-attest-assertion is not base64'')
          (b64_decode (at_codec L) assertion_b64))) (\<lambda>assertion.
          verify_app_attest_assertion L IL io cfg key_id assertion body))))"

end
