(* ===== verification/Capture_Service.thy ===== *)
theory Capture_Service
  imports Attest_Service
begin

text \<open>
  The handlers of capture sessions, \<open>main.rs\<close>. Submitting evidence is a sequence of critical
  sections with the call of the liveness provider between two of them, so other requests may run in
  between: the sections are definitions of their own, and \<open>submit_pid_capture_evidence\<close> composes
  them for a request that is not interrupted.
\<close>

section \<open>Opening a session\<close>

record capture_launch =
  cl_token :: "string option"
  cl_streaming_url :: "string option"
  cl_assurance_type :: "string option"

definition mint_iproov_token ::
  "iproov_lib \<Rightarrow> codec_lib \<Rightarrow> 'h app_state \<Rightarrow> string \<Rightarrow> capture_launch oauth" where
  "mint_iproov_token IP c cfg session_id =
     (case app_iproov cfg of
        None \<Rightarrow> Inr \<lparr>cl_token = None, cl_streaming_url = None, cl_assurance_type = None\<rparr>
      | Some ip \<Rightarrow>
          and_then (map_err (\<lambda>_. oauth_error BAD_GATEWAY ''server_error''
              ''liveness provider is unavailable'')
            (create_token IP c ip (iproov_user_id session_id) (iproov_resource session_id)))
            (\<lambda>token. Inr \<lparr>cl_token = Some token, cl_streaming_url = Some (streaming_url ip),
                          cl_assurance_type = Some (ip_assurance_type ip)\<rparr>))"

definition create_pid_capture_session ::
  "('k, 's) packages \<Rightarrow> iproov_lib \<Rightarrow> 'h app_state \<Rightarrow> u64 option \<Rightarrow> string \<Rightarrow> bytes \<Rightarrow> string option \<Rightarrow>
     create_capture_request \<Rightarrow> create_capture_response action" where
  "create_pid_capture_session pk IP cfg clk session_id rnd origin_var request =
     bind_action (check_only (
       and_then (ok_or (invalid_request ''holder_jwk must be an EC P-256 public JWK'')
         (ec_jwk_from_value (serde pk) (cc_holder_jwk request))) (\<lambda>jwk.
       and_then (verifying_key_and_jwk pk jwk ''invalid_request'') (\<lambda>(_, holder_jkt, holder_jwk).
       and_then (unix_time clk) (\<lambda>now.
       and_then (mint_iproov_token IP (codec pk) cfg session_id) (\<lambda>launch.
         Inr (holder_jkt, holder_jwk, now, launch)))))))
     (\<lambda>(holder_jkt, holder_jwk, now, launch) st.
       let n = random_token (codec pk) rnd in
       (Inr \<lparr>cr_session_id = session_id, cr_nonce = n,
             cr_invocation_url = invocation_url
               (invocation_origin origin_var (app_issuer cfg)) session_id,
             cr_iproov_token = cl_token launch,
             cr_iproov_streaming_url = cl_streaming_url launch,
             cr_iproov_assurance_type = cl_assurance_type launch,
             cr_expires_in = CAPTURE_SESSION_TTL_SECONDS\<rparr>,
        st\<lparr>capture_sessions := (capture_sessions st)(session_id \<mapsto>
          \<lparr>cs_holder_jkt = holder_jkt, cs_holder_jwk = holder_jwk, cs_nonce = n,
           cs_iproov_user_id = iproov_user_id session_id, cs_iproov_token = cl_token launch,
           cs_status = AwaitingEvidence, cs_credential = None, cs_credential_mdoc = None,
           cs_expires_at = saturating_add now CAPTURE_SESSION_TTL_SECONDS,
           cs_device_token = cc_device_token request\<rparr>)\<rparr>))"

section \<open>Polling a session\<close>

definition optional_member :: "string \<Rightarrow> json option \<Rightarrow> (string \<times> json) list" where
  "optional_member key v = (case v of None \<Rightarrow> [] | Some j \<Rightarrow> [(key, j)])"

definition capture_formats ::
  "string \<Rightarrow> string option \<Rightarrow> (string \<times> string \<times> string) list" where
  "capture_formats credential mdoc =
     (PID_FROM_EMRTD_SD_JWT, ''dc+sd-jwt'', credential) #
     (case mdoc of None \<Rightarrow> [] | Some m \<Rightarrow> [(PID_FROM_EMRTD_MDOC, ''mso_mdoc'', m)])"

text \<open>The members of the response, in the sorted order of the object.\<close>

definition capture_body ::
  "('k, 's) packages \<Rightarrow> 'h app_state \<Rightarrow> capture_session \<Rightarrow> (string \<times> json) list" where
  "capture_body pk cfg s =
     (let awaiting = cs_status s = AwaitingEvidence;
          issuer = trim_end_matches CHR ''/'' (app_issuer cfg);
          formats = map_option (\<lambda>c. capture_formats c (cs_credential_mdoc s)) (cs_credential s);
          offer = map_option (\<lambda>fs. capture_credential_offer pk issuer fs) formats;
          mdoc = (if cs_credential s = None then None else cs_credential_mdoc s) in
      (if awaiting then [(''audience'', JStr issuer)] else []) @
      optional_member ''credential'' (map_option JStr (cs_credential s)) @
      optional_member ''credential_mdoc'' (map_option JStr mdoc) @
      optional_member ''credential_offer'' (map_option fst offer) @
      optional_member ''deep_link'' (map_option (\<lambda>d. JStr (snd d)) offer) @
      optional_member ''format'' (map_option (\<lambda>_. JStr ''dc+sd-jwt'') offer) @
      optional_member ''format_mdoc'' (map_option (\<lambda>_. JStr ''mso_mdoc'') mdoc) @
      (if awaiting then [(''holder_jkt'', JStr (cs_holder_jkt s))] else []) @
      (if awaiting then
         optional_member ''iproov_assurance_type''
           (map_option (\<lambda>ip. JStr (ip_assurance_type ip)) (app_iproov cfg)) @
         optional_member ''iproov_streaming_url''
           (map_option (\<lambda>ip. JStr (streaming_url ip)) (app_iproov cfg)) @
         optional_member ''iproov_token'' (map_option JStr (cs_iproov_token s)) @
         [(''nonce'', JStr (cs_nonce s))]
       else []) @
      [(''status'', status_json (cs_status s))])"

definition get_pid_capture_session ::
  "('k, 's) packages \<Rightarrow> 'h app_state \<Rightarrow> u64 option \<Rightarrow> string \<Rightarrow> volatile_state \<Rightarrow> json oauth" where
  "get_pid_capture_session pk cfg clk session_id st =
     and_then (unix_time clk) (\<lambda>now.
     and_then (ok_or (oauth_error NOT_FOUND ''invalid_request'' ''capture session is unknown'')
       (capture_sessions st session_id)) (\<lambda>s.
     and_then (guard_err (cs_expires_at s < now \<and> cs_status s \<noteq> Issued)
       (oauth_error GONE ''invalid_request'' ''capture session has expired'')) (\<lambda>_.
       Inr (JObj (capture_body pk cfg s)))))"

section \<open>Submitting evidence\<close>

definition portrait_matched_liveness :: "bool \<Rightarrow> bool \<Rightarrow> bool" where
  "portrait_matched_liveness iproov_liveness_ok reader_attested_portrait_match \<longleftrightarrow>
     iproov_liveness_ok \<and> reader_attested_portrait_match"

text \<open>The second critical section reads the session.\<close>

definition snapshot_session ::
  "u64 \<Rightarrow> string \<Rightarrow> volatile_state \<Rightarrow> capture_session oauth" where
  "snapshot_session now session_id st =
     and_then (ok_or (oauth_error NOT_FOUND ''invalid_request'' ''capture session is unknown'')
       (capture_sessions st session_id)) (\<lambda>s.
     and_then (guard_err (cs_expires_at s < now)
       (oauth_error GONE ''invalid_request'' ''capture session has expired'')) (\<lambda>_.
     and_then (guard_err (cs_status s \<noteq> AwaitingEvidence)
       (oauth_error CONFLICT ''invalid_request'' ''capture session is already resolved'')) (\<lambda>_.
       Inr s)))"

text \<open>Without the lock: liveness is validated by the issuer, then the attestation is verified.\<close>

definition capture_liveness ::
  "iproov_lib \<Rightarrow> codec_lib \<Rightarrow> 'h app_state \<Rightarrow> capture_session \<Rightarrow> string option \<Rightarrow> bool oauth" where
  "capture_liveness IP c cfg s client_ip =
     (case (app_iproov cfg, cs_iproov_token s) of
        (Some ip, Some token) \<Rightarrow>
          map_err (\<lambda>_. oauth_error BAD_GATEWAY ''server_error'' ''liveness provider is unavailable'')
            (validate IP c ip token (cs_iproov_user_id s)
               (case client_ip of Some a \<Rightarrow> a | None \<Rightarrow> ''0.0.0.0''))
      | _ \<Rightarrow> Inr False)"

definition capture_evidence ::
  "('k, 's) packages \<Rightarrow> iproov_lib \<Rightarrow> 'h app_state \<Rightarrow> u64 \<Rightarrow> capture_session \<Rightarrow>
     capture_evidence_request \<Rightarrow> verified_chip_liveness oauth" where
  "capture_evidence pk IP cfg now s request =
     and_then (capture_liveness IP (codec pk) cfg s (ce_client_ip request)) (\<lambda>liveness_ok.
     and_then (ok_or (oauth_error NOT_IMPLEMENTED ''credential_request_denied''
         ''NFC-sourced PID issuance is not configured on this issuer'')
       (app_trusted_emrtd_reader_key cfg)) (\<lambda>reader_key.
     and_then (verify_emrtd_evidence pk (ce_attestation request) reader_key (app_issuer cfg)
         (cs_nonce s) (cs_holder_jkt s) now) (\<lambda>verified.
       Inr (verified\<lparr>vcl_liveness_matched :=
         portrait_matched_liveness liveness_ok (vcl_liveness_matched verified)\<rparr>))))"

record capture_draws =
  cp_request_ids :: draws
  cp_session_ids :: draws
  cp_salts :: draws
  cp_mdoc_randoms :: draws

definition capture_kernel ::
  "('k, 's) packages \<Rightarrow> capture_draws \<Rightarrow> nat \<Rightarrow> string \<Rightarrow> capture_session \<Rightarrow> verified_chip_liveness \<Rightarrow>
     u64 \<Rightarrow> mandate_grant option oauth" where
  "capture_kernel pk draws i profile s verified now =
     authorize_kernel (codec pk) profile (cs_holder_jkt s) (cs_nonce s) None (Some verified) now
       (random_token (codec pk) (cp_request_ids draws i))
       (random_token (codec pk) (cp_session_ids draws i))"

definition fail_session :: "string \<Rightarrow> volatile_state \<Rightarrow> volatile_state" where
  "fail_session session_id st =
     (case capture_sessions st session_id of
        None \<Rightarrow> st
      | Some s \<Rightarrow> st\<lparr>capture_sessions :=
          (capture_sessions st)(session_id \<mapsto> s\<lparr>cs_status := Failed\<rparr>)\<rparr>)"

definition kernel_gate ::
  "string \<Rightarrow> mandate_grant option oauth \<Rightarrow> unit action" where
  "kernel_gate session_id decision st =
     (case decision of Inl e \<Rightarrow> (Inl e, fail_session session_id st) | Inr _ \<Rightarrow> (Inr (), st))"

text \<open>The session of the state is updated; the evidence was checked against the snapshot.\<close>

definition resolve_session ::
  "string \<Rightarrow> string \<Rightarrow> string \<Rightarrow> string option action" where
  "resolve_session session_id credential mdoc st =
     (case capture_sessions st session_id of
        None \<Rightarrow> (Inl (panic ''session existed above''), st)
      | Some s \<Rightarrow>
          (Inr (cs_device_token s),
           st\<lparr>capture_sessions := (capture_sessions st)(session_id \<mapsto>
             s\<lparr>cs_status := Issued, cs_credential := Some credential,
               cs_credential_mdoc := Some mdoc, cs_iproov_token := None\<rparr>)\<rparr>))"

definition submitted_response ::
  "('k, 's) packages \<Rightarrow> 'h app_state \<Rightarrow> string \<Rightarrow> string \<Rightarrow> json" where
  "submitted_response pk cfg credential mdoc =
     (let (offer, deep_link) = capture_credential_offer pk
            (trim_end_matches CHR ''/'' (app_issuer cfg)) (capture_formats credential (Some mdoc)) in
      JObj [(''credential'', JStr credential), (''credential_mdoc'', JStr mdoc),
            (''credential_offer'', offer), (''deep_link'', JStr deep_link),
            (''format'', JStr ''dc+sd-jwt''), (''format_mdoc'', JStr ''mso_mdoc''),
            (''status'', JStr ''issued'')])"

text \<open>
  The last critical section. The result carries the device token of a session whose push
  notification the code spawns when a provider is configured.
\<close>

definition finish_capture ::
  "('k, 's) packages \<Rightarrow> ('w, 'h) signing_env \<Rightarrow> 'h app_state \<Rightarrow> capture_draws \<Rightarrow> u64 \<Rightarrow> string \<Rightarrow>
     capture_session \<Rightarrow> verified_chip_liveness \<Rightarrow> (json \<times> string option) action" where
  "finish_capture pk env cfg draws now session_id s verified =
     bind_action (use_binding_jti ''`eMRTD` evidence attestation jti has already been used''
         (vcl_jti verified)) (\<lambda>_.
     bind_action (kernel_gate session_id
       (capture_kernel pk draws 0 PID_FROM_EMRTD_SD_JWT s verified now)) (\<lambda>_.
     if \<not> app_target_macos cfg then
       check_only (Inl (oauth_error NOT_IMPLEMENTED ''credential_request_denied''
         ''this development build requires macOS Keychain''))
     else
     bind_action (check_only (closed_signer cfg PID_FROM_EMRTD_SD_JWT)) (\<lambda>signer.
     bind_action (check_only (issue_sd_jwt pk env (cp_salts draws) signer (app_issuer cfg)
       PID_FROM_EMRTD_SD_JWT (cs_holder_jwk s) now None (Some (vcl_claims verified)))) (\<lambda>credential.
     bind_action (kernel_gate session_id
       (capture_kernel pk draws 1 PID_FROM_EMRTD_MDOC s verified now)) (\<lambda>_.
     bind_action (check_only (closed_signer cfg PID_FROM_EMRTD_MDOC)) (\<lambda>mdoc_signer.
     bind_action (check_only (issue_mdoc pk env (cp_mdoc_randoms draws) mdoc_signer
       PID_FROM_EMRTD_MDOC (cs_holder_jwk s) now (Some (vcl_claims verified))
       (app_hybrid_credential_signer cfg))) (\<lambda>mdoc.
     bind_action (resolve_session session_id credential mdoc) (\<lambda>device_token.
       check_only (Inr (submitted_response pk cfg credential mdoc,
         if app_apns cfg then device_token else None))))))))))"

text \<open>\<open>body\<close> is the raw body and \<open>parsed\<close> its reading as JSON.\<close>

definition submit_pid_capture_evidence ::
  "('k, 's) packages \<Rightarrow> ('w, 'h) signing_env \<Rightarrow> ('k, 's, 'c, 'k3, 's3) attest_lib \<Rightarrow>
     instances_lib \<Rightarrow> attest_io \<Rightarrow> iproov_lib \<Rightarrow> 'h app_state \<Rightarrow> u64 option \<Rightarrow> capture_draws \<Rightarrow>
     string option \<Rightarrow> string option \<Rightarrow> string \<Rightarrow> bytes \<Rightarrow> (bytes \<Rightarrow> capture_evidence_request option) \<Rightarrow>
     (json \<times> string option) action" where
  "submit_pid_capture_evidence pk env L IL io IP cfg clk draws key_id_header assertion_header
       session_id body parsed =
     bind_action (enforce_app_attest L IL io cfg key_id_header assertion_header body) (\<lambda>_.
     bind_action (check_only (ok_or (invalid_request ''evidence body is not valid JSON'')
       (parsed body))) (\<lambda>request.
     bind_action (check_only (unix_time clk)) (\<lambda>now st.
     bind_action (check_only (snapshot_session now session_id st)) (\<lambda>s.
     bind_action (check_only (capture_evidence pk IP cfg now s request)) (\<lambda>verified.
       finish_capture pk env cfg draws now session_id s verified)) st)))"

end
