(* ===== verification/Runs.thy ===== *)
theory Runs
  imports Prelude
begin

text \<open>
  Runs of a labelled step relation, and the interfaces the state of the service is used through:
  keys that are consumed once, and keys that must have been handed out before they are consumed.
  The components provide the steps; the lemmas about whole runs are proved here once.
\<close>

inductive runs :: "('s \<Rightarrow> 'e \<Rightarrow> 's \<Rightarrow> bool) \<Rightarrow> 's \<Rightarrow> 'e list \<Rightarrow> 's \<Rightarrow> bool" for step where
  runs_Nil: "runs step s [] s"
| runs_snoc: "runs step s es s' \<Longrightarrow> step s' e s'' \<Longrightarrow> runs step s (es @ [e]) s''"

inductive_cases runs_snocE: "runs step s (es @ [e]) s''"

lemma runs_invariant:
  assumes "runs step s es s'" and "I s" and "\<And>s e s'. I s \<Longrightarrow> step s e s' \<Longrightarrow> I s'"
  shows "I s'"
  using assms by (induction rule: runs.induct) auto

text \<open>What every step from a good state does, every step of a run has done.\<close>

lemma runs_events:
  assumes "runs step s es s'" and "I s"
    and "\<And>s e s'. I s \<Longrightarrow> step s e s' \<Longrightarrow> I s'" and "\<And>s e s'. I s \<Longrightarrow> step s e s' \<Longrightarrow> P e"
  shows "\<forall>e \<in> set es. P e"
proof -
  from assms(1,2) have "I s' \<and> (\<forall>e \<in> set es. P e)"
    by (induction rule: runs.induct) (use assms(3,4) in auto)
  then show ?thesis ..
qed

definition taken :: "('e \<Rightarrow> 'k option) \<Rightarrow> 'e list \<Rightarrow> 'k list" where
  "taken takes es = List.map_filter takes es"

lemma taken_snoc [simp]:
  "taken takes (es @ [e]) = taken takes es @ (case takes e of None \<Rightarrow> [] | Some k \<Rightarrow> [k])"
  by (simp add: taken_def List.map_filter_def split: option.split)

lemma taken_Nil [simp]: "taken takes [] = []"
  by (simp add: taken_def List.map_filter_def)

lemma runs_Nil_iff [simp]: "runs step s [] s' \<longleftrightarrow> s' = s"
  by (auto elim: runs.cases intro: runs_Nil)

lemma runs_snoc_iff: "runs step s (es @ [e]) s'' \<longleftrightarrow> (\<exists>s'. runs step s es s' \<and> step s' e s'')"
  by (auto elim: runs_snocE intro: runs_snoc)

lemma runs_append: "runs step s (xs @ ys) s'' \<longleftrightarrow> (\<exists>s'. runs step s xs s' \<and> runs step s' ys s'')"
proof (induction ys arbitrary: s'' rule: rev_induct)
  case (snoc y ys)
  then show ?case
    unfolding append_assoc [symmetric] runs_snoc_iff by blast
qed simp

lemma runs_single: "runs step s [e] s' \<longleftrightarrow> step s e s'"
  using runs_snoc_iff [of step s "[]" e s'] by simp

lemma runs_Cons: "runs step s (e # es) s'' \<longleftrightarrow> (\<exists>s'. step s e s' \<and> runs step s' es s'')"
  using runs_append [of step s "[e]" es s''] by (simp add: runs_single)

lemma taken_append [simp]: "taken takes (xs @ ys) = taken takes xs @ taken takes ys"
  by (simp add: taken_def List.map_filter_def)

lemma in_taken_iff: "k \<in> set (taken takes es) \<longleftrightarrow> (\<exists>e \<in> set es. takes e = Some k)"
  by (force simp: taken_def List.map_filter_def)

lemma taken_Cons [simp]:
  "taken takes (e # es) = (case takes e of None \<Rightarrow> [] | Some k \<Rightarrow> [k]) @ taken takes es"
  by (simp add: taken_def List.map_filter_def split: option.split)

section \<open>Consumed once\<close>

locale one_shot =
  fixes step :: "'s \<Rightarrow> 'e \<Rightarrow> 's \<Rightarrow> bool"
    and spent :: "'s \<Rightarrow> 'k set"
    and takes :: "'e \<Rightarrow> 'k option"
  assumes takes_unspent: "step s e s' \<Longrightarrow> takes e = Some k \<Longrightarrow> k \<notin> spent s"
    and takes_spends: "step s e s' \<Longrightarrow> takes e = Some k \<Longrightarrow> k \<in> spent s'"
    and keeps_spent: "step s e s' \<Longrightarrow> spent s \<subseteq> spent s'"
begin

lemma spent_mono: "runs step s es s' \<Longrightarrow> spent s \<subseteq> spent s'"
  by (induction rule: runs.induct) (use keeps_spent in blast)+

lemma taken_spent: "runs step s es s' \<Longrightarrow> set (taken takes es) \<subseteq> spent s' - spent s"
proof (induction rule: runs.induct)
  case (runs_snoc s es s' e s'')
  have "spent s \<subseteq> spent s'" using runs_snoc.hyps(1) by (rule spent_mono)
  then show ?case
    using runs_snoc.IH takes_unspent [OF runs_snoc.hyps(2)] takes_spends [OF runs_snoc.hyps(2)]
      keeps_spent [OF runs_snoc.hyps(2)]
    by (auto split: option.splits)
qed simp

lemma taken_once: "runs step s es s' \<Longrightarrow> distinct (taken takes es)"
proof (induction rule: runs.induct)
  case (runs_snoc s es s' e s'')
  have "set (taken takes es) \<subseteq> spent s'" using taken_spent [OF runs_snoc.hyps(1)] by blast
  then show ?case
    using runs_snoc.IH takes_unspent [OF runs_snoc.hyps(2)] by (auto split: option.splits)
qed simp

lemma used_here_only:
  assumes "runs step s (xs @ e # ys) s'" and "takes e = Some k"
  shows "k \<notin> set (taken takes xs) \<union> set (taken takes ys)"
  using taken_once [OF assms(1)] assms(2) by auto

end

section \<open>Consumed once, and only after it was handed out\<close>

locale issued_once = one_shot step spent takes
  for step :: "'s \<Rightarrow> 'e \<Rightarrow> 's \<Rightarrow> bool" and spent :: "'s \<Rightarrow> 'k set" and takes :: "'e \<Rightarrow> 'k option" +
  fixes live :: "'s \<Rightarrow> 'k set"
    and gives :: "'e \<Rightarrow> 'k option"
  assumes takes_live: "step s e s' \<Longrightarrow> takes e = Some k \<Longrightarrow> k \<in> live s"
    and live_given: "step s e s' \<Longrightarrow> k \<in> live s' \<Longrightarrow> k \<in> live s \<or> gives e = Some k"
begin

lemma live_was_given: "runs step s es s' \<Longrightarrow> k \<in> live s' \<Longrightarrow> k \<in> live s \<or> k \<in> set (taken gives es)"
proof (induction rule: runs.induct)
  case (runs_snoc s es s' e s'')
  from live_given [OF runs_snoc.hyps(2) runs_snoc.prems] runs_snoc.IH show ?case by auto
qed simp

lemma given_before:
  assumes "runs step s (xs @ e # ys) s'" and "live s = {}" and "takes e = Some k"
  shows "k \<in> set (taken gives xs)"
proof -
  from assms(1) obtain t t' where "runs step s xs t" "step t e t'"
    by (auto simp: runs_append runs_Cons)
  then show ?thesis
    using live_was_given takes_live assms(2,3) by blast
qed

end

section \<open>Consumed by being removed\<close>

text \<open>
  A key that is removed when it is used may be handed out again later; it is used at most as often
  as it was handed out.
\<close>

locale removed_on_use =
  fixes step :: "'s \<Rightarrow> 'e \<Rightarrow> 's \<Rightarrow> bool"
    and live :: "'s \<Rightarrow> 'k set"
    and takes :: "'e \<Rightarrow> 'k option"
    and gives :: "'e \<Rightarrow> 'k option"
  assumes takes_removes: "step s e s' \<Longrightarrow> takes e = Some k \<Longrightarrow> k \<in> live s \<and> k \<notin> live s'"
    and grows_by_gift: "step s e s' \<Longrightarrow> k \<in> live s' \<Longrightarrow> k \<in> live s \<or> gives e = Some k"
begin

lemma taken_at_most_given:
  "runs step s es s' \<Longrightarrow> live s = {} \<Longrightarrow>
   count_list (taken takes es) k + of_bool (k \<in> live s') \<le> count_list (taken gives es) k"
proof (induction rule: runs.induct)
  case (runs_snoc s es s' e s'')
  show ?case
    using runs_snoc.IH [OF runs_snoc.prems] takes_removes [OF runs_snoc.hyps(2)]
      grows_by_gift [OF runs_snoc.hyps(2)]
    by (cases "takes e"; cases "gives e"; cases "k \<in> live s''"; force)
qed simp

end

end
