(* ===== verification/Service_System.thy ===== *)
theory Service_System
  imports Credential_Service Capture_Service Runs "HOL-Library.Multiset"
begin

text \<open>
  The service as a labelled step relation. A step is one critical section of a handler, so the
  sections of concurrent requests interleave; what a request carries from one section to the next
  is a task, and a task may be dropped at any time, as the handler's future is when its client
  disconnects. The clock readings, the answers of the provider and of the file system and the
  request data are arbitrary in every step. The one restriction is that a random identifier is new
  where it is inserted: the code relies on 122 and 256 random bits not colliding. A handler stores
  an offer before it builds the link to it, so an offer is made also when building the link panics.
\<close>

record ('k, 's, 'c, 'k3, 's3, 'w, 'h) service =
  sv_packages :: "('k, 's) packages"
  sv_attest :: "('k, 's, 'c, 'k3, 's3) attest_lib"
  sv_instances :: instances_lib
  sv_signing :: "('w, 'h) signing_env"
  sv_state :: "'h app_state"

text \<open>The signing environment of one request: the key store and the system as they are then.\<close>

definition signing_with ::
  "('k, 's, 'c, 'k3, 's3, 'w, 'h) service \<Rightarrow> os_answers \<Rightarrow> hybrid_store \<Rightarrow> ('w, 'h) signing_env" where
  "signing_with sv os store = (sv_signing sv)\<lparr>sg_os := os, sg_store := store\<rparr>"

datatype task =
    ParTask par_request "verified_tlsn_evidence option"
  | AuthorizeTask pushed_authorization
  | RegisterTask app_attest_config u64 app_attest_register_request
  | SubmitTask u64 string capture_evidence_request
  | FinishTask u64 string capture_session verified_chip_liveness

type_synonym system = "volatile_state \<times> task multiset"

text \<open>What a step is about: the identifiers it hands out or consumes.\<close>

datatype event =
    OfferMade string
  | EvidenceReserved string string
  | ParStarted
  | RequestPushed string
  | RequestTaken string
  | CodeIssued string
  | TokenIssued string string string
  | NonceIssued string
  | CredentialGranted string string string "string option"
  | ChallengeIssued string
  | ChallengeConsumed string
  | InstanceRegistered string
  | AssertionAccepted string u32
  | PushRegistered
  | CaptureOpened string
  | SubmissionStarted
  | SubmissionVerified string
  | CaptureIssued string string
  | Refused
  | Dropped

text \<open>The identifier of the evidence a grant consumed.\<close>

definition grant_binding_jti :: "issue_grant \<Rightarrow> string option" where
  "grant_binding_jti g =
     (case ig_pid g of Some b \<Rightarrow> Some (vpb_jti b)
      | None \<Rightarrow> (case ig_chip g of Some v \<Rightarrow> Some (vcl_jti v) | None \<Rightarrow> None))"

inductive service_step ::
  "('k, 's, 'c, 'k3, 's3, 'w, 'h) service \<Rightarrow> system \<Rightarrow> event \<Rightarrow> system \<Rightarrow> bool" for sv where
  offer:
    "create_credential_offer (sv_packages sv) (sv_state sv) clk oid rnd config st = (r, st') \<Longrightarrow>
     offers st oid = None \<Longrightarrow> offers st' oid = Some x \<Longrightarrow>
     service_step sv (st, ts) (OfferMade oid) (st', ts)"
| tlsn_offer:
    "build_tlsn_offer (sv_packages sv) (sv_state sv) (Some now) oid rnd artifact st = (r, st') \<Longrightarrow>
     verify_tlsn_artifact (sv_packages sv) artifact (app_trusted_notary_key (sv_state sv))
       (app_trusted_notary_pq_key (sv_state sv)) now = Inr ev \<Longrightarrow>
     offers st oid = None \<Longrightarrow> offers st' oid = Some x \<Longrightarrow>
     service_step sv (st, ts) (EvidenceReserved oid (vt_session_id ev)) (st', ts)"
| par_start:
    "par_evidence (sv_state sv) clk order request st = Inr ev \<Longrightarrow> set order = dom (offers st) \<Longrightarrow>
     service_step sv (st, ts) ParStarted (st, add_mset (ParTask request ev) ts)"
| par_end:
    "ParTask request ev \<in># ts \<Longrightarrow> par_push uuid request ev st = (r, st') \<Longrightarrow>
     par_request_uri r \<notin> dom (pushed st) \<Longrightarrow>
     service_step sv (st, ts) (RequestPushed (par_request_uri r))
       (st', ts - {#ParTask request ev#})"
| authorize_start:
    "authorize_take request st = (Inr p, st') \<Longrightarrow>
     service_step sv (st, ts) (RequestTaken (ar_request_uri request))
       (st', add_mset (AuthorizeTask p) ts)"
| authorize_refused:
    "authorize_take request st = (Inl e, st') \<Longrightarrow>
     service_step sv (st, ts) Refused (st', ts)"
| authorize_end:
    "AuthorizeTask p \<in># ts \<Longrightarrow> authorize_issue (sv_packages sv) rnd p st = (r, st') \<Longrightarrow>
     random_token (codec (sv_packages sv)) rnd \<notin> dom (codes st) \<Longrightarrow>
     service_step sv (st, ts) (CodeIssued (random_token (codec (sv_packages sv)) rnd))
       (st', ts - {#AuthorizeTask p#})"
| token_ok:
    "token_dpop (sv_packages sv) (sv_state sv) clk dpop request = Inr vd \<Longrightarrow>
     token_locked (sv_packages sv) rnd request vd st = (Inr r, st') \<Longrightarrow>
     random_token (codec (sv_packages sv)) rnd \<notin> dom (tokens st) \<Longrightarrow>
     service_step sv (st, ts)
       (TokenIssued (tr_code request) (vd_jti vd) (random_token (codec (sv_packages sv)) rnd))
       (st', ts)"
| token_refused:
    "token_dpop (sv_packages sv) (sv_state sv) clk dpop request = Inr vd \<Longrightarrow>
     token_locked (sv_packages sv) rnd request vd st = (Inl e, st') \<Longrightarrow>
     service_step sv (st, ts) Refused (st', ts)"
| nonce:
    "random_credential_nonce draws = Some n \<Longrightarrow> n \<notin> dom (nonces st) \<Longrightarrow>
     nonce_handler n st = (r, st') \<Longrightarrow>
     service_step sv (st, ts) (NonceIssued n) (st', ts)"
| credential_granted:
    "credential_dpop (sv_packages sv) (sv_state sv) clk_dpop authorization_header dpop =
       Inr (access_token, vd) \<Longrightarrow>
     credential_locked (sv_packages sv) (sv_state sv) clk_proof clk draws access_token vd request st =
       (Inr g, st') \<Longrightarrow>
     service_step sv (st, ts)
       (CredentialGranted (vcp_nonce (ig_proof g)) (vd_jti vd) (cq_configuration_id request)
          (grant_binding_jti g))
       (st', ts)"
| credential_refused:
    "credential_dpop (sv_packages sv) (sv_state sv) clk_dpop authorization_header dpop =
       Inr (access_token, vd) \<Longrightarrow>
     credential_locked (sv_packages sv) (sv_state sv) clk_proof clk draws access_token vd request st =
       (Inl e, st') \<Longrightarrow>
     service_step sv (st, ts) Refused (st', ts)"
| push:
    "notifications_register (sv_state sv) nrequest st = (Inr r, st') \<Longrightarrow>
     service_step sv (st, ts) PushRegistered (st', ts)"
| challenge:
    "app_attest_challenge (sv_packages sv) (sv_state sv) clk rnd st = (Inr r, st') \<Longrightarrow>
     ch_challenge r \<notin> dom (app_attest_challenges st) \<Longrightarrow>
     service_step sv (st, ts) (ChallengeIssued (ch_challenge r)) (st', ts)"
| register_start:
    "app_app_attest (sv_state sv) = Some config \<Longrightarrow>
     consume_challenge now (rr_challenge rrequest) st = (Inr u, st') \<Longrightarrow>
     service_step sv (st, ts) (ChallengeConsumed (rr_challenge rrequest))
       (st', add_mset (RegisterTask config now rrequest) ts)"
| register_refused:
    "consume_challenge now c st = (Inl e, st') \<Longrightarrow>
     service_step sv (st, ts) Refused (st', ts)"
| register_end:
    "RegisterTask config now rrequest \<in># ts \<Longrightarrow>
     attested_instance (sv_attest sv) config now rrequest = Inr inst \<Longrightarrow>
     insert_instance (sv_instances sv) io (sv_state sv) (rr_key_id rrequest) inst st = (Inr r, st') \<Longrightarrow>
     service_step sv (st, ts) (InstanceRegistered (rr_key_id rrequest))
       (st', ts - {#RegisterTask config now rrequest#})"
| assertion:
    "verify_app_attest_assertion (sv_attest sv) (sv_instances sv) io (sv_state sv) key_id a
       client_data st = (Inr u, st') \<Longrightarrow>
     app_attest_instances st' key_id = Some inst \<Longrightarrow> app_app_attest (sv_state sv) \<noteq> None \<Longrightarrow>
     service_step sv (st, ts) (AssertionAccepted key_id (ri_sign_count inst)) (st', ts)"
| capture_open:
    "create_pid_capture_session (sv_packages sv) IP (sv_state sv) clk sid rnd origin_var crequest st =
       (Inr r, st') \<Longrightarrow>
     sid \<notin> dom (capture_sessions st) \<Longrightarrow>
     service_step sv (st, ts) (CaptureOpened sid) (st', ts)"
| submit_unattested:
    "app_app_attest (sv_state sv) = None \<Longrightarrow>
     service_step sv (st, ts) SubmissionStarted (st, add_mset (SubmitTask now sid erequest) ts)"
| submit_attested:
    "enforce_app_attest (sv_attest sv) (sv_instances sv) io (sv_state sv) (Some key_id) header body
       st = (Inr u, st') \<Longrightarrow>
     app_app_attest (sv_state sv) \<noteq> None \<Longrightarrow> app_attest_instances st' key_id = Some inst \<Longrightarrow>
     service_step sv (st, ts) (AssertionAccepted key_id (ri_sign_count inst))
       (st', add_mset (SubmitTask now sid erequest) ts)"
| submit_verified:
    "SubmitTask now sid erequest \<in># ts \<Longrightarrow> snapshot_session now sid st = Inr s \<Longrightarrow>
     capture_evidence (sv_packages sv) IP (sv_state sv) now s erequest = Inr v \<Longrightarrow>
     service_step sv (st, ts) (SubmissionVerified sid)
       (st, add_mset (FinishTask now sid s v) (ts - {#SubmitTask now sid erequest#}))"
| submit_finished:
    "FinishTask now sid s v \<in># ts \<Longrightarrow>
     finish_capture (sv_packages sv) (signing_with sv os store) (sv_state sv) cdraws now sid s v st = (Inr r, st') \<Longrightarrow>
     service_step sv (st, ts) (CaptureIssued sid (vcl_jti v)) (st', ts - {#FinishTask now sid s v#})"
| submit_refused:
    "FinishTask now sid s v \<in># ts \<Longrightarrow>
     finish_capture (sv_packages sv) (signing_with sv os store) (sv_state sv) cdraws now sid s v st = (Inl e, st') \<Longrightarrow>
     service_step sv (st, ts) Refused (st', ts - {#FinishTask now sid s v#})"
| dropped:
    "service_step sv (st, add_mset t ts) Dropped (st, ts)"

inductive_cases service_stepE: "service_step sv s e s'"

definition initial_system ::
  "('k, 's, 'c, 'k3, 's3, 'w, 'h) service \<Rightarrow> attest_file \<Rightarrow> system" where
  "initial_system sv file = (initial_state (sv_instances sv) (sv_state sv) file, {#})"

text \<open>The runs of the service from its start.\<close>

definition service_runs ::
  "('k, 's, 'c, 'k3, 's3, 'w, 'h) service \<Rightarrow> attest_file \<Rightarrow> event list \<Rightarrow> system \<Rightarrow> bool" where
  "service_runs sv file es s \<longleftrightarrow> runs (service_step sv) (initial_system sv file) es s"

section \<open>What the events consume and hand out\<close>

fun dpop_used :: "event \<Rightarrow> string option" where
  "dpop_used (TokenIssued code jti access_token) = Some jti"
| "dpop_used (CredentialGranted n jti profile evidence) = Some jti"
| "dpop_used _ = None"

fun evidence_used :: "event \<Rightarrow> string option" where
  "evidence_used (CredentialGranted n jti profile evidence) = evidence"
| "evidence_used (CaptureIssued sid jti) = Some jti"
| "evidence_used _ = None"

fun session_reserved :: "event \<Rightarrow> string option" where
  "session_reserved (EvidenceReserved oid session) = Some session"
| "session_reserved _ = None"

fun code_used :: "event \<Rightarrow> string option" where
  "code_used (TokenIssued code jti access_token) = Some code"
| "code_used _ = None"

fun code_issued :: "event \<Rightarrow> string option" where
  "code_issued (CodeIssued code) = Some code"
| "code_issued _ = None"

fun nonce_used :: "event \<Rightarrow> string option" where
  "nonce_used (CredentialGranted n jti profile evidence) = Some n"
| "nonce_used _ = None"

fun nonce_issued :: "event \<Rightarrow> string option" where
  "nonce_issued (NonceIssued n) = Some n"
| "nonce_issued _ = None"

fun request_taken :: "event \<Rightarrow> string option" where
  "request_taken (RequestTaken uri) = Some uri"
| "request_taken _ = None"

fun request_pushed :: "event \<Rightarrow> string option" where
  "request_pushed (RequestPushed uri) = Some uri"
| "request_pushed _ = None"

fun challenge_used :: "event \<Rightarrow> string option" where
  "challenge_used (ChallengeConsumed challenge) = Some challenge"
| "challenge_used _ = None"

fun challenge_issued :: "event \<Rightarrow> string option" where
  "challenge_issued (ChallengeIssued challenge) = Some challenge"
| "challenge_issued _ = None"

text \<open>Which events these are.\<close>

lemma code_events:
  "code_used e = Some c \<longleftrightarrow> (\<exists>jti t. e = TokenIssued c jti t)"
  "code_issued e = Some c \<longleftrightarrow> e = CodeIssued c"
  by (cases e; auto)+

lemma nonce_events:
  "nonce_used e = Some n \<longleftrightarrow> (\<exists>jti profile b. e = CredentialGranted n jti profile b)"
  "nonce_issued e = Some n \<longleftrightarrow> e = NonceIssued n"
  by (cases e; auto)+

end
