(* ===== verification/Service_Effects.thy ===== *)
theory Service_Effects
  imports Service_System
begin

text \<open>
  What each critical section does to the volatile state: when it succeeds, the exact new state and
  the conditions under which it does; when it fails, what it leaves behind. The properties of the
  service use these lemmas and never unfold a handler.
\<close>

declare bind_check [simp del]

section \<open>Offers and pushed requests\<close>

lemma create_credential_offer_ok:
  assumes "create_credential_offer pk cfg clk oid rnd config st = (r, st')"
    and "offers st oid = None" and "offers st' oid = Some x"
  obtains now where "clk = Some now" "config \<noteq> TLSN_EVIDENCE_SD_JWT"
    "valid_scope config (app_hybrid_pq_enabled cfg)"
    "st' = st\<lparr>offers := (offers st)(oid \<mapsto> \<lparr>co_profile = config,
       co_issuer_state = random_token (codec pk) rnd, co_expires_at = saturating_add now 300,
       co_tlsn_evidence = None\<rparr>)\<rparr>"
  using assms
  by (auto simp: create_credential_offer_def ok_iff split: sum.splits)

lemma build_tlsn_offer_ok:
  assumes "build_tlsn_offer pk cfg (Some now) oid rnd artifact st = (r, st')"
    and "verify_tlsn_artifact pk artifact (app_trusted_notary_key cfg)
      (app_trusted_notary_pq_key cfg) now = Inr ev"
    and "offers st oid = None" and "offers st' oid = Some x"
  shows "vt_session_id ev \<notin> tlsn_sessions st \<and>
    st' = st\<lparr>tlsn_sessions := insert (vt_session_id ev) (tlsn_sessions st),
      offers := (offers st)(oid \<mapsto> \<lparr>co_profile = TLSN_EVIDENCE_SD_JWT,
        co_issuer_state = random_token (codec pk) rnd,
        co_expires_at = saturating_add now TLSN_EVIDENCE_LIFETIME_SECONDS,
        co_tlsn_evidence = Some ev\<rparr>)\<rparr>"
  using assms
  by (auto simp: build_tlsn_offer_def unix_time_def reserve_tlsn_session_def split: if_splits)

lemma authorize_take_ok_iff:
  "authorize_take request st = (Inr p, st') \<longleftrightarrow>
     pushed st (ar_request_uri request) = Some p \<and> pa_client_id p = ar_client_id request \<and>
     st' = st\<lparr>pushed := (pushed st)(ar_request_uri request := None)\<rparr>"
  by (auto simp: authorize_take_def ok_iff split: option.splits)

lemma authorize_take_err:
  assumes "authorize_take request st = (Inl e, st')"
  shows "st' = st\<lparr>pushed := (pushed st)(ar_request_uri request := None)\<rparr>"
  using assms by (auto simp: authorize_take_def fun_upd_idem split: option.splits)

section \<open>Tokens\<close>

lemma token_locked_ok_iff:
  "token_locked pk rnd request vd st = (Inr r, st') \<longleftrightarrow>
     vd_jti vd \<notin> dpop_jtis st \<and>
     (\<exists>code. codes st (tr_code request) = Some code \<and> \<not> code_binding_failed pk request code \<and>
        r = token_response (random_token (codec pk) rnd) (ac_scope code) \<and>
        st' = st\<lparr>dpop_jtis := insert (vd_jti vd) (dpop_jtis st),
          codes := (codes st)(tr_code request \<mapsto> code\<lparr>ac_consumed := True\<rparr>),
          tokens := (tokens st)(random_token (codec pk) rnd \<mapsto>
            \<lparr>at_scope = ac_scope code, at_dpop_jkt = vd_jkt vd,
             at_tlsn_evidence = ac_tlsn_evidence code\<rparr>)\<rparr>)"
  by (auto simp: token_locked_def insert_new_def Let_def split: option.splits if_splits)

lemma token_locked_err:
  assumes "token_locked pk rnd request vd st = (Inl e, st')"
  shows "st' = st\<lparr>dpop_jtis := insert (vd_jti vd) (dpop_jtis st)\<rparr> \<and> err_status e = 400"
  using assms
  by (auto simp: token_locked_def insert_new_def Let_def oauth_error_def
      split: option.splits if_splits)

section \<open>Credentials\<close>

lemma use_dpop_jti_iff [simp]:
  "use_dpop_jti j st = (Inr u, st') \<longleftrightarrow>
     j \<notin> dpop_jtis st \<and> st' = st\<lparr>dpop_jtis := insert j (dpop_jtis st)\<rparr>"
  "use_dpop_jti j st = (Inl e, st') \<longleftrightarrow>
     j \<in> dpop_jtis st \<and> st' = st \<and>
     e = oauth_error UNAUTHORIZED ''invalid_dpop_proof'' ''DPoP jti has already been used''"
  by (auto simp: use_dpop_jti_def insert_new_def insert_absorb ok_iff err_iff)

lemma use_binding_jti_iff [simp]:
  "use_binding_jti d j st = (Inr u, st') \<longleftrightarrow>
     j \<notin> binding_jtis st \<and> st' = st\<lparr>binding_jtis := insert j (binding_jtis st)\<rparr>"
  "use_binding_jti d j st = (Inl e, st') \<longleftrightarrow>
     j \<in> binding_jtis st \<and> st' = st \<and> e = invalid_proof d"
  by (auto simp: use_binding_jti_def insert_new_def insert_absorb ok_iff err_iff)

lemma consume_nonce_ok_iff [simp]:
  "consume_nonce n st = (Inr u, st') \<longleftrightarrow>
     nonces st n \<noteq> None \<and> st' = st\<lparr>nonces := (nonces st)(n \<mapsto> True)\<rparr>"
  by (auto simp: consume_nonce_def split: option.splits)

lemma take_pid_binding_ok_iff:
  "take_pid_binding pk cfg request vp now st = (Inr b, st') \<longleftrightarrow>
     (if cq_configuration_id request \<in> {QEAA_PID_BOUND_SD_JWT, MANDATE_SD_JWT}
      then \<exists>v. b = Some v \<and> supplied_pid_binding pk cfg request vp now = Inr v \<and>
         vpb_jti v \<notin> binding_jtis st \<and>
         st' = st\<lparr>binding_jtis := insert (vpb_jti v) (binding_jtis st)\<rparr>
      else cq_pid_binding request = None \<and> b = None \<and> st' = st)"
  by (auto simp: take_pid_binding_def ok_iff split: sum.splits)

lemma take_pid_binding_err:
  assumes "take_pid_binding pk cfg request vp now st = (Inl e, st')"
  shows "st' = st"
  using assms
  by (auto simp: take_pid_binding_def split: sum.splits if_splits elim!: bind_action_cases)

lemma take_emrtd_evidence_ok_iff:
  "take_emrtd_evidence pk cfg request vp now st = (Inr v', st') \<longleftrightarrow>
     (if cq_configuration_id request = PID_FROM_EMRTD_SD_JWT
      then \<exists>v. v' = Some v \<and> supplied_emrtd_evidence pk cfg request vp now = Inr v \<and>
         vcl_jti v \<notin> binding_jtis st \<and>
         st' = st\<lparr>binding_jtis := insert (vcl_jti v) (binding_jtis st)\<rparr>
      else cq_emrtd_attestation request = None \<and> v' = None \<and> st' = st)"
  by (auto simp: take_emrtd_evidence_def ok_iff split: sum.splits)

lemma take_emrtd_evidence_err:
  assumes "take_emrtd_evidence pk cfg request vp now st = (Inl e, st')"
  shows "st' = st"
  using assms
  by (auto simp: take_emrtd_evidence_def split: sum.splits if_splits elim!: bind_action_cases)

lemma check_access_ok_iff [ok_iff]:
  "check_access t vd request st = Inr access \<longleftrightarrow>
     tokens st t = Some access \<and> at_dpop_jkt access = vd_jkt vd \<and>
     cq_configuration_id request \<in> set (split_ascii_whitespace (at_scope access))"
  by (auto simp: check_access_def ok_iff)

lemma check_credential_proof_ok_iff [ok_iff]:
  "check_credential_proof pk cfg clk access request st = Inr vp \<longleftrightarrow>
     (\<exists>proof. cq_proofs_jwt request = [proof] \<and>
        verify_credential_proof pk proof (app_issuer cfg) clk = Inr vp \<and>
        at_dpop_jkt access = vcp_holder_jkt vp \<and> nonces st (vcp_nonce vp) = Some False)"
  by (auto simp: check_credential_proof_def and_then_ok_iff ok_or_ok_iff guard_err_ok_iff
      single_credential_proof_def split: list.splits)

lemma check_tlsn_ok_iff [ok_iff]:
  "check_tlsn access request = Inr u \<longleftrightarrow>
     (cq_configuration_id request = TLSN_EVIDENCE_SD_JWT \<longrightarrow> at_tlsn_evidence access \<noteq> None)"
  by (auto simp: check_tlsn_def ok_iff)

text \<open>The new elements of the replay set of evidence identifiers.\<close>

definition with_binding :: "string option \<Rightarrow> string set \<Rightarrow> string set" where
  "with_binding j s = (case j of None \<Rightarrow> s | Some k \<Rightarrow> insert k s)"

lemma profiles_exclude:
  "cq_configuration_id request \<in> {QEAA_PID_BOUND_SD_JWT, MANDATE_SD_JWT} \<Longrightarrow>
   cq_configuration_id request \<noteq> PID_FROM_EMRTD_SD_JWT"
  using profiles_neq by auto

text \<open>The decision of the kernel for a request, its proof and its evidence.\<close>

definition kernel_grants ::
  "('k, 's) packages \<Rightarrow> credential_draws \<Rightarrow> credential_request \<Rightarrow> issue_grant \<Rightarrow> bool" where
  "kernel_grants pk draws request g \<longleftrightarrow>
     authorize_kernel (codec pk) (cq_configuration_id request) (vcp_holder_jkt (ig_proof g))
       (vcp_nonce (ig_proof g)) (map_option vpb_subject (ig_pid g)) (ig_chip g) (ig_now g)
       (random_token (codec pk) (cd_request_id draws))
       (random_token (codec pk) (cd_session_id draws)) = Inr (ig_mandate g)"

lemma credential_locked_ok:
  assumes "credential_locked pk cfg clk clk' draws access_token vd request st = (Inr g, st')"
  obtains access where
    "vd_jti vd \<notin> dpop_jtis st" "tokens st access_token = Some access"
    "at_dpop_jkt access = vd_jkt vd"
    "cq_configuration_id request \<in> set (split_ascii_whitespace (at_scope access))"
    "check_credential_proof pk cfg clk access request st = Inr (ig_proof g)"
    "nonces st (vcp_nonce (ig_proof g)) = Some False"
    "clk' = Some (ig_now g)" "ig_tlsn g = at_tlsn_evidence access"
    "cq_configuration_id request = TLSN_EVIDENCE_SD_JWT \<Longrightarrow> at_tlsn_evidence access \<noteq> None"
    "if cq_configuration_id request \<in> {QEAA_PID_BOUND_SD_JWT, MANDATE_SD_JWT}
     then \<exists>b. ig_pid g = Some b \<and>
       supplied_pid_binding pk cfg request (ig_proof g) (ig_now g) = Inr b
     else cq_pid_binding request = None \<and> ig_pid g = None"
    "if cq_configuration_id request = PID_FROM_EMRTD_SD_JWT
     then \<exists>v. ig_chip g = Some v \<and>
       supplied_emrtd_evidence pk cfg request (ig_proof g) (ig_now g) = Inr v
     else cq_emrtd_attestation request = None \<and> ig_chip g = None"
    "\<forall>j. grant_binding_jti g = Some j \<longrightarrow> j \<notin> binding_jtis st"
    "kernel_grants pk draws request g"
    "st' = st\<lparr>dpop_jtis := insert (vd_jti vd) (dpop_jtis st),
       binding_jtis := with_binding (grant_binding_jti g) (binding_jtis st),
       nonces := (nonces st)(vcp_nonce (ig_proof g) \<mapsto> True)\<rparr>"
proof -
  let ?st1 = "st\<lparr>dpop_jtis := insert (vd_jti vd) (dpop_jtis st)\<rparr>"
  from assms obtain access vp now b st2 v st3 m where
    jti: "vd_jti vd \<notin> dpop_jtis st"
    and access: "check_access access_token vd request ?st1 = Inr access"
    and vp: "check_credential_proof pk cfg clk access request ?st1 = Inr vp"
    and clk: "clk' = Some now" and tlsn: "check_tlsn access request = Inr ()"
    and pid: "take_pid_binding pk cfg request vp now ?st1 = (Inr b, st2)"
    and chip: "take_emrtd_evidence pk cfg request vp now st2 = (Inr v, st3)"
    and kernel: "authorize_kernel (codec pk) (cq_configuration_id request) (vcp_holder_jkt vp)
      (vcp_nonce vp) (map_option vpb_subject b) v now
      (random_token (codec pk) (cd_request_id draws))
      (random_token (codec pk) (cd_session_id draws)) = Inr m"
    and n: "consume_nonce (vcp_nonce vp) st3 = (Inr (), st')"
    and g: "g = \<lparr>ig_proof = vp, ig_now = now, ig_tlsn = at_tlsn_evidence access, ig_pid = b,
      ig_chip = v, ig_mandate = m\<rparr>"
    unfolding credential_locked_def bind_action_ok_iff check_only_eq_iff use_dpop_jti_iff
      unix_time_ok_iff by force
  show thesis
  proof (rule that [of access])
    show "\<forall>j. grant_binding_jti g = Some j \<longrightarrow> j \<notin> binding_jtis st"
      "st' = st\<lparr>dpop_jtis := insert (vd_jti vd) (dpop_jtis st),
         binding_jtis := with_binding (grant_binding_jti g) (binding_jtis st),
         nonces := (nonces st)(vcp_nonce (ig_proof g) \<mapsto> True)\<rparr>"
      using pid chip n g profiles_exclude [of request]
      unfolding take_pid_binding_ok_iff take_emrtd_evidence_ok_iff
      by (auto simp: grant_binding_jti_def with_binding_def split: if_splits)
  qed (use jti access vp clk tlsn pid chip kernel g in
      \<open>auto simp: check_access_ok_iff check_credential_proof_ok_iff check_tlsn_ok_iff
        kernel_grants_def take_pid_binding_ok_iff take_emrtd_evidence_ok_iff split: if_splits\<close>)
qed

lemma credential_locked_iff:
  "credential_locked pk cfg clk clk' draws access_token vd request st = (Inr g, st') \<longleftrightarrow>
     vd_jti vd \<notin> dpop_jtis st \<and>
     (\<exists>access. tokens st access_token = Some access \<and> at_dpop_jkt access = vd_jkt vd \<and>
        cq_configuration_id request \<in> set (split_ascii_whitespace (at_scope access)) \<and>
        ig_tlsn g = at_tlsn_evidence access \<and>
        (cq_configuration_id request = TLSN_EVIDENCE_SD_JWT \<longrightarrow> at_tlsn_evidence access \<noteq> None)) \<and>
     (\<exists>jws. cq_proofs_jwt request = [jws] \<and>
        verify_credential_proof pk jws (app_issuer cfg) clk = Inr (ig_proof g)) \<and>
     vcp_holder_jkt (ig_proof g) = vd_jkt vd \<and> nonces st (vcp_nonce (ig_proof g)) = Some False \<and>
     clk' = Some (ig_now g) \<and>
     (if cq_configuration_id request \<in> {QEAA_PID_BOUND_SD_JWT, MANDATE_SD_JWT}
      then \<exists>b. ig_pid g = Some b \<and>
        supplied_pid_binding pk cfg request (ig_proof g) (ig_now g) = Inr b
      else cq_pid_binding request = None \<and> ig_pid g = None) \<and>
     (if cq_configuration_id request = PID_FROM_EMRTD_SD_JWT
      then \<exists>v. ig_chip g = Some v \<and>
        supplied_emrtd_evidence pk cfg request (ig_proof g) (ig_now g) = Inr v
      else cq_emrtd_attestation request = None \<and> ig_chip g = None) \<and>
     (\<forall>j. grant_binding_jti g = Some j \<longrightarrow> j \<notin> binding_jtis st) \<and>
     kernel_grants pk draws request g \<and>
     st' = st\<lparr>dpop_jtis := insert (vd_jti vd) (dpop_jtis st),
       binding_jtis := with_binding (grant_binding_jti g) (binding_jtis st),
       nonces := (nonces st)(vcp_nonce (ig_proof g) \<mapsto> True)\<rparr>"
  (is "?l \<longleftrightarrow> ?r")
proof
  assume ?l
  then show ?r
  proof (rule credential_locked_ok, goal_cases)
    case (1 access)
    have "\<exists>jws. cq_proofs_jwt request = [jws] \<and>
        verify_credential_proof pk jws (app_issuer cfg) clk = Inr (ig_proof g)"
      and "vcp_holder_jkt (ig_proof g) = vd_jkt vd"
      using 1(3,5) by (auto simp: check_credential_proof_ok_iff simp del: verify_credential_proof_ok_iff)
    moreover have "\<exists>access. tokens st access_token = Some access \<and> at_dpop_jkt access = vd_jkt vd \<and>
        cq_configuration_id request \<in> set (split_ascii_whitespace (at_scope access)) \<and>
        ig_tlsn g = at_tlsn_evidence access \<and>
        (cq_configuration_id request = TLSN_EVIDENCE_SD_JWT \<longrightarrow> at_tlsn_evidence access \<noteq> None)"
      using 1(2,3,4,8,9) by blast
    ultimately show ?case
      using 1(1,6,7,10-14) by (intro conjI)
  qed
next
  assume r: ?r
  then obtain access jws where
    access: "tokens st access_token = Some access" "at_dpop_jkt access = vd_jkt vd"
      "cq_configuration_id request \<in> set (split_ascii_whitespace (at_scope access))"
      "ig_tlsn g = at_tlsn_evidence access"
      "cq_configuration_id request = TLSN_EVIDENCE_SD_JWT \<longrightarrow> at_tlsn_evidence access \<noteq> None"
    and jws: "cq_proofs_jwt request = [jws]"
      "verify_credential_proof pk jws (app_issuer cfg) clk = Inr (ig_proof g)"
    by blast
  let ?st1 = "st\<lparr>dpop_jtis := insert (vd_jti vd) (dpop_jtis st)\<rparr>"
  let ?st2 = "?st1\<lparr>binding_jtis := with_binding (map_option vpb_jti (ig_pid g)) (binding_jtis st)\<rparr>"
  let ?st3 = "?st1\<lparr>binding_jtis := with_binding (grant_binding_jti g) (binding_jtis st)\<rparr>"
  have "use_dpop_jti (vd_jti vd) st = (Inr (), ?st1)" using r by simp
  moreover have "check_access access_token vd request ?st1 = Inr access"
    using access by (simp add: check_access_ok_iff)
  moreover have "check_credential_proof pk cfg clk access request ?st1 = Inr (ig_proof g)"
    using access jws r by (simp add: check_credential_proof_ok_iff)
  moreover have "check_tlsn access request = Inr ()"
    using access by (simp add: check_tlsn_ok_iff)
  moreover have "take_pid_binding pk cfg request (ig_proof g) (ig_now g) ?st1 =
      (Inr (ig_pid g), ?st2)"
    using r unfolding take_pid_binding_ok_iff
    by (auto simp: with_binding_def grant_binding_jti_def split: if_splits)
  moreover have "take_emrtd_evidence pk cfg request (ig_proof g) (ig_now g) ?st2 =
      (Inr (ig_chip g), ?st3)"
    using r profiles_exclude [of request] unfolding take_emrtd_evidence_ok_iff
    by (auto simp: with_binding_def grant_binding_jti_def split: if_splits)
  moreover have "consume_nonce (vcp_nonce (ig_proof g)) ?st3 = (Inr (), st')"
    using r by simp
  moreover have "authorize_kernel (codec pk) (cq_configuration_id request)
      (vcp_holder_jkt (ig_proof g)) (vcp_nonce (ig_proof g)) (map_option vpb_subject (ig_pid g))
      (ig_chip g) (ig_now g) (random_token (codec pk) (cd_request_id draws))
      (random_token (codec pk) (cd_session_id draws)) = Inr (ig_mandate g)"
    using r unfolding kernel_grants_def by (elim conjE)
  moreover have "clk' = Some (ig_now g)" using r by blast
  ultimately show ?l
    by (simp add: credential_locked_def bind_action_def check_only_def unix_time_def
        access(4) [symmetric] del: use_dpop_jti_iff consume_nonce_ok_iff)
qed

text \<open>
  Only the replay set of evidence identifiers differs, and it has grown, by identifiers with the
  given property. The property of interest is that of belonging to evidence the request supplied and
  that verified.
\<close>

definition binding_grows :: "(string \<Rightarrow> bool) \<Rightarrow> volatile_state \<Rightarrow> volatile_state \<Rightarrow> bool" where
  "binding_grows P st st' \<longleftrightarrow>
     (\<exists>b. (\<forall>j \<in> b. P j) \<and> st' = st\<lparr>binding_jtis := b \<union> binding_jtis st\<rparr>)"

definition verified_evidence ::
  "('k, 's) packages \<Rightarrow> 'h app_state \<Rightarrow> credential_request \<Rightarrow> string \<Rightarrow> bool" where
  "verified_evidence pk cfg request j \<longleftrightarrow>
     (\<exists>vp now v. supplied_pid_binding pk cfg request vp now = Inr v \<and> vpb_jti v = j) \<or>
     (\<exists>vp now v. supplied_emrtd_evidence pk cfg request vp now = Inr v \<and> vcl_jti v = j)"

lemma verified_evidenceI:
  "supplied_pid_binding pk cfg request vp now = Inr b \<Longrightarrow> verified_evidence pk cfg request (vpb_jti b)"
  "supplied_emrtd_evidence pk cfg request vp now = Inr v \<Longrightarrow>
     verified_evidence pk cfg request (vcl_jti v)"
  unfolding verified_evidence_def by blast+

lemma binding_grows_refl [simp]: "binding_grows P st st"
  by (auto simp: binding_grows_def intro: exI [of _ "{}"])

lemma binding_grows_insert:
  "P j \<Longrightarrow> binding_grows P st (st\<lparr>binding_jtis := insert j (binding_jtis st)\<rparr>)"
  by (auto simp: binding_grows_def intro: exI [of _ "{j}"])

lemma binding_grows_trans:
  assumes "binding_grows P st st'" and "binding_grows P st' st''"
  shows "binding_grows P st st''"
proof -
  obtain b where "\<forall>j \<in> b. P j" "st' = st\<lparr>binding_jtis := b \<union> binding_jtis st\<rparr>"
    using assms(1) by (auto simp: binding_grows_def)
  moreover obtain b' where "\<forall>j \<in> b'. P j" "st'' = st'\<lparr>binding_jtis := b' \<union> binding_jtis st'\<rparr>"
    using assms(2) by (auto simp: binding_grows_def)
  ultimately show ?thesis
    unfolding binding_grows_def by (intro exI [of _ "b' \<union> b"]) (auto simp: Un_assoc)
qed

lemma binding_grows_nonces: "binding_grows P st st' \<Longrightarrow> nonces st' = nonces st"
  by (auto simp: binding_grows_def)

lemma bind_check_grows:
  assumes "bind_action (check_only r) f st = (Inl e, st'')"
    and "\<And>x. r = Inr x \<Longrightarrow> f x st = (Inl e, st'') \<Longrightarrow> binding_grows P st st''"
  shows "binding_grows P st st''"
  using assms by (elim bind_action_cases) auto

lemma bind_action_grows:
  assumes "bind_action m f st = (Inl e, st'')"
    and "\<And>r st'. m st = (r, st') \<Longrightarrow> binding_grows P st st'"
    and "\<And>x st'. m st = (Inr x, st') \<Longrightarrow> nonces st' = nonces st \<Longrightarrow> f x st' = (Inl e, st'') \<Longrightarrow>
      binding_grows P st' st''"
  shows "binding_grows P st st''"
  using assms by (elim bind_action_cases) (blast intro: binding_grows_trans binding_grows_nonces)+

lemma take_pid_binding_grows:
  "take_pid_binding pk cfg request vp now st = (r, st') \<Longrightarrow>
     binding_grows (verified_evidence pk cfg request) st st'"
  by (auto simp: take_pid_binding_def use_binding_jti_def insert_new_def Let_def bind_action_def
      intro!: binding_grows_insert intro: verified_evidenceI split: sum.splits if_splits prod.splits)

lemma take_emrtd_evidence_grows:
  "take_emrtd_evidence pk cfg request vp now st = (r, st') \<Longrightarrow>
     binding_grows (verified_evidence pk cfg request) st st'"
  by (auto simp: take_emrtd_evidence_def use_binding_jti_def insert_new_def Let_def bind_action_def
      intro!: binding_grows_insert intro: verified_evidenceI split: sum.splits if_splits prod.splits)

lemma consume_nonce_err_iff [simp]:
  "consume_nonce n st = (Inl e, st') \<longleftrightarrow>
     nonces st n = None \<and> e = panic ''nonce was checked above'' \<and> st' = st"
  by (auto simp: consume_nonce_def split: option.splits)

text \<open>A refused request leaves at most its identifiers in the two replay sets.\<close>

lemma credential_locked_err:
  assumes "credential_locked pk cfg clk clk' draws access_token vd request st = (Inl e, st')"
  shows "binding_grows (verified_evidence pk cfg request)
    (st\<lparr>dpop_jtis := insert (vd_jti vd) (dpop_jtis st)\<rparr>) st'"
  using assms unfolding credential_locked_def
proof (rule bind_action_cases)
  fix u st1
  assume "use_dpop_jti (vd_jti vd) st = (Inr u, st1)"
  then have st1: "st1 = st\<lparr>dpop_jtis := insert (vd_jti vd) (dpop_jtis st)\<rparr>" by simp
  assume "bind_action (check_only (check_access access_token vd request st1)) (\<lambda>access.
     bind_action (check_only (check_credential_proof pk cfg clk access request st1)) (\<lambda>vp.
     bind_action (check_only (unix_time clk')) (\<lambda>now.
     bind_action (check_only (check_tlsn access request)) (\<lambda>_.
     bind_action (take_pid_binding pk cfg request vp now) (\<lambda>pid_binding.
     bind_action (take_emrtd_evidence pk cfg request vp now) (\<lambda>chip.
     bind_action (check_only (authorize_kernel (codec pk) (cq_configuration_id request)
         (vcp_holder_jkt vp) (vcp_nonce vp) (map_option vpb_subject pid_binding) chip now
         (random_token (codec pk) (cd_request_id draws))
         (random_token (codec pk) (cd_session_id draws)))) (\<lambda>mandate.
     bind_action (consume_nonce (vcp_nonce vp)) (\<lambda>_.
       check_only (Inr \<lparr>ig_proof = vp, ig_now = now, ig_tlsn = at_tlsn_evidence access,
         ig_pid = pid_binding, ig_chip = chip, ig_mandate = mandate\<rparr>))))))))) st1 = (Inl e, st')"
  then have "binding_grows (verified_evidence pk cfg request) st1 st'"
    apply (rule bind_check_grows)
    apply (erule bind_check_grows)
    apply (erule bind_check_grows)
    apply (erule bind_check_grows)
    apply (erule bind_action_grows [OF _ take_pid_binding_grows], assumption)
    apply (erule bind_action_grows [OF _ take_emrtd_evidence_grows], assumption)
    apply (erule bind_check_grows)
    apply (erule bind_action_cases)
    by (auto simp: check_credential_proof_ok_iff)
  then show ?thesis unfolding st1 .
qed (auto simp: insert_absorb)

section \<open>App Attest\<close>

lemma notifications_register_ok:
  assumes "notifications_register cfg request st = (Inr r, st')"
  shows "app_apns cfg \<and> st' = st\<lparr>apns_tokens :=
    (apns_tokens st)(nr_installation_id request \<mapsto> nr_device_token request)\<rparr>"
  using assms by (auto simp: notifications_register_def ok_iff split: sum.splits)

lemma app_attest_challenge_ok:
  assumes "app_attest_challenge pk cfg clk rnd st = (Inr r, st')"
  obtains now where "clk = Some now" "app_app_attest cfg \<noteq> None"
    "ch_challenge r = random_token (codec pk) rnd"
    "st' = st\<lparr>app_attest_challenges := (retain_fresh now (app_attest_challenges st))
       (ch_challenge r \<mapsto> saturating_add now 300)\<rparr>"
  using assms by (auto simp: app_attest_challenge_def Let_def ok_iff split: sum.splits)

lemma consume_challenge_ok_iff:
  "consume_challenge now c st = (Inr u, st') \<longleftrightarrow>
     (\<exists>e. app_attest_challenges st c = Some e \<and> now < e) \<and>
     st' = st\<lparr>app_attest_challenges := (app_attest_challenges st)(c := None)\<rparr>"
  by (auto simp: consume_challenge_def ok_iff split: option.splits)

lemma consume_challenge_err:
  "consume_challenge now c st = (Inl e, st') \<Longrightarrow>
     st' = st\<lparr>app_attest_challenges := (app_attest_challenges st)(c := None)\<rparr>"
  by (auto simp: consume_challenge_def)

lemma save_store_eq: "\<exists>f. save_store IL io cfg st = st\<lparr>attest_store := f\<rparr>"
  by (auto simp: save_store_def intro: exI [of _ "attest_store st"])

lemma save_store_fields [simp]:
  "app_attest_instances (save_store IL io cfg st) = app_attest_instances st"
  "pushed (save_store IL io cfg st) = pushed st"
  "codes (save_store IL io cfg st) = codes st"
  "tokens (save_store IL io cfg st) = tokens st"
  "nonces (save_store IL io cfg st) = nonces st"
  "dpop_jtis (save_store IL io cfg st) = dpop_jtis st"
  "binding_jtis (save_store IL io cfg st) = binding_jtis st"
  "offers (save_store IL io cfg st) = offers st"
  "tlsn_sessions (save_store IL io cfg st) = tlsn_sessions st"
  "capture_sessions (save_store IL io cfg st) = capture_sessions st"
  "app_attest_challenges (save_store IL io cfg st) = app_attest_challenges st"
  "apns_tokens (save_store IL io cfg st) = apns_tokens st"
  by (simp_all add: save_store_def)

lemma insert_instance_ok:
  assumes "insert_instance IL io cfg key_id inst st = (Inr r, st')"
  shows "st' = save_store IL io cfg
    (st\<lparr>app_attest_instances := (app_attest_instances st)(key_id \<mapsto> inst)\<rparr>)"
  using assms by (simp add: insert_instance_def)

lemma verify_app_attest_assertion_ok_iff:
  "verify_app_attest_assertion L IL io cfg key_id a client_data st = (Inr u, st') \<longleftrightarrow>
     (\<exists>inst n. app_attest_instances st key_id = Some inst \<and>
        verify_assertion L a client_data inst = Inr n \<and>
        st' = save_store IL io cfg (st\<lparr>app_attest_instances :=
          (app_attest_instances st)(key_id \<mapsto> inst\<lparr>ri_sign_count := n\<rparr>)\<rparr>))"
  by (auto simp: verify_app_attest_assertion_def split: option.splits sum.splits)

lemma verify_app_attest_assertion_err:
  "verify_app_attest_assertion L IL io cfg key_id a client_data st = (Inl e, st') \<Longrightarrow> st' = st"
  by (auto simp: verify_app_attest_assertion_def split: option.splits sum.splits)

lemma enforce_app_attest_ok:
  assumes "enforce_app_attest L IL io cfg k h body st = (Inr u, st')"
  shows "app_app_attest cfg = None \<and> st' = st \<or>
    (\<exists>key_id h' a. app_app_attest cfg \<noteq> None \<and> k = Some key_id \<and> h = Some h' \<and>
       b64_decode (at_codec L) h' = Some a \<and>
       verify_app_attest_assertion L IL io cfg key_id a body st = (Inr u, st'))"
  using assms
  by (auto simp: enforce_app_attest_def Let_def ok_or_ok_iff
      elim!: bind_action_cases split: if_splits)

section \<open>Capture sessions\<close>

lemma create_pid_capture_session_ok:
  assumes "create_pid_capture_session pk IP cfg clk sid rnd origin_var request st = (Inr r, st')"
  obtains jwk key jkt holder launch now where
    "ec_jwk_from_value (serde pk) (cc_holder_jwk request) = Some jwk"
    "verifying_key_and_jwk pk jwk ''invalid_request'' = Inr (key, jkt, holder)"
    "clk = Some now" "mint_iproov_token IP (codec pk) cfg sid = Inr launch"
    "st' = st\<lparr>capture_sessions := (capture_sessions st)(sid \<mapsto>
       \<lparr>cs_holder_jkt = jkt, cs_holder_jwk = holder, cs_nonce = random_token (codec pk) rnd,
        cs_iproov_user_id = iproov_user_id sid, cs_iproov_token = cl_token launch,
        cs_status = AwaitingEvidence, cs_credential = None, cs_credential_mdoc = None,
        cs_expires_at = saturating_add now CAPTURE_SESSION_TTL_SECONDS,
        cs_device_token = cc_device_token request\<rparr>)\<rparr>"
  using assms
  by (auto simp: create_pid_capture_session_def bind_action_ok_iff and_then_ok_iff ok_or_ok_iff
      unix_time_ok_iff Let_def)

lemma snapshot_session_ok_iff:
  "snapshot_session now sid st = Inr s \<longleftrightarrow>
     capture_sessions st sid = Some s \<and> now \<le> cs_expires_at s \<and> cs_status s = AwaitingEvidence"
  by (auto simp: snapshot_session_def ok_iff not_less)

lemma kernel_gate_ok_iff [simp]:
  "kernel_gate sid d st = (Inr u, st') \<longleftrightarrow> (\<exists>x. d = Inr x) \<and> st' = st"
  by (auto simp: kernel_gate_def split: sum.splits)

lemma kernel_gate_err_iff [simp]:
  "kernel_gate sid d st = (Inl e, st') \<longleftrightarrow> d = Inl e \<and> st' = fail_session sid st"
  by (auto simp: kernel_gate_def split: sum.splits)

lemma fail_session_fields [simp]:
  "binding_jtis (fail_session sid st) = binding_jtis st"
  "dpop_jtis (fail_session sid st) = dpop_jtis st"
  by (simp_all add: fail_session_def split: option.split)

text \<open>The state of a session after its evidence is accepted.\<close>

definition resolved :: "string \<Rightarrow> string \<Rightarrow> capture_session \<Rightarrow> capture_session" where
  "resolved cred mdoc s = s\<lparr>cs_status := Issued, cs_credential := Some cred,
     cs_credential_mdoc := Some mdoc, cs_iproov_token := None\<rparr>"

lemma finish_capture_ok:
  assumes "finish_capture pk env cfg draws now sid s v st = (Inr r, st')"
  obtains s' signer signer' cred mdoc where
    "vcl_jti v \<notin> binding_jtis st" "capture_sessions st sid = Some s'"
    "is_ok (capture_kernel pk draws 0 PID_FROM_EMRTD_SD_JWT s v now)"
    "is_ok (capture_kernel pk draws 1 PID_FROM_EMRTD_MDOC s v now)"
    "app_target_macos cfg"
    "app_credential_signers cfg PID_FROM_EMRTD_SD_JWT = Some signer"
    "issue_sd_jwt pk env (cp_salts draws) signer (app_issuer cfg) PID_FROM_EMRTD_SD_JWT
       (cs_holder_jwk s) now None (Some (vcl_claims v)) = Inr cred"
    "app_credential_signers cfg PID_FROM_EMRTD_MDOC = Some signer'"
    "issue_mdoc pk env (cp_mdoc_randoms draws) signer' PID_FROM_EMRTD_MDOC (cs_holder_jwk s) now
       (Some (vcl_claims v)) (app_hybrid_credential_signer cfg) = Inr mdoc"
    "r = (submitted_response pk cfg cred mdoc,
       if app_apns cfg then cs_device_token s' else None)"
    "st' = st\<lparr>binding_jtis := insert (vcl_jti v) (binding_jtis st),
       capture_sessions := (capture_sessions st)(sid \<mapsto> resolved cred mdoc s')\<rparr>"
  using assms
  by (auto simp: finish_capture_def bind_action_ok_iff is_ok_iff closed_signer_def ok_or_ok_iff
      resolve_session_def resolved_def split: if_splits option.splits)

lemma finish_capture_err:
  assumes "finish_capture pk env cfg draws now sid s v st = (Inl e, st')"
  shows "let st1 = st\<lparr>binding_jtis := insert (vcl_jti v) (binding_jtis st)\<rparr> in
    st' = st1 \<or> st' = fail_session sid st1"
  using assms unfolding finish_capture_def Let_def
  by (elim bind_action_cases)
    (auto simp: insert_absorb resolve_session_def elim!: bind_action_cases
      split: if_splits option.splits)

end
