(* ===== verification/Service_Properties.thy ===== *)
theory Service_Properties
  imports Service_Effects
begin

text \<open>
  Properties of the runs of the service: what is consumed once, and in which order. The steps of
  the service provide the interfaces of \<open>Runs\<close>; the statements about runs are the lemmas of those
  interfaces.
\<close>

section \<open>The steps as providers of one-time keys\<close>

text \<open>A step is analysed by cases, with the effect of its critical section.\<close>

declare
  authorize_take_ok_iff [simp] token_locked_ok_iff [simp] consume_challenge_ok_iff [simp]
  verify_app_attest_assertion_ok_iff [simp] par_push_def [simp] authorize_issue_def [simp]
  nonce_handler_def [simp] Let_def [simp] binding_grows_def [simp]
  authorize_take_err [dest!] token_locked_err [dest!] credential_locked_err [dest!]
  consume_challenge_err [dest!] verify_app_attest_assertion_err [dest!] finish_capture_err [dest!]
  build_tlsn_offer_ok [dest!] notifications_register_ok [dest!] insert_instance_ok [dest!]
  enforce_app_attest_ok [dest!]
  create_credential_offer_ok [elim!] credential_locked_ok [elim!] app_attest_challenge_ok [elim!]
  create_pid_capture_session_ok [elim!] finish_capture_ok [elim!]

interpretation dpop_proofs: one_shot "service_step sv" "\<lambda>s. dpop_jtis (fst s)" dpop_used for sv
proof
  fix s e s' k
  assume step: "service_step sv s e s'"
  then show "dpop_jtis (fst s) \<subseteq> dpop_jtis (fst s')"
    by (cases rule: service_step.cases) auto
  assume "dpop_used e = Some k"
  with step have "k \<notin> dpop_jtis (fst s) \<and> k \<in> dpop_jtis (fst s')"
    by (cases rule: service_step.cases) auto
  then show "k \<notin> dpop_jtis (fst s)" "k \<in> dpop_jtis (fst s')" by simp_all
qed

interpretation evidence: one_shot "service_step sv" "\<lambda>s. binding_jtis (fst s)" evidence_used for sv
proof
  fix s e s' k
  assume step: "service_step sv s e s'"
  then show "binding_jtis (fst s) \<subseteq> binding_jtis (fst s')"
    by (cases rule: service_step.cases) (auto simp: with_binding_def split: option.splits)
  assume "evidence_used e = Some k"
  with step have "k \<notin> binding_jtis (fst s) \<and> k \<in> binding_jtis (fst s')"
    by (cases rule: service_step.cases) (auto simp: with_binding_def)
  then show "k \<notin> binding_jtis (fst s)" "k \<in> binding_jtis (fst s')" by simp_all
qed

interpretation notarisations: one_shot "service_step sv" "\<lambda>s. tlsn_sessions (fst s)"
  session_reserved for sv
proof
  fix s e s' k
  assume step: "service_step sv s e s'"
  then show "tlsn_sessions (fst s) \<subseteq> tlsn_sessions (fst s')"
    by (cases rule: service_step.cases) (auto simp: fail_session_def split: option.splits)
  assume "session_reserved e = Some k"
  with step have "k \<notin> tlsn_sessions (fst s) \<and> k \<in> tlsn_sessions (fst s')"
    by (cases rule: service_step.cases) auto
  then show "k \<notin> tlsn_sessions (fst s)" "k \<in> tlsn_sessions (fst s')" by simp_all
qed

definition consumed_codes :: "volatile_state \<Rightarrow> string set" where
  "consumed_codes st = {c. \<exists>a. codes st c = Some a \<and> ac_consumed a}"

interpretation authorization_codes: issued_once "service_step sv" "\<lambda>s. consumed_codes (fst s)"
  code_used "\<lambda>s. dom (codes (fst s))" code_issued for sv
proof
  fix s e s' k
  assume step: "service_step sv s e s'"
  then show "consumed_codes (fst s) \<subseteq> consumed_codes (fst s')"
    by (cases rule: service_step.cases)
      (auto simp: consumed_codes_def code_binding_failed_def fail_session_def split: option.splits)
  from step show "k \<in> dom (codes (fst s')) \<Longrightarrow> k \<in> dom (codes (fst s)) \<or> code_issued e = Some k"
    by (cases rule: service_step.cases)
      (auto simp: fail_session_def split: option.splits if_splits)
  assume "code_used e = Some k"
  with step have "k \<notin> consumed_codes (fst s) \<and> k \<in> consumed_codes (fst s') \<and>
      k \<in> dom (codes (fst s))"
    by (cases rule: service_step.cases) (auto simp: consumed_codes_def code_binding_failed_def)
  then show "k \<notin> consumed_codes (fst s)" "k \<in> consumed_codes (fst s')"
    "k \<in> dom (codes (fst s))" by simp_all
qed

interpretation proof_nonces: issued_once "service_step sv"
  "\<lambda>s. {n. nonces (fst s) n = Some True}" nonce_used "\<lambda>s. dom (nonces (fst s))" nonce_issued for sv
proof
  fix s e s' k
  assume step: "service_step sv s e s'"
  then show "{n. nonces (fst s) n = Some True} \<subseteq> {n. nonces (fst s') n = Some True}"
    by (cases rule: service_step.cases) (auto simp: fail_session_def split: option.splits)
  from step show "k \<in> dom (nonces (fst s')) \<Longrightarrow> k \<in> dom (nonces (fst s)) \<or> nonce_issued e = Some k"
    by (cases rule: service_step.cases)
      (auto simp: fail_session_def split: option.splits if_splits)
  assume "nonce_used e = Some k"
  with step have "nonces (fst s) k = Some False \<and> nonces (fst s') k = Some True"
    by (cases rule: service_step.cases) auto
  then show "k \<notin> {n. nonces (fst s) n = Some True}" "k \<in> {n. nonces (fst s') n = Some True}"
    "k \<in> dom (nonces (fst s))" by auto
qed

interpretation pushed_requests: removed_on_use "service_step sv" "\<lambda>s. dom (pushed (fst s))"
  request_taken request_pushed for sv
proof
  fix s e s' k
  assume step: "service_step sv s e s'"
  then show "k \<in> dom (pushed (fst s')) \<Longrightarrow> k \<in> dom (pushed (fst s)) \<or> request_pushed e = Some k"
    by (cases rule: service_step.cases)
      (auto simp: fail_session_def split: option.splits if_splits)
  assume "request_taken e = Some k"
  with step show "k \<in> dom (pushed (fst s)) \<and> k \<notin> dom (pushed (fst s'))"
    by (cases rule: service_step.cases) auto
qed

interpretation attest_challenges: removed_on_use "service_step sv"
  "\<lambda>s. dom (app_attest_challenges (fst s))" challenge_used challenge_issued for sv
proof
  fix s e s' k
  assume step: "service_step sv s e s'"
  then show "k \<in> dom (app_attest_challenges (fst s')) \<Longrightarrow>
      k \<in> dom (app_attest_challenges (fst s)) \<or> challenge_issued e = Some k"
    by (cases rule: service_step.cases)
      (auto simp: fail_session_def retain_fresh_def split: option.splits if_splits)
  assume "challenge_used e = Some k"
  with step show "k \<in> dom (app_attest_challenges (fst s)) \<and>
      k \<notin> dom (app_attest_challenges (fst s'))"
    by (cases rule: service_step.cases) auto
qed

end
