(* ===== verification/Demo_Service.thy ===== *)
theory Demo_Service
  imports Service_Properties Toy_Packages Hybrid_Signer_Properties
begin

text \<open>
  A concrete run of the service on the toy packages, from its start: an evidence offer, a pushed
  request, its authorization code, an access token, a nonce, a credential backed by chip evidence,
  a capture session resolved with an App Attest assertion, and an App Attest challenge. The
  examples of the properties of runs are about it.
\<close>

section \<open>The configuration\<close>

definition demo_instance :: registered_instance where
  "demo_instance = \<lparr>ri_app_id = ''a'', ri_public_key = [4], ri_sign_count = 0\<rparr>"

definition demo_instances_lib :: instances_lib where
  "demo_instances_lib = \<lparr>instances_to_vec = (\<lambda>m. Some []),
     instances_from_slice = (\<lambda>b. Some [''key'' \<mapsto> demo_instance])\<rparr>"

text \<open>An assertion of the examples is its authenticator data.\<close>

definition demo_cbor :: cbor_lib where
  "demo_cbor = \<lparr>into_writer = (\<lambda>v. Some []),
     from_reader = (\<lambda>b. Some (CMap [(CText ''signature'', CBytes (as_bytes ''7'')),
       (CText ''authenticatorData'', CBytes b)], length b))\<rparr>"

definition demo_attest :: "(bytes, bytes, unit, unit, unit) attest_lib" where
  "demo_attest = \<lparr>at_cbor = demo_cbor, at_ec = service_ec, at_codec = service_codec,
     at_x509 = \<lparr>cert_from_der = (\<lambda>b. None), cert_tbs_der = (\<lambda>c. None), cert_signature = (\<lambda>c. []),
       cert_public_key = (\<lambda>c. None), cert_not_before = (\<lambda>c. 0), cert_not_after = (\<lambda>c. 0),
       cert_extensions = (\<lambda>c. None),
       p384 = \<lparr>key_from_sec1 = (\<lambda>b. None), key_from_affine = (\<lambda>x y. None),
         sig_from_slice = (\<lambda>b. None), sig_from_der = (\<lambda>b. None), ecdsa_verify = (\<lambda>k m s. False)\<rparr>\<rparr>\<rparr>"

definition demo_assertion :: "u32 \<Rightarrow> string" where
  "demo_assertion n = toy_b64 (as_bytes ''a'' @ replicate 31 0 @ [0] @ be_bytes 4 n)"

definition demo_signing :: "(unit, unit) signing_env" where
  "demo_signing = \<lparr>sg_keychain = toy_keychain, sg_aead = toy_aead, sg_cbor = demo_cbor,
     sg_os = calm_os, sg_store = empty_store, sg_certificate = (\<lambda>l. Inr [])\<rparr>"

definition demo_iproov :: iproov_lib where
  "demo_iproov = \<lparr>hex_encode = toy_b64, token_response_from_str = (\<lambda>s. Inr s),
     validate_response_from_str = (\<lambda>s. Inr \<lparr>vr_passed = True,
       vr_assurance_type = Some ASSURANCE_GENUINE_PRESENCE\<rparr>),
     http_post = (\<lambda>u j. Inr ''t'')\<rparr>"

definition demo_state :: "unit app_state" where
  "demo_state = \<lparr>app_issuer = demo_issuer, app_trusted_notary_key = as_bytes ''N'',
     app_trusted_notary_pq_key = None, app_tlsn_demo_notary = None,
     app_trusted_emrtd_reader_key = Some [4], app_hybrid_pq_enabled = False,
     app_iproov = Some \<lparr>ip_api_key = ''a'', ip_secret = ''s'', ip_base_url = ''https://l'',
       ip_assurance_type = ASSURANCE_GENUINE_PRESENCE, ip_web_base_url = None\<rparr>,
     app_app_attest = Some \<lparr>app_ids = [''a''], allow_development = False\<rparr>,
     app_app_attest_store = True, app_apns = False, app_target_macos = True,
     app_credential_signers = (\<lambda>p. Some demo_signer), app_hybrid_credential_signer = None\<rparr>"

definition demo_service :: "(bytes, bytes, unit, unit, unit, unit, unit) service" where
  "demo_service = \<lparr>sv_packages = service_packages, sv_attest = demo_attest,
     sv_instances = demo_instances_lib, sv_signing = demo_signing, sv_state = demo_state\<rparr>"

lemma demo_service_simps [simp]:
  "sv_packages demo_service = service_packages" "sv_attest demo_service = demo_attest"
  "sv_instances demo_service = demo_instances_lib" "sv_signing demo_service = demo_signing"
  "sv_state demo_service = demo_state"
  by (simp_all add: demo_service_def)

lemma demo_state_simps [simp]:
  "app_issuer demo_state = demo_issuer" "app_trusted_notary_key demo_state = as_bytes ''N''"
  "app_trusted_notary_pq_key demo_state = None"
  "app_trusted_emrtd_reader_key demo_state = Some [4]" "\<not> app_hybrid_pq_enabled demo_state"
  "app_app_attest_store demo_state" "\<not> app_apns demo_state" "app_target_macos demo_state"
  "app_credential_signers demo_state p = Some demo_signer"
  "app_hybrid_credential_signer demo_state = None"
  "app_app_attest demo_state = Some \<lparr>app_ids = [''a''], allow_development = False\<rparr>"
  by (simp_all add: demo_state_def)

lemma random_token_service [simp]: "random_token service_codec b = toy_b64 b"
  by (simp add: random_token_def service_codec_def)

lemma char_of_unat_of_char: "char_of (unat (of_char c :: u8)) = c"
proof -
  have "unat (of_nat (of_char c) :: u8) = of_char c" by (simp add: unat_of_nat)
  then show ?thesis by (simp add: of_nat_of_char)
qed

lemma toy_b64_as_bytes [simp]: "toy_b64 (as_bytes s) = s"
  by (induction s) (simp_all add: toy_b64_def as_bytes_def char_of_unat_of_char)

lemma of_char_char_of_unat: "of_char (char_of (unat a)) = (a :: u8)"
proof -
  have "of_char (char_of (unat a)) = (of_nat (of_char (char_of (unat a) :: char)) :: u8)"
    by (simp only: of_nat_of_char)
  also have "\<dots> = of_nat (unat a)"
    using unat_lt_pow [of a] by (simp only: of_char_of) simp
  finally show ?thesis by simp
qed

lemma as_bytes_toy_b64 [simp]: "as_bytes (toy_b64 b) = b"
  by (induction b) (simp_all add: toy_b64_def as_bytes_def of_char_char_of_unat)

section \<open>The states of the run\<close>

definition demo_file :: attest_file where
  "demo_file = \<lparr>af_table = Some [], af_temporary = None\<rparr>"

definition demo_request :: par_request where
  "demo_request = \<lparr>pr_client_id = ''c'', pr_redirect_uri = ''app:'', pr_response_type = ''code'',
     pr_scope = PID_FROM_EMRTD_SD_JWT, pr_state = None,
     pr_code_challenge = hash_b64 service_codec ''v'', pr_code_challenge_method = ''S256'',
     pr_issuer_state = None\<rparr>"

definition demo_uri :: string where "demo_uri = ''urn:ietf:params:oauth:request_uri:u''"

definition demo_pushed :: pushed_authorization where
  "demo_pushed = \<lparr>pa_client_id = ''c'', pa_redirect_uri = ''app:'',
     pa_scope = PID_FROM_EMRTD_SD_JWT, pa_state = None,
     pa_code_challenge = hash_b64 service_codec ''v'', pa_tlsn_evidence = None\<rparr>"

definition demo_code :: authorization_code where
  "demo_code = \<lparr>ac_client_id = ''c'', ac_redirect_uri = ''app:'', ac_scope = PID_FROM_EMRTD_SD_JWT,
     ac_code_challenge = hash_b64 service_codec ''v'', ac_consumed = False,
     ac_tlsn_evidence = None\<rparr>"

definition demo_token_request :: token_request where
  "demo_token_request = \<lparr>tr_grant_type = ''authorization_code'', tr_code = ''code'',
     tr_redirect_uri = ''app:'', tr_client_id = ''c'', tr_code_verifier = ''v''\<rparr>"

definition demo_access :: access_token where
  "demo_access = \<lparr>at_scope = PID_FROM_EMRTD_SD_JWT, at_dpop_jkt = demo_jkt,
     at_tlsn_evidence = None\<rparr>"

definition demo_credential_request :: credential_request where
  "demo_credential_request = \<lparr>cq_configuration_id = PID_FROM_EMRTD_SD_JWT,
     cq_proofs_jwt = [''h.c.7''], cq_pid_binding = None, cq_emrtd_attestation = Some ''h.e.7''\<rparr>"

definition demo_evidence :: verified_tlsn_evidence where
  "demo_evidence = \<lparr>vt_session_id = ''s1'', vt_issued_at = 100, vt_verifier_output = JNull\<rparr>"

definition demo_offer :: credential_offer where
  "demo_offer = \<lparr>co_profile = TLSN_EVIDENCE_SD_JWT, co_issuer_state = ''is'', co_expires_at = 400,
     co_tlsn_evidence = Some demo_evidence\<rparr>"

definition demo_capture :: capture_session where
  "demo_capture = \<lparr>cs_holder_jkt = demo_jkt, cs_holder_jwk = public_jwk_value demo_jwk,
     cs_nonce = ''5'', cs_iproov_user_id = iproov_user_id ''s'', cs_iproov_token = Some ''t'',
     cs_status = AwaitingEvidence, cs_credential = None, cs_credential_mdoc = None,
     cs_expires_at = 1000, cs_device_token = None\<rparr>"

definition demo_evidence_request :: capture_evidence_request where
  "demo_evidence_request = \<lparr>ce_attestation = ''h.E.7'', ce_client_ip = None\<rparr>"

definition demo_cdraws :: capture_draws where
  "demo_cdraws = \<lparr>cp_request_ids = (\<lambda>i. []), cp_session_ids = (\<lambda>i. []), cp_salts = (\<lambda>i. []),
     cp_mdoc_randoms = (\<lambda>i. [])\<rparr>"

text \<open>Each state differs from the previous one by what the step does.\<close>

definition demo_0 :: volatile_state where
  "demo_0 = initial_state demo_instances_lib demo_state demo_file"

definition demo_1 :: volatile_state where
  "demo_1 = demo_0\<lparr>tlsn_sessions := {''s1''}, offers := [''o'' \<mapsto> demo_offer]\<rparr>"

definition demo_2 :: volatile_state where
  "demo_2 = demo_1\<lparr>pushed := [demo_uri \<mapsto> demo_pushed]\<rparr>"

definition demo_3 :: volatile_state where
  "demo_3 = demo_2\<lparr>pushed := Map.empty\<rparr>"

definition demo_4 :: volatile_state where
  "demo_4 = demo_3\<lparr>codes := [''code'' \<mapsto> demo_code]\<rparr>"

definition demo_5 :: volatile_state where
  "demo_5 = demo_4\<lparr>dpop_jtis := {''t''}, codes := [''code'' \<mapsto> demo_code\<lparr>ac_consumed := True\<rparr>],
     tokens := [''token'' \<mapsto> demo_access]\<rparr>"

definition demo_6 :: volatile_state where
  "demo_6 = demo_5\<lparr>nonces := [''5'' \<mapsto> False]\<rparr>"

definition demo_7 :: volatile_state where
  "demo_7 = demo_6\<lparr>dpop_jtis := {''c'', ''t''}, binding_jtis := {''j''}, nonces := [''5'' \<mapsto> True]\<rparr>"

definition demo_8 :: volatile_state where
  "demo_8 = demo_7\<lparr>capture_sessions := [''s'' \<mapsto> demo_capture]\<rparr>"

definition demo_9 :: volatile_state where
  "demo_9 = demo_8\<lparr>app_attest_challenges := [''ch'' \<mapsto> 400]\<rparr>"

definition demo_10 :: volatile_state where
  "demo_10 = demo_9\<lparr>app_attest_challenges := Map.empty\<rparr>"

definition demo_11 :: volatile_state where
  "demo_11 = demo_10\<lparr>app_attest_instances := [''key'' \<mapsto> demo_instance\<lparr>ri_sign_count := 1\<rparr>]\<rparr>"

lemmas demo_states =
  demo_1_def demo_2_def demo_3_def demo_4_def demo_5_def demo_6_def demo_7_def demo_8_def
  demo_9_def demo_10_def demo_11_def

lemma demo_0_simps [simp]:
  "pushed demo_0 = Map.empty" "codes demo_0 = Map.empty" "tokens demo_0 = Map.empty"
  "nonces demo_0 = Map.empty" "dpop_jtis demo_0 = {}" "binding_jtis demo_0 = {}"
  "offers demo_0 = Map.empty" "tlsn_sessions demo_0 = {}" "capture_sessions demo_0 = Map.empty"
  "app_attest_challenges demo_0 = Map.empty"
  "app_attest_instances demo_0 = [''key'' \<mapsto> demo_instance]"
  "attest_store demo_0 = demo_file"
  by (simp_all add: demo_0_def initial_state_def load_instances_def demo_file_def
      demo_instances_lib_def)

section \<open>The steps\<close>

lemma demo_step_offer:
  "service_step demo_service (demo_0, {#}) (EvidenceReserved ''o'' ''s1'') (demo_1, {#})"
proof -
  have "build_tlsn_offer service_packages demo_state (Some 100) ''o'' (as_bytes ''is'') demo_artifact
      demo_0 = (offer_response service_packages demo_state ''o'' 300, demo_1)"
    by (simp add: build_tlsn_offer_def unix_time_def demo_artifact_verifies reserve_tlsn_session_def
        demo_states TLSN_EVIDENCE_LIFETIME_SECONDS_def demo_offer_def demo_evidence_def
        saturating_add_def)
  from tlsn_offer [of demo_service, simplified, OF this, simplified, OF demo_artifact_verifies]
  show ?thesis by (simp add: demo_states)
qed

lemma demo_step_par:
  "service_step demo_service (demo_1, {#}) ParStarted (demo_1, {#ParTask demo_request None#})"
proof -
  have "valid_scope PID_FROM_EMRTD_SD_JWT False"
    by code_simp
  then have "par_evidence demo_state (Some 100) [''o''] demo_request demo_1 = Inr None"
    by (simp add: par_evidence_def demo_request_def)
  from par_start [of demo_service, simplified, OF this]
  show ?thesis by (simp add: demo_states)
qed

lemma demo_step_push:
  "service_step demo_service (demo_1, {#ParTask demo_request None#}) (RequestPushed demo_uri)
     (demo_2, {#})"
proof -
  have "par_push ''u'' demo_request None demo_1 =
      (\<lparr>par_request_uri = demo_uri, par_expires_in = 60\<rparr>, demo_2)"
    by (simp add: par_push_def demo_request_def demo_uri_def demo_states demo_pushed_def)
  from par_end [of demo_request None "{#ParTask demo_request None#}" _ _ _ _ demo_service, OF _ this]
  show ?thesis by (simp add: demo_states)
qed

lemma demo_step_authorize:
  "service_step demo_service (demo_2, {#}) (RequestTaken demo_uri)
     (demo_3, {#AuthorizeTask demo_pushed#})"
  using authorize_start [of "\<lparr>ar_client_id = ''c'', ar_request_uri = demo_uri\<rparr>" demo_2 demo_pushed
      demo_3 demo_service "{#}"]
  by (simp add: demo_states demo_pushed_def)

lemma demo_step_code:
  "service_step demo_service (demo_3, {#AuthorizeTask demo_pushed#}) (CodeIssued ''code'')
     (demo_4, {#})"
proof -
  have "authorize_issue service_packages (as_bytes ''code'') demo_pushed demo_3 =
      (url_append_pair service_urls ''app:'' ''code'' ''code'', demo_4)"
    by (simp add: authorize_issue_def demo_pushed_def demo_states demo_code_def)
  from authorize_end [where sv = demo_service, unfolded demo_service_simps, OF _ this,
      of "{#AuthorizeTask demo_pushed#}"]
  show ?thesis by (simp add: demo_states)
qed

lemma demo_token_dpop:
  "token_dpop service_packages demo_state (Some 100) (Some ''d.t.7'') demo_token_request =
     Inr \<lparr>vd_jkt = demo_jkt, vd_jti = ''t''\<rparr>"
proof -
  have "url_join service_urls demo_issuer ''token'' = Some ''https://i/token''"
    by (simp add: service_urls_def demo_issuer_def)
  then show ?thesis
    by (simp add: token_dpop_def demo_token_request_def demo_dpop_verifies)
qed

lemma demo_token_locked:
  "token_locked service_packages (as_bytes ''token'') demo_token_request
     \<lparr>vd_jkt = demo_jkt, vd_jti = ''t''\<rparr> demo_4 =
   (Inr (token_response ''token'' PID_FROM_EMRTD_SD_JWT), demo_5)"
  by (simp add: demo_states demo_token_request_def demo_code_def code_binding_failed_def
      pkce_matches_def demo_access_def)

lemma demo_step_token:
  "service_step demo_service (demo_4, {#}) (TokenIssued ''code'' ''t'' ''token'') (demo_5, {#})"
  using token_ok [where sv = demo_service, unfolded demo_service_simps,
      OF demo_token_dpop demo_token_locked]
  by (simp add: demo_states demo_token_request_def)

lemma demo_step_nonce:
  "service_step demo_service (demo_5, {#}) (NonceIssued ''5'') (demo_6, {#})"
proof -
  have "random_credential_nonce [0, 5] = Some ''5''"
    by code_simp
  from nonce [OF this, of demo_5 _ _ demo_service "{#}"] show ?thesis by (simp add: demo_states)
qed

definition demo_grant :: issue_grant where
  "demo_grant = \<lparr>ig_proof = \<lparr>vcp_holder_jkt = demo_jkt, vcp_holder_jwk = public_jwk_value demo_jwk,
       vcp_nonce = ''5''\<rparr>, ig_now = 100, ig_tlsn = None, ig_pid = None,
     ig_chip = Some (demo_chip ''j''), ig_mandate = None\<rparr>"

definition demo_draws :: credential_draws where
  "demo_draws = \<lparr>cd_request_id = [], cd_session_id = [], cd_mandate_jti = [],
     cd_salts = (\<lambda>i. [])\<rparr>"

lemma demo_kernel:
  assumes "profile \<in> {PID_FROM_EMRTD_SD_JWT, PID_FROM_EMRTD_MDOC}"
  shows "authorize_kernel service_codec profile demo_jkt ''5'' None (Some (demo_chip j)) 100 r r' =
    Inr None"
proof -
  have "profile \<noteq> MANDATE_SD_JWT" "profile \<noteq> QEAA_PID_BOUND_SD_JWT" "profile_role profile = Some Pid"
    using assms profiles_neq by (auto simp: profile_role_def)
  then show ?thesis
    unfolding authorize_kernel_ok_iff by (simp add: demo_chip_def chip_all_verdicts_def)
qed

lemma demo_supplied:
  "supplied_emrtd_evidence service_packages demo_state demo_credential_request
     (ig_proof demo_grant) 100 = Inr (demo_chip ''j'')"
  by (simp add: supplied_emrtd_evidence_def demo_credential_request_def demo_grant_def
      demo_emrtd_verified)

lemma demo_locked:
  "credential_locked service_packages demo_state (Some 100) (Some 100) demo_draws ''token''
     \<lparr>vd_jkt = demo_jkt, vd_jti = ''c''\<rparr> demo_credential_request demo_6 = (Inr demo_grant, demo_7)"
proof -
  let ?vd = "\<lparr>vd_jkt = demo_jkt, vd_jti = ''c''\<rparr>" and ?st = "demo_6\<lparr>dpop_jtis := {''c'', ''t''}\<rparr>"
  have scope: "PID_FROM_EMRTD_SD_JWT \<in> set (split_ascii_whitespace PID_FROM_EMRTD_SD_JWT)"
    by code_simp
  have access: "check_access ''token'' ?vd demo_credential_request ?st = Inr demo_access"
    using scope unfolding check_access_ok_iff
    by (simp add: demo_states demo_access_def demo_credential_request_def)
  have "check_credential_proof service_packages demo_state (Some 100) demo_access
      demo_credential_request ?st = Inr (ig_proof demo_grant)"
    unfolding check_credential_proof_ok_iff
    by (simp add: demo_states demo_access_def demo_credential_request_def demo_grant_def
        demo_credential_proof_verifies)
  moreover have "take_pid_binding service_packages demo_state demo_credential_request
      (ig_proof demo_grant) 100 ?st = (Inr None, ?st)"
    using profiles_neq unfolding take_pid_binding_ok_iff
    by (simp add: demo_credential_request_def)
  moreover have "take_emrtd_evidence service_packages demo_state demo_credential_request
      (ig_proof demo_grant) 100 ?st =
      (Inr (Some (demo_chip ''j'')), ?st\<lparr>binding_jtis := {''j''}\<rparr>)"
    unfolding take_emrtd_evidence_ok_iff demo_supplied
    by (simp add: demo_states demo_credential_request_def demo_chip_def)
  moreover have "check_tlsn demo_access demo_credential_request = Inr ()"
    using profiles_neq by (simp add: check_tlsn_ok_iff demo_credential_request_def)
  moreover have "authorize_kernel service_codec (cq_configuration_id demo_credential_request)
      (vcp_holder_jkt (ig_proof demo_grant)) (vcp_nonce (ig_proof demo_grant))
      (map_option vpb_subject None) (Some (demo_chip ''j'')) 100 (toy_b64 []) (toy_b64 []) = Inr None"
    using demo_kernel [of PID_FROM_EMRTD_SD_JWT]
    by (simp add: demo_credential_request_def demo_grant_def)
  moreover have "consume_nonce (vcp_nonce (ig_proof demo_grant)) (?st\<lparr>binding_jtis := {''j''}\<rparr>) =
      (Inr (), demo_7)"
    by (simp add: demo_states demo_grant_def)
  moreover have "use_dpop_jti (vd_jti ?vd) demo_6 = (Inr (), ?st)"
    by (simp add: demo_states)
  ultimately show ?thesis
    using access
    by (simp add: credential_locked_def bind_action_def check_only_def unix_time_def demo_draws_def
        del: use_dpop_jti_iff consume_nonce_ok_iff)
      (simp add: demo_grant_def demo_access_def)
qed

lemma demo_credential_dpop:
  "credential_dpop service_packages demo_state (Some 100) (Some ''DPoP token'') (Some ''d.c.7'') =
     Inr (''token'', \<lparr>vd_jkt = demo_jkt, vd_jti = ''c''\<rparr>)"
proof -
  have "url_join service_urls demo_issuer ''credential'' = Some ''https://i/credential''"
    by (simp add: service_urls_def demo_issuer_def)
  moreover have "bearer (Some ''DPoP token'') = Inr ''token''"
    using strip_prefix_append [of "''DPoP ''" "''token''"] by (simp add: bearer_def)
  ultimately show ?thesis
    by (simp add: credential_dpop_def demo_credential_dpop_verifies)
qed

lemma demo_step_credential:
  "service_step demo_service (demo_6, {#})
     (CredentialGranted ''5'' ''c'' PID_FROM_EMRTD_SD_JWT (Some ''j'')) (demo_7, {#})"
  using credential_granted [where sv = demo_service, unfolded demo_service_simps,
      OF demo_credential_dpop demo_locked]
  by (simp add: demo_grant_def demo_credential_request_def grant_binding_jti_def demo_chip_def)

lemma demo_step_capture:
  "service_step demo_service (demo_7, {#}) (CaptureOpened ''s'') (demo_8, {#})"
proof -
  have "mint_iproov_token demo_iproov service_codec demo_state ''s'' =
      Inr \<lparr>cl_token = Some ''t'', cl_streaming_url = Some (streaming_url (the (app_iproov demo_state))),
        cl_assurance_type = Some ASSURANCE_GENUINE_PRESENCE\<rparr>"
    by (simp add: mint_iproov_token_def demo_state_def create_token_def demo_iproov_def
        parse_token_response_def)
  then have "\<exists>r. create_pid_capture_session service_packages demo_iproov demo_state (Some 100) ''s''
      (as_bytes ''5'') None \<lparr>cc_holder_jwk = JNull, cc_device_token = None\<rparr> demo_7 = (Inr r, demo_8)"
    by (simp add: create_pid_capture_session_def bind_action_def check_only_def demo_jwk_value
        unix_time_def demo_states demo_capture_def saturating_add_def CAPTURE_SESSION_TTL_SECONDS_def)
  then obtain r where "create_pid_capture_session service_packages demo_iproov demo_state (Some 100)
      ''s'' (as_bytes ''5'') None \<lparr>cc_holder_jwk = JNull, cc_device_token = None\<rparr> demo_7 =
      (Inr r, demo_8)" ..
  from capture_open [where sv = demo_service, unfolded demo_service_simps, OF this]
  show ?thesis by (simp add: demo_states)
qed

lemma demo_step_challenge:
  "service_step demo_service (demo_8, {#}) (ChallengeIssued ''ch'') (demo_9, {#})"
proof -
  have "app_attest_challenge service_packages demo_state (Some 100) (as_bytes ''ch'') demo_8 =
      (Inr \<lparr>ch_challenge = ''ch'', ch_expires_in = 300\<rparr>, demo_9)"
    by (simp add: app_attest_challenge_def unix_time_def demo_states retain_fresh_def
        saturating_add_def)
  from challenge [where sv = demo_service, unfolded demo_service_simps, OF this]
  show ?thesis by (simp add: demo_states)
qed

definition demo_register :: app_attest_register_request where
  "demo_register = \<lparr>rr_key_id = ''key'', rr_attestation = [], rr_challenge = ''ch''\<rparr>"

definition demo_config :: app_attest_config where
  "demo_config = \<lparr>app_ids = [''a''], allow_development = False\<rparr>"

lemma demo_step_consume:
  "service_step demo_service (demo_9, {#}) (ChallengeConsumed ''ch'')
     (demo_10, {#RegisterTask demo_config 100 demo_register#})"
proof -
  have "consume_challenge 100 (rr_challenge demo_register) demo_9 = (Inr (), demo_10)"
    unfolding consume_challenge_ok_iff by (simp add: demo_states demo_register_def)
  from register_start [where sv = demo_service, unfolded demo_service_simps, OF _ this,
      of demo_config "{#}"]
  show ?thesis by (simp add: demo_register_def demo_config_def)
qed

lemma demo_step_dropped:
  "service_step demo_service (demo_10, {#RegisterTask demo_config 100 demo_register#}) Dropped
     (demo_10, {#})"
  using dropped [of demo_service demo_10 "RegisterTask demo_config 100 demo_register" "{#}"] by simp

lemma demo_assertion_verifies:
  assumes "ri_sign_count inst < n" and "ri_app_id inst = ''a''"
  shows "verify_assertion demo_attest (as_bytes (demo_assertion n)) body inst = Inr n"
proof -
  let ?d = "as_bytes ''a'' @ replicate 31 0 @ [0] @ be_bytes 4 n"
  have a: "as_bytes ''a'' = [97]" by (simp add: as_bytes_def)
  have d: "?d = ((as_bytes ''a'' @ replicate 31 0) @ [0]) @ be_bytes 4 n" by simp
  have "slice 0 32 ?d = as_bytes ''a'' @ replicate 31 0"
    unfolding d slice_def by (simp add: a)
  moreover have "slice 33 37 ?d = be_bytes 4 n"
    unfolding d slice_def by (simp add: a)
  moreover have "from_be_bytes (be_bytes 4 n) = n"
    by (rule from_be_bytes_be_bytes) simp
  ultimately show ?thesis
    using assms unfolding verify_assertion_ok_iff
    by (simp add: demo_attest_def demo_cbor_def demo_assertion_def cbor_get_def service_codec_def
        a)
qed

definition demo_io :: attest_io where
  "demo_io = \<lparr>io_write = WriteOk, io_rename_fails = False\<rparr>"

lemma demo_enforced:
  "enforce_app_attest demo_attest demo_instances_lib demo_io demo_state (Some ''key'')
     (Some (demo_assertion 1)) [] demo_10 = (Inr (), demo_11)"
proof -
  have "verify_app_attest_assertion demo_attest demo_instances_lib demo_io demo_state ''key''
      (as_bytes (demo_assertion 1)) [] demo_10 = (Inr (), demo_11)"
    unfolding verify_app_attest_assertion_ok_iff
    using demo_assertion_verifies [of demo_instance 1 "[]"]
    by (auto simp: demo_states demo_instance_def save_store_def save_instances_def
        demo_instances_lib_def demo_file_def demo_io_def)
  then show ?thesis
    by (simp add: enforce_app_attest_def bind_action_def check_only_def demo_attest_def)
qed

lemma demo_step_submit:
  "service_step demo_service (demo_10, {#}) (AssertionAccepted ''key'' 1)
     (demo_11, {#SubmitTask 100 ''s'' demo_evidence_request#})"
  using submit_attested [where sv = demo_service, unfolded demo_service_simps, OF demo_enforced,
      of "demo_instance\<lparr>ri_sign_count := 1\<rparr>"]
  by (simp add: demo_states)

lemma demo_captured:
  "capture_evidence service_packages demo_iproov demo_state 100 demo_capture demo_evidence_request =
     Inr (demo_chip ''k'')"
proof -
  have "capture_liveness demo_iproov service_codec demo_state demo_capture None = Inr True"
    by (simp add: capture_liveness_def demo_state_def demo_capture_def validate_def demo_iproov_def
        parse_validate_response_def)
  then show ?thesis
    by (simp add: capture_evidence_def demo_evidence_request_def demo_capture_def demo_emrtd_verified
        demo_chip_def portrait_matched_liveness_def)
qed

lemma demo_snapshot: "snapshot_session 100 ''s'' demo_11 = Inr demo_capture"
  unfolding snapshot_session_ok_iff by (simp add: demo_states demo_capture_def)

lemma demo_step_verified:
  "service_step demo_service (demo_11, {#SubmitTask 100 ''s'' demo_evidence_request#})
     (SubmissionVerified ''s'') (demo_11, {#FinishTask 100 ''s'' demo_capture (demo_chip ''k'')#})"
  using submit_verified [where sv = demo_service, unfolded demo_service_simps,
      of 100 "''s''" demo_evidence_request "{#SubmitTask 100 ''s'' demo_evidence_request#}"
         demo_11 demo_capture demo_iproov "demo_chip ''k''"] demo_captured demo_snapshot
  by simp

lemma demo_issued:
  obtains cred mdoc where
    "issue_sd_jwt service_packages demo_signing (cp_salts demo_cdraws) demo_signer demo_issuer
       PID_FROM_EMRTD_SD_JWT (cs_holder_jwk demo_capture) 100 None
       (Some (vcl_claims (demo_chip ''k''))) = Inr cred"
    "issue_mdoc service_packages demo_signing (cp_mdoc_randoms demo_cdraws) demo_signer
       PID_FROM_EMRTD_MDOC (cs_holder_jwk demo_capture) 100 (Some (vcl_claims (demo_chip ''k'')))
       None = Inr mdoc"
proof -
  have jwt: "sd_jwt_claims PID_FROM_EMRTD_SD_JWT None (Some pid) =
      Inr (''eu.europa.ec.eudi.pid.1'', pid_from_emrtd_claims pid)" for pid
    by (simp add: sd_jwt_claims_def profile_defs)
  have label: "\<exists>l. key_label PID_FROM_EMRTD_MDOC = Some l"
    by (simp add: key_label_def)
  have "\<exists>cred. issue_sd_jwt service_packages demo_signing (cp_salts demo_cdraws) demo_signer
       demo_issuer PID_FROM_EMRTD_SD_JWT (cs_holder_jwk demo_capture) 100 None
       (Some (vcl_claims (demo_chip ''k''))) = Inr cred"
    unfolding issue_sd_jwt_def
    by (simp add: jwt Let_def sign_sd_jwt_def demo_signing_def sign_es256_def sign_der_def
        toy_keychain_def)
  moreover have "\<exists>mdoc. issue_mdoc service_packages demo_signing (cp_mdoc_randoms demo_cdraws)
       demo_signer PID_FROM_EMRTD_MDOC (cs_holder_jwk demo_capture) 100
       (Some (vcl_claims (demo_chip ''k''))) None = Inr mdoc"
    using label
    by (auto simp: issue_mdoc_def mdoc_claims_def mdoc_item_def demo_cbor_def demo_signing_def sign_es256_def sign_der_def
        toy_keychain_def decode_jwk_coordinate_def demo_capture_def public_jwk_value_def
        demo_jwk_def rfc3339_def service_clock_def cbor_encode_def mdoc_unprotected_def
        saturating_add_def split: prod.splits)
  ultimately show thesis using that by blast
qed

definition demo_events :: "event list" where
  "demo_events = [EvidenceReserved ''o'' ''s1'', ParStarted, RequestPushed demo_uri,
     RequestTaken demo_uri, CodeIssued ''code'', TokenIssued ''code'' ''t'' ''token'',
     NonceIssued ''5'', CredentialGranted ''5'' ''c'' PID_FROM_EMRTD_SD_JWT (Some ''j''),
     CaptureOpened ''s'', ChallengeIssued ''ch'', ChallengeConsumed ''ch'', Dropped,
     AssertionAccepted ''key'' 1, SubmissionVerified ''s'', CaptureIssued ''s'' ''k'']"

lemma demo_kernel_gate:
  "profile \<in> {PID_FROM_EMRTD_SD_JWT, PID_FROM_EMRTD_MDOC} \<Longrightarrow>
   capture_kernel service_packages demo_cdraws i profile demo_capture (demo_chip j) 100 = Inr None"
  using demo_kernel by (simp add: capture_kernel_def demo_capture_def demo_cdraws_def)

text \<open>Whatever the state of the session is by then.\<close>

lemma demo_finished:
  assumes "capture_sessions st ''s'' = Some s" and "j \<notin> binding_jtis st"
  obtains cred mdoc where
    "finish_capture service_packages demo_signing demo_state demo_cdraws 100 ''s'' demo_capture
       (demo_chip j) st =
     (Inr (submitted_response service_packages demo_state cred mdoc, None),
      st\<lparr>binding_jtis := insert j (binding_jtis st),
         capture_sessions := (capture_sessions st)(''s'' \<mapsto> resolved cred mdoc s)\<rparr>)"
proof -
  obtain cred mdoc where issued:
    "issue_sd_jwt service_packages demo_signing (cp_salts demo_cdraws) demo_signer demo_issuer
       PID_FROM_EMRTD_SD_JWT (cs_holder_jwk demo_capture) 100 None
       (Some (vcl_claims (demo_chip ''k''))) = Inr cred"
    "issue_mdoc service_packages demo_signing (cp_mdoc_randoms demo_cdraws) demo_signer
       PID_FROM_EMRTD_MDOC (cs_holder_jwk demo_capture) 100 (Some (vcl_claims (demo_chip ''k'')))
       None = Inr mdoc"
    by (rule demo_issued)
  have chip: "vcl_jti (demo_chip j) = j" "vcl_claims (demo_chip j) = vcl_claims (demo_chip ''k'')"
    by (simp_all add: demo_chip_def)
  let ?st = "st\<lparr>binding_jtis := insert j (binding_jtis st)\<rparr>"
  have "use_binding_jti d j st = (Inr (), ?st)" for d
    using assms(2) by simp
  moreover have "kernel_gate ''s'' (capture_kernel service_packages demo_cdraws i profile demo_capture
      (demo_chip j) 100) st = (Inr (), st)"
    if "profile \<in> {PID_FROM_EMRTD_SD_JWT, PID_FROM_EMRTD_MDOC}" for i profile st
    using demo_kernel_gate [OF that] by simp
  moreover have "resolve_session ''s'' cred mdoc ?st = (Inr (cs_device_token s), ?st\<lparr>capture_sessions :=
      (capture_sessions st)(''s'' \<mapsto> resolved cred mdoc s)\<rparr>)"
    using assms(1) by (simp add: resolve_session_def resolved_def)
  ultimately show thesis
    using issued
    by (intro that [of cred mdoc])
      (simp add: finish_capture_def bind_action_def check_only_def chip closed_signer_def
        del: use_binding_jti_iff kernel_gate_ok_iff kernel_gate_err_iff)
qed

lemma demo_step_issued:
  obtains st where
    "service_step demo_service (demo_11, {#FinishTask 100 ''s'' demo_capture (demo_chip ''k'')#})
       (CaptureIssued ''s'' ''k'') (st, {#})"
    "\<exists>s. capture_sessions st ''s'' = Some s \<and> cs_status s = Issued"
    "app_attest_instances st ''key'' = Some (demo_instance\<lparr>ri_sign_count := 1\<rparr>)"
proof -
  have env: "signing_with demo_service calm_os empty_store = demo_signing"
    by (simp add: signing_with_def demo_signing_def)
  have "capture_sessions demo_11 ''s'' = Some demo_capture" "''k'' \<notin> binding_jtis demo_11"
    by (simp_all add: demo_states)
  then obtain cred mdoc where
    "finish_capture service_packages demo_signing demo_state demo_cdraws 100 ''s'' demo_capture
       (demo_chip ''k'') demo_11 =
     (Inr (submitted_response service_packages demo_state cred mdoc, None),
      demo_11\<lparr>binding_jtis := insert ''k'' (binding_jtis demo_11),
         capture_sessions := (capture_sessions demo_11)(''s'' \<mapsto> resolved cred mdoc demo_capture)\<rparr>)"
    by (rule demo_finished)
  from submit_finished [where sv = demo_service, unfolded demo_service_simps, OF _ this [folded env],
      of "{#FinishTask 100 ''s'' demo_capture (demo_chip ''k'')#}"]
  have step: "service_step demo_service (demo_11, {#FinishTask 100 ''s'' demo_capture (demo_chip ''k'')#})
      (CaptureIssued ''s'' (vcl_jti (demo_chip ''k'')))
      (demo_11\<lparr>binding_jtis := insert ''k'' (binding_jtis demo_11),
         capture_sessions := (capture_sessions demo_11)(''s'' \<mapsto> resolved cred mdoc demo_capture)\<rparr>,
       {#})"
    by simp
  have jti: "vcl_jti (demo_chip ''k'') = ''k''" by (simp add: demo_chip_def)
  show thesis
    by (intro that [OF step [unfolded jti]]) (simp_all add: resolved_def demo_states)
qed

lemma demo_run:
  obtains st where "service_runs demo_service demo_file demo_events (st, {#})"
    "\<exists>s. capture_sessions st ''s'' = Some s \<and> cs_status s = Issued"
    "app_attest_instances st ''key'' = Some (demo_instance\<lparr>ri_sign_count := 1\<rparr>)"
proof -
  obtain st where last: "service_step demo_service
      (demo_11, {#FinishTask 100 ''s'' demo_capture (demo_chip ''k'')#}) (CaptureIssued ''s'' ''k'')
      (st, {#})" and st: "\<exists>s. capture_sessions st ''s'' = Some s \<and> cs_status s = Issued"
      "app_attest_instances st ''key'' = Some (demo_instance\<lparr>ri_sign_count := 1\<rparr>)"
    by (rule demo_step_issued)
  have "initial_system demo_service demo_file = (demo_0, {#})"
    by (simp add: initial_system_def demo_0_def)
  moreover have "runs (service_step demo_service) (demo_0, {#}) demo_events (st, {#})"
    using runs_Nil [of "service_step demo_service" "(demo_0, {#})",
        THEN runs_snoc, OF demo_step_offer, THEN runs_snoc, OF demo_step_par, THEN runs_snoc,
        OF demo_step_push, THEN runs_snoc, OF demo_step_authorize, THEN runs_snoc,
        OF demo_step_code, THEN runs_snoc, OF demo_step_token, THEN runs_snoc, OF demo_step_nonce,
        THEN runs_snoc, OF demo_step_credential, THEN runs_snoc, OF demo_step_capture,
        THEN runs_snoc, OF demo_step_challenge, THEN runs_snoc, OF demo_step_consume,
        THEN runs_snoc, OF demo_step_dropped, THEN runs_snoc, OF demo_step_submit, THEN runs_snoc,
        OF demo_step_verified, THEN runs_snoc, OF last]
    by (simp add: demo_events_def)
  ultimately show thesis
    using st by (intro that) (simp_all add: service_runs_def)
qed

end
