(* ===== verification/Json.thy ===== *)
theory Json
  imports Service_Types
begin

text \<open>
  Objects as \<open>serde_json\<close> keeps them: the members sorted by the bytes of their keys, each key once.
  A literal \<open>json!\<close> is written in the order of the source and sorted by \<open>json_object\<close>.
\<close>

section \<open>The order of the keys\<close>

fun str_less :: "string \<Rightarrow> string \<Rightarrow> bool" where
  "str_less [] t \<longleftrightarrow> t \<noteq> []"
| "str_less (c # s) [] \<longleftrightarrow> False"
| "str_less (c # s) (d # t) \<longleftrightarrow>
     (of_char c :: nat) < of_char d \<or> c = d \<and> str_less s t"

lemma str_less_irrefl [simp]: "\<not> str_less s s"
  by (induction s) auto

lemma str_less_trans: "str_less s t \<Longrightarrow> str_less t u \<Longrightarrow> str_less s u"
proof (induction s t arbitrary: u rule: str_less.induct)
  case (1 t)
  then show ?case by (cases u; cases t) auto
next
  case (3 c s d t)
  then show ?case by (cases u) auto
qed simp

lemma str_less_total: "s \<noteq> t \<Longrightarrow> \<not> str_less s t \<Longrightarrow> str_less t s"
proof (induction s t rule: str_less.induct)
  case (3 c s d t)
  then show ?case using of_char_eq_iff [of c d, where 'a = nat] by auto
qed auto

section \<open>Insertion\<close>

fun insert_sorted :: "string \<Rightarrow> json \<Rightarrow> (string \<times> json) list \<Rightarrow> (string \<times> json) list" where
  "insert_sorted k v [] = [(k, v)]"
| "insert_sorted k v ((k', v') # ms) =
     (if k = k' then (k, v) # ms
      else if str_less k k' then (k, v) # (k', v') # ms
      else (k', v') # insert_sorted k v ms)"

definition json_object :: "(string \<times> json) list \<Rightarrow> json" where
  "json_object ms = JObj (foldl (\<lambda>acc (k, v). insert_sorted k v acc) [] ms)"

text \<open>\<open>value.as_object_mut().expect(\<dots>).insert(\<dots>)\<close>; every value it is used on is an object.\<close>

fun insert_member :: "string \<Rightarrow> json \<Rightarrow> json \<Rightarrow> json" where
  "insert_member k v (JObj ms) = JObj (insert_sorted k v ms)"
| "insert_member k v j = j"

fun is_object :: "json \<Rightarrow> bool" where
  "is_object (JObj ms) \<longleftrightarrow> True"
| "is_object _ \<longleftrightarrow> False"

lemma map_of_insert_sorted [simp]: "map_of (insert_sorted k v ms) = (map_of ms)(k \<mapsto> v)"
  by (induction k v ms rule: insert_sorted.induct) (auto simp: fun_eq_iff)

lemma json_get_object: "json_get k (json_object ms) = map_of (rev ms) k"
proof -
  have "map_of (foldl (\<lambda>acc (k, v). insert_sorted k v acc) acc ms) = map_of acc ++ map_of (rev ms)"
    for acc
    by (induction ms arbitrary: acc) (auto simp: map_add_def fun_eq_iff split: option.splits)
  from this [of "[]"] show ?thesis by (simp add: json_object_def)
qed

lemma is_object_json_object [simp]: "is_object (json_object ms)"
  by (simp add: json_object_def)

lemma json_get_insert_member [simp]:
  "is_object j \<Longrightarrow> json_get k (insert_member k' v j) = (if k = k' then Some v else json_get k j)"
  by (cases j) auto

lemma is_object_insert_member [simp]: "is_object (insert_member k v j) \<longleftrightarrow> is_object j"
  by (cases j) auto

section \<open>Well-formed values\<close>

primrec wf_json :: "json \<Rightarrow> bool" where
  "wf_json JNull \<longleftrightarrow> True"
| "wf_json (JBool b) \<longleftrightarrow> True"
| "wf_json (JNat n) \<longleftrightarrow> True"
| "wf_json (JNumber t) \<longleftrightarrow> True"
| "wf_json (JStr s) \<longleftrightarrow> True"
| "wf_json (JArr js) \<longleftrightarrow> list_all (\<lambda>b. b) (map wf_json js)"
| "wf_json (JObj ms) \<longleftrightarrow> sorted_wrt str_less (map fst ms) \<and>
     list_all snd (map (map_prod (\<lambda>k. k) wf_json) ms)"

declare wf_json.simps(6,7) [simp del]

lemma wf_json_nested [simp]:
  "wf_json (JArr js) \<longleftrightarrow> (\<forall>j \<in> set js. wf_json j)"
  "wf_json (JObj ms) \<longleftrightarrow> sorted_wrt str_less (map fst ms) \<and> (\<forall>m \<in> set ms. wf_json (snd m))"
  by (auto simp: wf_json.simps(6,7) list_all_iff)

lemma keys_insert_sorted [simp]: "fst ` set (insert_sorted k v ms) = insert k (fst ` set ms)"
  by (induction k v ms rule: insert_sorted.induct) auto

lemma set_insert_sorted: "set (insert_sorted k v ms) \<subseteq> insert (k, v) (set ms)"
  by (induction k v ms rule: insert_sorted.induct) auto

lemma insert_sorted_sorted:
  "sorted_wrt str_less (map fst ms) \<Longrightarrow> sorted_wrt str_less (map fst (insert_sorted k v ms))"
proof (induction k v ms rule: insert_sorted.induct)
  case (2 k v k' v' ms)
  have "\<forall>x \<in> fst ` set (insert_sorted k v ms). x = k \<or> x \<in> fst ` set ms" by simp
  with 2 show ?case
    by (auto intro: str_less_trans str_less_total)
qed simp

lemma wf_json_insert_member [simp]:
  "wf_json j \<Longrightarrow> wf_json v \<Longrightarrow> wf_json (insert_member k v j)"
  by (cases j) (use set_insert_sorted in \<open>fastforce intro: insert_sorted_sorted\<close>)+

lemma wf_json_object [simp]:
  assumes "\<forall>m \<in> set ms. wf_json (snd m)"
  shows "wf_json (json_object ms)"
proof -
  have "wf_json (JObj acc) \<Longrightarrow> wf_json (JObj (foldl (\<lambda>acc (k, v). insert_sorted k v acc) acc ms))"
    for acc
    using assms
  proof (induction ms arbitrary: acc)
    case (Cons m ms)
    obtain k v where m: "m = (k, v)" by (cases m)
    have "wf_json (JObj (insert_sorted k v acc))"
      using wf_json_insert_member [OF Cons.prems(1), of v k] Cons.prems(2) m by simp
    with Cons.IH Cons.prems(2) m show ?case by simp
  qed simp
  from this [of "[]"] show ?thesis by (simp add: json_object_def)
qed

end
