(* ===== verification/Issuing_Properties.thy ===== *)
theory Issuing_Properties
  imports Demo_Service Json "HOL-Library.Countable"
begin

text \<open>
  What the SD-JWT encoder writes, the verification of this service reads: the signature verifies
  under the signer's published key, the payload carries the claims of the profile, and the
  disclosures are exactly the ones the payload commits to.
\<close>

section \<open>Assumptions on the packages\<close>

text \<open>The base64url alphabet has neither of the separators, and decoding inverts encoding.\<close>

definition b64url_correct :: "codec_lib \<Rightarrow> bool" where
  "b64url_correct c \<longleftrightarrow>
     (\<forall>b. b64url_decode c (b64url_encode c b) = Some b \<and>
        CHR ''.'' \<notin> set (b64url_encode c b) \<and> CHR ''~'' \<notin> set (b64url_encode c b))"

text \<open>An uncompressed point is its affine coordinates behind the byte 4.\<close>

definition affine_is_sec1 :: "('k, 's) ecdsa_lib \<Rightarrow> bool" where
  "affine_is_sec1 lib \<longleftrightarrow>
     (\<forall>x y. length x = 32 \<longrightarrow> length y = 32 \<longrightarrow>
        key_from_affine lib x y = key_from_sec1 lib (4 # x @ y))"

text \<open>\<open>serde_json\<close> reads back every well-formed value it wrote.\<close>

definition json_correct :: "serde_lib \<Rightarrow> bool" where
  "json_correct s \<longleftrightarrow> (\<forall>j. wf_json j \<longrightarrow> json_from_slice s (json_to_vec s j) = Some j)"

section \<open>The compact form\<close>

lemma join_snoc_Nil: "ps \<noteq> [] \<Longrightarrow> join sep (ps @ [[]]) = join sep ps @ sep"
  by (induction ps rule: induct_list012) simp_all

lemma split_issued:
  assumes "\<forall>p \<in> set [h, p, s]. CHR ''.'' \<notin> set p \<and> CHR ''~'' \<notin> set p"
    and "\<forall>d \<in> set ds. CHR ''~'' \<notin> set d" and "ds \<noteq> []"
  shows "split_char CHR ''~'' (h @ ''.'' @ p @ ''.'' @ s @ ''~'' @ join ''~'' ds @ ''~'') =
      (h @ ''.'' @ p @ ''.'' @ s) # ds @ [[]]"
    and "split_char CHR ''.'' (h @ ''.'' @ p @ ''.'' @ s) = [h, p, s]"
proof -
  let ?jwt = "h @ ''.'' @ p @ ''.'' @ s"
  have "h @ ''.'' @ p @ ''.'' @ s @ ''~'' @ join ''~'' ds @ ''~'' = join ''~'' (?jwt # ds @ [[]])"
    using assms(3) by (simp add: join_Cons join_snoc_Nil)
  moreover have "split_char CHR ''~'' (join ''~'' (?jwt # ds @ [[]])) = ?jwt # ds @ [[]]"
    using assms(1,2) by (intro split_char_join) auto
  ultimately show "split_char CHR ''~'' (h @ ''.'' @ p @ ''.'' @ s @ ''~'' @ join ''~'' ds @ ''~'') =
      ?jwt # ds @ [[]]"
    by simp
  have "?jwt = join ''.'' [h, p, s]" by simp
  also have "split_char CHR ''.'' \<dots> = [h, p, s]"
    using assms(1) by (intro split_char_join) auto
  finally show "split_char CHR ''.'' ?jwt = [h, p, s]" .
qed

text \<open>The published key of a signer, as it is read from \<open>public_jwk\<close>.\<close>

definition signer_jwk :: "'h keychain_signer \<Rightarrow> ec_jwk" where
  "signer_jwk s = \<lparr>jwk_kty = ''EC'', jwk_crv = ''P-256'', jwk_x = signer_x s, jwk_y = signer_y s\<rparr>"

lemma signer_jwk_key:
  assumes "keychain_signer_ok c kc s" and "b64url_correct c" and "affine_is_sec1 (ec pk)"
    and "codec pk = c" and "key_from_sec1 (ec pk) (signer_public_key s) = Some key"
  shows "jwk_key pk (signer_jwk s) key"
proof -
  let ?t = "tl (signer_public_key s)"
  have "length ?t = 64" "signer_public_key s = 4 # take 32 ?t @ drop 32 ?t"
    using assms(1) by (cases "signer_public_key s"; simp add: keychain_signer_ok_def)+
  then show ?thesis
    using assms unfolding jwk_key_def signer_jwk_def b64url_correct_def affine_is_sec1_def
      keychain_signer_ok_def
    by simp
qed

text \<open>What the Keychain signs, the verification of this service accepts.\<close>

lemma compact_jws_verifies:
  assumes "sign_es256 kc signer (as_bytes (b64url_encode (codec pk) H @ ''.'' @
      b64url_encode (codec pk) (json_to_vec (serde pk) payload))) = Inr raw"
    and "b64url_correct (codec pk)" and "json_correct (serde pk)" and "affine_is_sec1 (ec pk)"
    and "keychain_correct kc (ec pk)" and "keychain_signer_ok (codec pk) kc signer"
    and "wf_json payload"
  obtains key where "jwk_key pk (signer_jwk signer) key"
    and "\<And>label. verify_jws_payload pk (b64url_encode (codec pk) H @ ''.'' @
      b64url_encode (codec pk) (json_to_vec (serde pk) payload) @ ''.'' @
      b64url_encode (codec pk) raw) key label = Inr payload"
proof -
  define h where "h = b64url_encode (codec pk) H"
  define p where "p = b64url_encode (codec pk) (json_to_vec (serde pk) payload)"
  define s where "s = b64url_encode (codec pk) raw"
  obtain key sig where key: "key_from_sec1 (ec pk) (signer_public_key signer) = Some key"
    "sig_from_slice (ec pk) raw = Some sig" "ecdsa_verify (ec pk) key (as_bytes (h @ ''.'' @ p)) sig"
    using assms(1,5,6) unfolding h_def p_def
      keychain_correct_def keychain_signer_ok_def sign_es256_def sign_der_def
    by (auto simp: and_then_ok_iff ok_or_ok_iff split: sum.splits) (metis)
  have "\<forall>q \<in> set [h, p, s]. CHR ''.'' \<notin> set q"
    using assms(2) by (simp add: h_def p_def s_def b64url_correct_def)
  then have parts: "split_char CHR ''.'' (h @ ''.'' @ p @ ''.'' @ s) = [h, p, s]"
    using split_char_join [of "[h, p, s]" "CHR ''.''"] by simp
  have "verify_jws_payload pk (h @ ''.'' @ p @ ''.'' @ s) key label = Inr payload" for label
    unfolding verify_jws_payload_ok_iff jws_signed_by_def jws_part_def parts Let_def
    using key assms(2,3,7)
    by (auto simp: s_def p_def b64url_correct_def json_correct_def signing_input_def)
  then show thesis
    using that signer_jwk_key [OF assms(6,2,4) refl key(1)] by (simp add: h_def p_def s_def)
qed

definition discloses :: "('k, 's) packages \<Rightarrow> string \<Rightarrow> string \<times> json \<Rightarrow> bool" where
  "discloses pk d claim \<longleftrightarrow>
     (\<exists>b salt. b64url_decode (codec pk) d = Some b \<and>
        json_from_slice (serde pk) b = Some (JArr [JStr salt, JStr (fst claim), snd claim]))"

lemma sd_disclosures_disclose:
  assumes "b64url_correct (codec pk)" and "json_correct (serde pk)"
    and "\<forall>c \<in> set claims. wf_json (snd c)"
  shows "list_all2 (discloses pk) (map (sd_disclosure pk rnd) (enumerate n claims)) claims"
  using assms
  by (induction claims arbitrary: n)
    (auto simp: discloses_def sd_disclosure_def b64url_correct_def json_correct_def)

lemma sd_jwt_claims_nonempty: "sd_jwt_claims profile tlsn pid = Inr (vct, claims) \<Longrightarrow> claims \<noteq> []"
  by (auto simp: sd_jwt_claims_def pid_from_emrtd_claims_def demo_pid_claims_def ok_iff
      split: if_splits)

lemma sd_jwt_claims_wf:
  "sd_jwt_claims profile tlsn pid = Inr (vct, claims) \<Longrightarrow>
   \<forall>ev. tlsn = Some ev \<longrightarrow> wf_json (vt_verifier_output ev) \<Longrightarrow> \<forall>c \<in> set claims. wf_json (snd c)"
  by (auto simp: sd_jwt_claims_def pid_from_emrtd_claims_def demo_pid_claims_def ok_iff
      split: if_splits option.splits)

lemma sd_jwt_payload_wf:
  "wf_json holder_jwk \<Longrightarrow> wf_json (sd_jwt_payload pk issuer profile holder_jwk now vct ds)"
  by (simp add: sd_jwt_payload_def sd_digests_def)

text \<open>The three parts of a signed SD-JWT, each as it was written.\<close>

lemma signed_sd_jwt:
  assumes "sign_sd_jwt pk env signer payload ds = Inr cred"
    and "b64url_correct (codec pk)" and "json_correct (serde pk)" and "affine_is_sec1 (ec pk)"
    and "keychain_correct (sg_keychain env) (ec pk)"
    and "keychain_signer_ok (codec pk) (sg_keychain env) signer" and "wf_json payload"
    and ds: "\<forall>d \<in> set ds. CHR ''~'' \<notin> set d" "ds \<noteq> []"
  obtains key jwt where "jwk_key pk (signer_jwk signer) key"
    "split_char CHR ''~'' cred = jwt # ds @ [[]]"
    "\<And>label. verify_jws_payload pk jwt key label = Inr payload"
proof -
  obtain H where signed: "and_then (map_err (\<lambda>_. server_error ''credential signing is unavailable'')
      (sign_es256 (sg_keychain env) signer (as_bytes (b64url_encode (codec pk) H @ ''.'' @
        b64url_encode (codec pk) (json_to_vec (serde pk) payload))))) (\<lambda>signature.
      Inr ((b64url_encode (codec pk) H @ ''.'' @
        b64url_encode (codec pk) (json_to_vec (serde pk) payload)) @ ''.'' @
        b64url_encode (codec pk) signature @ ''~'' @ join ''~'' ds @ ''~'')) = Inr cred"
    using assms(1) by (auto simp: sign_sd_jwt_def Let_def)
  define h where "h = b64url_encode (codec pk) H"
  define p where "p = b64url_encode (codec pk) (json_to_vec (serde pk) payload)"
  from signed obtain raw where
    raw: "sign_es256 (sg_keychain env) signer (as_bytes (h @ ''.'' @ p)) = Inr raw"
    and cred: "cred = h @ ''.'' @ p @ ''.'' @ b64url_encode (codec pk) raw @ ''~'' @ join ''~'' ds @ ''~''"
    by (auto simp: and_then_ok_iff map_err_ok_iff h_def p_def)
  define s where "s = b64url_encode (codec pk) raw"
  have clean: "\<forall>q \<in> set [h, p, s]. CHR ''.'' \<notin> set q \<and> CHR ''~'' \<notin> set q"
    using assms(2) by (simp add: h_def p_def s_def b64url_correct_def)
  note split = split_issued [OF clean ds]
  obtain key where "jwk_key pk (signer_jwk signer) key"
    "\<And>label. verify_jws_payload pk (h @ ''.'' @ p @ ''.'' @ s) key label = Inr payload"
    using compact_jws_verifies [OF raw [unfolded h_def p_def] assms(2-7)]
    by (auto simp: h_def p_def s_def)
  with that cred split(1) show ?thesis by (metis s_def append.assoc)
qed

lemma sd_disclosures_clean:
  assumes "b64url_correct (codec pk)" and "claims \<noteq> []"
  shows "\<forall>d \<in> set (sd_disclosures pk rnd claims). CHR ''~'' \<notin> set d" "sd_disclosures pk rnd claims \<noteq> []"
  using assms
  by (cases claims, auto simp: sd_disclosures_def sd_disclosure_def b64url_correct_def)+

lemma issued_sd_jwt:
  assumes "issue_sd_jwt pk env rnd signer issuer profile holder_jwk now tlsn pid = Inr cred"
    and "b64url_correct (codec pk)" and "json_correct (serde pk)" and "affine_is_sec1 (ec pk)"
    and "keychain_correct (sg_keychain env) (ec pk)"
    and "keychain_signer_ok (codec pk) (sg_keychain env) signer" and "wf_json holder_jwk"
  obtains vct claims key jwt where
    "sd_jwt_claims profile tlsn pid = Inr (vct, claims)" "jwk_key pk (signer_jwk signer) key"
    "split_char CHR ''~'' cred = jwt # sd_disclosures pk rnd claims @ [[]]"
    "\<And>label. verify_jws_payload pk jwt key label = Inr (sd_jwt_payload pk issuer profile holder_jwk
       now vct (sd_disclosures pk rnd claims))"
proof -
  from assms(1) obtain vct claims where claims: "sd_jwt_claims profile tlsn pid = Inr (vct, claims)"
    and signed: "sign_sd_jwt pk env signer (sd_jwt_payload pk issuer profile holder_jwk now vct
      (sd_disclosures pk rnd claims)) (sd_disclosures pk rnd claims) = Inr cred"
    by (auto simp: issue_sd_jwt_def Let_def and_then_ok_iff)
  note clean = sd_disclosures_clean [OF assms(2) sd_jwt_claims_nonempty [OF claims]]
  show ?thesis
    using signed_sd_jwt [OF signed assms(2-6) sd_jwt_payload_wf [OF assms(7)] clean]
      that [OF claims] by blast
qed

text \<open>The members of the payload that the checks of a credential look at.\<close>

lemma sd_jwt_payload_members:
  fixes pk issuer profile holder_jwk now vct ds
  defines "payload \<equiv> sd_jwt_payload pk issuer profile holder_jwk now vct ds"
  shows "claim_str ''vct'' payload = Some vct" "cnf_jwk payload = Some holder_jwk"
    "claim_str ''iss'' payload = Some (trim_end_matches CHR ''/'' issuer)"
    "claim_u64 ''nbf'' payload = Some now"
    "claim_u64 ''exp'' payload = Some (saturating_add now 3600)"
    "claim_array ''_sd'' payload = Some (map (\<lambda>d. JStr (hash_b64 (codec pk) d)) ds)"
  by (simp_all add: payload_def sd_jwt_payload_def sd_digests_def claim_str_def claim_u64_def
      claim_array_def cnf_jwk_def)

lemma issued_disclosures:
  assumes "sd_jwt_claims profile tlsn pid = Inr (vct, claims)"
    and "b64url_correct (codec pk)" and "json_correct (serde pk)"
    and "\<forall>ev. tlsn = Some ev \<longrightarrow> wf_json (vt_verifier_output ev)"
  shows "list_all2 (discloses pk) (sd_disclosures pk rnd claims) claims"
  using sd_disclosures_disclose assms(2,3) sd_jwt_claims_wf [OF assms(1,4)]
  by (simp add: sd_disclosures_def)

text \<open>
  What reading a credential back means: it splits at its separators into a compact JWS, which
  verifies under the signer's published key, and disclosures of exactly the claims given, in order,
  each with its digest in the payload; the payload has the type, the issuer, the confirmation key
  and the expiry given.
\<close>

definition reads_back ::
  "('k, 's) packages \<Rightarrow> 'h keychain_signer \<Rightarrow> string \<Rightarrow> string \<Rightarrow> json \<Rightarrow> string \<Rightarrow> u64 \<Rightarrow>
     (string \<times> json) list \<Rightarrow> bool" where
  "reads_back pk signer cred issuer holder_jwk vct expiry claims \<longleftrightarrow>
     (\<exists>key jwt payload ds. jwk_key pk (signer_jwk signer) key \<and>
        split_char CHR ''~'' cred = jwt # ds @ [[]] \<and>
        (\<forall>label. verify_jws_payload pk jwt key label = Inr payload) \<and>
        claim_str ''vct'' payload = Some vct \<and> cnf_jwk payload = Some holder_jwk \<and>
        claim_str ''iss'' payload = Some (trim_end_matches CHR ''/'' issuer) \<and>
        claim_u64 ''exp'' payload = Some expiry \<and>
        claim_array ''_sd'' payload = Some (map (\<lambda>d. JStr (hash_b64 (codec pk) d)) ds) \<and>
        list_all2 (discloses pk) ds claims)"

lemma issued_mandate_reads_back:
  assumes "issue_mandate_sd_jwt pk env rnd signer issuer holder_jwk mandator granted jti now = Inr cred"
    and "b64url_correct (codec pk)" and "json_correct (serde pk)" and "affine_is_sec1 (ec pk)"
    and "keychain_correct (sg_keychain env) (ec pk)"
    and "keychain_signer_ok (codec pk) (sg_keychain env) signer" and "wf_json holder_jwk"
  shows "reads_back pk signer cred issuer holder_jwk MANDATE_VCT
    (saturating_add now MANDATE_LIFETIME_SECONDS) (mandate_claims mandator granted jti)"
proof -
  let ?claims = "mandate_claims mandator granted jti"
  obtain payload ds where payload:
      "mandate_sd_jwt_payload pk rnd issuer holder_jwk mandator granted jti now = (payload, ds)"
    by (rule prod.exhaust)
  then have signed: "sign_sd_jwt pk env signer payload ds = Inr cred"
    using assms(1) by (simp add: issue_mandate_sd_jwt_def)
  have ds: "ds = sd_disclosures pk rnd ?claims"
    using payload by (simp add: mandate_sd_jwt_payload_def Let_def)
  have nonempty: "?claims \<noteq> []" by (simp add: mandate_claims_def)
  have members: "claim_str ''vct'' payload = Some MANDATE_VCT" "cnf_jwk payload = Some holder_jwk"
    "claim_str ''iss'' payload = Some (trim_end_matches CHR ''/'' issuer)"
    "claim_u64 ''exp'' payload = Some (saturating_add now MANDATE_LIFETIME_SECONDS)"
    "claim_array ''_sd'' payload = Some (map (\<lambda>d. JStr (hash_b64 (codec pk) d)) ds)"
    and wf: "wf_json payload"
    using payload assms(7)
    by (auto simp: mandate_sd_jwt_payload_def Let_def sd_digests_def claim_str_def claim_u64_def
        claim_array_def cnf_jwk_def)
  have "\<forall>c \<in> set ?claims. wf_json (snd c)" by (auto simp: mandate_claims_def)
  then have disclosed: "list_all2 (discloses pk) ds ?claims"
    using sd_disclosures_disclose [OF assms(2,3)] by (simp add: ds sd_disclosures_def)
  show ?thesis
    using signed_sd_jwt [OF signed assms(2-6) wf] sd_disclosures_clean [OF assms(2) nonempty]
      members disclosed
    unfolding reads_back_def ds by metis
qed

text \<open>
  C17. Both encoders of SD-JWT credentials are read back by the service's own
  verifier, for the signer's published key, the issuer and the holder key as confirmation key: what
  \<open>issue_sd_jwt\<close> returns, with the type and exactly the claims of its profile and an expiry 3600
  seconds later; and what \<open>issue_mandate_sd_jwt\<close> returns, with the type of a mandate, exactly the
  mandator, the scope and the identifier it was given and an expiry 900 seconds later (both
  saturating). The holder key and the web evidence are JSON values that were read, so they are
  well-formed.
\<close>

theorem issued_sd_jwt_reads_back:
  assumes "b64url_correct (codec pk)" and "json_correct (serde pk)" and "affine_is_sec1 (ec pk)"
    and "keychain_correct (sg_keychain env) (ec pk)"
    and "keychain_signer_ok (codec pk) (sg_keychain env) signer"
    and "wf_json holder_jwk" and "\<forall>ev. tlsn = Some ev \<longrightarrow> wf_json (vt_verifier_output ev)"
  shows "(issue_sd_jwt pk env rnd signer issuer profile holder_jwk now tlsn pid = Inr cred \<longrightarrow>
      (\<exists>vct claims. sd_jwt_claims profile tlsn pid = Inr (vct, claims) \<and>
         reads_back pk signer cred issuer holder_jwk vct (saturating_add now 3600) claims)) \<and>
    (issue_mandate_sd_jwt pk env rnd signer issuer holder_jwk mandator granted jti now = Inr cred \<longrightarrow>
      reads_back pk signer cred issuer holder_jwk MANDATE_VCT (saturating_add now 900)
        (mandate_claims mandator granted jti))"
proof (intro conjI impI)
  assume "issue_sd_jwt pk env rnd signer issuer profile holder_jwk now tlsn pid = Inr cred"
  then show "\<exists>vct claims. sd_jwt_claims profile tlsn pid = Inr (vct, claims) \<and>
      reads_back pk signer cred issuer holder_jwk vct (saturating_add now 3600) claims"
    using assms(1-6)
  proof (rule issued_sd_jwt)
    fix vct claims key jwt
    assume parts: "sd_jwt_claims profile tlsn pid = Inr (vct, claims)"
      "jwk_key pk (signer_jwk signer) key"
      "split_char CHR ''~'' cred = jwt # sd_disclosures pk rnd claims @ [[]]"
      "\<And>label. verify_jws_payload pk jwt key label = Inr (sd_jwt_payload pk issuer profile
        holder_jwk now vct (sd_disclosures pk rnd claims))"
    note disclosed = issued_disclosures [OF parts(1) assms(1,2,7)]
    show ?thesis
      unfolding reads_back_def
      by (intro exI conjI allI) (rule parts sd_jwt_payload_members disclosed)+
  qed
next
  assume "issue_mandate_sd_jwt pk env rnd signer issuer holder_jwk mandator granted jti now = Inr cred"
  from issued_mandate_reads_back [OF this assms(1-6)]
  show "reads_back pk signer cred issuer holder_jwk MANDATE_VCT (saturating_add now 900)
      (mandate_claims mandator granted jti)"
    by (simp only: MANDATE_LIFETIME_SECONDS_def)
qed

section \<open>Examples\<close>

text \<open>
  Packages that satisfy the assumptions: a text encoding with one run of \<open>a\<close> and a \<open>b\<close> for every
  byte, and JSON values written as their number.
\<close>

definition unary_encode :: "bytes \<Rightarrow> string" where
  "unary_encode bs = concat (map (\<lambda>w. replicate (unat w) CHR ''a'' @ ''b'') bs)"

definition unary_decode :: "string \<Rightarrow> bytes option" where
  "unary_decode s = Some (map (\<lambda>r. of_nat (length r)) (butlast (split_char CHR ''b'' s)))"

lemma split_unary:
  "split_char CHR ''b'' (unary_encode bs) = map (\<lambda>w. replicate (unat w) CHR ''a'') bs @ [[]]"
  by (induction bs) (simp_all add: unary_encode_def split_char_def split_by_append_sep)

lemma set_unary: "set (unary_encode bs) \<subseteq> {CHR ''a'', CHR ''b''}"
  by (auto simp: unary_encode_def)

instance json :: countable
  by countable_datatype

definition unary_codec :: codec_lib where
  "unary_codec = \<lparr>sha256 = (\<lambda>b. replicate 32 (sum_list b)), b64url_encode = unary_encode,
     b64url_decode = unary_decode, b64_decode = (\<lambda>s. None)\<rparr>"

definition numbered_serde :: serde_lib where
  "numbered_serde = service_serde\<lparr>json_from_slice := (\<lambda>b. Some (from_nat (length b - 1))),
     json_to_vec := (\<lambda>j. replicate (Suc (to_nat j)) 0)\<rparr>"

definition issuing_packages :: "(bytes, bytes) packages" where
  "issuing_packages = \<lparr>ec = toy_ec, pq = service_pq, codec = unary_codec, serde = numbered_serde,
     clock = service_clock, urls = service_urls\<rparr>"

definition issuing_signer :: "unit keychain_signer" where
  "issuing_signer = (let x = unary_encode (replicate 32 0) in
     \<lparr>signer_key = (), signer_kid = unary_encode (replicate 32 (sum_list (as_bytes (canonical_jwk x x)))),
      signer_x = x, signer_y = x, signer_public_key = 4 # replicate 64 0\<rparr>)"

lemma unary_codec_correct: "b64url_correct unary_codec"
  unfolding b64url_correct_def
proof (intro allI conjI)
  fix b
  show "b64url_decode unary_codec (b64url_encode unary_codec b) = Some b"
    by (simp add: unary_codec_def unary_decode_def split_unary comp_def)
  show "CHR ''.'' \<notin> set (b64url_encode unary_codec b)"
    "CHR ''~'' \<notin> set (b64url_encode unary_codec b)"
    using set_unary [of b] by (auto simp: unary_codec_def)
qed

lemma numbered_serde_correct: "json_correct numbered_serde"
  by (simp add: json_correct_def numbered_serde_def)

lemma toy_ec_affine: "affine_is_sec1 toy_ec"
  by (simp add: affine_is_sec1_def toy_ec_def)

lemma issuing_signer_ok: "keychain_signer_ok unary_codec toy_keychain issuing_signer"
  by (simp add: keychain_signer_ok_def issuing_signer_def unary_codec_def toy_keychain_def Let_def)

lemma issued_sd_jwt_reads_back_witness:
  "(\<exists>cred. issue_sd_jwt issuing_packages demo_signing (\<lambda>i. [1]) issuing_signer
     demo_issuer PID_SD_JWT JNull 100 None None = Inr cred \<and>
     length (split_char CHR ''~'' cred) = 7) \<and>
   (\<exists>cred. issue_mandate_sd_jwt issuing_packages demo_signing (\<lambda>i. [1]) issuing_signer
     demo_issuer JNull ''m'' (Powers 3) ''j'' 100 = Inr cred \<and>
     reads_back issuing_packages issuing_signer cred demo_issuer JNull MANDATE_VCT 1000
       (mandate_claims ''m'' (Powers 3) ''j''))"
proof -
  obtain cred where issued: "issue_sd_jwt issuing_packages demo_signing (\<lambda>i. [1]) issuing_signer
      demo_issuer PID_SD_JWT JNull 100 None None = Inr cred"
    by (simp add: issue_sd_jwt_def sd_jwt_claims_def sign_sd_jwt_def demo_signing_def
        sign_es256_def sign_der_def toy_keychain_def)
  obtain cred' where mandate: "issue_mandate_sd_jwt issuing_packages demo_signing (\<lambda>i. [1])
      issuing_signer demo_issuer JNull ''m'' (Powers 3) ''j'' 100 = Inr cred'"
    by (simp add: issue_mandate_sd_jwt_def mandate_sd_jwt_payload_def sign_sd_jwt_def
        demo_signing_def sign_es256_def sign_der_def toy_keychain_def Let_def)
  have sv: "saturating_add (100 :: u64) 900 = 1000" by (simp add: saturating_add_def)
  have correct: "b64url_correct (codec issuing_packages)" "json_correct (serde issuing_packages)"
    "affine_is_sec1 (ec issuing_packages)"
    "keychain_correct (sg_keychain demo_signing) (ec issuing_packages)"
    "keychain_signer_ok (codec issuing_packages) (sg_keychain demo_signing) issuing_signer"
    using unary_codec_correct numbered_serde_correct toy_ec_affine toy_keychain_correct
      issuing_signer_ok
    by (simp_all add: issuing_packages_def demo_signing_def)
  note both = issued_sd_jwt_reads_back [OF correct, of JNull None, simplified]
  from both [THEN conjunct1, rule_format, OF issued] obtain vct claims where
    "sd_jwt_claims PID_SD_JWT None None = Inr (vct, claims)"
    and "reads_back issuing_packages issuing_signer cred demo_issuer JNull vct
      (saturating_add 100 3600) claims"
    by blast
  then have "length (split_char CHR ''~'' cred) = 7"
    by (auto simp: reads_back_def sd_jwt_claims_def demo_pid_claims_def dest!: list_all2_lengthD)
  moreover have "reads_back issuing_packages issuing_signer cred' demo_issuer JNull MANDATE_VCT 1000
      (mandate_claims ''m'' (Powers 3) ''j'')"
    using both [THEN conjunct2, rule_format, OF mandate] by (simp only: sv)
  ultimately show ?thesis using issued mandate by blast
qed

end
