(* ===== verification/Mdoc_Properties.thy ===== *)
theory Mdoc_Properties
  imports Issuing_Properties Cbor_Instance
begin

text \<open>
  What the mdoc encoder writes can be read back: the document, the security object inside its
  payload, every item with its digest, and the one or two signatures over the same bytes.
\<close>

section \<open>Assumptions on the packages\<close>

text \<open>
  \<open>ciborium\<close> reads back every plain value it wrote, and what it wrote is a vector, whose length is a
  \<open>usize\<close>.
\<close>

definition cbor_reads_back :: "cbor_lib \<Rightarrow> bool" where
  "cbor_reads_back lib \<longleftrightarrow>
     (\<forall>v b. into_writer lib v = Some b \<longrightarrow> length b < 2 ^ 64 \<and>
        (plain NESTING v \<longrightarrow> (\<forall>rest. from_reader lib (b @ rest) = Some (v, length b))))"

lemma cbor_reads_backD:
  assumes "cbor_reads_back lib" and "into_writer lib v = Some b"
  shows "length b < 2 ^ 64" and "plain NESTING v \<Longrightarrow> from_reader lib b = Some (v, length b)"
  using assms unfolding cbor_reads_back_def by (blast, metis append_Nil2)

text \<open>The texts and vectors an mdoc is made of fit in memory, and texts are UTF-8.\<close>

definition text_fits :: "string \<Rightarrow> bool" where
  "text_fits s \<longleftrightarrow> length s < 2 ^ 64 \<and> utf8 s"

definition pid_fits :: "codec_lib \<Rightarrow> pid_subject_claims \<Rightarrow> bool" where
  "pid_fits c p \<longleftrightarrow> text_fits (pid_family_name p) \<and> text_fits (pid_given_name p) \<and>
     text_fits (pid_birthdate p) \<and> text_fits (pid_nationality p) \<and>
     text_fits (pid_issuing_country p) \<and> length (decode_portrait_bytes c (pid_portrait p)) < 2 ^ 64"

definition mdoc_inputs_fit ::
  "('k, 's) packages \<Rightarrow> ('w, 'h) signing_env \<Rightarrow> draws \<Rightarrow> 'h keychain_signer \<Rightarrow>
     pid_subject_claims option \<Rightarrow> bool" where
  "mdoc_inputs_fit pk env rnd signer pid \<longleftrightarrow>
     digest_of_32 (codec pk) \<and> (\<forall>i. length (rnd i) = 32) \<and> length (signer_kid signer) < 2 ^ 64 \<and>
     (\<forall>t s. rfc3339_of_timestamp (clock pk) t = Some s \<longrightarrow> text_fits s) \<and>
     (\<forall>l c. sg_certificate env l = Inr c \<longrightarrow> length c < 2 ^ 64) \<and>
     (\<forall>p. pid = Some p \<longrightarrow> pid_fits (codec pk) p)"

section \<open>The items\<close>

text \<open>An item of the name space and its entry of the digests disclose a claim.\<close>

definition mdoc_discloses ::
  "codec_lib \<Rightarrow> cbor_lib \<Rightarrow> cbor \<times> cbor \<times> cbor \<Rightarrow> nat \<times> string \<times> cbor \<Rightarrow> bool" where
  "mdoc_discloses c lib = (\<lambda>(item, digest_id, digest) (i, name, v).
     \<exists>b salt t. item = CTag 24 (CBytes b) \<and>
       from_reader lib b = Some (CMap
         [(CText ''digestID'', cbor_uint (of_nat i)), (CText ''random'', CBytes salt),
          (CText ''elementIdentifier'', CText name), (CText ''elementValue'', v)], length b) \<and>
       into_writer lib item = Some t \<and> digest_id = cbor_uint (of_nat i) \<and>
       digest = CBytes (sha256 c t))"

lemma cbor_encode_ok_iff [ok_iff]: "cbor_encode lib v = Inr b \<longleftrightarrow> into_writer lib v = Some b"
  by (simp add: cbor_encode_def ok_or_ok_iff)

lemma plain_cbor_uint [simp]: "plain n (cbor_uint k)"
  using uint_lt2p [of k] order_trans [OF _ uint_ge_0 [of k], of "- (2 ^ 64)"]
  by (simp add: cbor_uint_def)

lemma mdoc_labels [simp]:
  "utf8 ''digestID''" "utf8 ''random''" "utf8 ''elementIdentifier''" "utf8 ''elementValue''"
  "utf8 ''version''" "utf8 ''1.0''" "utf8 ''digestAlgorithm''" "utf8 ''SHA-256''"
  "utf8 ''valueDigests''" "utf8 ''deviceKeyInfo''" "utf8 ''deviceKey''" "utf8 ''docType''"
  "utf8 ''validityInfo''" "utf8 ''signed''" "utf8 ''validFrom''" "utf8 ''validUntil''"
  "utf8 ''Signature1''" "utf8 ''nameSpaces''" "utf8 ''issuerAuth''"
  by (simp_all add: utf8_def)

lemma plain_scalar: "plain 0 v \<Longrightarrow> plain n v"
  by (cases v) simp_all

lemma plain_text: "text_fits s \<Longrightarrow> plain n (CText s)"
  by (simp add: text_fits_def)

lemma mdoc_item_discloses:
  assumes "mdoc_item c lib rnd (i, name, v) = Inr (item, entry)"
    and "cbor_reads_back lib" and "plain 0 v" and "text_fits name" and "length (rnd i) = 32"
    and "digest_of_32 c"
  shows "mdoc_discloses c lib (item, entry) (i, name, v)"
    and "plain 1 item" and "plain 0 (fst entry) \<and> plain 0 (snd entry)"
proof -
  let ?map = "CMap [(CText ''digestID'', cbor_uint (of_nat i)), (CText ''random'', CBytes (rnd i)),
    (CText ''elementIdentifier'', CText name), (CText ''elementValue'', v)]"
  from assms(1) obtain b t where b: "into_writer lib ?map = Some b"
    and t: "into_writer lib (CTag 24 (CBytes b)) = Some t"
    and made: "item = CTag 24 (CBytes b)" "entry = (cbor_uint (of_nat i), CBytes (sha256 c t))"
    by (auto simp: mdoc_item_def ok_iff Let_def)
  have "plain NESTING ?map"
    using assms(4,5) plain_scalar [OF assms(3)]
    by (simp add: plain_nested NESTING_def text_fits_def)
  with cbor_reads_backD [OF assms(2) b] have "from_reader lib b = Some (?map, length b)"
    and "length b < 2 ^ 64" by blast+
  with t made assms(6) show "mdoc_discloses c lib (item, entry) (i, name, v)" "plain 1 item"
    "plain 0 (fst entry) \<and> plain 0 (snd entry)"
    by (auto simp: mdoc_discloses_def plain_nested digest_of_32_def)
qed

lemma plain_text_iff: "plain n (CText s) \<longleftrightarrow> text_fits s"
  by (simp add: text_fits_def)

text \<open>The claims of every profile, and the names they go under, can be encoded.\<close>

lemma mdoc_claims_plain:
  assumes "mdoc_claims c profile pid = Inr (doc_type, namespace, claims)"
    and "\<forall>p. pid = Some p \<longrightarrow> pid_fits c p"
  shows "text_fits doc_type \<and> text_fits namespace \<and> length claims \<le> 7 \<and>
     (\<forall>(name, v) \<in> set claims. text_fits name \<and> plain 0 v)"
proof -
  have labels: "text_fits ''eu.europa.ec.eudi.pid.1''" "text_fits ''org.iso.18013.5.1.mDL''"
    "text_fits ''org.iso.18013.5.1''" "text_fits ''family_name''" "text_fits ''given_name''"
    "text_fits ''birth_date''" "text_fits ''age_over_18''" "text_fits ''nationality''"
    "text_fits ''issuing_country''" "text_fits ''portrait''" "text_fits ''document_number''"
    "text_fits ''Mustermann''" "text_fits ''Erika''" "text_fits ''1990-01-01''" "text_fits ''DE''"
    "text_fits ''DEV-MDL-0001''"
    by (simp_all add: text_fits_def utf8_def)
  show ?thesis
  proof (cases "profile = PID_FROM_EMRTD_MDOC")
    case True
    with assms show ?thesis
      by (clarsimp simp: mdoc_claims_def and_then_ok_iff ok_or_ok_iff plain_text_iff labels pid_fits_def
          simp del: plain.simps(3))
  next
    case False
    with assms(1) show ?thesis
      by (clarsimp simp: mdoc_claims_def plain_text_iff labels simp del: plain.simps(3)
          split: if_splits)
  qed
qed

lemma mdoc_items_disclose:
  assumes "collect_results (mdoc_item c lib rnd) (enumerate 0 claims) = Inr items"
    and "cbor_reads_back lib" and "digest_of_32 c" and "\<forall>i. length (rnd i) = 32"
    and "\<forall>(name, v) \<in> set claims. text_fits name \<and> plain 0 v"
  shows "list_all2 (mdoc_discloses c lib) items (enumerate 0 claims)"
    and "\<forall>(item, entry) \<in> set items. plain 1 item \<and> plain 0 (fst entry) \<and> plain 0 (snd entry)"
    and "length items = length claims"
proof -
  define es where "es = enumerate 0 claims"
  have steps: "length items = length es" "\<And>i. i < length es \<Longrightarrow> mdoc_item c lib rnd (es ! i) = Inr (items ! i)"
    using assms(1) by (simp_all add: ok_iff es_def [symmetric] list_all2_conv_all_nth)
  have each: "mdoc_discloses c lib y x \<and> plain 1 (fst y) \<and> plain 0 (fst (snd y)) \<and>
      plain 0 (snd (snd y))"
    if "mdoc_item c lib rnd x = Inr y" "x \<in> set es" for x y
  proof -
    obtain i name v where x: "x = (i, name, v)" by (cases x)
    then have "i < length claims" "claims ! i = (name, v)"
      using that(2) by (simp_all add: es_def in_set_enumerate_eq)
    then have claim: "text_fits name" "plain 0 v"
      using assms(5) nth_mem by fastforce+
    have "mdoc_item c lib rnd (i, name, v) = Inr (fst y, snd y)" using that(1) x by simp
    from mdoc_item_discloses [OF this assms(2) claim(2,1) _ assms(3)] assms(4)
    show ?thesis unfolding x by simp
  qed
  have items: "mdoc_discloses c lib (items ! i) (es ! i)" "plain 1 (fst (items ! i))"
    "plain 0 (fst (snd (items ! i)))" "plain 0 (snd (snd (items ! i)))" if "i < length es" for i
    using each [OF steps(2) [OF that]] that by simp_all
  show "length items = length claims" using steps(1) by (simp add: es_def)
  show "list_all2 (mdoc_discloses c lib) items (enumerate 0 claims)"
    unfolding es_def [symmetric] list_all2_conv_all_nth using steps(1) items(1) by simp
  show "\<forall>(item, entry) \<in> set items. plain 1 item \<and> plain 0 (fst entry) \<and> plain 0 (snd entry)"
    using steps(1) items(2-4) by (auto simp: in_set_conv_nth) (metis fst_conv snd_conv)+
qed

section \<open>The signatures\<close>

lemma sign_pq_raw_verifies:
  assumes "sign_pq_raw c aead lib os hs st m = Inr s" and "mldsa_correct lib"
    and "\<forall>k. stored aead (hs_wrapping_key hs) st k \<longrightarrow> key_pair_stored lib k"
  shows "verify_signature lib (hs_pq_public_key hs) m s = Inr ()"
    and "length s = SIGNATURE_BYTES" and "length (hs_pq_public_key hs) = PUBLIC_KEY_BYTES"
proof -
  from assms(1) obtain k r where k: "stored aead (hs_wrapping_key hs) st k"
    "stored_public_key k = hs_pq_public_key hs"
    and signed: "mldsa_sign lib (stored_secret_key k) m r = Some s"
    by (auto simp: sign_pq_raw_def ok_iff identity_of_def)
  from assms(3) k(1) obtain seed where
    "mldsa_generate lib seed = (stored_secret_key k, stored_public_key k)"
    unfolding key_pair_stored_def by blast
  with assms(2) signed k(2) have "length s = SIGNATURE_BYTES"
    "length (hs_pq_public_key hs) = PUBLIC_KEY_BYTES"
    "mldsa_verify lib (hs_pq_public_key hs) m s"
    unfolding mldsa_correct_def by (metis fst_conv snd_conv)+
  then show "verify_signature lib (hs_pq_public_key hs) m s = Inr ()"
    "length s = SIGNATURE_BYTES" "length (hs_pq_public_key hs) = PUBLIC_KEY_BYTES"
    by (simp_all add: verify_signature_def)
qed

text \<open>The unprotected header: the certificate, and with a hybrid signer its key and signature.\<close>

definition unprotected_ok ::
  "mldsa_lib \<Rightarrow> 'h hybrid_signer option \<Rightarrow> bytes \<Rightarrow> (cbor \<times> cbor) list \<Rightarrow> bool" where
  "unprotected_ok lib hybrid msg unprotected \<longleftrightarrow>
     (\<exists>certificate. map_of unprotected (CInt 33) = Some (CArray [CBytes certificate])) \<and>
     (case hybrid of
        None \<Rightarrow> length unprotected = 1
      | Some hs \<Rightarrow> \<exists>q. map_of unprotected (CInt HYBRID_PQ_MDOC_SIGNATURE_LABEL) = Some (CBytes q) \<and>
          map_of unprotected (CInt HYBRID_PQ_MDOC_PUBLIC_KEY_LABEL) =
            Some (CBytes (hs_pq_public_key hs)) \<and>
          verify_signature lib (hs_pq_public_key hs) msg q = Inr ())"

lemma mdoc_unprotected_ok:
  assumes "mdoc_unprotected pk env hybrid certificate msg = Inr unprotected"
    and "length certificate < 2 ^ 64" and "mldsa_correct (pq pk)"
    and "\<forall>hs k. hybrid = Some hs \<longrightarrow> stored (sg_aead env) (hs_wrapping_key hs) (sg_store env) k \<longrightarrow>
       key_pair_stored (pq pk) k"
  shows "unprotected_ok (pq pk) hybrid msg unprotected" and "plain 2 (CMap unprotected)"
proof -
  have "unprotected_ok (pq pk) hybrid msg unprotected \<and> plain 2 (CMap unprotected)"
  proof (cases hybrid)
    case None
    with assms(1,2) show ?thesis
      by (auto simp: mdoc_unprotected_def unprotected_ok_def Let_def cbor_int_def plain_nested)
  next
    case (Some hs)
    with assms(1) obtain q where
      q: "sign_pq_raw (codec pk) (sg_aead env) (pq pk) (sg_os env) hs (sg_store env) msg = Inr q"
      and unprotected: "unprotected = [(CInt 33, CArray [CBytes certificate]),
        (CInt HYBRID_PQ_MDOC_SIGNATURE_LABEL, CBytes q),
        (CInt HYBRID_PQ_MDOC_PUBLIC_KEY_LABEL, CBytes (hs_pq_public_key hs))]"
      by (auto simp: mdoc_unprotected_def ok_iff Let_def cbor_int_def)
    note verified = sign_pq_raw_verifies [OF q assms(3)]
    show ?thesis
      using verified assms(2,4) Some
      by (simp add: unprotected unprotected_ok_def plain_nested HYBRID_PQ_MDOC_SIGNATURE_LABEL_def
          HYBRID_PQ_MDOC_PUBLIC_KEY_LABEL_def SIGNATURE_BYTES_def PUBLIC_KEY_BYTES_def)
  qed
  then show "unprotected_ok (pq pk) hybrid msg unprotected" "plain 2 (CMap unprotected)"
    by simp_all
qed

section \<open>The document\<close>

lemma security_object_plain:
  assumes "text_fits doc_type" and "text_fits namespace" and "text_fits signed_at"
    and "text_fits until_text" and "length x = 32" and "length y = 32" and "length digests \<le> 7"
    and "\<forall>(k, d) \<in> set digests. plain 0 k \<and> plain 0 d"
  shows "plain NESTING (mobile_security_object doc_type namespace digests (mdoc_device_key x y)
     signed_at until_text)"
proof -
  have "\<forall>kd \<in> set digests. plain n (fst kd) \<and> plain n (snd kd)" for n
    using assms(8) plain_scalar by fastforce
  with assms(1-7) show ?thesis
    by (simp add: mobile_security_object_def mdoc_device_key_def plain_nested NESTING_def
        cbor_int_def cbor_datetime_def text_fits_def)
qed

lemma plain_Suc: "plain n v \<Longrightarrow> plain (Suc n) v"
  by (induction n v rule: plain.induct) (auto simp: plain_nested)

lemma plain_mono: "plain n v \<Longrightarrow> n \<le> m \<Longrightarrow> plain m v"
  by (induction m) (auto simp: le_Suc_eq dest: plain_Suc)

lemma issuer_signed_plain:
  assumes "text_fits namespace" and "length items \<le> 7" and "\<forall>i \<in> set items. plain 1 i"
    and "length protected < 2 ^ 64" and "plain 2 (CMap unprotected)" and "length payload < 2 ^ 64"
    and "length raw = 64"
  shows "plain NESTING (issuer_signed namespace items protected unprotected payload raw)"
proof -
  have "\<forall>i \<in> set items. plain 5 i" using assms(3) by (auto intro: plain_mono)
  moreover have "plain 5 (CMap unprotected)" using assms(5) by (rule plain_mono) simp
  ultimately show ?thesis
    using assms(1,2,4,6,7)
    by (simp add: issuer_signed_def plain_nested [where n = 8] plain_nested [where n = 7]
        plain_nested [where n = 6] plain_nested [where n = 5] NESTING_def text_fits_def)
qed

text \<open>
  C18. Every mdoc the service issues can be taken apart again, and everything in
  it is what was to be issued. The document holds the items and the issuer's authentication; the
  payload of that is a security object with the document type, the holder's key and a validity of
  3600 seconds; each item discloses one claim of the profile, in order, and its digest in the security
  object is the one of the item as it stands in the document. The signature verifies under the
  signer's key over the protected header and the payload, and when a hybrid signer took part, its
  ML-DSA-65 signature verifies under the key that is in the header, over the very same bytes.
\<close>

theorem issued_mdoc_verifies:
  assumes "issue_mdoc pk env rnd signer profile holder_jwk now pid hybrid = Inr cred"
    and "b64url_correct (codec pk)" and "cbor_reads_back (sg_cbor env)"
    and "mdoc_inputs_fit pk env rnd signer pid" and "keychain_correct (sg_keychain env) (ec pk)"
    and "keychain_signer_ok (codec pk) (sg_keychain env) signer" and "mldsa_correct (pq pk)"
    and "\<forall>hs k. hybrid = Some hs \<longrightarrow> stored (sg_aead env) (hs_wrapping_key hs) (sg_store env) k \<longrightarrow>
       key_pair_stored (pq pk) k"
  shows "\<exists>document namespace items protected unprotected payload raw mso doc_type digests x y signed_at
     until_text claims msg key sig.
     b64url_decode (codec pk) cred = Some document \<and>
     from_reader (sg_cbor env) document =
       Some (issuer_signed namespace items protected unprotected payload raw, length document) \<and>
     from_reader (sg_cbor env) payload = Some (CTag 24 (CBytes mso), length payload) \<and>
     from_reader (sg_cbor env) mso = Some (mobile_security_object doc_type namespace digests
       (mdoc_device_key x y) signed_at until_text, length mso) \<and>
     decode_jwk_coordinate pk holder_jwk ''x'' = Inr x \<and>
     decode_jwk_coordinate pk holder_jwk ''y'' = Inr y \<and>
     rfc3339 (clock pk) now = Inr signed_at \<and>
     rfc3339 (clock pk) (saturating_add now 3600) = Inr until_text \<and>
     mdoc_claims (codec pk) profile pid = Inr (doc_type, namespace, claims) \<and>
     length items = length digests \<and>
     list_all2 (mdoc_discloses (codec pk) (sg_cbor env)) (zip items digests) (enumerate 0 claims) \<and>
     into_writer (sg_cbor env) (mdoc_sig_structure protected payload) = Some msg \<and>
     key_from_sec1 (ec pk) (signer_public_key signer) = Some key \<and>
     sig_from_slice (ec pk) raw = Some sig \<and> ecdsa_verify (ec pk) key msg sig \<and>
     unprotected_ok (pq pk) hybrid msg unprotected"
proof -
  let ?lib = "sg_cbor env"
  from assms(1) obtain doc_type namespace claims items x y signed_at until_text mso payload protected
    msg raw label certificate unprotected document where
    claims: "mdoc_claims (codec pk) profile pid = Inr (doc_type, namespace, claims)"
    and items: "collect_results (mdoc_item (codec pk) ?lib rnd) (enumerate 0 claims) = Inr items"
    and key: "decode_jwk_coordinate pk holder_jwk ''x'' = Inr x"
      "decode_jwk_coordinate pk holder_jwk ''y'' = Inr y"
    and times: "rfc3339 (clock pk) now = Inr signed_at"
      "rfc3339 (clock pk) (saturating_add now 3600) = Inr until_text"
    and mso: "into_writer ?lib (mobile_security_object doc_type namespace (map snd items)
      (mdoc_device_key x y) signed_at until_text) = Some mso"
    and payload: "into_writer ?lib (CTag 24 (CBytes mso)) = Some payload"
    and protected: "into_writer ?lib (CMap [(cbor_int 1, cbor_int (- 7)),
      (cbor_int 4, CBytes (as_bytes (signer_kid signer)))]) = Some protected"
    and msg: "into_writer ?lib (mdoc_sig_structure protected payload) = Some msg"
    and raw: "sign_es256 (sg_keychain env) signer msg = Inr raw"
    and certificate: "sg_certificate env (''dev.advatar.vcissuer.'' @ label) = Inr certificate"
    and unprotected: "mdoc_unprotected pk env hybrid certificate msg = Inr unprotected"
    and document: "into_writer ?lib (issuer_signed namespace (map fst items) protected unprotected
      payload raw) = Some document"
    and cred: "cred = b64url_encode (codec pk) document"
    unfolding issue_mdoc_def Let_def
    by (elim handler_okE) (auto simp: ok_iff)
  have fits: "digest_of_32 (codec pk)" "\<forall>i. length (rnd i) = 32" "length (signer_kid signer) < 2 ^ 64"
    "length certificate < 2 ^ 64" "text_fits signed_at" "text_fits until_text"
    "\<forall>p. pid = Some p \<longrightarrow> pid_fits (codec pk) p"
    using assms(4) certificate times by (auto simp: mdoc_inputs_fit_def rfc3339_def ok_iff)
  note reads = cbor_reads_backD [OF assms(3)]
  note names = mdoc_claims_plain [OF claims fits(7)]
  have listed: "\<forall>(name, v) \<in> set claims. text_fits name \<and> plain 0 v" using names by simp
  note disclosed = mdoc_items_disclose [OF items assms(3) fits(1,2) listed]
  have coordinates: "length x = 32" "length y = 32"
    using key by (auto simp: decode_jwk_coordinate_def ok_iff)
  have count: "length items \<le> 7" using names disclosed(3) by simp
  obtain vkey sig where verified: "length raw = 64"
    "key_from_sec1 (ec pk) (signer_public_key signer) = Some vkey"
    "sig_from_slice (ec pk) raw = Some sig" "ecdsa_verify (ec pk) vkey msg sig"
    using sign_es256_ok [OF assms(5,6) raw] by blast
  note header = mdoc_unprotected_ok [OF unprotected fits(4) assms(7,8)]
  have "plain NESTING (mobile_security_object doc_type namespace (map snd items)
      (mdoc_device_key x y) signed_at until_text)"
    using names fits(5,6) coordinates count disclosed(2)
    by (intro security_object_plain) auto
  moreover have "plain NESTING (CTag 24 (CBytes mso))"
    using reads(1) [OF mso] by (simp add: plain_nested NESTING_def)
  moreover have "plain NESTING (issuer_signed namespace (map fst items) protected unprotected payload
      raw)"
    using names count disclosed(2) reads(1) [OF protected] reads(1) [OF payload] header(2) verified(1)
    by (intro issuer_signed_plain) auto
  moreover have "b64url_decode (codec pk) cred = Some document"
    using assms(2) by (simp add: cred b64url_correct_def)
  moreover have "zip (map fst items) (map snd items) = items"
    by (rule zip_map_fst_snd)
  ultimately show ?thesis
    using reads(2) [OF mso] reads(2) [OF payload] reads(2) [OF document] key times claims msg
      disclosed(1) verified(2-4) header(1)
    by (intro exI conjI) (assumption | simp)+
qed

section \<open>Example\<close>

text \<open>The codec of \<open>Cbor_Instance\<close> on the encodings that fit in memory.\<close>

definition memory_cbor :: cbor_lib where
  "memory_cbor = rfc8949\<lparr>into_writer := (\<lambda>v. if plain NESTING v \<and> length (encode_value v) < 2 ^ 64
     then Some (encode_value v) else None)\<rparr>"

lemma memory_cbor_reads_back: "cbor_reads_back memory_cbor"
  by (auto simp: cbor_reads_back_def memory_cbor_def rfc8949_def decode_encode_value split: if_splits)

lemma memory_cbor_writes:
  "plain NESTING v \<Longrightarrow> length (encode_value v) < 2 ^ 64 \<Longrightarrow>
   into_writer memory_cbor v = Some (encode_value v)"
  by (simp add: memory_cbor_def)

lemma encode_lengths:
  "length (encode_value (CInt i)) = length (head_bytes 0 (nat (if 0 \<le> i then i else - 1 - i)))"
  "length (encode_value (CBytes b)) = length (head_bytes 2 (length b)) + length b"
  "length (encode_value (CText s)) = length (head_bytes 3 (length s)) + length s"
  "length (encode_value (CBool a)) = 1"
  "length (encode_value (CTag t v)) = length (head_bytes 6 (unat t)) + length (encode_value v)"
  "length (encode_value (CArray vs)) = length (head_bytes 4 (length vs)) +
     sum_list (map (\<lambda>v. length (encode_value v)) vs)"
  "length (encode_value (CMap kvs)) = length (head_bytes 5 (length kvs)) +
     sum_list (map (\<lambda>(k, v). length (encode_value k) + length (encode_value v)) kvs)"
  by (simp_all add: length_head_bytes length_concat comp_def case_prod_unfold as_bytes_def)

definition demo_mdoc_jwk :: json where
  "demo_mdoc_jwk = JObj [(''x'', JStr (unary_encode (replicate 32 0))),
     (''y'', JStr (unary_encode (replicate 32 0)))]"

definition mdoc_signing :: "(unit, unit) signing_env" where
  "mdoc_signing = demo_signing\<lparr>sg_cbor := memory_cbor, sg_store := demo_store 1\<rparr>"

definition mdoc_packages :: "(bytes, bytes) packages" where
  "mdoc_packages = issuing_packages\<lparr>pq := toy_pq\<rparr>"

lemma mdoc_packages_simps [simp]:
  "ec mdoc_packages = toy_ec" "pq mdoc_packages = toy_pq" "codec mdoc_packages = unary_codec"
  "clock mdoc_packages = service_clock" "sg_cbor mdoc_signing = memory_cbor"
  "sg_keychain mdoc_signing = toy_keychain" "sg_aead mdoc_signing = toy_aead"
  "sg_os mdoc_signing = calm_os" "sg_store mdoc_signing = demo_store 1"
  "sg_certificate mdoc_signing l = Inr []"
  by (simp_all add: mdoc_packages_def issuing_packages_def mdoc_signing_def demo_signing_def)

lemma demo_pq_signature:
  "sign_pq_raw unary_codec toy_aead toy_pq calm_os (demo_hybrid 1) (demo_store 1) msg =
     Inr (replicate SIGNATURE_BYTES (checksum [7] msg))"
proof -
  have "load_current_key unary_codec toy_aead calm_os (demo_hybrid 1) (demo_store 1) =
      Inr (demo_stored 1)"
    using demo_stored [of 1]
    by (simp add: ok_iff identity_of_def demo_hybrid_def demo_stored_def calm_os_def kid_hash_of_def
        unary_codec_def toy_codec_def)
  then show ?thesis
    by (simp add: sign_pq_raw_def sign_once_def demo_stored_def calm_os_def toy_pq_def bound_defs)
qed

lemma head_length: "length (head_bytes m n) \<le> 9"
  by (simp add: length_head_bytes)

lemma sum_list_le: "\<forall>x \<in> set xs. f x \<le> n \<Longrightarrow> sum_list (map f xs) \<le> n * length (xs :: 'a list)"
  for n :: nat by (induction xs) auto

lemma demo_mdoc_item:
  assumes "text_fits name" and "length name < 100" and "plain 0 v"
    and "length (encode_value v) < 100"
  shows "\<exists>b d. mdoc_item unary_codec memory_cbor (\<lambda>i. replicate 32 0) (i, name, v) =
     Inr (CTag 24 (CBytes b), cbor_uint (of_nat i), CBytes d) \<and> length b < 1000 \<and> length d = 32"
proof -
  let ?map = "CMap [(CText ''digestID'', cbor_uint (of_nat i)),
    (CText ''random'', CBytes (replicate 32 0)), (CText ''elementIdentifier'', CText name),
    (CText ''elementValue'', v)]"
  have "length (encode_value (cbor_uint (of_nat i))) \<le> 9"
    unfolding cbor_uint_def encode_lengths by (rule head_length)
  then have short: "length (encode_value ?map) < 500"
    using assms(2,4) head_length [of 3 "length name"]
    by (simp add: encode_lengths length_head_bytes del: encode_value.simps)
  have "plain NESTING ?map"
    using assms(1) plain_scalar [OF assms(3)] by (simp add: plain_nested NESTING_def text_fits_def)
  moreover have "length (encode_value (CTag 24 (CBytes (encode_value ?map)))) < 2 ^ 64"
    "plain NESTING (CTag 24 (CBytes (encode_value ?map)))"
    using short by (simp_all add: encode_lengths length_head_bytes plain_nested NESTING_def
        del: encode_value.simps)
  ultimately show ?thesis
    using short
    by (intro exI [of _ "encode_value ?map"]
        exI [of _ "sha256 unary_codec (encode_value (CTag 24 (CBytes (encode_value ?map))))"])
      (simp add: mdoc_item_def cbor_encode_def memory_cbor_writes unary_codec_def
        del: encode_value.simps)
qed

definition small_item :: "cbor \<times> cbor \<times> cbor \<Rightarrow> bool" where
  "small_item x \<longleftrightarrow> (\<exists>b k d. x = (CTag 24 (CBytes b), cbor_uint k, CBytes d) \<and> length b < 1000 \<and>
     length d = 32)"

lemma demo_mdoc_items:
  "\<forall>(name, v) \<in> set claims. text_fits name \<and> length name < 100 \<and> plain 0 v \<and>
     length (encode_value v) < 100 \<Longrightarrow>
   \<exists>items. collect_results (mdoc_item unary_codec memory_cbor (\<lambda>i. replicate 32 0))
       (enumerate i claims) = Inr items \<and> length items = length claims \<and> (\<forall>x \<in> set items. small_item x)"
proof (induction claims arbitrary: i)
  case (Cons claim claims)
  obtain name v where claim: "claim = (name, v)" by (cases claim)
  from Cons.IH [of "Suc i"] Cons.prems obtain items where "collect_results (mdoc_item unary_codec memory_cbor
      (\<lambda>i. replicate 32 0)) (enumerate (Suc i) claims) = Inr items" "length items = length claims"
    "\<forall>x \<in> set items. small_item x" by auto
  moreover obtain x where "mdoc_item unary_codec memory_cbor (\<lambda>i. replicate 32 0) (i, name, v) = Inr x"
    "small_item x"
    using demo_mdoc_item [of name v i] Cons.prems claim by (fastforce simp: small_item_def)
  ultimately show ?case by (auto simp: claim)
qed simp

lemma small_items_plain:
  assumes "\<forall>x \<in> set items. small_item x" and "length items = 5"
  shows "\<forall>x \<in> set items. plain 1 (fst x) \<and> plain 0 (fst (snd x)) \<and> plain 0 (snd (snd x))"
    and "sum_list (map (\<lambda>x. length (encode_value (fst x))) items) \<le> 5100"
    and "sum_list (map (\<lambda>x. length (encode_value (fst (snd x))) + length (encode_value (snd (snd x))))
       items) \<le> 300"
proof -
  have int_length: "length (encode_value (cbor_uint k)) \<le> 9" for k
    unfolding cbor_uint_def encode_lengths by (rule head_length)
  show "\<forall>x \<in> set items. plain 1 (fst x) \<and> plain 0 (fst (snd x)) \<and> plain 0 (snd (snd x))"
    using assms(1) by (fastforce simp: small_item_def plain_nested)
  have "\<forall>x \<in> set items. length (encode_value (fst x)) \<le> 1020"
  proof
    fix x assume "x \<in> set items"
    with assms(1) obtain b where "fst x = CTag 24 (CBytes b)" "length b < 1000"
      by (fastforce simp: small_item_def)
    then show "length (encode_value (fst x)) \<le> 1020"
      using head_length [of 6 "24"] head_length [of 2 "length b"]
      by (simp add: encode_lengths del: encode_value.simps)
  qed
  from sum_list_le [OF this] assms(2)
  show "sum_list (map (\<lambda>x. length (encode_value (fst x))) items) \<le> 5100" by simp
  have "\<forall>x \<in> set items. length (encode_value (fst (snd x))) + length (encode_value (snd (snd x))) \<le> 60"
  proof
    fix x assume "x \<in> set items"
    with assms(1) obtain k d where "fst (snd x) = cbor_uint k" "snd (snd x) = CBytes d" "length d = 32"
      by (fastforce simp: small_item_def)
    then show "length (encode_value (fst (snd x))) + length (encode_value (snd (snd x))) \<le> 60"
      using int_length [of k] head_length [of 2 "32"]
      by (simp add: encode_lengths del: encode_value.simps)
  qed
  from sum_list_le [OF this] assms(2)
  show "sum_list (map (\<lambda>x. length (encode_value (fst (snd x))) + length (encode_value (snd (snd x))))
      items) \<le> 300" by simp
qed

lemma length_unary: "length (unary_encode bs) \<le> 256 * length bs"
proof (induction bs)
  case (Cons b bs)
  have "unat b < 256" using unat_lt_pow [of b] by simp
  with Cons show ?case by (simp add: unary_encode_def)
qed (simp add: unary_encode_def)

lemma kid_length: "length (signer_kid issuing_signer) \<le> 8192"
  using length_unary [of "replicate 32 _"] by (simp add: issuing_signer_def Let_def)

lemma mdoc_issued:
  "\<exists>cred. issue_mdoc mdoc_packages mdoc_signing (\<lambda>i. replicate 32 0) issuing_signer PID_MDOC
     demo_mdoc_jwk 100 None (Some (demo_hybrid 1)) = Inr cred"
proof -
  have texts: "text_fits ''family_name''" "text_fits ''given_name''" "text_fits ''birth_date''"
    "text_fits ''age_over_18''" "text_fits ''issuing_country''" "text_fits ''Mustermann''"
    "text_fits ''Erika''" "text_fits ''1990-01-01''" "text_fits ''DE''"
    "text_fits ''eu.europa.ec.eudi.pid.1''" "text_fits ''2026-06-15T00:00:00Z''"
    by (simp_all add: text_fits_def utf8_def)
  let ?claims = "[(''family_name'', CText ''Mustermann''), (''given_name'', CText ''Erika''),
      (''birth_date'', CText ''1990-01-01''), (''age_over_18'', CBool True),
      (''issuing_country'', CText ''DE'')]"
  have "\<forall>(name, v) \<in> set ?claims. text_fits name \<and> length name < 100 \<and> plain 0 v \<and>
      length (encode_value v) < 100"
    by (simp add: texts plain_text_iff encode_lengths length_head_bytes
        del: plain.simps(3) encode_value.simps)
  from demo_mdoc_items [OF this, of 0] obtain items where
    items: "collect_results (mdoc_item unary_codec memory_cbor (\<lambda>i. replicate 32 0))
      (enumerate 0 ?claims) = Inr items" "length items = 5" "\<forall>x \<in> set items. small_item x"
    by auto
  note small = small_items_plain [OF items(3,2)]
  let ?t = "''2026-06-15T00:00:00Z''" and ?ns = "''eu.europa.ec.eudi.pid.1''"
  let ?mso = "mobile_security_object ?ns ?ns (map snd items)
    (mdoc_device_key (replicate 32 0) (replicate 32 0)) ?t ?t"
  have lengths: "sum_list (map ((\<lambda>(k, v). length (encode_value k) + length (encode_value v)) \<circ> snd)
      items) \<le> 300" "sum_list (map ((\<lambda>v. length (encode_value v)) \<circ> fst) items) \<le> 5100"
    using small(2,3) by (simp_all add: comp_def case_prod_unfold)
  have "length (encode_value ?mso) < 2000"
    using lengths(1) items(2)
    by (simp add: mobile_security_object_def mdoc_device_key_def cbor_int_def cbor_datetime_def
        encode_lengths length_head_bytes del: encode_value.simps)
  moreover have "plain NESTING ?mso"
    using small(1) items(2) texts by (intro security_object_plain) auto
  ultimately obtain mso where mso: "into_writer memory_cbor ?mso = Some mso" "length mso < 2000"
    using memory_cbor_writes [of ?mso] by auto
  let ?payload = "CTag 24 (CBytes mso)"
  have "length (encode_value ?payload) < 3000" "plain NESTING ?payload"
    using mso(2) by (simp_all add: encode_lengths length_head_bytes plain_nested NESTING_def
        del: encode_value.simps)
  then obtain payload where payload: "into_writer memory_cbor ?payload = Some payload"
    "length payload < 3000"
    using memory_cbor_writes [of ?payload] by auto
  let ?protected = "CMap [(cbor_int 1, cbor_int (- 7)),
    (cbor_int 4, CBytes (as_bytes (signer_kid issuing_signer)))]"
  have "length (encode_value ?protected) < 10000" "plain NESTING ?protected"
    using kid_length
    by (simp_all add: cbor_int_def encode_lengths length_head_bytes as_bytes_def plain_nested NESTING_def
        del: encode_value.simps)
  then obtain protected where protected: "into_writer memory_cbor ?protected = Some protected"
    "length protected < 10000"
    using memory_cbor_writes [of ?protected] by auto
  let ?sig = "mdoc_sig_structure protected payload"
  have "length (encode_value ?sig) < 2 ^ 64" "plain NESTING ?sig"
    using payload(2) protected(2)
    by (simp_all add: mdoc_sig_structure_def encode_lengths length_head_bytes plain_nested NESTING_def
        del: encode_value.simps)
  then obtain msg where msg: "into_writer memory_cbor ?sig = Some msg"
    using memory_cbor_writes [of ?sig] by auto
  let ?raw = "replicate 64 (checksum [4] msg)"
  let ?unprotected = "[(cbor_int 33, CArray [CBytes []]),
    (cbor_int HYBRID_PQ_MDOC_SIGNATURE_LABEL, CBytes (replicate SIGNATURE_BYTES (checksum [7] msg))),
    (cbor_int HYBRID_PQ_MDOC_PUBLIC_KEY_LABEL, CBytes (hs_pq_public_key (demo_hybrid 1)))]"
  let ?document = "issuer_signed ?ns (map fst items) protected ?unprotected payload ?raw"
  note labels = HYBRID_PQ_MDOC_SIGNATURE_LABEL_def HYBRID_PQ_MDOC_PUBLIC_KEY_LABEL_def
    SIGNATURE_BYTES_def PUBLIC_KEY_BYTES_def demo_hybrid_def
  have "length (encode_value ?document) < 2 ^ 64"
    using lengths(2) items(2) payload(2) protected(2)
    by (simp add: issuer_signed_def cbor_int_def encode_lengths length_head_bytes labels
        del: encode_value.simps)
  moreover have "plain NESTING ?document"
    using small(1) items(2) texts payload(2) protected(2)
    by (intro issuer_signed_plain) (auto simp: plain_nested cbor_int_def labels)
  ultimately obtain document where document: "into_writer memory_cbor ?document = Some document"
    using memory_cbor_writes [of ?document] by auto
  have times: "saturating_add (100 :: u64) 3600 = 3700" by (simp add: saturating_add_def)
  have coordinates: "decode_jwk_coordinate mdoc_packages demo_mdoc_jwk ''x'' = Inr (replicate 32 0)"
    "decode_jwk_coordinate mdoc_packages demo_mdoc_jwk ''y'' = Inr (replicate 32 0)"
    using unary_codec_correct
    by (simp_all add: decode_jwk_coordinate_def demo_mdoc_jwk_def b64url_correct_def unary_codec_def)
  have claims: "mdoc_claims c PID_MDOC None = Inr (?ns, ?ns, ?claims)" for c
    by (simp add: mdoc_claims_def profile_defs)
  have label: "key_label PID_MDOC = Some ''pid-mdoc''"
    by (simp add: key_label_def profile_defs)
  have clock: "rfc3339 service_clock t = Inr ?t" if "unat t < 2 ^ 63" for t
    using that by (simp add: rfc3339_def service_clock_def)
  have signed: "sign_es256 toy_keychain issuing_signer msg = Inr ?raw"
    by (simp add: sign_es256_def sign_der_def toy_keychain_def)
  show ?thesis
    unfolding issue_mdoc_def Let_def mdoc_packages_simps claims
    by (simp add: items(1) coordinates clock times cbor_encode_def mso(1) payload(1) protected(1) msg
        signed label mdoc_unprotected_def demo_pq_signature document del: enumerate_simps)
qed

lemma issued_mdoc_verifies_witness:
  "\<exists>cred document namespace items protected unprotected payload raw msg q. issue_mdoc mdoc_packages
     mdoc_signing (\<lambda>i. replicate 32 0) issuing_signer PID_MDOC demo_mdoc_jwk 100 None
     (Some (demo_hybrid 1)) = Inr cred \<and>
   from_reader memory_cbor document =
     Some (issuer_signed namespace items protected unprotected payload raw, length document) \<and>
   into_writer memory_cbor (mdoc_sig_structure protected payload) = Some msg \<and>
   verify_signature toy_pq (hs_pq_public_key (demo_hybrid 1)) msg q = Inr ()"
proof -
  obtain cred where issued: "issue_mdoc mdoc_packages mdoc_signing (\<lambda>i. replicate 32 0)
      issuing_signer PID_MDOC demo_mdoc_jwk 100 None (Some (demo_hybrid 1)) = Inr cred"
    using mdoc_issued by blast
  have inputs: "mdoc_inputs_fit mdoc_packages mdoc_signing (\<lambda>i. replicate 32 0) issuing_signer None"
    using kid_length by (simp add: mdoc_inputs_fit_def digest_of_32_def unary_codec_def service_clock_def
        text_fits_def utf8_def)
  from issued_mdoc_verifies [OF issued _ _ inputs] show ?thesis
    using issued unary_codec_correct memory_cbor_reads_back toy_keychain_correct issuing_signer_ok
      toy_pq_correct demo_key_pair
    unfolding mdoc_packages_simps unprotected_ok_def option.case by blast
qed

end
