(* ===== verification/Activechain_Schema.thy ===== *)
theory Activechain_Schema
  imports Prelude
begin

text \<open>
  The schema identifiers of \<open>issuer-service/src/activechain_schema.rs\<close>: a SHAKE256 digest of the
  configuration, its credential type and the rulebook, and the closed table of the configurations
  that have one. SHAKE256 is a package: \<open>xof b n\<close> is the first \<open>n\<close> bytes of its output on \<open>b\<close>.
\<close>

type_synonym xof = "bytes \<Rightarrow> nat \<Rightarrow> bytes"

definition MAX_IDENTIFIER_BYTES :: nat where "MAX_IDENTIFIER_BYTES = 256"

text \<open>
  \<open>update_length_prefixed\<close> on the bytes hashed so far. Every value it is called with is shorter than
  \<open>2 ^ 32\<close> bytes, so that the conversion of the length does not fail.
\<close>

definition update_length_prefixed :: "bytes \<Rightarrow> bytes \<Rightarrow> bytes" where
  "update_length_prefixed hashed value_bytes =
     hashed @ be_bytes 4 (of_nat (length value_bytes) :: u32) @ value_bytes"

definition SCHEMA_DOMAIN :: bytes where "SCHEMA_DOMAIN = as_bytes ''ACTIVECHAIN-EUDI-SCHEMA-V1''"

text \<open>The bytes that are hashed.\<close>

definition schema_preimage :: "bytes \<Rightarrow> bytes \<Rightarrow> bytes \<Rightarrow> u32 \<Rightarrow> bytes \<Rightarrow> bytes" where
  "schema_preimage configuration credential_type rulebook_id rulebook_version rulebook_digest =
     (let h1 = update_length_prefixed SCHEMA_DOMAIN configuration;
          h2 = update_length_prefixed h1 credential_type;
          h3 = update_length_prefixed h2 rulebook_id;
          h4 = h3 @ be_bytes 4 rulebook_version
      in update_length_prefixed h4 rulebook_digest)"

text \<open>\<open>None\<close> is \<open>MappingError::InvalidInput\<close>, the only error.\<close>

definition derive_schema_id ::
  "xof \<Rightarrow> bytes \<Rightarrow> bytes \<Rightarrow> bytes \<Rightarrow> u32 \<Rightarrow> bytes \<Rightarrow> bytes option" where
  "derive_schema_id xof configuration credential_type rulebook_id rulebook_version rulebook_digest =
     (if list_ex (\<lambda>v. v = [] \<or> length v > MAX_IDENTIFIER_BYTES)
           [configuration, credential_type, rulebook_id]
         \<or> rulebook_version = 0 \<or> rulebook_digest = replicate 48 0
      then None
      else Some (xof (schema_preimage configuration credential_type rulebook_id rulebook_version
             rulebook_digest) 48))"

section \<open>Digests in the table\<close>

text \<open>
  \<open>u8::from_str_radix(_, 16)\<close>: digits of either case behind an optional plus sign, at least one of
  them, and a value that fits.
\<close>

definition hex_value :: "char \<Rightarrow> nat option" where
  "hex_value c =
     (let b = (of_char c :: nat) in
      if 48 \<le> b \<and> b \<le> 57 then Some (b - 48)
      else if 65 \<le> b \<and> b \<le> 70 then Some (b - 55)
      else if 97 \<le> b \<and> b \<le> 102 then Some (b - 87) else None)"

fun hex_digits :: "nat \<Rightarrow> string \<Rightarrow> nat option" where
  "hex_digits acc [] = Some acc"
| "hex_digits acc (c # cs) = Option.bind (hex_value c) (\<lambda>d.
     let acc = 16 * acc + d in if acc < 256 then hex_digits acc cs else None)"

definition u8_from_str_radix16 :: "string \<Rightarrow> u8 option" where
  "u8_from_str_radix16 s =
     (let ds = (if 2 \<le> length s \<and> hd s = CHR ''+'' then tl s else s) in
      if ds = [] then None else map_option of_nat (hex_digits 0 ds))"

text \<open>
  \<open>&value[a..b]\<close> on a string panics, here \<open>None\<close>, when a bound is inside a character, which is when
  the byte there continues one.
\<close>

definition char_boundary :: "string \<Rightarrow> nat \<Rightarrow> bool" where
  "char_boundary s i \<longleftrightarrow>
     i = length s \<or> i < length s \<and> \<not> continuation (of_char (s ! i))"

definition str_slice :: "nat \<Rightarrow> nat \<Rightarrow> string \<Rightarrow> string option" where
  "str_slice a b s = (if char_boundary s a \<and> char_boundary s b then Some (slice a b s) else None)"

datatype 'a digest_result = Panics | Returns 'a

fun decode_bytes :: "string \<Rightarrow> nat list \<Rightarrow> bytes option digest_result" where
  "decode_bytes s [] = Returns (Some [])"
| "decode_bytes s (i # is) =
     (case str_slice (2 * i) (2 * i + 2) s of
        None \<Rightarrow> Panics
      | Some digits \<Rightarrow>
          (case u8_from_str_radix16 digits of
             None \<Rightarrow> Returns None
           | Some byte \<Rightarrow>
               (case decode_bytes s is of
                  Panics \<Rightarrow> Panics
                | Returns rest \<Rightarrow> Returns (map_option (\<lambda>bs. byte # bs) rest))))"

definition decode_digest :: "string \<Rightarrow> bytes option digest_result" where
  "decode_digest s = (if length s \<noteq> 96 then Returns None else decode_bytes s [0..<48])"

section \<open>The table\<close>

text \<open>Credential type, rulebook and its digest.\<close>

definition pinned_entries :: "(string \<times> string \<times> string \<times> string) list" where
  "pinned_entries =
     [(''eu.europa.ec.eudi.pid_vc_sd_jwt.de'', ''eu.europa.ec.eudi.pid.1'',
       ''dev.advatar.eudi.pid-sd-jwt-profile'',
       ''cdf11a6e5f93549443c33af2ea7cab2ffeca1d7bbd13338438113892cf28cf50d6f03389031edbbad18343979436f94e''),
      (''eu.europa.ec.eudi.pid_mso_mdoc.de'', ''eu.europa.ec.eudi.pid.1'',
       ''dev.advatar.eudi.pid-mdoc-profile'',
       ''42f7a85eb0aef0c9b5b515ceacdd9ab14f5302e8a8c737266e955f8489424ed2014bcb046013721f17c2439ae12ac22b''),
      (''org.iso.18013.5.1.mDL.de'', ''org.iso.18013.5.1.mDL'',
       ''dev.advatar.eudi.mdl-mdoc-profile'',
       ''3fa4eace7934699504bb655dd427f26060a282ad66d92fdab33c1a3c1b09ff35e64428ed1861d9bcbb17b1faf97d93b1''),
      (''urn:eu.europa.ec.eudi:learning:credential:1:dc+sd-jwt:de'',
       ''urn:eu.europa.ec.eudi:learning:credential:1'', ''dev.advatar.eudi.learning-qeaa-profile'',
       ''d2df712931285cc51127794f1053b15eaec1ef55ccfebbe0e7c5e9cfd8bc8c62b1305c555b830ed4b2d5d96ec5ae0af0''),
      (''urn:eu.europa.ec.eudi:learning:credential:1:dc+sd-jwt:de:pid-bound'',
       ''urn:eu.europa.ec.eudi:learning:credential:1'',
       ''dev.advatar.eudi.learning-qeaa-pid-bound-profile'',
       ''e588d0ec0b3ce34a46d644d8411047a7e1626c4912aa4129f0d2d928eae3af5b8a08defad57f1ec7d9d0bb2c35fbc49c''),
      (''dev.svipe.pid.sd-jwt'', ''dev.eu.europa.ec.eudi.pid.1'',
       ''dev.advatar.svipe-pid-development-profile'',
       ''1c1bf17a294402c20945962c79677a286ec2bbb0a0a740b302b94c7ecbf42a2984250df9cd5480bc295e8fb3dae09950''),
      (''dev.advatar.tlsn.evidence.sd-jwt'', ''dev.advatar.tlsn.evidence.1'',
       ''dev.advatar.tlsn-evidence-development-profile'',
       ''e13f89002120231a7975ad6fd42a07a98c7768e7b8caa8336ade7368effb1d897a512f864a10a5561a42ec9c7eb198c6'')]"

definition pinned_schema_id :: "xof \<Rightarrow> string \<Rightarrow> bytes option digest_result" where
  "pinned_schema_id xof configuration =
     (case map_of pinned_entries configuration of
        None \<Rightarrow> Returns None
      | Some (credential_type, rulebook_id, rulebook_digest) \<Rightarrow>
          (case decode_digest rulebook_digest of
             Panics \<Rightarrow> Panics
           | Returns digest \<Rightarrow> Returns (Option.bind digest
               (derive_schema_id xof (as_bytes configuration) (as_bytes credential_type)
                  (as_bytes rulebook_id) 1))))"

section \<open>The preimage determines its parts\<close>

lemma update_framed: "update_length_prefixed h v = h @ framed v"
  by (simp add: update_length_prefixed_def framed_def)

lemma schema_preimage_framed:
  "schema_preimage c t r v d =
     SCHEMA_DOMAIN @ framed c @ framed t @ framed r @ be_bytes 4 v @ framed d"
  by (simp add: schema_preimage_def Let_def update_framed)

lemma derive_schema_id_Some_iff:
  "derive_schema_id xof c t r v d = Some b \<longleftrightarrow>
     (\<forall>s \<in> {c, t, r}. s \<noteq> [] \<and> length s \<le> 256) \<and> v \<noteq> 0 \<and> d \<noteq> replicate 48 0 \<and>
     b = xof (schema_preimage c t r v d) 48"
  by (auto simp: derive_schema_id_def MAX_IDENTIFIER_BYTES_def)

lemma schema_preimage_inject:
  assumes "schema_preimage c t r v d = schema_preimage c' t' r' v' d'"
    and "\<forall>s \<in> {c, t, r, c', t', r', d, d'}. length s < 2 ^ 32"
  shows "c' = c \<and> t' = t \<and> r' = r \<and> v' = v \<and> d' = d"
  using assms by (auto simp: schema_preimage_framed framed_append_inject be_bytes_inject framed_inject)

text \<open>On ASCII text no slice panics, and the loop reads the digits pair by pair.\<close>

fun hex_pairs :: "string \<Rightarrow> bytes option" where
  "hex_pairs (a # b # cs) = Option.bind (u8_from_str_radix16 [a, b])
     (\<lambda>byte. map_option (\<lambda>bs. byte # bs) (hex_pairs cs))"
| "hex_pairs _ = Some []"

lemma ascii_boundary: "is_ascii s \<Longrightarrow> i \<le> length s \<Longrightarrow> char_boundary s i"
proof (cases "i = length s")
  case False
  moreover assume "is_ascii s" "i \<le> length s"
  ultimately have "i < length s" "(of_char (s ! i) :: nat) < 128" by (simp_all add: is_ascii_def)
  then show ?thesis by (simp add: char_boundary_def continuation_def)
qed (simp add: char_boundary_def)

lemma decode_bytes_ascii:
  "is_ascii (p @ s) \<Longrightarrow> length p = 2 * i \<Longrightarrow> length s = 2 * n \<Longrightarrow>
   decode_bytes (p @ s) [i..<i + n] = Returns (hex_pairs s)"
proof (induction n arbitrary: p s i)
  case (Suc n)
  then obtain a b cs where s: "s = a # b # cs" by (cases s rule: hex_pairs.cases) auto
  have "decode_bytes ((p @ [a, b]) @ cs) [Suc i..<Suc i + n] = Returns (hex_pairs cs)"
    using Suc.prems s by (intro Suc.IH) auto
  moreover have "str_slice (2 * i) (2 * i + 2) (p @ s) = Some [a, b]"
    using Suc.prems s ascii_boundary [of "p @ s"] by (simp add: str_slice_def slice_def)
  moreover have "[i..<i + Suc n] = i # [Suc i..<Suc i + n]"
    by (simp add: upt_conv_Cons del: upt_Suc)
  ultimately show ?case
    using s by (simp del: upt_Suc split: option.split)
qed simp

lemma decode_digest_ascii:
  assumes "is_ascii s" and "length s = 96"
  shows "decode_digest s = Returns (hex_pairs s)"
  using decode_bytes_ascii [of "[]" s 0 48] assms by (simp add: decode_digest_def)

lemma hex_value_bound: "hex_value c = Some n \<Longrightarrow> n < 16"
  by (auto simp: hex_value_def Let_def split: if_splits)

lemma hex_is_ascii: "list_all (\<lambda>c. hex_value c \<noteq> None) s \<Longrightarrow> is_ascii s"
  by (fastforce simp: is_ascii_def list_all_iff hex_value_def Let_def split: if_splits)

lemma u8_from_pair:
  assumes "hex_value a = Some m" and "hex_value b = Some n"
  shows "u8_from_str_radix16 [a, b] = Some (of_nat (16 * m + n))"
proof -
  have "a \<noteq> CHR ''+''" using assms(1) by (auto simp: hex_value_def)
  then show ?thesis
    using assms hex_value_bound [OF assms(1)] hex_value_bound [OF assms(2)]
    by (simp add: u8_from_str_radix16_def Let_def)
qed

lemma hex_pairs_ok:
  "list_all (\<lambda>c. hex_value c \<noteq> None) s \<Longrightarrow> length s = 2 * n \<Longrightarrow>
   \<exists>d. hex_pairs s = Some d \<and> length d = n \<and>
     (\<forall>m k. 0 < n \<longrightarrow> hex_value (s ! 0) = Some m \<longrightarrow> hex_value (s ! 1) = Some k \<longrightarrow>
        hd d = of_nat (16 * m + k))"
proof (induction s arbitrary: n rule: hex_pairs.induct)
  case (1 a b cs)
  from 1(2) obtain m k where mk: "hex_value a = Some m" "hex_value b = Some k" by auto
  from 1(2,3) have "length cs = 2 * (n - 1)" "0 < n" "list_all (\<lambda>c. hex_value c \<noteq> None) cs" by auto
  with 1(1) [OF u8_from_pair [OF mk], of "n - 1"] obtain d where
    "hex_pairs cs = Some d" "length d = n - 1" by auto
  with \<open>0 < n\<close> mk show ?case by (simp add: u8_from_pair)
qed auto

text \<open>Every digest of the table is 48 bytes of hexadecimal, none of them zero.\<close>

lemma pinned_digests_decode:
  "\<forall>e \<in> set pinned_entries. \<exists>d. decode_digest (snd (snd (snd e))) = Returns (Some d) \<and>
     length d = 48 \<and> d \<noteq> replicate 48 0"
proof
  fix e
  assume e: "e \<in> set pinned_entries"
  let ?s = "snd (snd (snd e))"
  have "list_all (\<lambda>s. length s = 96 \<and> list_all (\<lambda>c. hex_value c \<noteq> None) s \<and>
      hex_value (s ! 0) \<noteq> Some 0) (map (\<lambda>e. snd (snd (snd e))) pinned_entries)"
    by (simp add: pinned_entries_def hex_value_def)
  with e have s: "length ?s = 2 * 48" "list_all (\<lambda>c. hex_value c \<noteq> None) ?s"
    "hex_value (?s ! 0) \<noteq> Some 0"
    by (simp_all add: list_all_iff)
  then obtain m k where mk: "hex_value (?s ! 0) = Some m" "hex_value (?s ! 1) = Some k" "0 < m"
    by (fastforce simp: list_all_length)
  from hex_pairs_ok [OF s(2,1)] mk obtain d where
    d: "hex_pairs ?s = Some d" "length d = 48" "hd d = of_nat (16 * m + k)" by auto
  have bound: "16 * m + k < 256"
    using mk(1,2) [THEN hex_value_bound] by simp
  have "unat (hd d) = 16 * m + k"
    unfolding d(3) unat_of_nat using bound by simp
  then have "hd d \<noteq> 0" using mk(3) by auto
  then have "d \<noteq> replicate 48 0" by auto
  with d s show "\<exists>d. decode_digest ?s = Returns (Some d) \<and> length d = 48 \<and> d \<noteq> replicate 48 0"
    by (simp add: decode_digest_ascii hex_is_ascii)
qed

end
