(* ===== verification/Metadata.thy ===== *)
theory Metadata
  imports Json Service_State Activechain_Schema
begin

text \<open>
  The documents the service publishes, \<open>main.rs\<close>: the issuer metadata with a profile per credential
  configuration, the OAuth metadata, the key set, the certificate chains and the description of the
  hybrid profile. The literals are written in the order of the source and sorted by \<open>json_object\<close>.
\<close>

section \<open>Profiles\<close>

text \<open>SHAKE256 and \<open>hex::encode\<close>.\<close>

record schema_lib =
  sl_xof :: xof
  sl_hex :: "bytes \<Rightarrow> string"

text \<open>
  The schema identifier is published when the configuration has one. The lookup in the table does not
  panic, because the digests in it are ASCII.
\<close>

definition insert_schema :: "schema_lib \<Rightarrow> string \<Rightarrow> json \<Rightarrow> json" where
  "insert_schema sl configuration_id profile =
     (case pinned_schema_id (sl_xof sl) configuration_id of
        Returns (Some schema) \<Rightarrow>
          insert_member ''activechain_schema_id_v1'' (JStr (sl_hex sl schema)) profile
      | _ \<Rightarrow> profile)"

definition es256_only :: json where "es256_only = JArr [JStr ''ES256'']"

definition jwt_proof_types :: json where
  "jwt_proof_types = json_object
     [(''jwt'', json_object [(''proof_signing_alg_values_supported'', es256_only)])]"

definition german_display :: "string \<Rightarrow> json" where
  "german_display name = JArr [json_object [(''name'', JStr name), (''locale'', JStr ''de-DE'')]]"

definition sd_jwt_profile :: "schema_lib \<Rightarrow> string \<Rightarrow> string \<Rightarrow> string \<Rightarrow> json" where
  "sd_jwt_profile sl configuration_id vct name =
     insert_schema sl configuration_id (json_object
       [(''format'', JStr ''dc+sd-jwt''), (''scope'', JStr configuration_id), (''vct'', JStr vct),
        (''cryptographic_binding_methods_supported'', JArr [JStr ''jwk'']),
        (''credential_signing_alg_values_supported'', es256_only),
        (''proof_types_supported'', jwt_proof_types), (''display'', german_display name)])"

definition mdoc_profile :: "schema_lib \<Rightarrow> string \<Rightarrow> string \<Rightarrow> string \<Rightarrow> json" where
  "mdoc_profile sl configuration_id doc_type name =
     insert_schema sl configuration_id (json_object
       [(''format'', JStr ''mso_mdoc''), (''scope'', JStr configuration_id),
        (''doctype'', JStr doc_type),
        (''cryptographic_binding_methods_supported'', JArr [JStr ''cose_key'']),
        (''credential_signing_alg_values_supported'', es256_only),
        (''proof_types_supported'', jwt_proof_types), (''display'', german_display name)])"

definition required_pid_binding :: json where
  "required_pid_binding = json_object
     [(''required'', JBool True), (''pid_vct'', JStr PID_VCT),
      (''presentation_format'', JStr ''dc+sd-jwt''),
      (''binding_proof_alg_values_supported'', es256_only)]"

definition learning_profile :: "schema_lib \<Rightarrow> string \<Rightarrow> string \<Rightarrow> bool \<Rightarrow> json" where
  "learning_profile sl configuration_id name pid_bound =
     insert_member ''pid_binding''
       (if pid_bound then required_pid_binding else json_object [(''required'', JBool False)])
       (sd_jwt_profile sl configuration_id ''urn:eu.europa.ec.eudi:learning:credential:1'' name)"

definition development_only :: "json \<Rightarrow> json" where
  "development_only profile =
     insert_member ''eudi_conformant'' (JBool False)
       (insert_member ''development_only'' (JBool True) profile)"

definition mandate_profile :: "schema_lib \<Rightarrow> json" where
  "mandate_profile sl =
     development_only
       (insert_member ''mandate_scopes_supported'' (JArr (map (\<lambda>(_, urn). JStr urn) POWER_TAXONOMY))
         (insert_member ''pid_binding'' required_pid_binding
           (sd_jwt_profile sl MANDATE_SD_JWT MANDATE_VCT
             ''Power-of-representation mandate (agent delegation)'')))"

definition identity_assurance :: json where
  "identity_assurance = json_object
     [(''source'', JStr ''emrtd_chip_read''), (''chip_authentication'', JBool True),
      (''passive_authentication'', JBool True),
      (''holder_liveness'', JStr EMRTD_REQUIRED_LIVENESS),
      (''evidence_binding'', JStr ''trusted_reader_attestation_jws'')]"

definition pid_from_emrtd_profile :: "schema_lib \<Rightarrow> json" where
  "pid_from_emrtd_profile sl =
     development_only (insert_member ''identity_assurance'' identity_assurance
       (sd_jwt_profile sl PID_FROM_EMRTD_SD_JWT PID_VCT ''German PID (NFC chip + liveness proofed)''))"

definition pid_from_emrtd_mdoc_profile :: "schema_lib \<Rightarrow> json" where
  "pid_from_emrtd_mdoc_profile sl =
     development_only (insert_member ''identity_assurance'' identity_assurance
       (mdoc_profile sl PID_FROM_EMRTD_MDOC PID_VCT
         ''German PID (NFC chip + liveness proofed, mdoc)''))"

definition tlsn_metadata_profile :: "schema_lib \<Rightarrow> string \<Rightarrow> json" where
  "tlsn_metadata_profile sl issuer =
     insert_member ''credential_signing_certificate_endpoint''
       (JStr (issuer @ ''/credential-signing-certificates/'' @ TLSN_EVIDENCE_SD_JWT))
       (sd_jwt_profile sl TLSN_EVIDENCE_SD_JWT TLSN_EVIDENCE_VCT
         ''TLSNotary web evidence (development)'')"

definition hybrid_metadata_profile :: "string \<Rightarrow> json" where
  "hybrid_metadata_profile issuer = json_object
     [(''format'', JStr FORMAT), (''scope'', JStr HYBRID_PQ_SD_JWT),
      (''vct'', JStr ''dev.advatar.hybrid-pq.credential.v1''),
      (''cryptographic_binding_methods_supported'', JArr [JStr ''jwk'']),
      (''proof_types_supported'', jwt_proof_types), (''experimental_profile'', JStr PROFILE),
      (''experimental_profile_document'', JStr (issuer @ ''/experimental/hybrid-pq/profile'')),
      (''credential_wrapper_schema'', JStr ''HybridCredentialWrapperV1''),
      (''shared_vectors_status'', JStr ''complete-component-and-wrapper-corpora''),
      (''development_only'', JBool True), (''eudi_conformant'', JBool False),
      (''display'', JArr [json_object
         [(''name'', JStr ''Experimental hybrid-PQ credential (non-EUDI)''),
          (''locale'', JStr ''en'')]])]"

section \<open>Issuer metadata\<close>

definition closed_configurations :: "schema_lib \<Rightarrow> string \<Rightarrow> (string \<times> json) list" where
  "closed_configurations sl issuer =
     [(PID_SD_JWT, sd_jwt_profile sl PID_SD_JWT ''eu.europa.ec.eudi.pid.1'' ''German PID (SD-JWT VC)''),
      (PID_FROM_EMRTD_SD_JWT, pid_from_emrtd_profile sl),
      (PID_FROM_EMRTD_MDOC, pid_from_emrtd_mdoc_profile sl),
      (PID_MDOC, mdoc_profile sl PID_MDOC ''eu.europa.ec.eudi.pid.1'' ''German PID (mdoc)''),
      (EAA_MDOC, mdoc_profile sl EAA_MDOC ''org.iso.18013.5.1.mDL''
         ''German driving licence EAA (mdoc)''),
      (QEAA_SD_JWT, learning_profile sl QEAA_SD_JWT
         ''German learning QEAA (independently identified)'' False),
      (QEAA_PID_BOUND_SD_JWT, learning_profile sl QEAA_PID_BOUND_SD_JWT
         ''German learning QEAA (cryptographically bound to PID)'' True),
      (DEV_SVIPE_PID_SD_JWT, sd_jwt_profile sl DEV_SVIPE_PID_SD_JWT ''dev.eu.europa.ec.eudi.pid.1''
         ''Development PID (Svipe proofing only)''),
      (TLSN_EVIDENCE_SD_JWT, tlsn_metadata_profile sl issuer),
      (MANDATE_SD_JWT, mandate_profile sl)]"

definition configurations_supported :: "schema_lib \<Rightarrow> 'h app_state \<Rightarrow> string \<Rightarrow> json" where
  "configurations_supported sl cfg issuer =
     (let closed = json_object (closed_configurations sl issuer) in
      if app_hybrid_pq_enabled cfg
      then insert_member HYBRID_PQ_SD_JWT (hybrid_metadata_profile issuer) closed
      else closed)"

definition issuer_metadata_value :: "schema_lib \<Rightarrow> 'h app_state \<Rightarrow> json" where
  "issuer_metadata_value sl cfg =
     (let issuer = trim_end_matches CHR ''/'' (app_issuer cfg) in json_object
       [(''credential_issuer'', JStr issuer), (''authorization_servers'', JArr [JStr issuer]),
        (''credential_endpoint'', JStr (issuer @ ''/credential'')),
        (''nonce_endpoint'', JStr (issuer @ ''/nonce'')),
        (''batch_credential_issuance'', json_object [(''batch_size'', JNat 1)]),
        (''credential_configurations_supported'', configurations_supported sl cfg issuer)])"

text \<open>
  The signed copy, which only the macOS build adds: the claims are the document with the issuer, the
  subject and the time.
\<close>

definition metadata_claims :: "string \<Rightarrow> u64 \<Rightarrow> json \<Rightarrow> json" where
  "metadata_claims issuer now document =
     insert_member ''iat'' (JNat now) (insert_member ''sub'' (JStr issuer)
       (insert_member ''iss'' (JStr issuer) document))"

definition metadata_header :: "'h keychain_signer \<Rightarrow> json" where
  "metadata_header signer = json_object
     [(''alg'', JStr ''ES256''), (''typ'', JStr ''openidvci-issuer-metadata+jwt''),
      (''kid'', JStr (signer_kid signer))]"

definition issuer_metadata ::
  "('k, 's) packages \<Rightarrow> ('w, 'h) keychain_lib \<Rightarrow> schema_lib \<Rightarrow> 'h app_state \<Rightarrow> 'h keychain_signer \<Rightarrow>
     u64 option \<Rightarrow> json oauth" where
  "issuer_metadata pk kc sl cfg signer clk =
     (let document = issuer_metadata_value sl cfg in
      if \<not> app_target_macos cfg then Inr document
      else
        and_then (unix_time clk) (\<lambda>now.
        let claims = metadata_claims (app_issuer cfg) now document;
            input = b64url_encode (codec pk) (json_to_vec (serde pk) (metadata_header signer)) @ ''.'' @
              b64url_encode (codec pk) (json_to_vec (serde pk) claims) in
        and_then (map_err (\<lambda>_. server_error ''signed metadata is unavailable'')
          (sign_es256 kc signer (as_bytes input))) (\<lambda>signature.
        Inr (insert_member ''signed_metadata''
          (JStr (input @ ''.'' @ b64url_encode (codec pk) signature)) document))))"

section \<open>The other documents\<close>

definition health_document :: json where
  "health_document = json_object [(''status'', JStr ''ok''), (''mode'', JStr ''development'')]"

definition oauth_metadata_value :: "string \<Rightarrow> json" where
  "oauth_metadata_value issuer = json_object
     [(''issuer'', JStr issuer), (''authorization_endpoint'', JStr (issuer @ ''/authorize'')),
      (''token_endpoint'', JStr (issuer @ ''/token'')),
      (''pushed_authorization_request_endpoint'', JStr (issuer @ ''/par'')),
      (''jwks_uri'', JStr (issuer @ ''/jwks.json'')),
      (''response_types_supported'', JArr [JStr ''code'']),
      (''grant_types_supported'', JArr [JStr ''authorization_code'']),
      (''require_pushed_authorization_requests'', JBool True),
      (''code_challenge_methods_supported'', JArr [JStr ''S256'']),
      (''dpop_signing_alg_values_supported'', JArr [JStr ''ES256''])]"

definition oauth_metadata :: "'h app_state \<Rightarrow> json" where
  "oauth_metadata cfg = oauth_metadata_value (trim_end_matches CHR ''/'' (app_issuer cfg))"

text \<open>\<open>order\<close> is the order in which \<open>values()\<close> visits the signers.\<close>

definition jwks :: "'h app_state \<Rightarrow> 'h keychain_signer \<Rightarrow> string list \<Rightarrow> json" where
  "jwks cfg metadata_signer order =
     json_object [(''keys'', JArr
       (if app_target_macos cfg
        then signer_public_jwk metadata_signer #
          map signer_public_jwk (List.map_filter (app_credential_signers cfg) order)
        else []))]"

text \<open>\<open>None\<close> is \<open>404 Not Found\<close>; \<open>STANDARD.encode\<close> is an argument.\<close>

definition credential_signing_certificates ::
  "(bytes \<Rightarrow> string) \<Rightarrow> 'h app_state \<Rightarrow> (string \<rightharpoonup> bytes list) \<Rightarrow> string \<Rightarrow> json option" where
  "credential_signing_certificates b64_encode cfg signing_chains configuration_id =
     (if \<not> app_target_macos cfg then None
      else map_option (\<lambda>chain. json_object
        [(''credential_configuration_id'', JStr configuration_id),
         (''x5c'', JArr (map (\<lambda>der. JStr (b64_encode der)) chain)),
         (''development_only'', JBool True)]) (signing_chains configuration_id))"

definition hybrid_document :: "codec_lib \<Rightarrow> 'h hybrid_signer \<Rightarrow> bytes \<Rightarrow> json" where
  "hybrid_document c signer public_key_envelope = json_object
     [(''version'', JNat VERSION), (''profile'', JStr PROFILE), (''purpose'', JStr PURPOSE),
      (''credential_format'', JStr FORMAT), (''configuration_id'', JStr HYBRID_PQ_SD_JWT),
      (''acceptance_rule'', JStr ''ES256 valid AND ML-DSA-65 valid''),
      (''logical_key_generation'', JNat (hs_generation signer)),
      (''classical'', json_object
         [(''algorithm'', JStr ''ES256''), (''kid'', JStr (signer_kid (hs_classical signer))),
          (''public_key_sec1'',
             JStr (b64url_encode c (signer_public_key (hs_classical signer))))]),
      (''post_quantum'', json_object
         [(''algorithm'', JStr ''ML-DSA-65''), (''kid'', JStr (hs_pq_kid signer)),
          (''public_key'', JStr (b64url_encode c (hs_pq_public_key signer)))]),
      (''public_key_envelope'', JStr (b64url_encode c public_key_envelope)),
      (''component_envelope_schema'', JStr ''euwallet-pr103-frozen''),
      (''credential_wrapper_schema'', JStr ''HybridCredentialWrapperV1''),
      (''development_only'', JBool True), (''eudi_conformant'', JBool False),
      (''shared_vectors_status'', JStr ''complete-component-and-wrapper-corpora''),
      (''verification_report'', JStr ''docs/hybrid-pq-verification-report.md'')]"

text \<open>The error is the status of the answer.\<close>

definition hybrid_pq_profile_document :: "codec_lib \<Rightarrow> cbor_lib \<Rightarrow> 'h app_state \<Rightarrow> nat + json" where
  "hybrid_pq_profile_document c cb cfg =
     and_then (ok_or NOT_FOUND
       (if app_target_macos cfg \<and> app_hybrid_pq_enabled cfg
        then app_hybrid_credential_signer cfg else None)) (\<lambda>signer.
     and_then (map_err (\<lambda>_. INTERNAL_SERVER_ERROR)
       (encode_public_key_envelope cb (signer_public_key (hs_classical signer))
          (hs_pq_public_key signer))) (\<lambda>envelope.
       Inr (hybrid_document c signer envelope)))"

end
