(* ===== verification/Env_File.thy ===== *)
theory Env_File
  imports Prelude "HOL-Library.AList"
begin

text \<open>
  The optional \<open>.env\<close> file, \<open>issuer-service/src/env_file.rs\<close>: the parser, the store that is written
  once, and the lookup in which the process environment wins. The process environment and the file
  system are arguments; a string is its UTF-8 bytes.
\<close>

section \<open>Lines\<close>

text \<open>
  \<open>str::lines\<close>: a line ends at a newline, and a carriage return before that newline belongs to the
  line end. A last piece without a newline is a line of its own unless it is empty.
\<close>

definition strip_cr :: "string \<Rightarrow> string" where
  "strip_cr s = (if s \<noteq> [] \<and> last s = CHR 0x0D then butlast s else s)"

definition str_lines :: "string \<Rightarrow> string list" where
  "str_lines s =
     (let pieces = split_char CHR 0x0A s in
      map strip_cr (butlast pieces) @ (if last pieces = [] then [] else [last pieces]))"

definition split_once :: "char \<Rightarrow> string \<Rightarrow> (string \<times> string) option" where
  "split_once c s =
     (if c \<in> set s then Some (takeWhile (\<lambda>d. d \<noteq> c) s, tl (dropWhile (\<lambda>d. d \<noteq> c) s)) else None)"

lemma split_once_append: "c \<notin> set s \<Longrightarrow> split_once c (s @ c # t) = Some (s, t)"
  by (induction s) (auto simp: split_once_def)

section \<open>The parser\<close>

definition quoted_by :: "char \<Rightarrow> string \<Rightarrow> bool" where
  "quoted_by q value \<longleftrightarrow> value \<noteq> [] \<and> hd value = q \<and> last value = q"

definition unquote :: "string \<Rightarrow> string" where
  "unquote value =
     (if 2 \<le> length value \<and> (quoted_by CHR 0x22 value \<or> quoted_by CHR 0x27 value)
      then slice 1 (length value - 1) value else value)"

text \<open>One turn of the loop: \<open>None\<close> is \<open>continue\<close>.\<close>

definition parse_line :: "string \<Rightarrow> (string \<times> string) option" where
  "parse_line raw =
     (let line = trim raw in
      if line = [] \<or> hd line = CHR ''#'' then None
      else
        (let line = (case strip_prefix ''export '' line of Some rest \<Rightarrow> rest | None \<Rightarrow> line) in
         case split_once CHR ''='' line of
           None \<Rightarrow> None
         | Some (key, value) \<Rightarrow>
             (let key = trim key in
              if key = [] then None else Some (key, unquote (trim value)))))"

definition parse_env :: "string \<Rightarrow> (string \<times> string) list" where
  "parse_env contents = List.map_filter parse_line (str_lines contents)"

section \<open>The store and the lookup\<close>

text \<open>\<open>std::env::var\<close>: a value, a value that is not UTF-8, or no value.\<close>

datatype env_value = Present string | NotUnicode | NotPresent

type_synonym environment = "string \<Rightarrow> env_value"

text \<open>\<open>std::fs::read_to_string(path).ok()\<close>.\<close>

type_synonym readable_files = "string \<rightharpoonup> string"

definition read_and_parse :: "readable_files \<Rightarrow> string \<Rightarrow> (string \<times> string) list option" where
  "read_and_parse fs path = map_option parse_env (fs path)"

fun env_ok :: "env_value \<Rightarrow> string option" where
  "env_ok (Present v) = Some v"
| "env_ok _ = None"

definition dotenv_path :: "environment \<Rightarrow> string" where
  "dotenv_path env =
     (case env_ok (env ''VCISSUER_DOTENV'') of
        Some p \<Rightarrow> if p \<noteq> [] then p else ''.env''
      | None \<Rightarrow> ''.env'')"

text \<open>A map collected from a list of pairs: a later pair overrides an earlier one.\<close>

definition collect_map :: "('a \<times> 'b) list \<Rightarrow> 'a \<rightharpoonup> 'b" where
  "collect_map pairs = map_of (rev pairs)"

text \<open>\<open>OnceLock\<close>: the first value that is set stays.\<close>

definition set_once :: "'a \<Rightarrow> 'a option \<Rightarrow> 'a option" where
  "set_once x cell = (case cell of None \<Rightarrow> Some x | Some y \<Rightarrow> Some y)"

type_synonym env_store = "(string \<rightharpoonup> string) option"

definition env_init ::
  "environment \<Rightarrow> readable_files \<Rightarrow> env_store \<Rightarrow> (string \<times> nat) option \<times> env_store" where
  "env_init env fs store =
     (let path = dotenv_path env;
          pairs = read_and_parse fs path;
          entries = (case pairs of Some ps \<Rightarrow> ps | None \<Rightarrow> []);
          count = length (remdups (map fst entries))
      in (map_option (\<lambda>_. (path, count)) pairs, set_once (collect_map entries) store))"

definition env_var :: "environment \<Rightarrow> env_store \<Rightarrow> string \<Rightarrow> string option" where
  "env_var env store key =
     (case env key of
        Present value \<Rightarrow> Some value
      | NotUnicode \<Rightarrow> None
      | NotPresent \<Rightarrow> Option.bind store (\<lambda>m. m key))"

section \<open>What the parser reads back\<close>

lemma butlast_snoc_lines:
  "str_lines (concat (map (\<lambda>l. l @ [CHR 0x0A]) ls)) = map strip_cr ls"
  if "\<forall>l \<in> set ls. CHR 0x0A \<notin> set l"
proof -
  have "concat (map (\<lambda>l. l @ [CHR 0x0A]) ls) = join [CHR 0x0A] (ls @ [[]])"
    by (induction ls rule: induct_list012) (simp_all add: join_Cons)
  moreover have "split_char CHR 0x0A \<dots> = ls @ [[]]"
    using that by (intro split_char_join) auto
  ultimately show ?thesis by (simp add: str_lines_def)
qed

text \<open>A key of an assignment, and the line that assigns a value to it, in double quotes.\<close>

definition plain_key :: "string \<Rightarrow> bool" where
  "plain_key k \<longleftrightarrow> k \<noteq> [] \<and> hd k \<noteq> CHR ''#'' \<and> list_all printable k \<and> CHR ''='' \<notin> set k"

definition assignment :: "string \<times> string \<Rightarrow> string" where
  "assignment kv = fst kv @ ''='' @ [CHR 0x22] @ snd kv @ [CHR 0x22]"

lemma trim_plain_key [simp]: "plain_key k \<Longrightarrow> trim k = k"
  by (rule trim_printable) (auto simp: plain_key_def list_all_iff)

lemma plain_key_chars:
  "plain_key k \<Longrightarrow> CHR '' '' \<notin> set k"
  "plain_key k \<Longrightarrow> CHR ''='' \<notin> set k"
  by (auto simp: plain_key_def list_all_iff printable_def)

lemma no_export_prefix:
  assumes "CHR '' '' \<notin> set k" and "CHR ''='' \<notin> set k"
  shows "strip_prefix ''export '' (k @ CHR ''='' # t) = None"
proof (rule ccontr)
  assume "strip_prefix ''export '' (k @ CHR ''='' # t) \<noteq> None"
  then obtain r where "k @ CHR ''='' # t = ''export'' @ CHR '' '' # r"
    by (auto simp: strip_prefix_Some_iff)
  then have "takeWhile (\<lambda>c. c \<noteq> CHR ''='') (k @ CHR ''='' # t) =
      takeWhile (\<lambda>c. c \<noteq> CHR ''='') (''export'' @ CHR '' '' # r)" by (rule arg_cong)
  moreover have "takeWhile (\<lambda>c. c \<noteq> CHR ''='') (k @ CHR ''='' # t) = k"
    using assms(2) by (subst takeWhile_append2) auto
  ultimately show False using assms(1) by simp
qed

lemma unquote_quoted: "unquote (CHR 0x22 # v @ [CHR 0x22]) = v"
  by (simp add: unquote_def quoted_by_def slice_def)

lemma parse_assignment:
  assumes "plain_key k"
  shows "parse_line (assignment (k, v)) = Some (k, v)"
proof -
  let ?quoted = "CHR 0x22 # v @ [CHR 0x22]"
  have k: "k \<noteq> []" "hd k \<noteq> CHR ''#''" "printable (hd k)"
    using assms by (auto simp: plain_key_def list_all_iff)
  have line: "assignment (k, v) = k @ CHR ''='' # ?quoted" by (simp add: assignment_def)
  have quoted: "trim ?quoted = ?quoted" by (rule trim_printable) (simp_all add: printable_def)
  have "trim (assignment (k, v)) = assignment (k, v)"
    unfolding line using k by (intro trim_printable) (simp_all add: printable_def)
  then show ?thesis
    using k assms no_export_prefix [OF plain_key_chars [OF assms]]
      split_once_append [OF plain_key_chars(2) [OF assms]]
    by (simp add: parse_line_def Let_def line quoted unquote_quoted del: append_Cons)
qed

end
