(* ===== verification/Apns.thy ===== *)
theory Apns
  imports Service_Types
begin

text \<open>
  The push notification provider, \<open>issuer-service/src/apns.rs\<close>: its configuration, the provider
  token, the request that sends a notification and the alert it carries. The file system, the reader
  of a PEM key, the P-256 signing operation and the HTTP client are arguments.
\<close>

record 'k apns_config =
  ap_team_id :: string
  ap_key_id :: string
  ap_topic :: string
  ap_host :: string
  ap_signing_key :: 'k

definition apns_host :: "string option \<Rightarrow> string" where
  "apns_host environment =
     (if environment = Some ''sandbox'' \<or> environment = Some ''development''
      then ''api.sandbox.push.apple.com'' else ''api.push.apple.com'')"

definition set_var :: "(string \<Rightarrow> string option) \<Rightarrow> string \<Rightarrow> string option" where
  "set_var var key = (case var key of Some v \<Rightarrow> if v \<noteq> [] then Some v else None | None \<Rightarrow> None)"

definition apns_from_env ::
  "(string \<Rightarrow> string option) \<Rightarrow> (string \<Rightarrow> string option) \<Rightarrow> (string \<Rightarrow> 'k option) \<Rightarrow>
     'k apns_config option" where
  "apns_from_env var read_to_string from_pkcs8_pem =
     Option.bind (set_var var ''APNS_TEAM_ID'') (\<lambda>team_id.
     Option.bind (set_var var ''APNS_KEY_ID'') (\<lambda>key_id.
     Option.bind (set_var var ''APNS_TOPIC'') (\<lambda>topic.
     Option.bind (set_var var ''APNS_KEY_P8_PATH'') (\<lambda>path.
     Option.bind (read_to_string path) (\<lambda>pem.
     Option.bind (from_pkcs8_pem pem) (\<lambda>signing_key.
       Some \<lparr>ap_team_id = team_id, ap_key_id = key_id, ap_topic = topic,
             ap_host = apns_host (var ''APNS_ENVIRONMENT''), ap_signing_key = signing_key\<rparr>))))))"

definition provider_header :: "'k apns_config \<Rightarrow> json" where
  "provider_header cfg = JObj
     [(''alg'', JStr ''ES256''), (''kid'', JStr (ap_key_id cfg)), (''typ'', JStr ''JWT'')]"

definition provider_claims :: "'k apns_config \<Rightarrow> u64 \<Rightarrow> json" where
  "provider_claims cfg now_unix = JObj
     [(''iat'', JNat now_unix), (''iss'', JStr (ap_team_id cfg))]"

definition provider_token ::
  "codec_lib \<Rightarrow> serde_lib \<Rightarrow> ('k \<Rightarrow> bytes \<Rightarrow> bytes) \<Rightarrow> 'k apns_config \<Rightarrow> u64 \<Rightarrow> string" where
  "provider_token c s sign_with cfg now_unix =
     (let signing_input = b64url_encode c (json_to_vec s (provider_header cfg)) @ ''.'' @
            b64url_encode c (json_to_vec s (provider_claims cfg now_unix));
          signature = sign_with (ap_signing_key cfg) (as_bytes signing_input)
      in signing_input @ ''.'' @ b64url_encode c signature)"

record apns_request =
  aq_url :: string
  aq_authorization :: string
  aq_topic :: string
  aq_push_type :: string
  aq_body :: json

record apns_answer =
  aa_success :: bool
  aa_status :: string
  aa_text :: "string option"

definition send_push ::
  "codec_lib \<Rightarrow> serde_lib \<Rightarrow> ('k \<Rightarrow> bytes \<Rightarrow> bytes) \<Rightarrow> (apns_request \<Rightarrow> string + apns_answer) \<Rightarrow>
     'k apns_config \<Rightarrow> string \<Rightarrow> json \<Rightarrow> u64 \<Rightarrow> string + unit" where
  "send_push c s sign_with http_post cfg device_token push_payload now_unix =
     and_then (http_post
       \<lparr>aq_url = ''https://'' @ ap_host cfg @ ''/3/device/'' @ device_token,
        aq_authorization = ''bearer '' @ provider_token c s sign_with cfg now_unix,
        aq_topic = ap_topic cfg, aq_push_type = ''alert'', aq_body = push_payload\<rparr>) (\<lambda>answer.
     if aa_success answer then Inr ()
     else Inl (''APNs returned '' @ aa_status answer @ '': '' @
       (case aa_text answer of Some text \<Rightarrow> text | None \<Rightarrow> [])))"

definition alert_payload :: "string \<Rightarrow> string \<Rightarrow> json" where
  "alert_payload title body = JObj
     [(''aps'', JObj [(''alert'', JObj [(''body'', JStr body), (''title'', JStr title)]),
        (''sound'', JStr ''default'')])]"

text \<open>
  The notification a finished capture sends when the session has a device token and the provider is
  configured; the clock reads 0 before the epoch. Its result is only logged.
\<close>

definition push_issued ::
  "codec_lib \<Rightarrow> serde_lib \<Rightarrow> ('k \<Rightarrow> bytes \<Rightarrow> bytes) \<Rightarrow> (apns_request \<Rightarrow> string + apns_answer) \<Rightarrow>
     'k apns_config option \<Rightarrow> string option \<Rightarrow> u64 option \<Rightarrow> (string + unit) option" where
  "push_issued c s sign_with http_post apns notify_token clk =
     Option.bind apns (\<lambda>cfg. Option.bind notify_token (\<lambda>device_token.
       Some (send_push c s sign_with http_post cfg device_token
         (alert_payload ''Your document is ready'' ''Your PID has been issued to your wallet.'')
         (case clk of Some now \<Rightarrow> now | None \<Rightarrow> 0))))"

end
