(* ===== verification/Certificates.thy ===== *)
theory Certificates
  imports Keychain_Signer
begin

text \<open>
  The development certificates of \<open>issuer-service/src/signer.rs\<close>: the self-signed certificate of a
  document signer, and a chain of a certificate authority and a leaf, each with a key in the Keychain. The X.509 encoder \<open>rcgen\<close> is a package; what the code gives
  it is the parameters of a certificate and a remote key pair, which signs in the Keychain.
\<close>

datatype key_usage = KeyCertSign | CrlSign | DigitalSignature

record certificate_params =
  ct_common_name :: string
  ct_is_ca :: bool
  ct_key_usages :: "key_usage list"
  ct_san_uris :: "string list"
  ct_serial_number :: bytes

text \<open>\<open>KeychainRemote\<close> with its implementation of \<open>RemoteKeyPair\<close>; its algorithm is a constant.\<close>

record remote_key_pair =
  rk_public_key :: bytes
  rk_sign :: "bytes \<Rightarrow> string + bytes"

text \<open>
  \<open>KeyPair::from_remote\<close>, \<open>CertificateParams::new\<close> on no alternative names, \<open>self_signed\<close>,
  \<open>signed_by\<close> (the leaf's parameters and key, the authority's parameters, certificate and key) and
  \<open>Ia5String::try_from\<close>; an error is its text. A certificate is its DER encoding.
\<close>

record rcgen_lib =
  from_remote :: "remote_key_pair \<Rightarrow> string + remote_key_pair"
  params_new :: "string + certificate_params"
  self_signed :: "certificate_params \<Rightarrow> remote_key_pair \<Rightarrow> string + bytes"
  signed_by :: "certificate_params \<Rightarrow> remote_key_pair \<Rightarrow> certificate_params \<Rightarrow> bytes \<Rightarrow>
    remote_key_pair \<Rightarrow> string + bytes"
  ia5_string :: "string \<Rightarrow> string + string"

definition keychain_remote ::
  "('w, 'h) keychain_lib \<Rightarrow> 'h keychain_signer \<Rightarrow> remote_key_pair" where
  "keychain_remote kc signer =
     \<lparr>rk_public_key = signer_public_key signer,
      rk_sign = (\<lambda>message. case sign_der kc signer message of
        Inr der \<Rightarrow> Inr der | Inl _ \<Rightarrow> Inl ''RingUnspecified'')\<rparr>"

definition certificate_error :: "string + 'a \<Rightarrow> signer_error + 'a" where
  "certificate_error r = (case r of Inr x \<Rightarrow> Inr x | Inl message \<Rightarrow> Inl (Certificate message))"

text \<open>
  The certificate that \<open>x5chain\<close> of an mdoc carries; \<open>sg_certificate\<close> of the encoders is its result.
\<close>

definition signer_certificate ::
  "codec_lib \<Rightarrow> ('w, 'h) keychain_lib \<Rightarrow> rcgen_lib \<Rightarrow> string \<Rightarrow> 'h keychain_signer \<Rightarrow>
     signer_error + bytes" where
  "signer_certificate c kc rc label signer =
     and_then (certificate_error (from_remote rc (keychain_remote kc signer))) (\<lambda>key_pair.
     and_then (certificate_error (params_new rc)) (\<lambda>p.
     let p = p\<lparr>ct_common_name := label @ '' development signer'', ct_is_ca := False,
               ct_key_usages := [DigitalSignature],
               ct_serial_number := slice 0 16 (sha256 c (as_bytes label))\<rparr> in
     certificate_error (self_signed rc p key_pair)))"

definition development_certificate_der ::
  "codec_lib \<Rightarrow> ('w, 'h) keychain_lib \<Rightarrow> rcgen_lib \<Rightarrow> string \<Rightarrow> 'w \<Rightarrow> (signer_error + bytes) \<times> 'w" where
  "development_certificate_der c kc rc label w =
     (case keychain_find_or_create c kc label w of
        (Inl e, w1) \<Rightarrow> (Inl e, w1)
      | (Inr signer, w1) \<Rightarrow> (signer_certificate c kc rc label signer, w1))"

definition ca_certificate ::
  "codec_lib \<Rightarrow> ('w, 'h) keychain_lib \<Rightarrow> rcgen_lib \<Rightarrow> string \<Rightarrow> 'h keychain_signer \<Rightarrow>
     signer_error + certificate_params \<times> bytes \<times> remote_key_pair" where
  "ca_certificate c kc rc ca_label ca_signer =
     and_then (certificate_error (from_remote rc (keychain_remote kc ca_signer))) (\<lambda>key_pair.
     and_then (certificate_error (params_new rc)) (\<lambda>p.
     let p = p\<lparr>ct_common_name := ''Advatar development attestation CA'', ct_is_ca := True,
               ct_key_usages := [KeyCertSign, CrlSign],
               ct_serial_number := slice 0 16 (sha256 c (as_bytes ca_label))\<rparr> in
     and_then (certificate_error (self_signed rc p key_pair)) (\<lambda>ca. Inr (p, ca, key_pair))))"

definition leaf_certificate ::
  "codec_lib \<Rightarrow> ('w, 'h) keychain_lib \<Rightarrow> rcgen_lib \<Rightarrow> string \<Rightarrow> string \<Rightarrow>
     certificate_params \<times> bytes \<times> remote_key_pair \<Rightarrow> 'h keychain_signer \<Rightarrow> signer_error + bytes" where
  "leaf_certificate c kc rc leaf_label issuer_uri authority leaf_signer =
     (case authority of (ca_params, ca, ca_key_pair) \<Rightarrow>
      and_then (certificate_error (from_remote rc (keychain_remote kc leaf_signer))) (\<lambda>key_pair.
      and_then (certificate_error (params_new rc)) (\<lambda>p.
      and_then (certificate_error (ia5_string rc issuer_uri)) (\<lambda>uri.
      let p = p\<lparr>ct_common_name := ''TLSNotary evidence development signer'', ct_is_ca := False,
                ct_key_usages := [DigitalSignature], ct_san_uris := [uri],
                ct_serial_number := slice 0 16 (sha256 c (as_bytes (leaf_label @ '':'' @ issuer_uri)))\<rparr> in
      certificate_error (signed_by rc p key_pair ca_params ca ca_key_pair)))))"

definition development_certificate_chain ::
  "codec_lib \<Rightarrow> ('w, 'h) keychain_lib \<Rightarrow> rcgen_lib \<Rightarrow> string \<Rightarrow> string \<Rightarrow> string \<Rightarrow> 'w \<Rightarrow>
     (signer_error + bytes list) \<times> 'w" where
  "development_certificate_chain c kc rc ca_label leaf_label issuer_uri w =
     (case keychain_find_or_create c kc ca_label w of
        (Inl e, w1) \<Rightarrow> (Inl e, w1)
      | (Inr ca_signer, w1) \<Rightarrow>
          (case ca_certificate c kc rc ca_label ca_signer of
             Inl e \<Rightarrow> (Inl e, w1)
           | Inr authority \<Rightarrow>
               (case keychain_find_or_create c kc leaf_label w1 of
                  (Inl e, w2) \<Rightarrow> (Inl e, w2)
                | (Inr leaf_signer, w2) \<Rightarrow>
                    (and_then (leaf_certificate c kc rc leaf_label issuer_uri authority leaf_signer)
                       (\<lambda>leaf. Inr [leaf, fst (snd authority)]), w2))))"

lemma certificate_error_ok_iff [ok_iff]: "certificate_error r = Inr x \<longleftrightarrow> r = Inr x"
  by (auto simp: certificate_error_def split: sum.split)

text \<open>
  A chain is a leaf and its authority: the authority's certificate is self-signed over its own
  Keychain key and may only sign certificates; the leaf's is for the Keychain key of its label, is
  no authority, and names the issuer.
\<close>

lemma development_certificate_chain_ok:
  assumes "development_certificate_chain c kc rc ca_label leaf_label issuer_uri w = (Inr chain, w')"
  obtains ca_signer leaf_signer w1 p p' ca_key leaf_key leaf ca uri
  where "chain = [leaf, ca]"
    and "keychain_find_or_create c kc ca_label w = (Inr ca_signer, w1)"
    and "keychain_find_or_create c kc leaf_label w1 = (Inr leaf_signer, w')"
    and "from_remote rc (keychain_remote kc ca_signer) = Inr ca_key"
    and "from_remote rc (keychain_remote kc leaf_signer) = Inr leaf_key"
    and "self_signed rc p ca_key = Inr ca" and "ct_is_ca p"
    and "signed_by rc p' leaf_key p ca ca_key = Inr leaf" and "\<not> ct_is_ca p'"
    and "ct_key_usages p' = [DigitalSignature]" and "ct_san_uris p' = [uri]"
    and "ia5_string rc issuer_uri = Inr uri"
  using assms that
  by (auto simp: development_certificate_chain_def ca_certificate_def leaf_certificate_def ok_iff
      Let_def split: prod.splits sum.splits)

end
