(* ===== verification/Start_Up.thy ===== *)
theory Start_Up
  imports Metadata Env_File Apns Certificates
begin

text \<open>
  What \<open>main\<close> does before it serves: it reads the configuration, creates the signers in the Keychain
  and assembles \<open>AppState\<close>, and the origins the router lets through. \<open>Inl\<close> is a panic with its
  message, without the underlying error it quotes, which ends the process before it listens. \<open>var\<close> is the lookup of \<open>env_file\<close>.
\<close>

section \<open>Packages\<close>

text \<open>
  \<open>url_parse\<close> gives the normalised text of an absolute URL, \<open>url_origin\<close> its scheme and host,
  \<open>address_ok\<close> says whether a text is a socket address.
\<close>

record start_lib =
  hex_decode :: "string \<Rightarrow> bytes option"
  url_parse :: "string \<Rightarrow> string option"
  url_origin :: "string \<Rightarrow> (string \<times> string option) option"
  address_ok :: "string \<Rightarrow> bool"

section \<open>Trust anchors\<close>

definition flag_set :: "(string \<Rightarrow> string option) \<Rightarrow> string \<Rightarrow> bool" where
  "flag_set var key = (case var key of Some v \<Rightarrow> is_true_flag v | None \<Rightarrow> False)"

definition issuer_url :: "start_lib \<Rightarrow> (string \<Rightarrow> string option) \<Rightarrow> string + string" where
  "issuer_url sl var =
     ok_or ''ISSUER_URL must be an absolute URL''
       (url_parse sl (case var ''ISSUER_URL'' of Some u \<Rightarrow> u | None \<Rightarrow> ''http://127.0.0.1:8080''))"

text \<open>In demo mode the notary is one that was generated in memory.\<close>

definition trusted_notary ::
  "start_lib \<Rightarrow> ('k, 's) ecdsa_lib \<Rightarrow> demo_notary \<Rightarrow> (string \<Rightarrow> string option) \<Rightarrow>
     string + bytes \<times> demo_notary option" where
  "trusted_notary sl lib ephemeral var =
     (if flag_set var ''ENABLE_TLSN_DEMO'' then Inr (dn_public_key ephemeral, Some ephemeral)
      else
        and_then (ok_or
            ''TLSN_TRUSTED_NOTARY_KEY must contain the hex SEC1 P-256 notary public key''
          (var ''TLSN_TRUSTED_NOTARY_KEY'')) (\<lambda>hex_key.
        and_then (ok_or ''TLSN_TRUSTED_NOTARY_KEY must be valid hex'' (hex_decode sl hex_key)) (\<lambda>key.
        and_then (ok_or ''TLSN_TRUSTED_NOTARY_KEY must be a SEC1 P-256 public key''
          (key_from_sec1 lib key)) (\<lambda>_. Inr (key, None)))))"

definition trusted_notary_pq ::
  "start_lib \<Rightarrow> (string \<Rightarrow> string option) \<Rightarrow> string + bytes option" where
  "trusted_notary_pq sl var =
     (case var ''TLSN_TRUSTED_NOTARY_PQ_KEY'' of
        None \<Rightarrow> Inr None
      | Some hex_key \<Rightarrow>
          and_then (ok_or ''TLSN_TRUSTED_NOTARY_PQ_KEY must be valid hex'' (hex_decode sl hex_key))
            (\<lambda>key.
          if length key \<noteq> PUBLIC_KEY_BYTES
          then Inl ''TLSN_TRUSTED_NOTARY_PQ_KEY must be a raw ML-DSA-65 public key''
          else Inr (Some key)))"

definition trusted_emrtd_reader ::
  "start_lib \<Rightarrow> ('k, 's) ecdsa_lib \<Rightarrow> (string \<Rightarrow> string option) \<Rightarrow> string + bytes option" where
  "trusted_emrtd_reader sl lib var =
     (case var ''EMRTD_TRUSTED_READER_KEY'' of
        None \<Rightarrow> Inr None
      | Some hex_key \<Rightarrow>
          and_then (ok_or ''EMRTD_TRUSTED_READER_KEY must be valid hex'' (hex_decode sl hex_key))
            (\<lambda>key.
          and_then (ok_or ''EMRTD_TRUSTED_READER_KEY must be a SEC1 P-256 public key''
            (key_from_sec1 lib key)) (\<lambda>_. Inr (Some key))))"

definition listen_address :: "start_lib \<Rightarrow> (string \<Rightarrow> string option) \<Rightarrow> string + string" where
  "listen_address sl var =
     (let a = (case var ''LISTEN_ADDR'' of Some a \<Rightarrow> a | None \<Rightarrow> ''127.0.0.1:8080'') in
      if address_ok sl a then Inr a else Inl ''LISTEN_ADDR must be a socket address'')"

section \<open>Signers\<close>

definition profile_key_label :: "string \<Rightarrow> string + string" where
  "profile_key_label profile =
     map_err (\<lambda>_. ''only closed profile identifiers are used'')
       (ok_or () (map_option (\<lambda>l. ''dev.advatar.vcissuer.'' @ l) (key_label profile)))"

text \<open>The loop that fills \<open>credential_signers\<close>; the Keychain is threaded through.\<close>

fun create_signers ::
  "codec_lib \<Rightarrow> ('w, 'h) keychain_lib \<Rightarrow> string list \<Rightarrow> 'w \<Rightarrow>
     (string + (string \<times> 'h keychain_signer) list) \<times> 'w" where
  "create_signers c kc [] w = (Inr [], w)"
| "create_signers c kc (profile # profiles) w =
     (case profile_key_label profile of
        Inl e \<Rightarrow> (Inl e, w)
      | Inr label \<Rightarrow>
          (case keychain_find_or_create c kc label w of
             (Inl _, w1) \<Rightarrow> (Inl (''credential signing key '' @ label @ '' is unavailable''), w1)
           | (Inr signer, w1) \<Rightarrow>
               (case create_signers c kc profiles w1 of
                  (Inl e, w2) \<Rightarrow> (Inl e, w2)
                | (Inr signers, w2) \<Rightarrow> (Inr ((profile, signer) # signers), w2))))"

definition METADATA_KEY_LABEL :: string where
  "METADATA_KEY_LABEL = ''dev.advatar.vcissuer.metadata''"
definition HYBRID_KEY_LABEL :: string where
  "HYBRID_KEY_LABEL = ''dev.advatar.vcissuer.hybrid-pq.es256.v1''"
definition ATTESTATION_CA_LABEL :: string where
  "ATTESTATION_CA_LABEL = ''dev.advatar.vcissuer.development-attestation-ca''"

text \<open>The signers of the macOS build, in the order in which they are created.\<close>

record 'h signing_configuration =
  sc_credential_signers :: "string \<rightharpoonup> 'h keychain_signer"
  sc_chains :: "string \<rightharpoonup> bytes list"
  sc_hybrid :: "'h hybrid_signer option"
  sc_metadata :: "'h keychain_signer"

definition create_hybrid ::
  "codec_lib \<Rightarrow> aead_lib \<Rightarrow> mldsa_lib \<Rightarrow> ('w, 'h) keychain_lib \<Rightarrow> os_answers \<Rightarrow> bool \<Rightarrow> 'w \<Rightarrow>
     hybrid_store \<Rightarrow> (string + 'h hybrid_signer option) \<times> 'w \<times> hybrid_store" where
  "create_hybrid c aead ml kc os hybrid_on w store =
     (if \<not> hybrid_on then (Inr None, w, store)
      else
        (case hybrid_find_or_create c aead ml kc os HYBRID_KEY_LABEL w store of
           (Inl _, w1, store1) \<Rightarrow>
             (Inl ''experimental hybrid credential signer must be available'', w1, store1)
         | (Inr signer, w1, store1) \<Rightarrow> (Inr (Some signer), w1, store1)))"

definition create_chains ::
  "codec_lib \<Rightarrow> ('w, 'h) keychain_lib \<Rightarrow> rcgen_lib \<Rightarrow> string \<Rightarrow> 'w \<Rightarrow>
     (string + (string \<rightharpoonup> bytes list)) \<times> 'w" where
  "create_chains c kc rc issuer w =
     (case profile_key_label TLSN_EVIDENCE_SD_JWT of
        Inl e \<Rightarrow> (Inl e, w)
      | Inr label \<Rightarrow>
          (case development_certificate_chain c kc rc ATTESTATION_CA_LABEL label issuer w of
             (Inl _, w1) \<Rightarrow>
               (Inl ''TLSNotary development signing certificate chain must be available'', w1)
           | (Inr chain, w1) \<Rightarrow> (Inr [TLSN_EVIDENCE_SD_JWT \<mapsto> chain], w1)))"

definition create_all_signers ::
  "codec_lib \<Rightarrow> aead_lib \<Rightarrow> mldsa_lib \<Rightarrow> ('w, 'h) keychain_lib \<Rightarrow> os_answers \<Rightarrow> rcgen_lib \<Rightarrow> string \<Rightarrow>
     bool \<Rightarrow> 'w \<Rightarrow> hybrid_store \<Rightarrow> (string + 'h signing_configuration) \<times> 'w \<times> hybrid_store" where
  "create_all_signers c aead ml kc os rc issuer hybrid w store =
     (case create_signers c kc signer_profiles w of
        (Inl e, w1) \<Rightarrow> (Inl e, w1, store)
      | (Inr signers, w1) \<Rightarrow>
          (case create_chains c kc rc issuer w1 of
             (Inl e, w2) \<Rightarrow> (Inl e, w2, store)
           | (Inr development_chains, w2) \<Rightarrow>
               (case create_hybrid c aead ml kc os hybrid w2 store of
                  (Inl e, w3, store1) \<Rightarrow> (Inl e, w3, store1)
                | (Inr hybrid_signer, w3, store1) \<Rightarrow>
                    (case keychain_find_or_create c kc METADATA_KEY_LABEL w3 of
                       (Inl _, w4) \<Rightarrow>
                         (Inl ''metadata signing key must be available in macOS Keychain'', w4, store1)
                     | (Inr metadata_signer, w4) \<Rightarrow>
                         (Inr \<lparr>sc_credential_signers = map_of signers,
                               sc_chains = development_chains, sc_hybrid = hybrid_signer,
                               sc_metadata = metadata_signer\<rparr>, w4, store1)))))"

section \<open>The configuration\<close>

text \<open>
  What is read before any signer is made. \<open>apns_configured\<close> says whether \<open>ApnsConfig::from_env\<close>
  found a provider.
\<close>

definition read_configuration ::
  "start_lib \<Rightarrow> ('k, 's) ecdsa_lib \<Rightarrow> demo_notary \<Rightarrow> bool \<Rightarrow> bool \<Rightarrow> (string \<Rightarrow> string option) \<Rightarrow>
     string + 'h app_state \<times> string" where
  "read_configuration sl lib ephemeral macos apns_configured var =
     and_then (issuer_url sl var) (\<lambda>issuer.
     and_then (trusted_notary sl lib ephemeral var) (\<lambda>(notary_key, notary).
     and_then (trusted_notary_pq sl var) (\<lambda>pq_key.
     and_then (trusted_emrtd_reader sl lib var) (\<lambda>reader_key.
     and_then (listen_address sl var) (\<lambda>address.
       Inr (\<lparr>app_issuer = issuer, app_trusted_notary_key = notary_key,
             app_trusted_notary_pq_key = pq_key, app_tlsn_demo_notary = notary,
             app_trusted_emrtd_reader_key = reader_key,
             app_hybrid_pq_enabled = flag_set var ''ENABLE_EXPERIMENTAL_HYBRID_PQ'',
             app_iproov = iproov_from_env var,
             app_app_attest = app_attest_from_env (var ''APPLE_APP_ATTEST_APP_ID'')
               (var ''APP_ATTEST_ALLOW_DEVELOPMENT''),
             app_app_attest_store = (set_var var ''APP_ATTEST_STORE_PATH'' \<noteq> None),
             app_apns = apns_configured, app_target_macos = macos,
             app_credential_signers = Map.empty, app_hybrid_credential_signer = None\<rparr>,
            address))))))"

definition with_signers :: "'h app_state \<Rightarrow> 'h signing_configuration \<Rightarrow> 'h app_state" where
  "with_signers cfg sc = cfg\<lparr>app_credential_signers := sc_credential_signers sc,
     app_hybrid_credential_signer := sc_hybrid sc\<rparr>"

text \<open>
  The whole of \<open>main\<close> up to the listener: the state the handlers share, the signers that only the
  metadata uses, and the volatile state with the restored table.
\<close>

record 'h started =
  st_state :: "'h app_state"
  st_signing :: "'h signing_configuration option"
  st_volatile :: volatile_state
  st_address :: string

definition start_up ::
  "start_lib \<Rightarrow> ('k, 's) packages \<Rightarrow> ('w, 'h) signing_env \<Rightarrow> rcgen_lib \<Rightarrow> instances_lib \<Rightarrow>
     demo_notary \<Rightarrow> bool \<Rightarrow> bool \<Rightarrow> (string \<Rightarrow> string option) \<Rightarrow> attest_file \<Rightarrow> 'w \<Rightarrow>
     (string + 'h started) \<times> 'w \<times> hybrid_store" where
  "start_up sl pk env rc il ephemeral macos apns_configured var file w =
     (case read_configuration sl (ec pk) ephemeral macos apns_configured var of
        Inl e \<Rightarrow> (Inl e, w, sg_store env)
      | Inr (cfg, address) \<Rightarrow>
          (if \<not> macos
           then (Inr \<lparr>st_state = cfg, st_signing = None, st_volatile = initial_state il cfg file,
                      st_address = address\<rparr>, w, sg_store env)
           else
             (case create_all_signers (codec pk) (sg_aead env) (pq pk) (sg_keychain env) (sg_os env) rc
                 (app_issuer cfg) (app_hybrid_pq_enabled cfg) w (sg_store env) of
                (Inl e, w', store) \<Rightarrow> (Inl e, w', store)
              | (Inr sc, w', store) \<Rightarrow>
                  (Inr \<lparr>st_state = with_signers cfg sc, st_signing = Some sc,
                        st_volatile = initial_state il (with_signers cfg sc) file,
                        st_address = address\<rparr>, w', store))))"

text \<open>The association of the companion app; the handler reads its identifier on every request.\<close>

definition capture_site_association :: "(string \<Rightarrow> string option) \<Rightarrow> json" where
  "capture_site_association var = apple_app_site_association
     (case var ''PID_CAPTURE_APP_ID'' of
        Some app_id \<Rightarrow> app_id | None \<Rightarrow> ''L2AF8KFX35.eu.advatar.wallet.pidcapture'')"

section \<open>Origins\<close>

text \<open>
  The predicate of the CORS layer; \<open>header\<close> is the text of the header when it is visible ASCII.
\<close>

definition configured_origins :: "(string \<Rightarrow> string option) \<Rightarrow> string set" where
  "configured_origins var =
     set (filter (\<lambda>v. v \<noteq> []) (split_char CHR '','' (case var ''CORS_ORIGINS'' of
       Some v \<Rightarrow> v | None \<Rightarrow> [])))"

definition origin_allowed ::
  "start_lib \<Rightarrow> (string \<Rightarrow> string option) \<Rightarrow> string option \<Rightarrow> bool" where
  "origin_allowed sl var header =
     (case header of
        None \<Rightarrow> False
      | Some origin \<Rightarrow>
          origin \<in> configured_origins var \<or>
          (case url_origin sl origin of
             None \<Rightarrow> False
           | Some (scheme, host) \<Rightarrow>
               host \<in> {Some ''127.0.0.1'', Some ''localhost'', Some ''[::1]''} \<or>
               scheme = ''https'' \<and> (case host of
                 None \<Rightarrow> False | Some h \<Rightarrow> suffix ''.lovable.app'' h)))"

end
