(* ===== verification/Configuration_Properties.thy ===== *)
theory Configuration_Properties
  imports Start_Up Issuing_Properties
begin

text \<open>
  Configuration and publication: what the \<open>.env\<close> file can and cannot set, what a service that started
  is guaranteed to have, and that the documents it publishes agree with what it does.
\<close>

section \<open>The environment file\<close>

definition env_file_of :: "(string \<times> string) list \<Rightarrow> string" where
  "env_file_of kvs = concat (map (\<lambda>kv. assignment kv @ [CHR 0x0A]) kvs)"

definition assignable :: "string \<times> string \<Rightarrow> bool" where
  "assignable kv \<longleftrightarrow> plain_key (fst kv) \<and> CHR 0x0A \<notin> set (snd kv)"

lemma assignment_line:
  assumes "assignable kv"
  shows "CHR 0x0A \<notin> set (assignment kv)" and "strip_cr (assignment kv) = assignment kv"
  using assms
  by (auto simp: assignable_def assignment_def plain_key_def list_all_iff printable_def strip_cr_def)

lemma parse_env_file_of:
  assumes "\<forall>kv \<in> set kvs. assignable kv"
  shows "parse_env (env_file_of kvs) = kvs"
proof -
  have "str_lines (env_file_of kvs) = map assignment kvs"
    using butlast_snoc_lines [of "map assignment kvs"] assignment_line assms
    by (simp add: env_file_of_def comp_def)
  moreover have "List.map_filter parse_line (map assignment kvs) = kvs"
    using assms
    by (induction kvs) (auto simp: map_filter_simps assignable_def parse_assignment)
  ultimately show ?thesis by (simp add: parse_env_def)
qed

text \<open>
  C37. A configuration key is looked up in the process environment first, and
  the file supplies a value only when the variable is absent there, not when it is empty or not
  UTF-8. The file is read as it is written: of a file of assignments with values in double quotes,
  whatever characters but a newline they hold, every key has the value assigned last, and the count
  that is logged is that of the different keys.
\<close>

theorem configuration_lookup:
  assumes "\<forall>kv \<in> set kvs. assignable kv" and "fs (dotenv_path env) = Some (env_file_of kvs)"
    and "env_init env fs None = (loaded, store)"
  shows "loaded = Some (dotenv_path env, card (set (map fst kvs))) \<and>
    env_var env store key =
      (case env key of
         Present v \<Rightarrow> Some v | NotUnicode \<Rightarrow> None | NotPresent \<Rightarrow> map_of (rev kvs) key)"
  using assms(2,3) parse_env_file_of [OF assms(1)]
  by (auto simp: env_init_def Let_def read_and_parse_def env_var_def set_once_def collect_map_def
      length_remdups_card_conv split: env_value.split)

definition demo_env_file :: string where
  \<open>demo_env_file = ''A="x y"'' @ [CHR 0x0A] @ ''A="z"'' @ [CHR 0x0A]\<close>

lemma configuration_lookup_witness:
  "\<exists>loaded store. env_init (\<lambda>k. NotPresent) [''.env'' \<mapsto> demo_env_file] None = (loaded, store) \<and>
     loaded = Some (''.env'', 1) \<and> env_var (\<lambda>k. NotPresent) store ''A'' = Some ''z''"
proof -
  let ?env = "(\<lambda>k. NotPresent) :: environment"
  let ?kvs = "[(''A'', ''x y''), (''A'', ''z'')]"
  obtain loaded store where init: "env_init ?env [''.env'' \<mapsto> demo_env_file] None = (loaded, store)"
    by fastforce
  have read: "env_file_of ?kvs = demo_env_file"
    by (simp add: env_file_of_def assignment_def demo_env_file_def)
  have "\<forall>kv \<in> set ?kvs. assignable kv" by (simp add: assignable_def plain_key_def printable_def)
  moreover have path: "dotenv_path ?env = ''.env''" by (simp add: dotenv_path_def)
  ultimately have "loaded = Some (''.env'', card (set (map fst ?kvs)))"
    "env_var ?env store ''A'' = Some ''z''"
    using configuration_lookup [OF _ _ init, of ?kvs "''A''"] read by simp_all
  then show ?thesis using init by auto
qed

section \<open>Start-up\<close>

lemma create_signers_Cons_ok:
  assumes "create_signers c kc (p # ps) w = (Inr signers, w')"
  obtains label s w1 rest where "keychain_find_or_create c kc label w = (Inr s, w1)"
    and "create_signers c kc ps w1 = (Inr rest, w')" and "signers = (p, s) # rest"
  using assms by (auto split: sum.splits prod.splits)

lemma create_signers_ok:
  "create_signers c kc ps w = (Inr signers, w') \<Longrightarrow>
   map fst signers = ps \<and> (\<forall>s \<in> set (map snd signers). keychain_signer_ok c kc s)"
proof (induction ps arbitrary: w signers)
  case (Cons p ps)
  from Cons.prems show ?case
  proof (rule create_signers_Cons_ok)
    fix label s w1 rest
    assume "keychain_find_or_create c kc label w = (Inr s, w1)"
      and "create_signers c kc ps w1 = (Inr rest, w')" and "signers = (p, s) # rest"
    with Cons.IH keychain_find_or_create_ok show ?thesis by fastforce
  qed
qed simp

lemma create_all_signers_ok:
  assumes "create_all_signers c aead ml kc os rc issuer hybrid w st = (Inr sc, w', st')"
  shows "(\<forall>p. sc_credential_signers sc p \<noteq> None \<longleftrightarrow> p \<in> set signer_profiles) \<and>
    (\<forall>p s. sc_credential_signers sc p = Some s \<longrightarrow> keychain_signer_ok c kc s) \<and>
    keychain_signer_ok c kc (sc_metadata sc) \<and>
    (sc_hybrid sc \<noteq> None \<longleftrightarrow> hybrid) \<and> dom (sc_chains sc) = {TLSN_EVIDENCE_SD_JWT}"
proof -
  from assms obtain signers w1 where
    signers: "create_signers c kc signer_profiles w = (Inr signers, w1)"
      "sc_credential_signers sc = map_of signers"
    by (auto simp: create_all_signers_def split: sum.splits prod.splits)
  have "map_of signers p \<noteq> None \<longleftrightarrow> p \<in> set signer_profiles" for p
    using create_signers_ok [OF signers(1)] by (metis map_of_eq_None_iff list.set_map)
  moreover have "keychain_signer_ok c kc s" if "map_of signers p = Some s" for p s
    using create_signers_ok [OF signers(1)] map_of_SomeD [OF that] by force
  moreover have "keychain_signer_ok c kc (sc_metadata sc)"
    using assms by (auto simp: create_all_signers_def split: sum.splits prod.splits
        dest: keychain_find_or_create_ok)
  moreover have "sc_hybrid sc \<noteq> None \<longleftrightarrow> hybrid"
    using assms by (auto simp: create_all_signers_def create_hybrid_def split: sum.splits prod.splits
        if_splits)
  moreover have "dom (sc_chains sc) = {TLSN_EVIDENCE_SD_JWT}"
    using assms by (auto simp: create_all_signers_def create_chains_def split: sum.splits prod.splits
        if_splits)
  ultimately show ?thesis using signers(2) by simp
qed

text \<open>The public key a hexadecimal variable must hold.\<close>

lemma trusted_notary_ok:
  "trusted_notary sl lib ephemeral var = Inr (key, notary) \<Longrightarrow>
   if flag_set var ''ENABLE_TLSN_DEMO''
   then key = dn_public_key ephemeral \<and> notary = Some ephemeral
   else notary = None \<and> key_from_sec1 lib key \<noteq> None"
  by (auto simp: trusted_notary_def ok_iff split: if_splits)

lemma trusted_notary_pq_ok:
  "trusted_notary_pq sl var = Inr (Some key) \<Longrightarrow> length key = PUBLIC_KEY_BYTES"
  by (auto simp: trusted_notary_pq_def ok_iff split: option.splits if_splits)

lemma trusted_emrtd_reader_ok:
  "trusted_emrtd_reader sl lib var = Inr (Some key) \<Longrightarrow> key_from_sec1 lib key \<noteq> None"
  by (auto simp: trusted_emrtd_reader_def ok_iff split: option.splits)

text \<open>
  C33. A service that came up on macOS has a signer for exactly the
  closed set of profiles, each a P-256 key of the Keychain named by its thumbprint, a hybrid signer
  exactly when the experiment is enabled, and one certificate chain, for web evidence; its trust
  anchors are usable: the notary key is a P-256 key unless the demo notary is on, the post-quantum
  key has the length of ML-DSA-65 and the reader key is a P-256 key; and the demo endpoint is
  available exactly when the demo flag is set. The volatile state it serves with is empty: no offer,
  pushed request, code, token, nonce, replay identifier, web session, capture session, challenge or
  push token exists yet; only the table of App Attest instances is there already, as the file has it
  when a store is configured.
\<close>

theorem started_service_is_configured:
  assumes "start_up sl pk env rc il ephemeral True apns_configured var file w =
      (Inr started, w', store)"
  shows "signers_configured (st_state started) \<and>
    dom (app_credential_signers (st_state started)) = set signer_profiles \<and>
    (\<forall>p s. app_credential_signers (st_state started) p = Some s \<longrightarrow>
       keychain_signer_ok (codec pk) (sg_keychain env) s) \<and>
    (app_hybrid_credential_signer (st_state started) \<noteq> None \<longleftrightarrow>
       flag_set var ''ENABLE_EXPERIMENTAL_HYBRID_PQ'') \<and>
    (app_tlsn_demo_notary (st_state started) \<noteq> None \<longleftrightarrow> flag_set var ''ENABLE_TLSN_DEMO'') \<and>
    (app_tlsn_demo_notary (st_state started) = None \<longrightarrow>
       key_from_sec1 (ec pk) (app_trusted_notary_key (st_state started)) \<noteq> None) \<and>
    (\<forall>k. app_trusted_notary_pq_key (st_state started) = Some k \<longrightarrow> length k = PUBLIC_KEY_BYTES) \<and>
    (\<forall>k. app_trusted_emrtd_reader_key (st_state started) = Some k \<longrightarrow>
       key_from_sec1 (ec pk) k \<noteq> None) \<and>
    (\<exists>sc. st_signing started = Some sc \<and> dom (sc_chains sc) = {TLSN_EVIDENCE_SD_JWT}) \<and>
    st_volatile started =
      \<lparr>pushed = Map.empty, codes = Map.empty, tokens = Map.empty, nonces = Map.empty,
       dpop_jtis = {}, binding_jtis = {}, offers = Map.empty, tlsn_sessions = {},
       capture_sessions = Map.empty, app_attest_challenges = Map.empty,
       app_attest_instances = (if app_app_attest_store (st_state started)
         then load_instances il file else Map.empty),
       apns_tokens = Map.empty, attest_store = file\<rparr>"
proof -
  from assms obtain cfg address sc where
    read: "read_configuration sl (ec pk) ephemeral True apns_configured var = Inr (cfg, address)"
    and sc: "create_all_signers (codec pk) (sg_aead env) (pq pk) (sg_keychain env) (sg_os env) rc
      (app_issuer cfg) (app_hybrid_pq_enabled cfg) w (sg_store env) = (Inr sc, w', store)"
    and started: "started = \<lparr>st_state = with_signers cfg sc, st_signing = Some sc,
      st_volatile = initial_state il (with_signers cfg sc) file, st_address = address\<rparr>"
    by (auto simp: start_up_def split: sum.splits prod.splits)
  from read obtain issuer notary_key notary where
    notary: "trusted_notary sl (ec pk) ephemeral var = Inr (notary_key, notary)"
      "app_trusted_notary_key cfg = notary_key" "app_tlsn_demo_notary cfg = notary"
    and keys: "trusted_notary_pq sl var = Inr (app_trusted_notary_pq_key cfg)"
      "trusted_emrtd_reader sl (ec pk) var = Inr (app_trusted_emrtd_reader_key cfg)"
    and flag: "app_hybrid_pq_enabled cfg = flag_set var ''ENABLE_EXPERIMENTAL_HYBRID_PQ''"
    by (auto simp: read_configuration_def ok_iff split: prod.splits)
  show ?thesis
    using create_all_signers_ok [OF sc] trusted_notary_ok [OF notary(1)] notary(2,3) keys flag
    by (auto simp: started with_signers_def signers_configured_def initial_state_def
        trusted_notary_pq_ok trusted_emrtd_reader_ok split: if_splits)
qed

definition demo_start :: start_lib where
  "demo_start = \<lparr>hex_decode = (\<lambda>s. Some (as_bytes s)), url_parse = Some,
     url_origin = (\<lambda>u. None), address_ok = (\<lambda>a. True)\<rparr>"

definition demo_rcgen :: rcgen_lib where
  "demo_rcgen = \<lparr>from_remote = Inr, params_new = Inr \<lparr>ct_common_name = [], ct_is_ca = False,
       ct_key_usages = [], ct_san_uris = [], ct_serial_number = []\<rparr>,
     self_signed = (\<lambda>p k. Inr []), signed_by = (\<lambda>p k p' c k'. Inr []), ia5_string = Inr\<rparr>"

definition demo_env :: "string \<Rightarrow> string option" where
  "demo_env = [''ENABLE_TLSN_DEMO'' \<mapsto> ''1'']"

text \<open>In the Keychain of the examples every label has the same key.\<close>

lemma toy_find_or_create:
  "keychain_find_or_create unary_codec toy_keychain label w = (Inr issuing_signer, w)"
  by (simp add: keychain_find_or_create_def find_private_key_def from_key_def toy_keychain_def
      issuing_signer_def unary_codec_def Let_def)

lemma toy_create_signers:
  "list_all (\<lambda>p. key_label p \<noteq> None) ps \<Longrightarrow>
   create_signers unary_codec toy_keychain ps () =
     (Inr (map (\<lambda>p. (p, issuing_signer)) ps), ())"
  by (induction ps) (auto simp: profile_key_label_def map_err_def toy_find_or_create)

lemma signer_has_label: "p \<in> set signer_profiles \<Longrightarrow> \<exists>l. key_label p = Some l"
  by (auto simp: signer_profiles_def key_label_def)

definition demo_notary_key :: demo_notary where
  "demo_notary_key = \<lparr>dn_public_key = [4], dn_sign = (\<lambda>m. replicate 64 (checksum [4] m))\<rparr>"

lemma demo_env_lookup: "demo_env k = (if k = ''ENABLE_TLSN_DEMO'' then Some ''1'' else None)"
  by (simp add: demo_env_def)

lemma demo_reads:
  "\<exists>cfg address. read_configuration demo_start toy_ec demo_notary_key True False demo_env =
     Inr (cfg, address) \<and> app_issuer cfg = ''http://127.0.0.1:8080'' \<and>
     app_trusted_notary_key cfg = [4] \<and> \<not> app_hybrid_pq_enabled cfg"
  by (simp add: read_configuration_def issuer_url_def trusted_notary_def trusted_notary_pq_def
      trusted_emrtd_reader_def listen_address_def demo_env_lookup flag_set_def is_true_flag_def
      demo_start_def demo_notary_key_def)

lemma demo_chain:
  "\<exists>chain. create_chains unary_codec toy_keychain demo_rcgen issuer () = (Inr chain, ())"
proof -
  have "profile_key_label TLSN_EVIDENCE_SD_JWT = Inr ''dev.advatar.vcissuer.tlsn-evidence-sd-jwt''"
    by (simp add: profile_key_label_def key_label_def map_err_def profile_defs)
  then show ?thesis
    by (simp add: create_chains_def development_certificate_chain_def toy_find_or_create
        ca_certificate_def leaf_certificate_def demo_rcgen_def certificate_error_def Let_def)
qed

lemma demo_starts:
  "\<exists>started. start_up demo_start issuing_packages demo_signing demo_rcgen demo_instances_lib
     demo_notary_key True False demo_env demo_file () = (Inr started, (), empty_store) \<and>
     app_trusted_notary_key (st_state started) = [4]"
proof -
  obtain cfg :: "unit app_state" and address where
    read: "read_configuration demo_start toy_ec demo_notary_key True False demo_env =
        Inr (cfg, address)" "app_issuer cfg = ''http://127.0.0.1:8080''"
      "app_trusted_notary_key cfg = [4]" "\<not> app_hybrid_pq_enabled cfg"
    using demo_reads by blast
  have "list_all (\<lambda>p. key_label p \<noteq> None) signer_profiles"
    by (auto simp: list_all_iff signer_has_label)
  note signers = toy_create_signers [OF this]
  obtain chain where chain: "create_chains unary_codec toy_keychain demo_rcgen
      ''http://127.0.0.1:8080'' () = (Inr chain, ())" using demo_chain by blast
  have env: "sg_keychain demo_signing = toy_keychain" "sg_store demo_signing = empty_store"
    "ec issuing_packages = toy_ec" "codec issuing_packages = unary_codec"
    by (simp_all add: demo_signing_def issuing_packages_def)
  show ?thesis
    unfolding start_up_def env read(1)
    by (simp add: read(2-4) create_all_signers_def signers chain create_hybrid_def
        toy_find_or_create with_signers_def)
qed

lemma started_service_is_configured_witness:
  "\<exists>started. start_up demo_start issuing_packages demo_signing demo_rcgen demo_instances_lib
     demo_notary_key True False demo_env demo_file () = (Inr started, (), empty_store) \<and>
     app_trusted_notary_key (st_state started) = [4] \<and> signers_configured (st_state started)"
proof -
  obtain started where started: "start_up demo_start issuing_packages demo_signing demo_rcgen
      demo_instances_lib demo_notary_key True False demo_env demo_file () =
        (Inr started, (), empty_store)" "app_trusted_notary_key (st_state started) = [4]"
    using demo_starts by blast
  have "signers_configured (st_state started)"
    using started_service_is_configured [OF started(1)] by (rule conjunct1)
  with started show ?thesis by blast
qed

end
