(* ===== verification/Round_Trips.thy ===== *)
theory Round_Trips
  imports Issuing_Properties Evidence_Properties Configuration_Properties
begin

text \<open>
  Where one part of the service reads what another part wrote: the PID it issues, presented back to
  it as the evidence for a PID-bound credential, and the artifact its own demo notary signs.
\<close>

section \<open>Reading back disclosures\<close>

text \<open>The loop over the disclosures does not look at their salts.\<close>

definition record_claim :: "string \<times> json \<Rightarrow> pid_disclosures \<Rightarrow> pid_disclosures" where
  "record_claim claim = record_disclosure [JNull, JStr (fst claim), snd claim]"

lemma read_disclosures_disclosed:
  "list_all2 (discloses pk) ds claims \<Longrightarrow> \<forall>d \<in> set ds. hash_b64 (codec pk) d \<in> set allowed \<Longrightarrow>
   read_disclosures pk allowed ds acc = Inr (fold record_claim claims acc)"
proof (induction arbitrary: acc rule: list_all2_induct)
  case (Cons d ds claim claims)
  then obtain b salt where "b64url_decode (codec pk) d = Some b"
    "json_from_slice (serde pk) b = Some (JArr [JStr salt, JStr (fst claim), snd claim])"
    by (auto simp: discloses_def)
  moreover have "record_disclosure [JStr salt, JStr (fst claim), snd claim] acc =
      record_claim claim acc"
    by (simp add: record_claim_def record_disclosure_def)
  ultimately show ?case using Cons by simp
qed simp

lemma demo_claims_are_the_education_record:
  "fold record_claim demo_pid_claims no_disclosures =
     \<lparr>found_family_name = Some ''Mustermann'', found_given_name = Some ''Erika'',
      found_birthdate = Some ''1990-01-01''\<rparr>"
  by (simp add: demo_pid_claims_def record_claim_def record_disclosure_def no_disclosures_def)

lemma filter_map_JStr [simp]: "filter_map as_str (map (\<lambda>d. JStr (f d)) ds) = map f ds"
  by (induction ds) auto

lemma join_snoc: "ps \<noteq> [] \<Longrightarrow> join sep (ps @ [q]) = join sep ps @ sep @ q"
  by (induction ps rule: induct_list012) simp_all

section \<open>The presentation of an issued PID\<close>

text \<open>The issued form ends in a separator, so a proof appended to it is the last part.\<close>

lemma presentation_parts:
  assumes "split_char CHR ''~'' cred = jwt # ds @ [[]]" and "CHR ''~'' \<notin> set proof"
    and "proof \<noteq> []" and "\<forall>d \<in> set ds. d \<noteq> []"
  shows "pid_vp_parts (cred @ proof) = (jwt, ds @ [proof])"
proof -
  have clean: "\<forall>p \<in> set (jwt # ds @ [[]]). CHR ''~'' \<notin> set p"
    using split_by_no_sep [where p = "\<lambda>x. x = CHR ''~''" and xs = cred] assms(1)
    unfolding split_char_def by metis
  have "cred @ proof = join ''~'' ((jwt # ds) @ [[]]) @ proof"
    using join_split_char [of "CHR ''~''" cred] assms(1) by simp
  also have "\<dots> = join ''~'' (jwt # ds @ [proof])"
    using join_snoc [of "jwt # ds" "''~''"] by simp
  finally have "cred @ proof = join ''~'' (jwt # ds @ [proof])" .
  then have "split_char CHR ''~'' (cred @ proof) = jwt # ds @ [proof]"
    using clean assms(2) by (simp add: split_char_join)
  then show ?thesis
    using assms(3,4) by (simp add: pid_vp_parts_def)
qed

text \<open>
  A proof by which the holder of the key in a PID binds that PID, the nonce and the thumbprint of a
  new holder key for the issuer: a compact JWS by that key over such claims.
\<close>

definition binds_pid ::
  "('k, 's) packages \<Rightarrow> string \<Rightarrow> 'k \<Rightarrow> binding_proof_claims \<Rightarrow> string \<Rightarrow> string \<Rightarrow> string \<Rightarrow> string \<Rightarrow>
     u64 \<Rightarrow> bool" where
  "binds_pid pk proof holder_key claims pid issuer nonce jkt now \<longleftrightarrow>
     jws_signed_by pk proof holder_key \<and>
     Option.bind (jws_payload pk proof) (binding_claims_from_value (serde pk)) = Some claims \<and>
     binding_claims_ok pk claims issuer nonce jkt pid now \<and>
     CHR ''~'' \<notin> set proof \<and> length proof \<le> 8192"

lemma binds_pid_nonempty: "binds_pid pk proof k claims pid issuer nonce jkt now \<Longrightarrow> proof \<noteq> []"
  by (auto simp: binds_pid_def jws_signed_by_def Let_def)

text \<open>No encoding of a value is the empty text.\<close>

definition texts_nonempty :: "('k, 's) packages \<Rightarrow> bool" where
  "texts_nonempty pk \<longleftrightarrow> (\<forall>j. json_to_vec (serde pk) j \<noteq> []) \<and>
     (\<forall>b. b \<noteq> [] \<longrightarrow> b64url_encode (codec pk) b \<noteq> [])"

lemma sd_disclosures_nonempty:
  "texts_nonempty pk \<Longrightarrow> d \<in> set (sd_disclosures pk rnd claims) \<Longrightarrow> d \<noteq> []"
  by (auto simp: sd_disclosures_def sd_disclosure_def texts_nonempty_def)

lemma verifying_key_and_jwk_ok_value:
  "jwk_key pk jwk key \<Longrightarrow> verifying_key_and_jwk pk jwk code =
     Inr (key, jwk_thumbprint pk jwk, public_jwk_value jwk)"
  by (simp add: verifying_key_and_jwk_ok_iff)

text \<open>
  C19. The PID the service issues is evidence the service accepts.
  A wallet that appends a binding proof by the PID's holder key to the credential it was given, while
  that is valid and within the bounds on the size, is recognised as the subject of the education
  record, whatever the salts of the disclosures: the issuer's trust in its own PID is never lost on
  the way through the encoder, the presentation and the verification.
\<close>

theorem issued_pid_is_accepted_as_evidence:
  assumes "issue_sd_jwt pk env rnd signer issuer PID_SD_JWT holder_jwk issued None None = Inr cred"
    and "b64url_correct (codec pk)" and "json_correct (serde pk)" and "texts_nonempty pk"
    and "affine_is_sec1 (ec pk)" and "keychain_correct (sg_keychain env) (ec pk)"
    and "keychain_signer_ok (codec pk) (sg_keychain env) signer" and "wf_json holder_jwk"
    and "ec_jwk_from_value (serde pk) (signer_public_jwk signer) = Some (signer_jwk signer)"
    and "ec_jwk_from_value (serde pk) holder_jwk = Some holder" and "jwk_key pk holder holder_key"
    and "binds_pid pk proof holder_key claims (hd (split_char CHR ''~'' cred)) issuer nonce jkt now"
    and "issued \<le> now" and "now < saturating_add issued 3600"
    and "length cred + length proof \<le> 32768"
  shows "verify_pid_binding pk (cred @ proof) proof (signer_public_jwk signer) issuer nonce jkt now =
     Inr \<lparr>vpb_subject = Id (hash_u128 (codec pk)
            (canonical_pid_subject ''Mustermann'' ''Erika'' ''1990-01-01'')),
          vpb_jti = bp_jti claims\<rparr>"
  using assms(1-3,5-8)
proof (rule issued_sd_jwt)
  fix vct listed key jwt
  assume parts: "sd_jwt_claims PID_SD_JWT None None = Inr (vct, listed)"
    "jwk_key pk (signer_jwk signer) key"
    "split_char CHR ''~'' cred = jwt # sd_disclosures pk rnd listed @ [[]]"
    "\<And>label. verify_jws_payload pk jwt key label = Inr (sd_jwt_payload pk issuer PID_SD_JWT
      holder_jwk issued vct (sd_disclosures pk rnd listed))"
  let ?ds = "sd_disclosures pk rnd listed"
  let ?payload = "sd_jwt_payload pk issuer PID_SD_JWT holder_jwk issued vct ?ds"
  have pid: "vct = PID_VCT" "listed = demo_pid_claims"
    using parts(1) by (simp_all add: sd_jwt_claims_def PID_VCT_def)
  note bound = assms(12) [unfolded parts(3) list.sel]
  have vp: "pid_vp_parts (cred @ proof) = (jwt, ?ds @ [proof])"
    using presentation_parts [OF parts(3) _ binds_pid_nonempty [OF bound]] bound
      sd_disclosures_nonempty [OF assms(4)]
    by (auto simp: binds_pid_def)
  have "jwt \<noteq> []"
    using parts(4) [of "[]"] by (auto simp: verify_jws_payload_ok jws_signed_by_def Let_def)
  moreover have "pid_validity_ok ?payload issuer now"
    using assms(13,14) by (simp add: pid_validity_ok_def sd_jwt_payload_members)
  moreover obtain proof_value where "verify_jws_payload pk proof holder_key ''PID binding proof'' =
      Inr proof_value" "binding_claims_from_value (serde pk) proof_value = Some claims"
    using bound by (auto simp: binds_pid_def verify_jws_payload_ok bind_eq_Some_conv)
  moreover have "read_disclosures pk (map (hash_b64 (codec pk)) ?ds) ?ds no_disclosures =
      Inr (fold record_claim demo_pid_claims no_disclosures)"
    by (rule read_disclosures_disclosed)
      (use issued_disclosures [OF parts(1) assms(2,3)] in \<open>simp_all add: pid\<close>)
  ultimately show ?thesis
    using bound assms(9,10,11,15) parts(2,4)
    by (simp add: verify_pid_binding_def Let_def vp last_or_none_def sd_jwt_payload_members pid
        binds_pid_def demo_claims_are_the_education_record verifying_key_and_jwk_ok_value)
qed

text \<open>
  Packages for an example: two characters for every byte, a constant digest, so that the claims of
  the proof, which name the digest of the PID, can be written down before the PID is issued, and JSON
  values written as their number, the ones of the example being the first.
\<close>

definition nibble :: "nat \<Rightarrow> char" where "nibble n = char_of (97 + n)"

definition pairs_encode :: "bytes \<Rightarrow> string" where
  "pairs_encode bs = concat (map (\<lambda>b. [nibble (unat b div 16), nibble (unat b mod 16)]) bs)"

fun pairs_decode :: "string \<Rightarrow> bytes option" where
  "pairs_decode (c # d # s) = map_option
     ((#) (of_nat (16 * (of_char c - 97) + (of_char d - 97)))) (pairs_decode s)"
| "pairs_decode s = Some []"

lemma of_char_nibble [simp]: "n < 16 \<Longrightarrow> of_char (nibble n) = 97 + n"
  by (simp add: nibble_def)

lemma pairs_decode_encode: "pairs_decode (pairs_encode bs) = Some bs"
proof (induction bs)
  case (Cons b bs)
  have "unat b div 16 < 16" using unat_lt_pow [of b] by simp
  moreover have "(of_nat (16 * (unat b div 16) + unat b mod 16) :: u8) = b"
    by simp
  ultimately show ?case
    using Cons by (simp add: pairs_encode_def del: of_nat_add of_nat_mult)
qed (simp add: pairs_encode_def)

lemma pairs_encode_letters:
  assumes "c \<in> set (pairs_encode bs)"
  shows "97 \<le> (of_char c :: nat) \<and> (of_char c :: nat) < 113"
proof -
  from assms have "\<exists>b \<in> set bs. c = nibble (unat b div 16) \<or> c = nibble (unat b mod 16)"
    by (auto simp: pairs_encode_def)
  moreover have "unat b div 16 < 16" "unat b mod 16 < 16" for b :: u8
    using unat_lt_pow [of b] by simp_all
  ultimately show ?thesis by force
qed

lemma length_pairs_encode [simp]: "length (pairs_encode bs) = 2 * length bs"
  by (induction bs) (simp_all add: pairs_encode_def)

definition number_of :: "json list \<Rightarrow> json \<Rightarrow> nat" where
  "number_of js j = (if j \<in> set js then length (takeWhile (\<lambda>x. x \<noteq> j) js) else length js + to_nat j)"

definition value_of :: "json list \<Rightarrow> nat \<Rightarrow> json" where
  "value_of js n = (if n < length js then js ! n else from_nat (n - length js))"

lemma number_of_known: "j \<in> set js \<Longrightarrow> number_of js j < length js"
  by (induction js) (auto simp: number_of_def)

lemma value_of_number_of: "value_of js (number_of js j) = j"
proof (cases "j \<in> set js")
  case True
  then show ?thesis
    using number_of_known [OF True] nth_length_takeWhile [of "\<lambda>x. x \<noteq> j" js]
    by (simp add: value_of_def number_of_def)
qed (simp add: value_of_def number_of_def)

definition pairs_codec :: codec_lib where
  "pairs_codec = \<lparr>sha256 = (\<lambda>b. replicate 32 0), b64url_encode = pairs_encode,
     b64url_decode = pairs_decode, b64_decode = (\<lambda>s. None)\<rparr>"

definition flat_digest :: string where
  "flat_digest = pairs_encode (replicate 32 0)"

definition pid_signer :: "unit keychain_signer" where
  "pid_signer = \<lparr>signer_key = (), signer_kid = flat_digest, signer_x = flat_digest,
     signer_y = flat_digest, signer_public_key = 4 # replicate 64 0\<rparr>"

definition pid_claims :: binding_proof_claims where
  "pid_claims = \<lparr>bp_aud = ''https://i'', bp_iat = 100, bp_nonce = ''5'', bp_jti = ''j'',
     bp_pid_sd_hash = flat_digest, bp_new_holder_jkt = demo_jkt\<rparr>"

definition pid_documents :: "json list" where
  "pid_documents =
     [JNull, JObj [(''alg'', JStr ''ES256''), (''kid'', JStr flat_digest), (''typ'', JStr ''dc+sd-jwt'')],
      JObj [(''_sd'', JArr (map (\<lambda>_. JStr flat_digest) demo_pid_claims)), (''_sd_alg'', JStr ''sha-256''),
        (''cnf'', JObj [(''jwk'', JNull)]), (''exp'', JNat 3700), (''iat'', JNat 100),
        (''iss'', JStr ''https://i''), (''nbf'', JNat 100),
        (''vct'', JStr ''eu.europa.ec.eudi.pid.1'')]] @
     map (\<lambda>(name, v). JArr [JStr (pairs_encode [1]), JStr name, v]) demo_pid_claims"

definition pid_serde :: serde_lib where
  "pid_serde = service_serde\<lparr>json_from_slice := (\<lambda>b. Some (value_of pid_documents (length b - 1))),
     json_to_vec := (\<lambda>j. replicate (Suc (number_of pid_documents j)) 0),
     ec_jwk_from_value := (\<lambda>j. Some (signer_jwk pid_signer)),
     binding_claims_from_value := (\<lambda>j. Some pid_claims)\<rparr>"

definition pid_packages :: "(bytes, bytes) packages" where
  "pid_packages = \<lparr>ec = toy_ec, pq = service_pq, codec = pairs_codec, serde = pid_serde,
     clock = service_clock, urls = service_urls\<rparr>"

lemma pid_packages_simps [simp]:
  "ec pid_packages = toy_ec" "codec pid_packages = pairs_codec" "serde pid_packages = pid_serde"
  "b64url_encode pairs_codec = pairs_encode" "b64url_decode pairs_codec = pairs_decode"
  "sha256 pairs_codec b = replicate 32 0"
  "json_to_vec pid_serde j = replicate (Suc (number_of pid_documents j)) 0"
  "json_from_slice pid_serde b = Some (value_of pid_documents (length b - 1))"
  "ec_jwk_from_value pid_serde j = Some (signer_jwk pid_signer)"
  "binding_claims_from_value pid_serde j = Some pid_claims"
  by (simp_all add: pid_packages_def pairs_codec_def pid_serde_def)

lemma pid_packages_correct:
  "b64url_correct pairs_codec" "json_correct pid_serde" "texts_nonempty pid_packages"
  "keychain_signer_ok pairs_codec toy_keychain pid_signer"
proof -
  show "b64url_correct pairs_codec"
    using pairs_encode_letters [of "CHR ''.''"] pairs_encode_letters [of "CHR ''~''"]
    by (auto simp: b64url_correct_def pairs_decode_encode)
  show "json_correct pid_serde"
    by (simp add: json_correct_def value_of_number_of)
  show "texts_nonempty pid_packages"
    by (auto simp: texts_nonempty_def pairs_encode_def neq_Nil_conv)
  show "keychain_signer_ok pairs_codec toy_keychain pid_signer"
    by (simp add: keychain_signer_ok_def pid_signer_def toy_keychain_def flat_digest_def)
qed

definition pid_proof :: string where
  "pid_proof = (let h = pairs_encode [1]; p = pairs_encode [0] in
     h @ ''.'' @ p @ ''.'' @ pairs_encode (replicate 64 (checksum [4] (as_bytes (h @ ''.'' @ p)))))"

lemma length_join:
  "\<forall>d \<in> set ds. length d \<le> n \<Longrightarrow> length (join sep ds) \<le> (n + length sep) * length ds"
  by (induction ds rule: induct_list012) auto

lemmas json_to_vec_pid = pid_packages_simps(7)

lemma document_length: "j \<in> set pid_documents \<Longrightarrow> number_of pid_documents j < 8"
  using number_of_known [of j pid_documents] by (simp add: pid_documents_def demo_pid_claims_def)

lemma pid_issued:
  "\<exists>cred. issue_sd_jwt pid_packages demo_signing (\<lambda>i. [1]) pid_signer demo_issuer PID_SD_JWT JNull 100
     None None = Inr cred \<and> length cred < 1000"
proof -
  let ?ds = "sd_disclosures pid_packages (\<lambda>i. [1]) demo_pid_claims"
  have hash: "hash_b64 pairs_codec d = flat_digest" for d
    by (simp add: hash_b64_def flat_digest_def)
  have times: "saturating_add (100 :: u64) 3600 = 3700" by (simp add: saturating_add_def)
  have trim: "trim_end_matches CHR ''/'' demo_issuer = ''https://i''"
    by (simp add: demo_issuer_def trim_end_matches_def)
  have payload: "sd_jwt_payload pid_packages demo_issuer PID_SD_JWT JNull 100 PID_VCT ?ds \<in>
      set pid_documents"
    by (simp add: sd_jwt_payload_def sd_digests_def sd_disclosures_def demo_pid_claims_def hash times
        trim pid_documents_def profile_defs PID_VCT_def)
  have short: "length (json_to_vec pid_serde j) \<le> 8" if "j \<in> set pid_documents" for j
    using document_length [OF that] by simp
  have "\<forall>d \<in> set ?ds. length d \<le> 16"
    using short
    by (simp add: sd_disclosures_def sd_disclosure_def demo_pid_claims_def pid_documents_def
        random_token_def del: json_to_vec_pid)
  moreover have "length ?ds = 5" by (simp add: sd_disclosures_def demo_pid_claims_def)
  ultimately have "length (join ''~'' ?ds) \<le> 85"
    using length_join [of ?ds 16 "''~''"] by simp
  moreover have "length (json_to_vec pid_serde (JObj [(''alg'', JStr ''ES256''),
      (''kid'', JStr (signer_kid pid_signer)), (''typ'', JStr ''dc+sd-jwt'')])) \<le> 8"
    by (rule short) (simp add: pid_documents_def pid_signer_def)
  ultimately show ?thesis
    using short [OF payload]
    by (simp add: issue_sd_jwt_def sd_jwt_claims_def sign_sd_jwt_def demo_signing_def Let_def
        sign_es256_def sign_der_def toy_keychain_def PID_VCT_def del: json_to_vec_pid)
qed

lemma pid_proof_binds:
  "binds_pid pid_packages pid_proof (4 # replicate 64 0) pid_claims pid demo_issuer ''5'' demo_jkt 200"
proof -
  let ?h = "pairs_encode [1]" and ?p = "pairs_encode [0]"
  let ?s = "pairs_encode (replicate 64 (checksum [4] (as_bytes (?h @ ''.'' @ ?p))))"
  have clean: "CHR ''.'' \<notin> set (pairs_encode b)" "CHR ''~'' \<notin> set (pairs_encode b)" for b
    using pid_packages_correct(1) by (simp_all add: b64url_correct_def)
  have "split_char CHR ''.'' (join ''.'' [?h, ?p, ?s]) = [?h, ?p, ?s]"
    by (rule split_char_join) (simp_all add: clean)
  then have "split_char CHR ''.'' pid_proof = [?h, ?p, ?s]"
    by (simp add: pid_proof_def Let_def)
  then have "jws_signed_by pid_packages pid_proof (4 # replicate 64 0)"
    "jws_payload pid_packages pid_proof = Some (value_of pid_documents 0)"
    by (simp_all add: jws_signed_by_def jws_payload_def jws_part_def Let_def pairs_decode_encode
        signing_input_def toy_ec_def checksum_demo_key)
  moreover have "binding_claims_ok pid_packages pid_claims demo_issuer ''5'' demo_jkt pid 200"
    by (simp add: binding_claims_ok_def pid_claims_def demo_same_url hash_b64_def flat_digest_def
        stale_def saturating_add_def saturating_sub_def)
  ultimately show ?thesis
    by (simp add: binds_pid_def) (simp add: pid_proof_def Let_def clean)
qed

lemma issued_pid_is_accepted_as_evidence_witness:
  "\<exists>cred v. issue_sd_jwt pid_packages demo_signing (\<lambda>i. [1]) pid_signer demo_issuer PID_SD_JWT JNull
     100 None None = Inr cred \<and>
   verify_pid_binding pid_packages (cred @ pid_proof) pid_proof (signer_public_jwk pid_signer)
     demo_issuer ''5'' demo_jkt 200 = Inr v \<and> vpb_jti v = ''j''"
proof -
  obtain cred where cred: "issue_sd_jwt pid_packages demo_signing (\<lambda>i. [1]) pid_signer demo_issuer
      PID_SD_JWT JNull 100 None None = Inr cred" "length cred < 1000"
    using pid_issued by blast
  have key: "jwk_key pid_packages (signer_jwk pid_signer) (4 # replicate 64 0)"
    by (simp add: jwk_key_def signer_jwk_def pid_signer_def flat_digest_def pairs_decode_encode
        toy_ec_def replicate_add [symmetric])
  have times: "saturating_add (100 :: u64) 3600 = 3700" by (simp add: saturating_add_def)
  have length: "length pid_proof \<le> 200" by (simp add: pid_proof_def Let_def)
  have keychain: "sg_keychain demo_signing = toy_keychain" by (simp add: demo_signing_def)
  from issued_pid_is_accepted_as_evidence [OF cred(1) _ _ _ _ _ _ _ _ _ key pid_proof_binds]
  have "verify_pid_binding pid_packages (cred @ pid_proof) pid_proof (signer_public_jwk pid_signer)
      demo_issuer ''5'' demo_jkt 200 = Inr \<lparr>vpb_subject = Id (hash_u128 (codec pid_packages)
        (canonical_pid_subject ''Mustermann'' ''Erika'' ''1990-01-01'')),
      vpb_jti = bp_jti pid_claims\<rparr>"
    using cred(2) length
    by (simp add: keychain times pid_packages_correct toy_ec_affine toy_keychain_correct)
  with cred(1) show ?thesis by (auto simp: pid_claims_def)
qed

section \<open>The demo notary\<close>

definition notary_correct :: "('k, 's) ecdsa_lib \<Rightarrow> demo_notary \<Rightarrow> bool" where
  "notary_correct lib notary \<longleftrightarrow>
     (\<exists>key. key_from_sec1 lib (dn_public_key notary) = Some key \<and>
        (\<forall>m. \<exists>sig. sig_from_slice lib (dn_sign notary m) = Some sig \<and> ecdsa_verify lib key m sig))"

lemma started_demo:
  fixes started :: "'h started"
  assumes "start_up sl pk env rc il ephemeral macos apns var file w = (Inr started, w', store)"
    and "flag_set var ''ENABLE_TLSN_DEMO''"
  shows "app_tlsn_demo_notary (st_state started) = Some ephemeral"
    "app_trusted_notary_key (st_state started) = dn_public_key ephemeral"
    "app_trusted_notary_pq_key (st_state started) = None \<longleftrightarrow>
       var ''TLSN_TRUSTED_NOTARY_PQ_KEY'' = None"
proof -
  from assms(1) have "\<exists>(cfg :: 'h app_state) address.
      read_configuration sl (ec pk) ephemeral macos apns var = Inr (cfg, address) \<and>
      app_tlsn_demo_notary (st_state started) = app_tlsn_demo_notary cfg \<and>
      app_trusted_notary_key (st_state started) = app_trusted_notary_key cfg \<and>
      app_trusted_notary_pq_key (st_state started) = app_trusted_notary_pq_key cfg"
    by (auto simp: start_up_def with_signers_def split: sum.splits prod.splits if_splits)
  then obtain cfg :: "'h app_state" and address where
    read: "read_configuration sl (ec pk) ephemeral macos apns var = Inr (cfg, address)"
    and same: "app_tlsn_demo_notary (st_state started) = app_tlsn_demo_notary cfg"
      "app_trusted_notary_key (st_state started) = app_trusted_notary_key cfg"
      "app_trusted_notary_pq_key (st_state started) = app_trusted_notary_pq_key cfg"
    by blast
  from read obtain key notary where
    notary: "trusted_notary sl (ec pk) ephemeral var = Inr (key, notary)"
      "app_trusted_notary_key cfg = key" "app_tlsn_demo_notary cfg = notary"
    and pq: "trusted_notary_pq sl var = Inr (app_trusted_notary_pq_key cfg)"
    by (auto simp: read_configuration_def ok_iff split: prod.splits)
  from trusted_notary_ok [OF notary(1)] assms(2) notary(2,3) same
  show "app_tlsn_demo_notary (st_state started) = Some ephemeral"
    "app_trusted_notary_key (st_state started) = dn_public_key ephemeral" by simp_all
  from pq same(3) show "app_trusted_notary_pq_key (st_state started) = None \<longleftrightarrow>
      var ''TLSN_TRUSTED_NOTARY_PQ_KEY'' = None"
    by (cases "app_trusted_notary_pq_key cfg")
      (auto simp: trusted_notary_pq_def ok_iff split: option.splits if_splits)
qed

text \<open>
  C34. A service started in the demo mode signs its demo artifact with
  the notary it trusts, so the endpoint makes an offer that holds the evidence and answers with the
  link to it, whatever was asked for, as long as the artifact is within its bounds and its session is
  new (building the link is the last step, and panics where no path can be joined to the issuer URL).
  With one exception: when
  a post-quantum notary key is configured as well, the demo artifact, which carries no second
  signature, never passes the verification, and every request to the endpoint is refused.
\<close>

theorem demo_offer_fails_with_pq_notary:
  assumes "start_up sl pk env rc il ephemeral macos apns var file w = (Inr started, w', store)"
    and "flag_set var ''ENABLE_TLSN_DEMO''" and "notary_correct (ec pk) ephemeral"
    and "b64url_correct (codec pk)"
    and "tlsn_payload_to_vec (serde pk) (demo_artifact_payload pk rnd now body) = Some message"
    and "length message \<le> MAX_TLSN_ARTIFACT_BYTES" and "length (random_token (codec pk) rnd) \<le> 251"
    and "\<not> stale TLSN_EVIDENCE_LIFETIME_SECONDS now now'"
    and "''demo-'' @ random_token (codec pk) rnd \<notin> tlsn_sessions st"
  shows "tlsn_demo_offer pk (st_state started) (Some now) (Some now') oid rnd rnd' body st =
    (if var ''TLSN_TRUSTED_NOTARY_PQ_KEY'' = None
     then (offer_response pk (st_state started) oid TLSN_EVIDENCE_LIFETIME_SECONDS,
       st\<lparr>tlsn_sessions := insert (''demo-'' @ random_token (codec pk) rnd) (tlsn_sessions st),
          offers := (offers st)(oid \<mapsto>
            \<lparr>co_profile = TLSN_EVIDENCE_SD_JWT, co_issuer_state = random_token (codec pk) rnd',
             co_expires_at = saturating_add now' TLSN_EVIDENCE_LIFETIME_SECONDS,
             co_tlsn_evidence = Some
               \<lparr>vt_session_id = ''demo-'' @ random_token (codec pk) rnd, vt_issued_at = now,
                vt_verifier_output = tp_verifier_output (demo_artifact_payload pk rnd now body)\<rparr>\<rparr>)\<rparr>)
     else (Inl (invalid_evidence BAD_REQUEST
       ''a post-quantum notary signature is required but missing or of an unknown algorithm''), st))"
proof -
  define cfg where "cfg = st_state started"
  note cfg = started_demo [OF assms(1,2), folded cfg_def]
  have payload: "tp_version (demo_artifact_payload pk rnd now body) = TLSN_ARTIFACT_VERSION"
    "tp_session_id (demo_artifact_payload pk rnd now body) = ''demo-'' @ random_token (codec pk) rnd"
    "tp_issued_at (demo_artifact_payload pk rnd now body) = now"
    by (simp_all add: demo_artifact_payload_def Let_def)
  have pq: "verify_tlsn_pq pk a None m = Inr ()"
    "ta_pq_algorithm a = None \<Longrightarrow> verify_tlsn_pq pk a (Some k) m = Inl (invalid_evidence BAD_REQUEST
       ''a post-quantum notary signature is required but missing or of an unknown algorithm'')"
    for a k m by (simp_all add: verify_tlsn_pq_def)
  from assms(3) obtain key sig where
    "key_from_sec1 (ec pk) (dn_public_key ephemeral) = Some key"
    "sig_from_slice (ec pk) (dn_sign ephemeral message) = Some sig"
    "ecdsa_verify (ec pk) key message sig"
    unfolding notary_correct_def by blast
  then show ?thesis
    unfolding cfg_def [symmetric] cfg(3) [symmetric] using assms(4-9)
    by (cases "app_trusted_notary_pq_key cfg")
      (simp_all add: tlsn_demo_offer_def build_tlsn_offer_def verify_tlsn_artifact_def
        reserve_tlsn_session_def cfg(1,2) payload pq Let_def b64url_correct_def not_less unix_time_def)
qed

lemma demo_offer_fails_with_pq_notary_witness:
  "\<exists>started. start_up demo_start issuing_packages demo_signing demo_rcgen demo_instances_lib
     demo_notary_key True False demo_env demo_file () = (Inr started, (), empty_store) \<and>
   is_ok (fst (tlsn_demo_offer issuing_packages (st_state started) (Some 100) (Some 100) ''o'' [1] [2]
     None demo_0))"
proof -
  obtain started where started: "start_up demo_start issuing_packages demo_signing demo_rcgen
      demo_instances_lib demo_notary_key True False demo_env demo_file () =
        (Inr started, (), empty_store)"
    using demo_starts by blast
  have notary: "notary_correct (ec issuing_packages) demo_notary_key"
    by (simp add: notary_correct_def issuing_packages_def toy_ec_def demo_notary_key_def)
  have flag: "flag_set demo_env ''ENABLE_TLSN_DEMO''"
    by (simp add: flag_set_def demo_env_lookup is_true_flag_def)
  have "tlsn_payload_to_vec (serde issuing_packages)
      (demo_artifact_payload issuing_packages [1] 100 None) = Some (as_bytes ''demo-ab'')"
    by (simp add: issuing_packages_def numbered_serde_def demo_artifact_payload_def
        random_token_def unary_codec_def unary_encode_def)
  from demo_offer_fails_with_pq_notary [OF started flag notary _ this, of 100 demo_0 "''o''" "[2]"]
  have "is_ok (fst (tlsn_demo_offer issuing_packages (st_state started) (Some 100) (Some 100) ''o'' [1]
      [2] None demo_0))"
    using unary_codec_correct
    by (simp add: issuing_packages_def service_urls_def offer_response_def random_token_def unary_codec_def unary_encode_def
        demo_env_lookup MAX_TLSN_ARTIFACT_BYTES_def TLSN_EVIDENCE_LIFETIME_SECONDS_def demo_states)
  with started show ?thesis by blast
qed

end
