(* ===== verification/Ledger.thy ===== *)
theory Ledger
  imports Service_System
begin

text \<open>
  The abstract specification of issuance: a ledger of what the service has promised to whom. An
  entitlement, which is a scope with the web evidence behind it, is pushed under a request URI,
  authorized, put under a code, exchanged for a token bound to a key, and redeemed, once per nonce,
  for a credential in its scope. The ledger has no requests, clocks, signatures, stores or
  sessions; it says only in which order entitlements move and that nothing is used twice.
\<close>

section \<open>Simulation\<close>

text \<open>A step relation refines another along a function when every step is one of the other.\<close>

locale simulation =
  fixes step :: "'s \<Rightarrow> 'e \<Rightarrow> 's \<Rightarrow> bool"
    and spec :: "'t \<Rightarrow> 'e \<Rightarrow> 't \<Rightarrow> bool"
    and abstr :: "'s \<Rightarrow> 't"
    and inv :: "'s \<Rightarrow> bool"
  assumes simulates: "step s e s' \<Longrightarrow> inv s \<Longrightarrow> spec (abstr s) e (abstr s')"
    and preserves: "step s e s' \<Longrightarrow> inv s \<Longrightarrow> inv s'"
begin

lemma runs_inv: "runs step s es s' \<Longrightarrow> inv s \<Longrightarrow> inv s'"
  by (rule runs_invariant [of step s es s' inv]) (use preserves in blast)+

lemma runs_simulated: "runs step s es s' \<Longrightarrow> inv s \<Longrightarrow> runs spec (abstr s) es (abstr s')"
proof (induction rule: runs.induct)
  case (runs_snoc s es s' e s'')
  then show ?case
    using simulates runs_inv by (blast intro: runs.runs_snoc)
qed (rule runs_Nil)

end

section \<open>The ledger\<close>

record entitlement =
  en_scope :: string
  en_evidence :: "verified_tlsn_evidence option"

record ledger =
  lg_requests :: "string \<rightharpoonup> entitlement"
  lg_authorized :: "entitlement multiset"
  lg_codes :: "string \<rightharpoonup> entitlement"
  lg_exchanged :: "string set"
  lg_tokens :: "string \<rightharpoonup> entitlement \<times> string"
  lg_nonces :: "string set"
  lg_redeemed :: "string set"
  lg_proofs :: "string set"
  lg_evidence :: "string set"
  lg_sessions :: "string set"

definition empty_ledger :: ledger where
  "empty_ledger = \<lparr>lg_requests = Map.empty, lg_authorized = {#}, lg_codes = Map.empty,
     lg_exchanged = {}, lg_tokens = Map.empty, lg_nonces = {}, lg_redeemed = {}, lg_proofs = {},
     lg_evidence = {}, lg_sessions = {}\<rparr>"

text \<open>An entitlement is for supported credentials, and its evidence was reserved for it.\<close>

definition entitlement_ok :: "bool \<Rightarrow> ledger \<Rightarrow> entitlement \<Rightarrow> bool" where
  "entitlement_ok hybrid l x \<longleftrightarrow> valid_scope (en_scope x) hybrid \<and>
     (\<forall>ev. en_evidence x = Some ev \<longrightarrow> vt_session_id ev \<in> lg_sessions l)"

definition entitles :: "entitlement \<Rightarrow> string \<Rightarrow> bool" where
  "entitles x profile \<longleftrightarrow> profile \<in> set (split_ascii_whitespace (en_scope x)) \<and>
     (profile = TLSN_EVIDENCE_SD_JWT \<longrightarrow> en_evidence x \<noteq> None)"

fun silent :: "event \<Rightarrow> bool" where
  "silent (OfferMade oid) \<longleftrightarrow> True"
| "silent ParStarted \<longleftrightarrow> True"
| "silent (ChallengeIssued c) \<longleftrightarrow> True"
| "silent (ChallengeConsumed c) \<longleftrightarrow> True"
| "silent (InstanceRegistered k) \<longleftrightarrow> True"
| "silent (AssertionAccepted k n) \<longleftrightarrow> True"
| "silent PushRegistered \<longleftrightarrow> True"
| "silent (CaptureOpened sid) \<longleftrightarrow> True"
| "silent SubmissionStarted \<longleftrightarrow> True"
| "silent (SubmissionVerified sid) \<longleftrightarrow> True"
| "silent _ \<longleftrightarrow> False"

inductive ledger_step :: "bool \<Rightarrow> ledger \<Rightarrow> event \<Rightarrow> ledger \<Rightarrow> bool" for hybrid where
  reserve:
    "session \<notin> lg_sessions l \<Longrightarrow>
     ledger_step hybrid l (EvidenceReserved oid session)
       (l\<lparr>lg_sessions := insert session (lg_sessions l)\<rparr>)"
| push:
    "entitlement_ok hybrid l x \<Longrightarrow> uri \<notin> dom (lg_requests l) \<Longrightarrow>
     ledger_step hybrid l (RequestPushed uri) (l\<lparr>lg_requests := (lg_requests l)(uri \<mapsto> x)\<rparr>)"
| take:
    "lg_requests l uri = Some x \<Longrightarrow>
     ledger_step hybrid l (RequestTaken uri)
       (l\<lparr>lg_requests := (lg_requests l)(uri := None), lg_authorized := add_mset x (lg_authorized l)\<rparr>)"
| code:
    "x \<in># lg_authorized l \<Longrightarrow> c \<notin> dom (lg_codes l) \<Longrightarrow> c \<notin> lg_exchanged l \<Longrightarrow>
     ledger_step hybrid l (CodeIssued c)
       (l\<lparr>lg_authorized := lg_authorized l - {#x#}, lg_codes := (lg_codes l)(c \<mapsto> x)\<rparr>)"
| exchange:
    "lg_codes l c = Some x \<Longrightarrow> jti \<notin> lg_proofs l \<Longrightarrow> t \<notin> dom (lg_tokens l) \<Longrightarrow>
     ledger_step hybrid l (TokenIssued c jti t)
       (l\<lparr>lg_codes := (lg_codes l)(c := None), lg_exchanged := insert c (lg_exchanged l),
          lg_tokens := (lg_tokens l)(t \<mapsto> (x, key)), lg_proofs := insert jti (lg_proofs l)\<rparr>)"
| nonce:
    "n \<notin> lg_nonces l \<Longrightarrow> n \<notin> lg_redeemed l \<Longrightarrow>
     ledger_step hybrid l (NonceIssued n) (l\<lparr>lg_nonces := insert n (lg_nonces l)\<rparr>)"
| redeem:
    "lg_tokens l t = Some (x, key) \<Longrightarrow> entitles x profile \<Longrightarrow> n \<in> lg_nonces l \<Longrightarrow>
     jti \<notin> lg_proofs l \<Longrightarrow> set_option evidence \<inter> lg_evidence l = {} \<Longrightarrow>
     ledger_step hybrid l (CredentialGranted n jti profile evidence)
       (l\<lparr>lg_nonces := lg_nonces l - {n}, lg_redeemed := insert n (lg_redeemed l),
          lg_proofs := insert jti (lg_proofs l), lg_evidence := set_option evidence \<union> lg_evidence l\<rparr>)"
| capture:
    "jti \<notin> lg_evidence l \<Longrightarrow>
     ledger_step hybrid l (CaptureIssued sid jti) (l\<lparr>lg_evidence := insert jti (lg_evidence l)\<rparr>)"
| refuse_request:
    "ledger_step hybrid l Refused (l\<lparr>lg_requests := (lg_requests l)(uri := None)\<rparr>)"
| refuse_proof:
    "ledger_step hybrid l Refused
       (l\<lparr>lg_proofs := P \<union> lg_proofs l, lg_evidence := E \<union> lg_evidence l\<rparr>)"
| drop:
    "ledger_step hybrid l Dropped (l\<lparr>lg_authorized := lg_authorized l - M\<rparr>)"
| silent:
    "silent e \<Longrightarrow> ledger_step hybrid l e l"

inductive_cases ledger_stepE: "ledger_step hybrid l e l'"

section \<open>The ledger of a state of the service\<close>

definition entitlement_of_code :: "authorization_code \<Rightarrow> entitlement" where
  "entitlement_of_code code = \<lparr>en_scope = ac_scope code, en_evidence = ac_tlsn_evidence code\<rparr>"

definition entitlement_of_request :: "pushed_authorization \<Rightarrow> entitlement" where
  "entitlement_of_request p = \<lparr>en_scope = pa_scope p, en_evidence = pa_tlsn_evidence p\<rparr>"

definition entitlement_of_token :: "access_token \<Rightarrow> entitlement \<times> string" where
  "entitlement_of_token a =
     (\<lparr>en_scope = at_scope a, en_evidence = at_tlsn_evidence a\<rparr>, at_dpop_jkt a)"

fun authorized_request :: "task \<Rightarrow> pushed_authorization option" where
  "authorized_request (AuthorizeTask p) = Some p"
| "authorized_request _ = None"

definition authorized_of :: "task multiset \<Rightarrow> entitlement multiset" where
  "authorized_of ts = image_mset (\<lambda>t. entitlement_of_request (the (authorized_request t)))
     (filter_mset (\<lambda>t. authorized_request t \<noteq> None) ts)"

definition live_codes :: "volatile_state \<Rightarrow> string \<rightharpoonup> entitlement" where
  "live_codes st c = (case codes st c of
     None \<Rightarrow> None | Some code \<Rightarrow> if ac_consumed code then None else Some (entitlement_of_code code))"

definition ledger_of :: "system \<Rightarrow> ledger" where
  "ledger_of s = (case s of (st, ts) \<Rightarrow>
     \<lparr>lg_requests = map_option entitlement_of_request \<circ> pushed st, lg_authorized = authorized_of ts,
      lg_codes = live_codes st,
      lg_exchanged = {c. \<exists>code. codes st c = Some code \<and> ac_consumed code},
      lg_tokens = map_option entitlement_of_token \<circ> tokens st,
      lg_nonces = {n. nonces st n = Some False}, lg_redeemed = {n. nonces st n = Some True},
      lg_proofs = dpop_jtis st, lg_evidence = binding_jtis st, lg_sessions = tlsn_sessions st\<rparr>)"

lemma authorized_of_simps [simp]:
  "authorized_of {#} = {#}"
  "authorized_of (add_mset t ts) =
     (case authorized_request t of None \<Rightarrow> authorized_of ts
      | Some p \<Rightarrow> add_mset (entitlement_of_request p) (authorized_of ts))"
  by (auto simp: authorized_of_def split: option.split)

lemma authorized_of_remove:
  "t \<in># ts \<Longrightarrow> authorized_of (ts - {#t#}) =
     (case authorized_request t of None \<Rightarrow> authorized_of ts
      | Some p \<Rightarrow> authorized_of ts - {#entitlement_of_request p#})"
  by (auto dest!: multi_member_split split: option.split)

section \<open>The history of an entitlement\<close>

text \<open>The events an entitlement has behind it, in their order, not necessarily adjacent.\<close>

definition authorized_history :: "event list \<Rightarrow> bool" where
  "authorized_history es \<longleftrightarrow> (\<exists>uri. subseq [RequestPushed uri, RequestTaken uri] es)"

definition code_history :: "event list \<Rightarrow> string \<Rightarrow> bool" where
  "code_history es c \<longleftrightarrow> (\<exists>uri. subseq [RequestPushed uri, RequestTaken uri, CodeIssued c] es)"

definition token_history :: "event list \<Rightarrow> string \<Rightarrow> bool" where
  "token_history es t \<longleftrightarrow>
     (\<exists>uri c jti. subseq [RequestPushed uri, RequestTaken uri, CodeIssued c, TokenIssued c jti t] es)"

definition history_ok :: "event list \<Rightarrow> ledger \<Rightarrow> bool" where
  "history_ok es l \<longleftrightarrow>
     (\<forall>uri \<in> dom (lg_requests l). RequestPushed uri \<in> set es) \<and>
     (lg_authorized l \<noteq> {#} \<longrightarrow> authorized_history es) \<and>
     (\<forall>c \<in> dom (lg_codes l). code_history es c) \<and>
     (\<forall>t \<in> dom (lg_tokens l). token_history es t) \<and>
     (\<forall>n \<in> lg_nonces l. NonceIssued n \<in> set es)"

lemma subseq_snoc: "subseq xs es \<Longrightarrow> subseq (xs @ [e]) (es @ [e])"
  by (rule list_emb_append_mono) simp_all

lemma subseq_longer: "subseq xs es \<Longrightarrow> subseq xs (es @ [e])"
  by (rule subseq_rev_drop_many)

lemma histories_longer:
  "authorized_history es \<Longrightarrow> authorized_history (es @ [e])"
  "code_history es c \<Longrightarrow> code_history (es @ [e]) c"
  "token_history es t \<Longrightarrow> token_history (es @ [e]) t"
  unfolding authorized_history_def code_history_def token_history_def
  by (blast intro: subseq_longer)+

lemma histories_grow:
  "RequestPushed uri \<in> set es \<Longrightarrow> authorized_history (es @ [RequestTaken uri])"
  "authorized_history es \<Longrightarrow> code_history (es @ [CodeIssued c]) c"
  "code_history es c \<Longrightarrow> token_history (es @ [TokenIssued c jti t]) t"
proof -
  show "authorized_history (es @ [RequestTaken uri])" if "RequestPushed uri \<in> set es"
    using subseq_snoc [of "[RequestPushed uri]" es "RequestTaken uri"] that
    by (auto simp: authorized_history_def subseq_singleton_left)
  show "code_history (es @ [CodeIssued c]) c" if history: "authorized_history es"
  proof -
    from history obtain uri where "subseq [RequestPushed uri, RequestTaken uri] es"
      by (auto simp: authorized_history_def)
    from subseq_snoc [OF this] show ?thesis unfolding code_history_def by auto
  qed
  show "token_history (es @ [TokenIssued c jti t]) t" if history: "code_history es c"
  proof -
    from history obtain uri where "subseq [RequestPushed uri, RequestTaken uri, CodeIssued c] es"
      by (auto simp: code_history_def)
    from subseq_snoc [OF this, of "TokenIssued c jti t"] show ?thesis
      unfolding token_history_def append.simps by blast
  qed
qed

lemma history_step:
  assumes "ledger_step hybrid l e l'" and "history_ok es l"
  shows "history_ok (es @ [e]) l'"
  using assms(1)
proof cases
  case (take uri x)
  with assms(2) show ?thesis
    by (auto simp: history_ok_def intro: histories_grow histories_longer)
next
  case (code x c)
  then have "lg_authorized l \<noteq> {#}" by auto
  with code assms(2) show ?thesis
    by (auto simp: history_ok_def intro: histories_grow histories_longer)
next
  case (exchange c x jti t key)
  with assms(2) show ?thesis
    by (auto simp: history_ok_def intro: histories_grow histories_longer)
qed (use assms(2) in \<open>auto simp: history_ok_def intro: histories_longer split: if_splits\<close>)

lemma ledger_history:
  "runs (ledger_step hybrid) empty_ledger es l \<Longrightarrow> history_ok es l"
proof (induction empty_ledger es l rule: runs.induct)
  case (runs_snoc es l e l')
  then show ?case by (blast intro: history_step)
qed (simp add: history_ok_def empty_ledger_def)

end
