(* ===== verification/Run_Properties.thy ===== *)
theory Run_Properties
  imports Demo_Service
begin

text \<open>
  What holds along every run of the service: identifiers that are consumed once, the invariant that
  ties tokens to codes, scopes and notarised evidence, the state of capture sessions, and the
  counters of App Attest instances.
\<close>

section \<open>Identifiers are consumed once\<close>

text \<open>
  Along every run of the service, however the requests interleave, no DPoP
  proof identifier is accepted twice: neither by the token endpoint, nor by the credential endpoint,
  nor once by each.
\<close>

theorem dpop_proof_used_once:
  assumes "service_runs sv file es s"
  shows "distinct (taken dpop_used es)"
  using dpop_proofs.taken_once assms by (simp add: service_runs_def)

lemma dpop_proof_used_once_witness:
  "\<exists>s. service_runs demo_service demo_file demo_events s \<and>
     distinct (taken dpop_used demo_events) \<and> taken dpop_used demo_events = [''t'', ''c'']"
proof -
  obtain st where run: "service_runs demo_service demo_file demo_events (st, {#})" by (rule demo_run)
  from run dpop_proof_used_once [OF run] show ?thesis by (auto simp: demo_events_def)
qed

text \<open>
  C2. A token is only ever issued for an authorization code that the authorize
  endpoint handed out earlier in the run, and that code is exchanged neither before nor after.
\<close>

theorem code_exchanged_once:
  assumes "service_runs sv file (xs @ TokenIssued code jti t # ys) s"
  shows "CodeIssued code \<in> set xs \<and> (\<forall>jti' t'. TokenIssued code jti' t' \<notin> set xs \<union> set ys)"
proof -
  have "code \<in> set (taken code_issued xs)"
    by (rule authorization_codes.given_before [OF assms [unfolded service_runs_def]])
      (simp_all add: initial_system_def initial_state_def)
  moreover have "code \<notin> set (taken code_used xs) \<union> set (taken code_used ys)"
    by (rule authorization_codes.used_here_only [OF assms [unfolded service_runs_def]]) simp
  ultimately show ?thesis
    by (auto simp: in_taken_iff code_events)
qed

lemma code_exchanged_once_witness:
  "\<exists>s. service_runs demo_service demo_file demo_events s \<and>
     CodeIssued ''code'' \<in> set (take 5 demo_events) \<and>
     (\<forall>jti t. TokenIssued ''code'' jti t \<notin> set (take 5 demo_events) \<union> set (drop 6 demo_events))"
proof -
  obtain st where run: "service_runs demo_service demo_file demo_events (st, {#})" by (rule demo_run)
  then have "service_runs demo_service demo_file
      (take 5 demo_events @ TokenIssued ''code'' ''t'' ''token'' # drop 6 demo_events) (st, {#})"
    by (simp add: demo_events_def)
  from code_exchanged_once [OF this] run show ?thesis by blast
qed

text \<open>
  C6. A credential is only ever granted for a nonce that the nonce endpoint
  handed out earlier in the run, and no other grant of the run, before or after, redeems it.
\<close>

theorem nonce_redeemed_once:
  assumes "service_runs sv file (xs @ CredentialGranted n jti profile evidence # ys) s"
  shows "NonceIssued n \<in> set xs \<and>
    (\<forall>jti' profile' evidence'. CredentialGranted n jti' profile' evidence' \<notin> set xs \<union> set ys)"
proof -
  have "n \<in> set (taken nonce_issued xs)"
    by (rule proof_nonces.given_before [OF assms [unfolded service_runs_def]])
      (simp_all add: initial_system_def initial_state_def)
  moreover have "n \<notin> set (taken nonce_used xs) \<union> set (taken nonce_used ys)"
    by (rule proof_nonces.used_here_only [OF assms [unfolded service_runs_def]]) simp
  ultimately show ?thesis
    by (auto simp: in_taken_iff nonce_events)
qed

lemma nonce_redeemed_once_witness:
  "\<exists>s. service_runs demo_service demo_file demo_events s \<and>
     NonceIssued ''5'' \<in> set (take 7 demo_events)"
proof -
  obtain st where run: "service_runs demo_service demo_file demo_events (st, {#})" by (rule demo_run)
  then have "service_runs demo_service demo_file (take 7 demo_events @
      CredentialGranted ''5'' ''c'' PID_FROM_EMRTD_SD_JWT (Some ''j'') # drop 8 demo_events) (st, {#})"
    by (simp add: demo_events_def)
  from nonce_redeemed_once [OF this] run show ?thesis by blast
qed

text \<open>
  A PID binding proof or an eMRTD attestation backs at most one credential
  along a run: its identifier is not accepted again, whether by the credential endpoint or by a
  capture session.
\<close>

theorem evidence_used_once:
  assumes "service_runs sv file es s"
  shows "distinct (taken evidence_used es)"
  using evidence.taken_once assms by (simp add: service_runs_def)

lemma evidence_used_once_witness:
  "\<exists>s. service_runs demo_service demo_file demo_events s \<and>
     distinct (taken evidence_used demo_events) \<and> taken evidence_used demo_events = [''j'', ''k'']"
proof -
  obtain st where run: "service_runs demo_service demo_file demo_events (st, {#})" by (rule demo_run)
  from run evidence_used_once [OF run] show ?thesis by (auto simp: demo_events_def)
qed

text \<open>
  Each notarised TLS session backs at most one evidence offer
  along a run, even when several artifacts of it are submitted.
\<close>

theorem notarised_session_offered_once:
  assumes "service_runs sv file es s"
  shows "distinct (taken session_reserved es)"
  using notarisations.taken_once assms by (simp add: service_runs_def)

lemma notarised_session_offered_once_witness:
  "\<exists>s. service_runs demo_service demo_file demo_events s \<and>
     distinct (taken session_reserved demo_events) \<and> taken session_reserved demo_events = [''s1'']"
proof -
  obtain st where run: "service_runs demo_service demo_file demo_events (st, {#})" by (rule demo_run)
  from run notarised_session_offered_once [OF run] show ?thesis by (auto simp: demo_events_def)
qed

text \<open>
  C7. Nothing that proves a holder, a person or a session is accepted
  twice along a run, however the requests interleave: no DPoP proof identifier, whether by the token
  or by the credential endpoint or once by each; no PID binding proof or eMRTD attestation, whether by
  the credential endpoint or by a capture session; and no notarised TLS session, by two evidence
  offers.
\<close>

theorem replay_identifiers_used_once:
  assumes "service_runs sv file es s"
  shows "distinct (taken dpop_used es) \<and> distinct (taken evidence_used es) \<and>
    distinct (taken session_reserved es)"
  using dpop_proof_used_once [OF assms] evidence_used_once [OF assms]
    notarised_session_offered_once [OF assms] by simp

lemma replay_identifiers_used_once_witness:
  "\<exists>s. service_runs demo_service demo_file demo_events s \<and>
     distinct (taken dpop_used demo_events) \<and> taken dpop_used demo_events = [''t'', ''c''] \<and>
     distinct (taken evidence_used demo_events) \<and> taken evidence_used demo_events = [''j'', ''k'']"
proof -
  obtain st where run: "service_runs demo_service demo_file demo_events (st, {#})" by (rule demo_run)
  from run replay_identifiers_used_once [OF run] show ?thesis by (auto simp: demo_events_def)
qed

text \<open>
  A request URI is taken by the authorize endpoint at
  most as often as it was pushed, and while it is still pending once less; the same holds of the
  App Attest challenges that registrations consume.
\<close>

theorem request_uris_and_challenges_removed_on_use:
  assumes "service_runs sv file es s"
  shows "count_list (taken request_taken es) uri + of_bool (uri \<in> dom (pushed (fst s)))
      \<le> count_list (taken request_pushed es) uri \<and>
    count_list (taken challenge_used es) c + of_bool (c \<in> dom (app_attest_challenges (fst s)))
      \<le> count_list (taken challenge_issued es) c"
proof
  have "dom (pushed (fst (initial_system sv file))) = {}"
    "dom (app_attest_challenges (fst (initial_system sv file))) = {}"
    by (simp_all add: initial_system_def initial_state_def)
  then show "count_list (taken request_taken es) uri + of_bool (uri \<in> dom (pushed (fst s)))
      \<le> count_list (taken request_pushed es) uri"
    "count_list (taken challenge_used es) c + of_bool (c \<in> dom (app_attest_challenges (fst s)))
      \<le> count_list (taken challenge_issued es) c"
    using assms unfolding service_runs_def
    by (blast intro: pushed_requests.taken_at_most_given attest_challenges.taken_at_most_given)+
qed

lemma request_uris_and_challenges_removed_on_use_witness:
  "\<exists>s. service_runs demo_service demo_file demo_events s \<and>
     demo_uri \<notin> dom (pushed (fst s)) \<and> ''ch'' \<notin> dom (app_attest_challenges (fst s))"
proof -
  obtain st where run: "service_runs demo_service demo_file demo_events (st, {#})" by (rule demo_run)
  have "count_list (taken request_taken demo_events) demo_uri = 1"
    "count_list (taken request_pushed demo_events) demo_uri = 1"
    "count_list (taken challenge_used demo_events) ''ch'' = 1"
    "count_list (taken challenge_issued demo_events) ''ch'' = 1"
    by (simp_all add: demo_events_def)
  with run request_uris_and_challenges_removed_on_use [OF run, of demo_uri "''ch''"] show ?thesis
    by (intro exI [of _ "(st, {#})"]) (simp split: if_splits)
qed

section \<open>The counters of App Attest\<close>

lemma verify_assertion_increases:
  "verify_assertion L a client_data inst = Inr n \<Longrightarrow> ri_sign_count inst < n"
  "verify_assertion L a client_data inst = Inr n \<Longrightarrow> ri_sign_count inst \<le> n"
  by (auto dest: verify_assertion_higher)

lemma step_keeps_counter:
  assumes "service_step sv s e s'" and "app_attest_instances (fst s) k = Some i"
    and "e \<noteq> InstanceRegistered k"
  shows "\<exists>i'. app_attest_instances (fst s') k = Some i' \<and> ri_sign_count i \<le> ri_sign_count i'"
  using assms
  by (cases rule: service_step.cases)
    (auto simp: fail_session_def dest!: verify_assertion_increases(2) split: option.splits)

lemma step_accepts_assertion:
  assumes "service_step sv s (AssertionAccepted k n) s'"
  shows "(\<exists>i. app_attest_instances (fst s) k = Some i \<and> ri_sign_count i < n) \<and>
    (\<exists>i. app_attest_instances (fst s') k = Some i \<and> ri_sign_count i = n)"
  using assms
  by (cases rule: service_step.cases) (auto dest!: verify_assertion_increases(1))

lemma runs_keep_counter:
  assumes "runs (service_step sv) s es s'" and "app_attest_instances (fst s) k = Some i"
    and "InstanceRegistered k \<notin> set es"
  shows "\<exists>i'. app_attest_instances (fst s') k = Some i' \<and> ri_sign_count i \<le> ri_sign_count i'"
  using assms
proof (induction rule: runs.induct)
  case (runs_snoc s es s' e s'')
  then obtain i' where "app_attest_instances (fst s') k = Some i'" "ri_sign_count i \<le> ri_sign_count i'"
    by auto
  with step_keeps_counter [OF runs_snoc.hyps(2), of k i'] runs_snoc.prems show ?case
    by (auto intro: order_trans)
qed auto

text \<open>
  C15. Between two accepted assertions of one App Attest key, with no
  registration of that key in between, the signed counter strictly increases, whatever other
  requests run in between: an assertion is never accepted twice.
\<close>

theorem assertion_counters_increase:
  assumes "service_runs sv file
      (xs @ AssertionAccepted k n # ys @ AssertionAccepted k m # zs) s"
    and "InstanceRegistered k \<notin> set ys"
  shows "n < m"
proof -
  from assms(1) obtain t t1 t2 t3 where
    first: "service_step sv t (AssertionAccepted k n) t1" and rest: "runs (service_step sv) t1 ys t2"
    and second: "service_step sv t2 (AssertionAccepted k m) t3"
    by (auto simp: service_runs_def runs_append runs_Cons)
  obtain i where "app_attest_instances (fst t1) k = Some i" "ri_sign_count i = n"
    using step_accepts_assertion [OF first] by blast
  with runs_keep_counter [OF rest _ assms(2)] obtain i' where
    "app_attest_instances (fst t2) k = Some i'" "n \<le> ri_sign_count i'" by blast
  moreover obtain i'' where "app_attest_instances (fst t2) k = Some i''" "ri_sign_count i'' < m"
    using step_accepts_assertion [OF second] by blast
  ultimately show ?thesis by simp
qed

lemma demo_second_assertion:
  assumes "app_attest_instances st ''key'' = Some (demo_instance\<lparr>ri_sign_count := 1\<rparr>)"
  shows "\<exists>st'. service_step demo_service (st, {#}) (AssertionAccepted ''key'' 2) (st', {#})"
proof -
  let ?io = "\<lparr>io_write = WriteOk, io_rename_fails = False\<rparr>"
  let ?inst = "demo_instance\<lparr>ri_sign_count := 2\<rparr>"
  let ?st = "save_store demo_instances_lib ?io demo_state
    (st\<lparr>app_attest_instances := (app_attest_instances st)(''key'' \<mapsto> ?inst)\<rparr>)"
  have "verify_app_attest_assertion demo_attest demo_instances_lib ?io demo_state ''key''
      (as_bytes (demo_assertion 2)) [] st = (Inr (), ?st)"
    unfolding verify_app_attest_assertion_ok_iff
    using assms demo_assertion_verifies [of "demo_instance\<lparr>ri_sign_count := 1\<rparr>" 2 "[]"]
    by (auto simp: demo_instance_def)
  from assertion [where sv = demo_service, unfolded demo_service_simps, OF this, of ?inst]
  show ?thesis by (auto simp: demo_instance_def)
qed

lemma assertion_counters_increase_witness:
  "\<exists>s. service_runs demo_service demo_file (demo_events @ [AssertionAccepted ''key'' 2]) s \<and>
     (1 :: u32) < 2"
proof -
  obtain st where run: "service_runs demo_service demo_file demo_events (st, {#})"
    and st: "app_attest_instances st ''key'' = Some (demo_instance\<lparr>ri_sign_count := 1\<rparr>)"
    by (rule demo_run)
  then obtain s where run2:
    "service_runs demo_service demo_file (demo_events @ [AssertionAccepted ''key'' 2]) s"
    using demo_second_assertion [OF st] runs_snoc by (fastforce simp: service_runs_def)
  then have "service_runs demo_service demo_file (take 12 demo_events @
      AssertionAccepted ''key'' 1 # drop 13 demo_events @ AssertionAccepted ''key'' 2 # []) s"
    by (simp add: demo_events_def)
  moreover have "InstanceRegistered ''key'' \<notin> set (drop 13 demo_events)"
    by (simp add: demo_events_def)
  ultimately show ?thesis
    using assertion_counters_increase run2 by blast
qed

section \<open>The invariant of the state\<close>

definition evidence_reserved :: "volatile_state \<Rightarrow> verified_tlsn_evidence option \<Rightarrow> bool" where
  "evidence_reserved st ev \<longleftrightarrow> (\<forall>e. ev = Some e \<longrightarrow> vt_session_id e \<in> tlsn_sessions st)"

text \<open>A token comes from a consumed code, with its scope and its evidence.\<close>

definition token_has_code :: "volatile_state \<Rightarrow> access_token \<Rightarrow> bool" where
  "token_has_code st a \<longleftrightarrow>
     (\<exists>c code. codes st c = Some code \<and> ac_consumed code \<and> ac_scope code = at_scope a \<and>
        ac_tlsn_evidence code = at_tlsn_evidence a)"

definition session_consistent :: "capture_session \<Rightarrow> bool" where
  "session_consistent s \<longleftrightarrow>
     (cs_status s = Issued \<longrightarrow> cs_credential s \<noteq> None \<and> cs_credential_mdoc s \<noteq> None \<and>
        cs_iproov_token s = None) \<and>
     (cs_status s = AwaitingEvidence \<longrightarrow> cs_credential s = None \<and> cs_credential_mdoc s = None)"

definition state_ok :: "bool \<Rightarrow> volatile_state \<Rightarrow> bool" where
  "state_ok hybrid st \<longleftrightarrow>
     (\<forall>i x. offers st i = Some x \<longrightarrow> evidence_reserved st (co_tlsn_evidence x)) \<and>
     (\<forall>i x. pushed st i = Some x \<longrightarrow>
        valid_scope (pa_scope x) hybrid \<and> evidence_reserved st (pa_tlsn_evidence x)) \<and>
     (\<forall>i x. codes st i = Some x \<longrightarrow>
        valid_scope (ac_scope x) hybrid \<and> evidence_reserved st (ac_tlsn_evidence x)) \<and>
     (\<forall>i x. tokens st i = Some x \<longrightarrow> token_has_code st x) \<and>
     (\<forall>i x. capture_sessions st i = Some x \<longrightarrow> session_consistent x)"

fun task_ok :: "bool \<Rightarrow> volatile_state \<Rightarrow> task \<Rightarrow> bool" where
  "task_ok hybrid st (ParTask request ev) \<longleftrightarrow>
     valid_scope (pr_scope request) hybrid \<and> evidence_reserved st ev"
| "task_ok hybrid st (AuthorizeTask p) \<longleftrightarrow>
     valid_scope (pa_scope p) hybrid \<and> evidence_reserved st (pa_tlsn_evidence p)"
| "task_ok hybrid st _ \<longleftrightarrow> True"

definition system_ok :: "bool \<Rightarrow> system \<Rightarrow> bool" where
  "system_ok hybrid s \<longleftrightarrow>
     state_ok hybrid (fst s) \<and> (\<forall>t. t \<in># snd s \<longrightarrow> task_ok hybrid (fst s) t)"

lemma evidence_reserved_mono:
  "evidence_reserved st ev \<Longrightarrow> tlsn_sessions st \<subseteq> tlsn_sessions st' \<Longrightarrow> evidence_reserved st' ev"
  by (auto simp: evidence_reserved_def)

lemma task_ok_mono:
  "task_ok h st t \<Longrightarrow> tlsn_sessions st \<subseteq> tlsn_sessions st' \<Longrightarrow> task_ok h st' t"
  by (cases t) (auto intro: evidence_reserved_mono)

lemma filter_map_mem: "y \<in> set (filter_map f xs) \<Longrightarrow> \<exists>x \<in> set xs. f x = Some y"
  by (induction xs) (auto split: option.splits)

lemma find_offer_Some: "find_offer order i st = Some x \<Longrightarrow> \<exists>oid. offers st oid = Some x"
  by (auto simp: find_offer_def find_Some_iff dest!: nth_mem filter_map_mem)

lemma par_evidence_ok:
  assumes "par_evidence cfg clk order request st = Inr ev"
    and "state_ok (app_hybrid_pq_enabled cfg) st"
  shows "valid_scope (pr_scope request) (app_hybrid_pq_enabled cfg) \<and> evidence_reserved st ev"
  using assms
  by (auto simp: par_evidence_def ok_iff evidence_reserved_def state_ok_def
      dest!: find_offer_Some split: option.splits)

lemma state_ok_cong:
  "offers st' = offers st \<Longrightarrow> pushed st' = pushed st \<Longrightarrow> codes st' = codes st \<Longrightarrow>
   tokens st' = tokens st \<Longrightarrow> tlsn_sessions st' = tlsn_sessions st \<Longrightarrow>
   capture_sessions st' = capture_sessions st \<Longrightarrow> state_ok h st \<Longrightarrow> state_ok h st'"
  by (simp add: state_ok_def evidence_reserved_def token_has_code_def)

lemma state_ok_irrelevant [simp]:
  "state_ok h (st\<lparr>nonces := n\<rparr>) \<longleftrightarrow> state_ok h st"
  "state_ok h (st\<lparr>app_attest_challenges := c\<rparr>) \<longleftrightarrow> state_ok h st"
  by (simp_all add: state_ok_def evidence_reserved_def token_has_code_def)

lemma state_ok_offer:
  "state_ok h st \<Longrightarrow> evidence_reserved st (co_tlsn_evidence x) \<Longrightarrow>
   state_ok h (st\<lparr>offers := (offers st)(i \<mapsto> x)\<rparr>)"
  by (simp add: state_ok_def evidence_reserved_def token_has_code_def)

lemma state_ok_session:
  "state_ok h st \<Longrightarrow> state_ok h (st\<lparr>tlsn_sessions := insert x (tlsn_sessions st)\<rparr>)"
  by (simp add: state_ok_def evidence_reserved_def token_has_code_def)

lemma state_ok_push:
  "state_ok h st \<Longrightarrow> valid_scope (pa_scope x) h \<Longrightarrow> evidence_reserved st (pa_tlsn_evidence x) \<Longrightarrow>
   state_ok h (st\<lparr>pushed := (pushed st)(i \<mapsto> x)\<rparr>)"
  by (simp add: state_ok_def evidence_reserved_def token_has_code_def)

lemma state_ok_take: "state_ok h st \<Longrightarrow> state_ok h (st\<lparr>pushed := (pushed st)(i := None)\<rparr>)"
  by (simp add: state_ok_def evidence_reserved_def token_has_code_def)

lemma state_ok_code:
  assumes "state_ok h st" and "valid_scope (ac_scope x) h"
    and "evidence_reserved st (ac_tlsn_evidence x)" and "i \<notin> dom (codes st)"
  shows "state_ok h (st\<lparr>codes := (codes st)(i \<mapsto> x)\<rparr>)"
proof -
  have "token_has_code st a \<Longrightarrow> token_has_code (st\<lparr>codes := (codes st)(i \<mapsto> x)\<rparr>) a" for a
    using assms(4) unfolding token_has_code_def
    by (elim exE) (rename_tac c code, rule_tac x = c in exI, auto)
  with assms show ?thesis
    by (simp add: state_ok_def evidence_reserved_def)
qed

lemma state_ok_exchange:
  assumes "state_ok h st" and "codes st c = Some code"
  shows "state_ok h (st\<lparr>dpop_jtis := d, codes := (codes st)(c \<mapsto> code\<lparr>ac_consumed := True\<rparr>),
    tokens := (tokens st)(i \<mapsto> \<lparr>at_scope = ac_scope code, at_dpop_jkt = jkt,
      at_tlsn_evidence = ac_tlsn_evidence code\<rparr>)\<rparr>)" (is "state_ok h ?st")
proof -
  have kept: "token_has_code st a \<Longrightarrow> token_has_code ?st a" for a
    using assms(2) unfolding token_has_code_def
    by (elim exE) (rename_tac c' code', rule_tac x = c' in exI, auto)
  have "token_has_code ?st \<lparr>at_scope = ac_scope code, at_dpop_jkt = jkt,
      at_tlsn_evidence = ac_tlsn_evidence code\<rparr>"
    unfolding token_has_code_def by (rule exI [of _ c]) simp
  with kept assms show ?thesis
    by (simp add: state_ok_def evidence_reserved_def)
qed

lemma state_ok_capture:
  "state_ok h st \<Longrightarrow> session_consistent x \<Longrightarrow>
   state_ok h (st\<lparr>capture_sessions := (capture_sessions st)(i \<mapsto> x)\<rparr>)"
  by (simp add: state_ok_def evidence_reserved_def token_has_code_def)

lemma state_ok_resolve:
  "state_ok h st \<Longrightarrow> state_ok h (st\<lparr>binding_jtis := b,
     capture_sessions := (capture_sessions st)(i \<mapsto> resolved cred mdoc x)\<rparr>)"
  by (simp add: state_ok_def evidence_reserved_def token_has_code_def session_consistent_def
      resolved_def)

lemma state_ok_fail: "state_ok h st \<Longrightarrow> state_ok h (fail_session sid st)"
  by (auto simp: fail_session_def session_consistent_def intro!: state_ok_capture
      split: option.split)

lemma step_state_ok:
  assumes "service_step sv s e s'" and "system_ok (app_hybrid_pq_enabled (sv_state sv)) s"
  shows "state_ok (app_hybrid_pq_enabled (sv_state sv)) (fst s')"
  using assms(1)
proof (cases rule: service_step.cases)
  case (offer clk oid rnd config st r st' x ts)
  then show ?thesis using assms(2)
    by (auto simp: system_ok_def evidence_reserved_def intro!: state_ok_offer)
next
  case (tlsn_offer now oid rnd artifact st r st' ev x ts)
  from build_tlsn_offer_ok [OF tlsn_offer(4-7)] tlsn_offer(1) assms(2)
    state_ok_offer [OF state_ok_session, of _ st "vt_session_id ev"] show ?thesis
    by (simp add: system_ok_def tlsn_offer(3) evidence_reserved_def)
next
  case (par_end request ev ts uuid st r st')
  then show ?thesis using assms(2)
    by (force simp: system_ok_def intro!: state_ok_push)
next
  case (authorize_start request st p st' ts)
  then show ?thesis using assms(2) by (simp add: system_ok_def state_ok_take)
next
  case (authorize_refused request st err st' ts)
  with assms(2) authorize_take_err [OF authorize_refused(4)] show ?thesis
    by (simp add: system_ok_def state_ok_take)
next
  case (authorize_end p ts rnd st r st')
  then show ?thesis using assms(2)
    by (force simp: system_ok_def intro!: state_ok_code)
next
  case (token_ok clk dpop request vd rnd st r st' ts)
  then show ?thesis using assms(2)
    by (auto simp: system_ok_def intro!: state_ok_exchange)
next
  case (capture_open IP clk sid rnd origin_var crequest st r st' ts)
  from capture_open(4) show ?thesis
    by (rule create_pid_capture_session_ok)
      (use capture_open(1,3) assms(2) in
        \<open>simp add: system_ok_def state_ok_capture session_consistent_def\<close>)
next
  case (submit_finished now sid s v ts os store cdraws st r st')
  from submit_finished(5) show ?thesis
    by (rule finish_capture_ok)
      (use submit_finished(1,3) assms(2) in
        \<open>simp add: system_ok_def state_ok_resolve\<close>)
next
  case (submit_refused now sid s v ts os store cdraws st err st')
  from finish_capture_err [OF submit_refused(5)] show ?thesis
    using submit_refused(1,3) assms(2)
    by (auto simp: system_ok_def intro!: state_ok_fail elim!: state_ok_cong [rotated -1])
qed (use assms(2) in \<open>auto simp: system_ok_def elim!: state_ok_cong [rotated -1]\<close>)

lemma step_tasks_ok:
  assumes "service_step sv s e s'" and "system_ok (app_hybrid_pq_enabled (sv_state sv)) s"
    and "t \<in># snd s'"
  shows "task_ok (app_hybrid_pq_enabled (sv_state sv)) (fst s') t"
proof -
  let ?h = "app_hybrid_pq_enabled (sv_state sv)"
  have old: "t \<in># snd s \<Longrightarrow> task_ok ?h (fst s') t"
    using task_ok_mono notarisations.keeps_spent [OF assms(1)] assms(2)
    unfolding system_ok_def by blast
  from assms(1) consider (kept) "t \<in># snd s"
    | (par) request ev clk order where "t = ParTask request ev"
        "par_evidence (sv_state sv) clk order request (fst s) = Inr ev" "fst s' = fst s"
    | (authorize) request p where "t = AuthorizeTask p"
        "authorize_take request (fst s) = (Inr p, fst s')"
    | (other) "\<forall>h st. task_ok h st t"
    using assms(3)
    by (cases rule: service_step.cases)
      (auto dest: in_diffD)
  then show ?thesis
  proof cases
    case kept
    then show ?thesis by (rule old)
  next
    case par
    with par_evidence_ok [OF par(2)] assms(2) show ?thesis by (simp add: system_ok_def)
  next
    case authorize
    then have "pushed (fst s) (ar_request_uri request) = Some p"
      "tlsn_sessions (fst s') = tlsn_sessions (fst s)" by auto
    with assms(2) authorize(1) show ?thesis
      by (auto simp: system_ok_def state_ok_def evidence_reserved_def)
  qed simp
qed

lemma step_system_ok:
  "service_step sv s e s' \<Longrightarrow> system_ok (app_hybrid_pq_enabled (sv_state sv)) s \<Longrightarrow>
   system_ok (app_hybrid_pq_enabled (sv_state sv)) s'"
  using step_state_ok [of sv s e s'] step_tasks_ok [of sv s e s'] by (simp add: system_ok_def)

lemma system_ok_initial: "system_ok hybrid (initial_system sv file)"
  by (simp add: system_ok_def state_ok_def initial_system_def initial_state_def)

lemma service_system_ok:
  assumes "service_runs sv file es s"
  shows "system_ok (app_hybrid_pq_enabled (sv_state sv)) s"
  by (rule runs_invariant [where I = "system_ok (app_hybrid_pq_enabled (sv_state sv))",
        OF assms [unfolded service_runs_def] system_ok_initial])
    (rule step_system_ok)

text \<open>
  C20. Along every run the state is consistent: offers, pushed requests, codes,
  tokens and the requests in flight carry only notarised evidence whose session was reserved;
  pushed requests, codes and tokens have a scope of supported credentials; every access token comes
  from a consumed authorization code with exactly its scope and evidence; and a capture session has
  both credentials once it is issued and none while it awaits evidence.
\<close>

theorem service_invariant:
  assumes "service_runs sv file es s"
  shows "system_ok (app_hybrid_pq_enabled (sv_state sv)) s"
  using assms by (rule service_system_ok)

lemma service_invariant_witness:
  "\<exists>st. service_runs demo_service demo_file demo_events (st, {#}) \<and> system_ok False (st, {#}) \<and>
     (\<exists>s. capture_sessions st ''s'' = Some s \<and> cs_credential s \<noteq> None)"
proof -
  obtain st where run: "service_runs demo_service demo_file demo_events (st, {#})"
    and st: "\<exists>s. capture_sessions st ''s'' = Some s \<and> cs_status s = Issued" by (rule demo_run)
  from service_invariant [OF run] have ok: "system_ok False (st, {#})" by simp
  with st have "\<exists>s. capture_sessions st ''s'' = Some s \<and> cs_credential s \<noteq> None"
    by (auto simp: system_ok_def state_ok_def session_consistent_def)
  with run ok show ?thesis by blast
qed

end
