(* ===== verification/Ledger_Refinement.thy ===== *)
theory Ledger_Refinement
  imports Ledger Run_Properties
begin

text \<open>
  The service implements the ledger: every critical section is a step of the ledger between the
  ledgers of the two states, so every run of the service is a run of the ledger.
\<close>

section \<open>What the updates of the state do to its ledger\<close>

lemma ledger_of_simps [simp]:
  "lg_requests (ledger_of (st, ts)) = map_option entitlement_of_request \<circ> pushed st"
  "lg_authorized (ledger_of (st, ts)) = authorized_of ts"
  "lg_codes (ledger_of (st, ts)) = live_codes st"
  "lg_exchanged (ledger_of (st, ts)) = {c. \<exists>code. codes st c = Some code \<and> ac_consumed code}"
  "lg_tokens (ledger_of (st, ts)) = map_option entitlement_of_token \<circ> tokens st"
  "lg_nonces (ledger_of (st, ts)) = {n. nonces st n = Some False}"
  "lg_redeemed (ledger_of (st, ts)) = {n. nonces st n = Some True}"
  "lg_proofs (ledger_of (st, ts)) = dpop_jtis st"
  "lg_evidence (ledger_of (st, ts)) = binding_jtis st"
  "lg_sessions (ledger_of (st, ts)) = tlsn_sessions st"
  by (simp_all add: ledger_of_def)

lemma ledger_eqI:
  assumes "lg_requests a = lg_requests b" "lg_authorized a = lg_authorized b"
    "lg_codes a = lg_codes b" "lg_exchanged a = lg_exchanged b" "lg_tokens a = lg_tokens b"
    "lg_nonces a = lg_nonces b" "lg_redeemed a = lg_redeemed b" "lg_proofs a = lg_proofs b"
    "lg_evidence a = lg_evidence b" "lg_sessions a = lg_sessions b"
  shows "a = (b :: ledger)"
  using assms by simp

lemma live_codes_cong: "codes st' = codes st \<Longrightarrow> live_codes st' = live_codes st"
  by (simp add: live_codes_def fun_eq_iff)

lemma silentI:
  assumes "silent e" and "ledger_of s' = ledger_of s"
  shows "ledger_step h (ledger_of s) e (ledger_of s')"
  using ledger_step.silent [OF assms(1)] assms(2) by simp

lemma map_option_comp_upd:
  "map_option f \<circ> m(k \<mapsto> v) = (map_option f \<circ> m)(k \<mapsto> f v)"
  "map_option f \<circ> m(k := None) = (map_option f \<circ> m)(k := None)"
  by (simp_all add: fun_eq_iff)

lemma entitlement_ok_pushed:
  "valid_scope (pa_scope p) h \<Longrightarrow> evidence_reserved st (pa_tlsn_evidence p) \<Longrightarrow>
   entitlement_ok h (ledger_of (st, ts)) (entitlement_of_request p)"
  by (simp add: entitlement_ok_def entitlement_of_request_def evidence_reserved_def)

lemma fail_session_ledger:
  "pushed (fail_session sid st) = pushed st" "codes (fail_session sid st) = codes st"
  "tokens (fail_session sid st) = tokens st" "nonces (fail_session sid st) = nonces st"
  "tlsn_sessions (fail_session sid st) = tlsn_sessions st"
  by (simp_all add: fail_session_def split: option.split)

section \<open>The simulation\<close>

lemma step_refines:
  assumes "service_step sv s e s'" and "system_ok (app_hybrid_pq_enabled (sv_state sv)) s"
  shows "ledger_step (app_hybrid_pq_enabled (sv_state sv)) (ledger_of s) e (ledger_of s')"
    (is "ledger_step ?h _ _ _")
  using assms(1)
proof (cases rule: service_step.cases)
  case (tlsn_offer now oid rnd artifact st r st' ev x ts)
  note build_tlsn_offer_ok [OF tlsn_offer(4-7)]
  then have "ledger_of s' = (ledger_of s)\<lparr>lg_sessions :=
      insert (vt_session_id ev) (lg_sessions (ledger_of s))\<rparr>"
    "vt_session_id ev \<notin> lg_sessions (ledger_of s)"
    by (auto simp: tlsn_offer(1,3) live_codes_def fun_eq_iff intro!: ledger_eqI)
  then show ?thesis unfolding tlsn_offer(2) by (simp add: ledger_step.reserve)
next
  case (par_end request ev ts uuid st r st')
  define p where "p = \<lparr>pa_client_id = pr_client_id request, pa_redirect_uri = pr_redirect_uri request,
    pa_scope = pr_scope request, pa_state = pr_state request,
    pa_code_challenge = pr_code_challenge request, pa_tlsn_evidence = ev\<rparr>"
  let ?uri = "par_request_uri r"
  have st': "st' = st\<lparr>pushed := (pushed st)(?uri \<mapsto> p)\<rparr>" and fresh: "?uri \<notin> dom (pushed st)"
    using par_end(5,6) by (auto simp: p_def)
  have "valid_scope (pr_scope request) ?h" "evidence_reserved st ev"
    using assms(2) par_end(1,4) by (auto simp: system_ok_def)
  then have ok: "entitlement_ok ?h (ledger_of s) (entitlement_of_request p)"
    unfolding par_end(1) by (intro entitlement_ok_pushed) (simp_all add: p_def)
  have "ledger_of s' = (ledger_of s)\<lparr>lg_requests :=
      (lg_requests (ledger_of s))(?uri \<mapsto> entitlement_of_request p)\<rparr>"
    using par_end(4) by (auto simp: par_end(1,3) st' map_option_comp_upd authorized_of_remove
        live_codes_def fun_eq_iff intro!: ledger_eqI)
  moreover have "?uri \<notin> dom (lg_requests (ledger_of s))" using fresh by (auto simp: par_end(1))
  ultimately show ?thesis unfolding par_end(2) using ok by (simp add: ledger_step.push)
next
  case (authorize_start request st p st' ts)
  have "ledger_of s' = (ledger_of s)\<lparr>lg_requests :=
      (lg_requests (ledger_of s))(ar_request_uri request := None),
      lg_authorized := add_mset (entitlement_of_request p) (lg_authorized (ledger_of s))\<rparr>"
    using authorize_start(4) by (auto simp: authorize_start(1,3) map_option_comp_upd
        live_codes_def fun_eq_iff intro!: ledger_eqI)
  moreover have "lg_requests (ledger_of s) (ar_request_uri request) = Some (entitlement_of_request p)"
    using authorize_start(4) by (simp add: authorize_start(1))
  ultimately show ?thesis unfolding authorize_start(2) by (simp add: ledger_step.take)
next
  case (authorize_refused request st err st' ts)
  have "ledger_of s' = (ledger_of s)\<lparr>lg_requests :=
      (lg_requests (ledger_of s))(ar_request_uri request := None)\<rparr>"
    using authorize_take_err [OF authorize_refused(4)]
    by (auto simp: authorize_refused(1,3) map_option_comp_upd live_codes_def fun_eq_iff
        intro!: ledger_eqI)
  then show ?thesis unfolding authorize_refused(2) by (simp add: ledger_step.refuse_request)
next
  case (authorize_end p ts rnd st r st')
  let ?c = "random_token (codec (sv_packages sv)) rnd"
  have "ledger_of s' = (ledger_of s)\<lparr>lg_authorized :=
      lg_authorized (ledger_of s) - {#entitlement_of_request p#},
      lg_codes := (lg_codes (ledger_of s))(?c \<mapsto> entitlement_of_request p)\<rparr>"
    using authorize_end(4-6) by (auto simp: authorize_end(1,3) authorized_of_remove live_codes_def
        fun_eq_iff entitlement_of_code_def entitlement_of_request_def intro!: ledger_eqI
        split: if_splits)
  moreover have "entitlement_of_request p \<in># lg_authorized (ledger_of s)"
    using multi_member_split [OF authorize_end(4)] by (auto simp: authorize_end(1))
  moreover have "?c \<notin> dom (lg_codes (ledger_of s))" "?c \<notin> lg_exchanged (ledger_of s)"
    using authorize_end(6) by (auto simp: authorize_end(1) live_codes_def)
  ultimately show ?thesis unfolding authorize_end(2) by (simp add: ledger_step.code)
next
  case (token_ok clk dpop request vd rnd st r st' ts)
  let ?t = "random_token (codec (sv_packages sv)) rnd" and ?c = "tr_code request"
  from token_ok(5) obtain code where code: "codes st ?c = Some code" "\<not> ac_consumed code"
    and jti: "vd_jti vd \<notin> dpop_jtis st"
    and st': "st' = st\<lparr>dpop_jtis := insert (vd_jti vd) (dpop_jtis st),
      codes := (codes st)(?c \<mapsto> code\<lparr>ac_consumed := True\<rparr>),
      tokens := (tokens st)(?t \<mapsto> \<lparr>at_scope = ac_scope code, at_dpop_jkt = vd_jkt vd,
        at_tlsn_evidence = ac_tlsn_evidence code\<rparr>)\<rparr>"
    by (auto simp: code_binding_failed_def)
  have "ledger_of s' = (ledger_of s)\<lparr>lg_codes := (lg_codes (ledger_of s))(?c := None),
      lg_exchanged := insert ?c (lg_exchanged (ledger_of s)),
      lg_tokens := (lg_tokens (ledger_of s))(?t \<mapsto> (entitlement_of_code code, vd_jkt vd)),
      lg_proofs := insert (vd_jti vd) (lg_proofs (ledger_of s))\<rparr>"
    using code by (auto simp: token_ok(1,3) st' live_codes_def fun_eq_iff entitlement_of_code_def
        entitlement_of_token_def intro!: ledger_eqI split: if_splits)
  moreover have "lg_codes (ledger_of s) ?c = Some (entitlement_of_code code)"
    "vd_jti vd \<notin> lg_proofs (ledger_of s)" "?t \<notin> dom (lg_tokens (ledger_of s))"
    using code jti token_ok(6) by (auto simp: token_ok(1) live_codes_def)
  ultimately show ?thesis unfolding token_ok(2) by (simp add: ledger_step.exchange)
next
  case (token_refused clk dpop request vd rnd st err st' ts)
  have "ledger_of s' = (ledger_of s)\<lparr>lg_proofs := {vd_jti vd} \<union> lg_proofs (ledger_of s),
      lg_evidence := {} \<union> lg_evidence (ledger_of s)\<rparr>"
    using token_locked_err [OF token_refused(5)]
    by (auto simp: token_refused(1,3) live_codes_def fun_eq_iff intro!: ledger_eqI)
  then show ?thesis unfolding token_refused(2) by (metis ledger_step.refuse_proof)
next
  case (nonce draws n st r st' ts)
  have "ledger_of s' = (ledger_of s)\<lparr>lg_nonces := insert n (lg_nonces (ledger_of s))\<rparr>"
    using nonce(5,6) by (auto simp: nonce(1,3) live_codes_def fun_eq_iff intro!: ledger_eqI
        split: if_splits)
  moreover have "n \<notin> lg_nonces (ledger_of s)" "n \<notin> lg_redeemed (ledger_of s)"
    using nonce(5) by (auto simp: nonce(1))
  ultimately show ?thesis unfolding nonce(2) by (simp add: ledger_step.nonce)
next
  case (credential_granted clk_dpop authorization_header dpop access_token vd clk_proof clk draws
      request st g st' ts)
  from credential_granted(5) show ?thesis
  proof (rule credential_locked_ok, goal_cases)
    case (1 access)
    let ?n = "vcp_nonce (ig_proof g)" and ?b = "grant_binding_jti g"
    have "ledger_of s' = (ledger_of s)\<lparr>lg_nonces := lg_nonces (ledger_of s) - {?n},
        lg_redeemed := insert ?n (lg_redeemed (ledger_of s)),
        lg_proofs := insert (vd_jti vd) (lg_proofs (ledger_of s)),
        lg_evidence := set_option ?b \<union> lg_evidence (ledger_of s)\<rparr>"
      by (auto simp: credential_granted(1,3) 1(14) live_codes_def fun_eq_iff with_binding_def
          intro!: ledger_eqI split: option.splits if_splits)
    moreover have "lg_tokens (ledger_of s) access_token = Some (entitlement_of_token access)"
      using 1(2) by (simp add: credential_granted(1))
    moreover have "entitles (fst (entitlement_of_token access)) (cq_configuration_id request)"
      using 1(4,9) by (simp add: entitles_def entitlement_of_token_def)
    moreover have "?n \<in> lg_nonces (ledger_of s)" "vd_jti vd \<notin> lg_proofs (ledger_of s)"
      "set_option ?b \<inter> lg_evidence (ledger_of s) = {}"
      using 1(1,6,12) by (auto simp: credential_granted(1))
    ultimately show ?case
      unfolding credential_granted(2) by (metis ledger_step.redeem prod.collapse)
  qed
next
  case (credential_refused clk_dpop authorization_header dpop access_token vd clk_proof clk draws
      request st err st' ts)
  from credential_locked_err [OF credential_refused(5)] obtain b where
    "st' = st\<lparr>dpop_jtis := insert (vd_jti vd) (dpop_jtis st), binding_jtis := b \<union> binding_jtis st\<rparr>"
    by auto
  then have "ledger_of s' = (ledger_of s)\<lparr>lg_proofs := {vd_jti vd} \<union> lg_proofs (ledger_of s),
      lg_evidence := b \<union> lg_evidence (ledger_of s)\<rparr>"
    by (auto simp: credential_refused(1,3) live_codes_def fun_eq_iff intro!: ledger_eqI)
  then show ?thesis unfolding credential_refused(2) by (metis ledger_step.refuse_proof)
next
  case (submit_finished now sid s0 v ts os store cdraws st r st')
  from submit_finished(5) show ?thesis
  proof (rule finish_capture_ok, goal_cases)
    case (1 s1 signer signer' cred mdoc)
    have "ledger_of s' = (ledger_of s)\<lparr>lg_evidence := insert (vcl_jti v) (lg_evidence (ledger_of s))\<rparr>"
      using submit_finished(4) by (auto simp: submit_finished(1,3) 1(11) authorized_of_remove live_codes_def fun_eq_iff
          intro!: ledger_eqI)
    moreover have "vcl_jti v \<notin> lg_evidence (ledger_of s)" using 1(1) by (simp add: submit_finished(1))
    ultimately show ?case unfolding submit_finished(2) by (simp add: ledger_step.capture)
  qed
next
  case (submit_refused now sid s0 v ts os store cdraws st err st')
  have "ledger_of s' = (ledger_of s)\<lparr>lg_proofs := {} \<union> lg_proofs (ledger_of s),
      lg_evidence := {vcl_jti v} \<union> lg_evidence (ledger_of s)\<rparr>"
    using finish_capture_err [OF submit_refused(5)] submit_refused(4)
    by (auto simp: submit_refused(1,3) authorized_of_remove live_codes_def fun_eq_iff
        fail_session_ledger intro!: ledger_eqI)
  then show ?thesis unfolding submit_refused(2) by (metis ledger_step.refuse_proof)
next
  case (register_refused now c st err st' ts)
  have "ledger_of s' = (ledger_of s)\<lparr>lg_proofs := {} \<union> lg_proofs (ledger_of s),
      lg_evidence := {} \<union> lg_evidence (ledger_of s)\<rparr>"
    using consume_challenge_err [OF register_refused(4)]
    by (auto simp: register_refused(1,3) live_codes_def fun_eq_iff intro!: ledger_eqI)
  then show ?thesis unfolding register_refused(2) by (metis ledger_step.refuse_proof)
next
  case (dropped st t ts)
  have "ledger_of s' = (ledger_of s)\<lparr>lg_authorized := lg_authorized (ledger_of s) -
      (case authorized_request t of None \<Rightarrow> {#} | Some p \<Rightarrow> {#entitlement_of_request p#})\<rparr>"
    by (auto simp: dropped(1,3) intro!: ledger_eqI split: option.split)
  then show ?thesis unfolding dropped(2) by (metis ledger_step.drop)
qed (auto simp: live_codes_def fun_eq_iff authorized_of_remove intro!: silentI ledger_eqI
  split: option.splits)

section \<open>The runs\<close>

interpretation ledger: simulation "service_step sv"
    "ledger_step (app_hybrid_pq_enabled (sv_state sv))" ledger_of
    "system_ok (app_hybrid_pq_enabled (sv_state sv))" for sv
  by unfold_locales (blast intro: step_refines step_system_ok)+

lemma initial_ledger: "ledger_of (initial_system sv file) = empty_ledger"
  by (simp add: initial_system_def initial_state_def ledger_of_def empty_ledger_def live_codes_def
      fun_eq_iff)

text \<open>
  C3. The service implements the ledger of entitlements: every run of the
  handlers, with any interleaving of their critical sections, any refused requests and any dropped
  ones, is step for step a run of the ledger from the empty ledger to the ledger of the state
  reached. So an entitlement moves only from a pushed request to one authorization, one code, one
  token and then credentials in its scope, each for a nonce that was handed out; nothing creates,
  widens or copies one on the way, and no error path gives one back.
\<close>

theorem service_refines_ledger:
  assumes "service_runs sv file es s"
  shows "runs (ledger_step (app_hybrid_pq_enabled (sv_state sv))) empty_ledger es (ledger_of s)"
  using ledger.runs_simulated [OF assms [unfolded service_runs_def] system_ok_initial]
  by (simp add: initial_ledger)

lemma service_refines_ledger_witness:
  "\<exists>st. service_runs demo_service demo_file demo_events (st, {#}) \<and>
     runs (ledger_step False) empty_ledger demo_events (ledger_of (st, {#}))"
proof -
  obtain st where run: "service_runs demo_service demo_file demo_events (st, {#})" by (rule demo_run)
  with service_refines_ledger [OF run] show ?thesis by auto
qed

section \<open>What a credential has behind it\<close>

lemma service_history:
  assumes "service_runs sv file es s"
  shows "history_ok es (ledger_of s)"
  using ledger.runs_simulated [OF assms [unfolded service_runs_def] system_ok_initial]
  by (simp add: initial_ledger ledger_history)

text \<open>
  C5. Whatever the interleaving, a credential is never the first thing that
  happens: before it the service handed out the nonce it redeems, and, in this order, a request was
  pushed, that same request was taken up for authorization, a code was issued, and that same code
  was exchanged for a token. No step of the chain can be skipped, neither by a request that is
  refused nor by one that is dropped on the way.
\<close>

theorem credential_has_a_history:
  assumes "service_runs sv file (before @ CredentialGranted n jti profile evidence # after) s"
  shows "NonceIssued n \<in> set before \<and>
    (\<exists>uri c jti' t. subseq
       [RequestPushed uri, RequestTaken uri, CodeIssued c, TokenIssued c jti' t] before)"
proof -
  from assms obtain s1 s2 where before: "service_runs sv file before s1"
    and grant: "service_step sv s1 (CredentialGranted n jti profile evidence) s2"
    by (auto simp: service_runs_def runs_append runs_Cons)
  have "system_ok (app_hybrid_pq_enabled (sv_state sv)) s1"
    using ledger.runs_inv [OF before [unfolded service_runs_def] system_ok_initial] .
  from ledger.simulates [OF grant this] obtain t x
    where "lg_tokens (ledger_of s1) t = Some x" "n \<in> lg_nonces (ledger_of s1)"
    by cases auto
  with service_history [OF before] have "token_history before t" "NonceIssued n \<in> set before"
    by (auto simp: history_ok_def)
  then show ?thesis by (auto simp: token_history_def)
qed

lemma credential_has_a_history_witness:
  "\<exists>s before after n jti profile evidence.
     service_runs demo_service demo_file
       (before @ CredentialGranted n jti profile evidence # after) s \<and>
     NonceIssued n \<in> set before \<and>
     (\<exists>uri c jti' t. subseq
        [RequestPushed uri, RequestTaken uri, CodeIssued c, TokenIssued c jti' t] before)"
proof -
  have "demo_events = take 7 demo_events @
      CredentialGranted ''5'' ''c'' PID_FROM_EMRTD_SD_JWT (Some ''j'') # drop 8 demo_events"
    by (simp add: demo_events_def)
  moreover obtain st where "service_runs demo_service demo_file demo_events (st, {#})"
    by (rule demo_run)
  ultimately have run: "service_runs demo_service demo_file (take 7 demo_events @
      CredentialGranted ''5'' ''c'' PID_FROM_EMRTD_SD_JWT (Some ''j'') # drop 8 demo_events) (st, {#})"
    by metis
  with credential_has_a_history [OF run] show ?thesis by blast
qed

end
