(* ===== verification/Progress_Properties.thy ===== *)
theory Progress_Properties
  imports Run_Properties
begin

text \<open>
  Progress: what a wallet has been given stays usable until the wallet uses it, whatever the
  requests of others do in between, so a wallet that follows the protocol is served.
\<close>

section \<open>Kept until it is used\<close>

locale kept_until_used =
  fixes step :: "'s \<Rightarrow> 'e \<Rightarrow> 's \<Rightarrow> bool"
    and held :: "'s \<Rightarrow> 'k \<rightharpoonup> 'v"
    and takes :: "'e \<Rightarrow> 'k option"
  assumes keeps: "step s e s' \<Longrightarrow> held s k = Some v \<Longrightarrow> takes e \<noteq> Some k \<Longrightarrow> held s' k = Some v"
begin

lemma kept:
  "runs step s es s' \<Longrightarrow> held s k = Some v \<Longrightarrow> k \<notin> set (taken takes es) \<Longrightarrow> held s' k = Some v"
  by (induction rule: runs.induct) (auto split: option.splits dest: keeps)

end

lemma taken_None [simp]: "taken (\<lambda>_. None) es = []"
  by (simp add: taken_def List.map_filter_def)

definition open_code :: "volatile_state \<Rightarrow> string \<rightharpoonup> authorization_code" where
  "open_code st c = (case codes st c of
     None \<Rightarrow> None | Some code \<Rightarrow> if ac_consumed code then None else Some code)"

definition open_nonce :: "volatile_state \<Rightarrow> string \<rightharpoonup> unit" where
  "open_nonce st n = (if nonces st n = Some False then Some () else None)"

lemma open_code_Some_iff: "open_code st c = Some a \<longleftrightarrow> codes st c = Some a \<and> \<not> ac_consumed a"
  by (auto simp: open_code_def split: option.splits)

lemma open_nonce_Some_iff: "open_nonce st n = Some u \<longleftrightarrow> nonces st n = Some False"
  by (simp add: open_nonce_def)

interpretation open_codes: kept_until_used "service_step sv" "\<lambda>s. open_code (fst s)" code_used for sv
proof
  fix s e s' k v
  assume "service_step sv s e s'" "open_code (fst s) k = Some v" "code_used e \<noteq> Some k"
  then show "open_code (fst s') k = Some v"
    unfolding open_code_Some_iff
    by (cases rule: service_step.cases) (auto simp: fail_session_def split: option.splits)
qed

interpretation bearer_tokens: kept_until_used "service_step sv" "\<lambda>s. tokens (fst s)"
  "\<lambda>_. None :: string option" for sv
proof
  fix s e s' k v
  assume "service_step sv s e s'" "tokens (fst s) k = Some v"
  then show "tokens (fst s') k = Some v"
    by (cases rule: service_step.cases) (auto simp: fail_session_def split: option.splits if_splits)
qed

interpretation open_nonces: kept_until_used "service_step sv" "\<lambda>s. open_nonce (fst s)" nonce_used
  for sv
proof
  fix s e s' k v
  assume "service_step sv s e s'" "open_nonce (fst s) k = Some v" "nonce_used e \<noteq> Some k"
  then show "open_nonce (fst s') k = Some v"
    unfolding open_nonce_Some_iff
    by (cases rule: service_step.cases) (auto simp: fail_session_def split: option.splits)
qed

declare credential_locked_ok [rule del]

section \<open>A wallet that follows the protocol\<close>

text \<open>The token request of the client that pushed \<open>p\<close>, with a DPoP proof that verifies.\<close>

definition right_exchange ::
  "('k, 's, 'c, 'k3, 's3, 'w, 'h) service \<Rightarrow> u64 option \<Rightarrow> string option \<Rightarrow> pushed_authorization \<Rightarrow>
     token_request \<Rightarrow> verified_dpop \<Rightarrow> bool" where
  "right_exchange sv clk dpop p request vd \<longleftrightarrow>
     token_dpop (sv_packages sv) (sv_state sv) clk dpop request = Inr vd \<and>
     tr_client_id request = pa_client_id p \<and> tr_redirect_uri request = pa_redirect_uri p \<and>
     hash_b64 (codec (sv_packages sv)) (tr_code_verifier request) = pa_code_challenge p"

text \<open>The credential request of the holder of the key of the token, with a proof over its nonce.\<close>

definition right_request ::
  "('k, 's, 'c, 'k3, 's3, 'w, 'h) service \<Rightarrow> u64 option \<Rightarrow> u64 option \<Rightarrow> string option \<Rightarrow>
     string option \<Rightarrow> credential_request \<Rightarrow> string \<Rightarrow> verified_dpop \<Rightarrow> verified_credential_proof \<Rightarrow>
     bool" where
  "right_request sv clk_dpop clk_proof authorization_header dpop request access_token vd vp \<longleftrightarrow>
     credential_dpop (sv_packages sv) (sv_state sv) clk_dpop authorization_header dpop =
       Inr (access_token, vd) \<and>
     (\<exists>jws. cq_proofs_jwt request = [jws] \<and>
        verify_credential_proof (sv_packages sv) jws (app_issuer (sv_state sv)) clk_proof = Inr vp) \<and>
     vcp_holder_jkt vp = vd_jkt vd"

text \<open>The evidence that the profile needs, verified and not used before, and no other.\<close>

definition right_evidence ::
  "('k, 's, 'c, 'k3, 's3, 'w, 'h) service \<Rightarrow> credential_request \<Rightarrow> verified_credential_proof \<Rightarrow> u64 \<Rightarrow>
     verified_tlsn_evidence option \<Rightarrow> volatile_state \<Rightarrow> bool" where
  "right_evidence sv request vp now tlsn st \<longleftrightarrow>
     (if cq_configuration_id request \<in> {QEAA_PID_BOUND_SD_JWT, MANDATE_SD_JWT}
      then \<exists>b. supplied_pid_binding (sv_packages sv) (sv_state sv) request vp now = Inr b \<and>
        vpb_jti b \<notin> binding_jtis st
      else cq_pid_binding request = None) \<and>
     (if cq_configuration_id request = PID_FROM_EMRTD_SD_JWT
      then \<exists>v. supplied_emrtd_evidence (sv_packages sv) (sv_state sv) request vp now = Inr v \<and>
        chip_all_verdicts v \<and> vcl_jti v \<notin> binding_jtis st
      else cq_emrtd_attestation request = None) \<and>
     (cq_configuration_id request = TLSN_EVIDENCE_SD_JWT \<longrightarrow> tlsn \<noteq> None)"

lemma scope_item_has_role:
  assumes "valid_scope scope hybrid" and "profile \<in> set (split_ascii_whitespace scope)"
  shows "profile_role profile \<noteq> None \<and> (is_nfc_pid profile \<longrightarrow> profile = PID_FROM_EMRTD_SD_JWT)"
proof -
  have "profile \<in> set [PID_SD_JWT, PID_FROM_EMRTD_SD_JWT, PID_MDOC, EAA_MDOC, QEAA_SD_JWT,
      QEAA_PID_BOUND_SD_JWT, DEV_SVIPE_PID_SD_JWT, TLSN_EVIDENCE_SD_JWT, MANDATE_SD_JWT,
      HYBRID_PQ_SD_JWT]"
    using assms by (simp only: valid_scope_def Let_def list_all_iff) auto
  then have "profile_role profile \<noteq> None" "profile \<noteq> PID_FROM_EMRTD_MDOC"
    using profiles_neq by (auto simp: profile_role_def)
  then show ?thesis by (simp add: is_nfc_pid_def)
qed

lemma right_request_granted:
  assumes "right_request sv clk_dpop clk_proof h dpop request t vd vp"
    and "right_evidence sv request vp now (at_tlsn_evidence access) st"
    and "tokens st t = Some access" "at_dpop_jkt access = vd_jkt vd"
    and "valid_scope (at_scope access) hybrid"
    and "cq_configuration_id request \<in> set (split_ascii_whitespace (at_scope access))"
    and "nonces st (vcp_nonce vp) = Some False" "vd_jti vd \<notin> dpop_jtis st" "now \<noteq> - 1"
  shows "\<exists>g st'. credential_locked (sv_packages sv) (sv_state sv) clk_proof (Some now) draws t vd
      request st = (Inr g, st') \<and> ig_proof g = vp \<and> ig_now g = now \<and>
      ig_tlsn g = at_tlsn_evidence access"
proof -
  define pid where "pid = (if cq_configuration_id request \<in> {QEAA_PID_BOUND_SD_JWT, MANDATE_SD_JWT}
    then Some (case supplied_pid_binding (sv_packages sv) (sv_state sv) request vp now of Inr b \<Rightarrow> b)
    else None)"
  define chip where "chip = (if cq_configuration_id request = PID_FROM_EMRTD_SD_JWT
    then Some (case supplied_emrtd_evidence (sv_packages sv) (sv_state sv) request vp now of
      Inr v \<Rightarrow> v) else None)"
  define g where "g = \<lparr>ig_proof = vp, ig_now = now, ig_tlsn = at_tlsn_evidence access, ig_pid = pid,
    ig_chip = chip, ig_mandate = (if cq_configuration_id request = MANDATE_SD_JWT
      then Some \<lparr>mg_on_behalf_of =
          kernel_subject (codec (sv_packages sv)) (map_option vpb_subject pid) chip,
        mg_granted_powers = Powers DEMO_MANDATE_POWERS\<rparr> else None)\<rparr>"
  note role = scope_item_has_role [OF assms(5,6)]
  have "kernel_grants (sv_packages sv) draws request g"
    unfolding kernel_grants_def authorize_kernel_ok_iff
    using role assms(2,9) by (auto simp: g_def pid_def chip_def right_evidence_def split: if_splits)
  moreover have "\<forall>j. grant_binding_jti g = Some j \<longrightarrow> j \<notin> binding_jtis st"
    using assms(2) profiles_exclude [of request]
    by (auto simp: g_def pid_def chip_def right_evidence_def grant_binding_jti_def split: if_splits)
  moreover have "if cq_configuration_id request \<in> {QEAA_PID_BOUND_SD_JWT, MANDATE_SD_JWT}
      then \<exists>b. ig_pid g = Some b \<and>
        supplied_pid_binding (sv_packages sv) (sv_state sv) request (ig_proof g) (ig_now g) = Inr b
      else cq_pid_binding request = None \<and> ig_pid g = None"
    using assms(2) by (auto simp: g_def pid_def right_evidence_def split: if_splits)
  moreover have "if cq_configuration_id request = PID_FROM_EMRTD_SD_JWT
      then \<exists>v. ig_chip g = Some v \<and>
        supplied_emrtd_evidence (sv_packages sv) (sv_state sv) request (ig_proof g) (ig_now g) = Inr v
      else cq_emrtd_attestation request = None \<and> ig_chip g = None"
    using assms(2) by (auto simp: g_def chip_def right_evidence_def split: if_splits)
  moreover have "\<exists>jws. cq_proofs_jwt request = [jws] \<and>
      verify_credential_proof (sv_packages sv) jws (app_issuer (sv_state sv)) clk_proof =
        Inr (ig_proof g)"
    using assms(1) by (simp add: right_request_def g_def del: verify_credential_proof_ok_iff)
  moreover have "\<exists>access. tokens st t = Some access \<and> at_dpop_jkt access = vd_jkt vd \<and>
      cq_configuration_id request \<in> set (split_ascii_whitespace (at_scope access)) \<and>
      ig_tlsn g = at_tlsn_evidence access \<and>
      (cq_configuration_id request = TLSN_EVIDENCE_SD_JWT \<longrightarrow> at_tlsn_evidence access \<noteq> None)"
    using assms(2-4,6) by (intro exI [of _ access]) (simp add: right_evidence_def g_def)
  moreover have "vcp_holder_jkt (ig_proof g) = vd_jkt vd" "nonces st (vcp_nonce (ig_proof g)) = Some False"
    using assms(1,7) by (simp_all add: right_request_def g_def)
  moreover have "Some now = Some (ig_now g)" by (simp add: g_def)
  ultimately have "credential_locked (sv_packages sv) (sv_state sv) clk_proof (Some now) draws t vd
      request st = (Inr g, st\<lparr>dpop_jtis := insert (vd_jti vd) (dpop_jtis st),
        binding_jtis := with_binding (grant_binding_jti g) (binding_jtis st),
        nonces := (nonces st)(vcp_nonce (ig_proof g) \<mapsto> True)\<rparr>)"
    using assms(8) unfolding credential_locked_iff by (intro conjI refl) assumption+
  then show ?thesis by (auto simp: g_def)
qed

text \<open>The exchange, and the code that waits for it.\<close>

lemma right_exchange_served:
  assumes "authorize_issue (sv_packages sv) rnd p st0 = (redirect, st1)"
    and "runs (service_step sv) (st1, ts1) es1 (st2, ts2)"
    and "tr_code request = random_token (codec (sv_packages sv)) rnd"
      "tr_code request \<notin> set (taken code_used es1)"
    and "right_exchange sv clk dpop p request vd" "vd_jti vd \<notin> dpop_jtis st2"
    and "token (sv_packages sv) (sv_state sv) clk rnd' dpop request st2 = (answer, st3)"
  shows "answer = Inr (token_response (random_token (codec (sv_packages sv)) rnd') (pa_scope p))"
    and "tokens st3 (random_token (codec (sv_packages sv)) rnd') = Some \<lparr>at_scope = pa_scope p,
      at_dpop_jkt = vd_jkt vd, at_tlsn_evidence = pa_tlsn_evidence p\<rparr>"
proof -
  let ?code = "\<lparr>ac_client_id = pa_client_id p, ac_redirect_uri = pa_redirect_uri p,
    ac_scope = pa_scope p, ac_code_challenge = pa_code_challenge p, ac_consumed = False,
    ac_tlsn_evidence = pa_tlsn_evidence p\<rparr>"
  have "open_code st1 (tr_code request) = Some ?code"
    using assms(1,3) by (auto simp: open_code_Some_iff)
  then have "open_code st2 (tr_code request) = Some ?code"
    using open_codes.kept [OF assms(2), of "tr_code request" ?code] assms(4) by simp
  then have code: "codes st2 (tr_code request) = Some ?code"
    by (simp add: open_code_Some_iff)
  have "\<not> code_binding_failed (sv_packages sv) request ?code"
    using assms(5) by (simp add: code_binding_failed_def right_exchange_def pkce_matches_def)
  then obtain st where "token_locked (sv_packages sv) rnd' request vd st2 =
      (Inr (token_response (random_token (codec (sv_packages sv)) rnd') (pa_scope p)), st)"
    "tokens st (random_token (codec (sv_packages sv)) rnd') = Some \<lparr>at_scope = pa_scope p,
      at_dpop_jkt = vd_jkt vd, at_tlsn_evidence = pa_tlsn_evidence p\<rparr>"
    using code assms(6) by (simp add: token_locked_ok_iff)
  then show "answer = Inr (token_response (random_token (codec (sv_packages sv)) rnd') (pa_scope p))"
    "tokens st3 (random_token (codec (sv_packages sv)) rnd') = Some \<lparr>at_scope = pa_scope p,
      at_dpop_jkt = vd_jkt vd, at_tlsn_evidence = pa_tlsn_evidence p\<rparr>"
    using assms(5,7) by (simp_all add: token_def right_exchange_def del: token_locked_ok_iff)
qed

text \<open>
  C4. A wallet that follows the protocol gets its credential, whatever other
  requests are interleaved with its own. From a reachable state in which the authorization of a
  pushed request is in flight: the code is issued; after any further steps in which nobody exchanges
  that code, the token request of the client that pushed the request is answered with a token of the
  pushed scope; after any further steps a new nonce is handed out; and after any further steps in
  which nobody redeems that nonce, the credential request of the holder of the key, with a fresh DPoP
  proof, a proof over the nonce and the evidence that the profile needs, passes the critical section,
  and the answer is what the encoder of the profile makes of it.
\<close>

theorem honest_wallet_is_served:
  assumes "service_runs sv file es (st0, ts0)" and "AuthorizeTask p \<in># ts0"
    and "authorize_issue (sv_packages sv) rnd p st0 = (redirect, st1)"
    and "runs (service_step sv) (st1, ts1) es1 (st2, ts2)"
    and "tr_code trequest = random_token (codec (sv_packages sv)) rnd"
      "tr_code trequest \<notin> set (taken code_used es1)"
    and "right_exchange sv clk tdpop p trequest tvd" "vd_jti tvd \<notin> dpop_jtis st2"
    and "token (sv_packages sv) (sv_state sv) clk rnd' tdpop trequest st2 = (tanswer, st3)"
    and "runs (service_step sv) (st3, ts3) es3 (st4, ts4)"
    and "nonce_handler n st4 = (nanswer, st5)"
    and "runs (service_step sv) (st5, ts5) es5 (st6, ts6)" "n \<notin> set (taken nonce_used es5)"
    and "right_request sv clk_dpop clk_proof h dpop request
      (random_token (codec (sv_packages sv)) rnd') vd vp"
      "vd_jkt vd = vd_jkt tvd" "vd_jti vd \<notin> dpop_jtis st6" "vcp_nonce vp = n"
    and "cq_configuration_id request \<in> set (split_ascii_whitespace (pa_scope p))"
      "right_evidence sv request vp now (pa_tlsn_evidence p) st6" "now \<noteq> - 1"
    and "credential (sv_packages sv) env (sv_state sv) clk_dpop clk_proof (Some now) draws h dpop
      request st6 = (answer, st7)"
  shows "tanswer = Inr (token_response (random_token (codec (sv_packages sv)) rnd') (pa_scope p)) \<and>
    (\<exists>g. ig_proof g = vp \<and> ig_now g = now \<and> ig_tlsn g = pa_tlsn_evidence p \<and>
       nonces st7 n = Some True \<and>
       answer = mint_credential (sv_packages sv) env (sv_state sv) draws request g)"
proof -
  let ?t = "random_token (codec (sv_packages sv)) rnd'"
  let ?access = "\<lparr>at_scope = pa_scope p, at_dpop_jkt = vd_jkt tvd,
    at_tlsn_evidence = pa_tlsn_evidence p\<rparr>"
  from service_system_ok [OF assms(1)] assms(2)
  have scope: "valid_scope (pa_scope p) (app_hybrid_pq_enabled (sv_state sv))"
    by (auto simp: system_ok_def)
  note served = right_exchange_served [OF assms(3-9)]
  from served(2) have "tokens st4 ?t = Some ?access"
    using bearer_tokens.kept [OF assms(10), of ?t ?access] by simp
  then have "tokens st5 ?t = Some ?access" "nonces st5 n = Some False"
    using assms(11) by auto
  then have held: "tokens st6 ?t = Some ?access" "nonces st6 n = Some False"
    using bearer_tokens.kept [OF assms(12), of ?t ?access]
      open_nonces.kept [OF assms(12), of n "()"] assms(13) by (simp_all add: open_nonce_Some_iff)
  have "\<exists>g st'. credential_locked (sv_packages sv) (sv_state sv) clk_proof (Some now) draws ?t vd
      request st6 = (Inr g, st') \<and> ig_proof g = vp \<and> ig_now g = now \<and>
      ig_tlsn g = at_tlsn_evidence ?access"
    by (rule right_request_granted [OF assms(14) _ held(1) _ _ _ _ assms(16,20)])
      (use assms(15,17-19) scope held(2) in simp_all)
  then obtain g st' where locked: "credential_locked (sv_packages sv) (sv_state sv) clk_proof
      (Some now) draws ?t vd request st6 = (Inr g, st')"
    and g: "ig_proof g = vp" "ig_now g = now" "ig_tlsn g = pa_tlsn_evidence p" by auto
  then have "answer = mint_credential (sv_packages sv) env (sv_state sv) draws request g" "st7 = st'"
    using assms(14,21) by (auto simp: right_request_def credential_def bind_action_def
        check_only_def split: prod.splits)
  moreover have "nonces st' n = Some True"
    using locked g(1) assms(17) by (auto elim!: credential_locked_ok)
  ultimately show ?thesis using served(1) g by blast
qed

lemma demo_run_authorizing:
  "service_runs demo_service demo_file
     [EvidenceReserved ''o'' ''s1'', ParStarted, RequestPushed demo_uri, RequestTaken demo_uri]
     (demo_3, {#AuthorizeTask demo_pushed#})"
proof -
  have "initial_system demo_service demo_file = (demo_0, {#})"
    by (simp add: initial_system_def demo_0_def)
  then show ?thesis
    using runs_Nil [of "service_step demo_service" "(demo_0, {#})", THEN runs_snoc,
        OF demo_step_offer, THEN runs_snoc, OF demo_step_par, THEN runs_snoc, OF demo_step_push,
        THEN runs_snoc, OF demo_step_authorize]
    by (simp add: service_runs_def)
qed

lemma honest_wallet_is_served_witness:
  "\<exists>g. ig_proof g = ig_proof demo_grant \<and>
     nonces (snd (credential service_packages demo_signing demo_state (Some 100) (Some 100)
       (Some 100) demo_draws (Some ''DPoP token'') (Some ''d.c.7'') demo_credential_request demo_6))
       ''5'' = Some True \<and>
     fst (credential service_packages demo_signing demo_state (Some 100) (Some 100)
       (Some 100) demo_draws (Some ''DPoP token'') (Some ''d.c.7'') demo_credential_request demo_6) =
     mint_credential service_packages demo_signing demo_state demo_draws demo_credential_request g"
proof -
  let ?vd = "\<lambda>j. \<lparr>vd_jkt = demo_jkt, vd_jti = j\<rparr>"
  have issued: "authorize_issue service_packages (as_bytes ''code'') demo_pushed demo_3 =
      (url_append_pair service_urls ''app:'' ''code'' ''code'', demo_4)"
    by (simp add: demo_pushed_def demo_states demo_code_def)
  have exchange: "right_exchange demo_service (Some 100) (Some ''d.t.7'') demo_pushed
      demo_token_request (?vd ''t'')"
    by (simp add: right_exchange_def demo_token_dpop)
      (simp add: demo_token_request_def demo_pushed_def)
  have exchanged: "token service_packages demo_state (Some 100) (as_bytes ''token'')
      (Some ''d.t.7'') demo_token_request demo_4 =
      (Inr (token_response ''token'' PID_FROM_EMRTD_SD_JWT), demo_5)"
    by (simp add: token_def demo_token_dpop demo_token_locked del: token_locked_ok_iff)
  obtain nanswer where handed: "nonce_handler ''5'' demo_5 = (nanswer, demo_6)"
    by (simp add: demo_states)
  have request: "right_request demo_service (Some 100) (Some 100) (Some ''DPoP token'')
      (Some ''d.c.7'') demo_credential_request
      (random_token (codec (sv_packages demo_service)) (as_bytes ''token'')) (?vd ''c'')
      (ig_proof demo_grant)"
    by (simp add: right_request_def demo_credential_dpop del: verify_credential_proof_ok_iff)
      (simp add: demo_credential_request_def demo_grant_def demo_credential_proof_verifies
        del: verify_credential_proof_ok_iff)
  have evidence: "right_evidence demo_service demo_credential_request (ig_proof demo_grant) 100
      (pa_tlsn_evidence demo_pushed) demo_6"
  proof -
    have "cq_configuration_id demo_credential_request = PID_FROM_EMRTD_SD_JWT"
      "cq_pid_binding demo_credential_request = None"
      by (simp_all add: demo_credential_request_def)
    moreover have "vcl_jti (demo_chip ''j'') \<notin> binding_jtis demo_6"
      "chip_all_verdicts (demo_chip ''j'')"
      by (simp_all add: demo_states demo_chip_def chip_all_verdicts_def)
    ultimately show ?thesis
      using profiles_neq by (auto simp: right_evidence_def demo_supplied)
  qed
  have scope: "cq_configuration_id demo_credential_request \<in>
      set (split_ascii_whitespace (pa_scope demo_pushed))"
    unfolding demo_credential_request_def demo_pushed_def by code_simp
  have served: "\<exists>g. ig_proof g = ig_proof demo_grant \<and> ig_now g = 100 \<and> ig_tlsn g = None \<and>
     nonces (snd (credential service_packages demo_signing demo_state (Some 100) (Some 100)
       (Some 100) demo_draws (Some ''DPoP token'') (Some ''d.c.7'') demo_credential_request demo_6))
       ''5'' = Some True \<and>
     fst (credential service_packages demo_signing demo_state (Some 100) (Some 100)
       (Some 100) demo_draws (Some ''DPoP token'') (Some ''d.c.7'') demo_credential_request demo_6) =
     mint_credential service_packages demo_signing demo_state demo_draws demo_credential_request g"
    using honest_wallet_is_served [where sv = demo_service and env = demo_signing and
        draws = demo_draws and rnd = "as_bytes ''code''" and rnd' = "as_bytes ''token''" and
        ?ts1.0 = "{#}" and ?ts3.0 = "{#}" and ?ts5.0 = "{#}",
        OF demo_run_authorizing _ _ runs_Nil _ _ exchange _ _ runs_Nil handed runs_Nil _ request
          _ _ _ scope evidence _ surjective_pairing, unfolded demo_service_simps,
        OF _ issued _ _ _ exchanged]
    by (simp add: demo_token_request_def demo_states demo_grant_def demo_pushed_def)
  then show ?thesis by blast
qed

end
