(* ===== verification/Fail_Closed.thy ===== *)
theory Fail_Closed
  imports Run_Properties
begin

text \<open>
  What is not configured stays off along every run. A feature of the service is a part of its
  configuration that may be absent; an event needs the features without which it may not happen.
  The invariant is that the tasks in flight were checked against the configuration: the liveness
  verdict of a submission on its way to the last section is only set where a provider is
  configured.
\<close>

datatype feature = ChipReader | LivenessProvider | AppAttest | PushProvider | Keychain | HybridPq

fun configured :: "'h app_state \<Rightarrow> feature \<Rightarrow> bool" where
  "configured cfg ChipReader \<longleftrightarrow> app_trusted_emrtd_reader_key cfg \<noteq> None"
| "configured cfg LivenessProvider \<longleftrightarrow> app_iproov cfg \<noteq> None"
| "configured cfg AppAttest \<longleftrightarrow> app_app_attest cfg \<noteq> None"
| "configured cfg PushProvider \<longleftrightarrow> app_apns cfg"
| "configured cfg Keychain \<longleftrightarrow> app_target_macos cfg"
| "configured cfg HybridPq \<longleftrightarrow> app_hybrid_pq_enabled cfg"

text \<open>
  A profile's features are those its evidence is checked with and those its scope is accepted
  with.
\<close>

definition profile_needs :: "string \<Rightarrow> feature list" where
  "profile_needs profile =
     (if profile = PID_FROM_EMRTD_SD_JWT then [ChipReader]
      else if profile = QEAA_PID_BOUND_SD_JWT \<or> profile = MANDATE_SD_JWT then [Keychain]
      else if profile = HYBRID_PQ_SD_JWT then [HybridPq]
      else [])"

fun event_needs :: "event \<Rightarrow> feature list" where
  "event_needs (CredentialGranted n jti profile evidence) = profile_needs profile"
| "event_needs (SubmissionVerified sid) = [ChipReader]"
| "event_needs (CaptureIssued sid jti) = [ChipReader, LivenessProvider, Keychain]"
| "event_needs (ChallengeIssued challenge) = [AppAttest]"
| "event_needs (ChallengeConsumed challenge) = [AppAttest]"
| "event_needs (InstanceRegistered key_id) = [AppAttest]"
| "event_needs (AssertionAccepted key_id n) = [AppAttest]"
| "event_needs PushRegistered = [PushProvider]"
| "event_needs _ = []"

section \<open>The tasks in flight\<close>

fun task_configured :: "'h app_state \<Rightarrow> task \<Rightarrow> bool" where
  "task_configured cfg (RegisterTask config now request) \<longleftrightarrow> configured cfg AppAttest"
| "task_configured cfg (FinishTask now sid s v) \<longleftrightarrow>
     configured cfg ChipReader \<and> (vcl_liveness_matched v \<longrightarrow> configured cfg LivenessProvider)"
| "task_configured cfg _ \<longleftrightarrow> True"

definition system_configured :: "'h app_state \<Rightarrow> system \<Rightarrow> bool" where
  "system_configured cfg s \<longleftrightarrow>
     system_ok (app_hybrid_pq_enabled cfg) s \<and> (\<forall>t. t \<in># snd s \<longrightarrow> task_configured cfg t)"

lemma capture_evidence_configured:
  assumes "capture_evidence pk IP cfg now s request = Inr v"
  shows "task_configured cfg (FinishTask now' sid s' v)"
  using assms
  by (auto simp: capture_evidence_def capture_liveness_def portrait_matched_liveness_def ok_iff
      split: option.splits)

lemma step_tasks_configured:
  assumes "service_step sv s e s'" and "\<forall>t. t \<in># snd s \<longrightarrow> task_configured (sv_state sv) t"
  shows "t \<in># snd s' \<longrightarrow> task_configured (sv_state sv) t"
  using assms(1)
proof (cases rule: service_step.cases)
  case (submit_verified now sid erequest ts st s IP v)
  then show ?thesis
    using assms(2) capture_evidence_configured [OF submit_verified(6)] by (auto dest: in_diffD)
qed (use assms(2) in \<open>auto dest: in_diffD\<close>)

lemma step_system_configured:
  "system_configured (sv_state sv) s \<Longrightarrow> service_step sv s e s' \<Longrightarrow> system_configured (sv_state sv) s'"
  using step_system_ok [of sv s e s'] step_tasks_configured [of sv s e s']
  by (simp add: system_configured_def)

section \<open>What a step needs\<close>

lemma capture_kernel_liveness:
  assumes "is_ok (capture_kernel pk draws i PID_FROM_EMRTD_SD_JWT s v now)"
  shows "vcl_liveness_matched v"
  using assms
  by (auto simp: is_ok_iff capture_kernel_def authorize_kernel_ok_iff is_nfc_pid_def
      chip_all_verdicts_def)

lemma granted_profile_configured:
  assumes "credential_locked pk cfg clk clk' draws access_token vd request st = (Inr g, st')"
    and "state_ok (app_hybrid_pq_enabled cfg) st"
    and "f \<in> set (profile_needs (cq_configuration_id request))"
  shows "configured cfg f"
  using assms(1)
proof (rule credential_locked_ok, goal_cases)
  case (1 access)
  have "valid_scope (at_scope access) (app_hybrid_pq_enabled cfg)"
    using assms(2) 1(2) by (fastforce simp: state_ok_def token_has_code_def)
  then have hybrid: "cq_configuration_id request = HYBRID_PQ_SD_JWT \<Longrightarrow> app_hybrid_pq_enabled cfg"
    using 1(4) profiles_neq by (auto simp: valid_scope_def Let_def list_all_iff)
  show ?case
    using assms(3) 1(10,11) hybrid
    by (auto simp: profile_needs_def supplied_pid_binding_def supplied_emrtd_evidence_def ok_iff
        split: if_splits)
qed

lemma step_configured:
  assumes "system_configured (sv_state sv) s" and "service_step sv s e s'"
  shows "\<forall>f \<in> set (event_needs e). configured (sv_state sv) f"
  using assms(2)
proof (cases rule: service_step.cases)
  case (credential_granted clk_dpop h dpop t vd clk_proof clk draws request st g st' ts)
  then show ?thesis
    using assms(1) granted_profile_configured [OF credential_granted(5)]
    by (simp add: system_configured_def system_ok_def)
next
  case (submit_finished now sid s v ts os store cdraws st r st')
  have task: "task_configured (sv_state sv) (FinishTask now sid s v)"
    using assms(1) unfolding system_configured_def submit_finished(1) snd_conv
    by (elim conjE allE [of _ "FinishTask now sid s v"]) (simp only: submit_finished(4))
  from submit_finished(5) show ?thesis
  proof (rule finish_capture_ok, goal_cases)
    case 1
    then show ?case
      using task capture_kernel_liveness [OF 1(3)] by (simp add: submit_finished(2))
  qed
next
  case (register_end config now request ts inst io st r st')
  then show ?thesis using assms(1) by (auto simp: system_configured_def)
qed (auto simp: capture_evidence_def ok_iff)

text \<open>
  C10. What is not configured fails closed along every run, whatever
  the interleaving: no event of the run needs a feature that the service was started without.
  Without a trusted reader key no PID is granted from chip evidence and no submission is verified;
  without a liveness provider no capture session is issued, whatever the reader attests; without
  App Attest no challenge is handed out or consumed, no instance registered and no assertion
  accepted, even from a table restored from its file; without a push provider no device is
  registered; without the Keychain no PID-bound credential or mandate is granted and no capture
  session issued; and without the experimental mode no hybrid credential is granted.
\<close>

theorem unconfigured_features_stay_off:
  assumes "service_runs sv file es s" and "\<not> configured (sv_state sv) f"
  shows "\<forall>e \<in> set es. f \<notin> set (event_needs e)"
proof -
  have "system_configured (sv_state sv) (initial_system sv file)"
    using system_ok_initial by (simp add: system_configured_def initial_system_def)
  then have "\<forall>e \<in> set es. \<forall>f \<in> set (event_needs e). configured (sv_state sv) f"
    by (rule runs_events [OF assms(1) [unfolded service_runs_def]])
      (fact step_system_configured, rule step_configured)
  with assms(2) show ?thesis by blast
qed

lemma unconfigured_features_stay_off_witness:
  "\<exists>s. service_runs demo_service demo_file demo_events s \<and>
     \<not> configured demo_state PushProvider \<and> PushRegistered \<notin> set demo_events \<and>
     \<not> configured demo_state HybridPq \<and>
     (\<forall>n jti b. CredentialGranted n jti HYBRID_PQ_SD_JWT b \<notin> set demo_events)"
proof -
  obtain st where run: "service_runs demo_service demo_file demo_events (st, {#})" by (rule demo_run)
  have off: "\<not> configured (sv_state demo_service) PushProvider"
    "\<not> configured (sv_state demo_service) HybridPq" by simp_all
  have "HybridPq \<in> set (profile_needs HYBRID_PQ_SD_JWT)"
    by (simp add: profile_needs_def profile_defs)
  with unconfigured_features_stay_off [OF run off(1)] unconfigured_features_stay_off [OF run off(2)]
  have "PushRegistered \<notin> set demo_events"
    "CredentialGranted n jti HYBRID_PQ_SD_JWT b \<notin> set demo_events" for n jti b
    by fastforce+
  with run off show ?thesis by auto
qed

end
