(* ===== verification/Panic_Free.thy ===== *)
theory Panic_Free
  imports Service_Effects
begin

text \<open>
  Which errors a computation can end in. Of interest are panics, which are error values (the code's
  \<open>expect\<close> and \<open>unreachable!\<close>): a computation is quiet when none of its errors is one. Most of the
  code is quiet outright; the encoders are quiet under what the checks before them have established.
\<close>

named_theorems error_intros \<open>which errors a composed computation ends in\<close>

definition only_errors :: "(oauth_error \<Rightarrow> bool) \<Rightarrow> 'a oauth \<Rightarrow> bool" where
  "only_errors P m \<longleftrightarrow> (\<forall>e. m = Inl e \<longrightarrow> P e)"

abbreviation quiet :: "'a oauth \<Rightarrow> bool" where
  "quiet \<equiv> only_errors (\<lambda>e. \<not> panics e)"

lemma only_errorsD: "only_errors P m \<Longrightarrow> m = Inl e \<Longrightarrow> P e"
  by (simp add: only_errors_def)

lemma only_errors_simps [simp]:
  "only_errors P (Inr x)" "only_errors P (Inl e) \<longleftrightarrow> P e"
  "only_errors P (guard_err c e) \<longleftrightarrow> (c \<longrightarrow> P e)"
  by (auto simp: only_errors_def guard_err_def)

lemma only_errors_ok_or [simp]: "only_errors P (ok_or e m) \<longleftrightarrow> (m = None \<longrightarrow> P e)"
  by (cases m) auto

lemma only_errors_map_err [simp]: "(\<forall>e. P (f e)) \<Longrightarrow> only_errors P (map_err f m)"
  by (auto simp: only_errors_def map_err_def split: sum.splits)

lemma status_panics [simp]:
  "panics (oauth_error s c d) \<longleftrightarrow> s = 0" "panics (panic d)"
  "\<not> panics (invalid_proof d)" "\<not> panics (invalid_dpop d)" "\<not> panics (server_error d)"
  "\<not> panics (denied d)" "\<not> panics (not_implemented d)" "\<not> panics (invalid_token d)"
  "\<not> panics (invalid_request d)" "\<not> panics (not_enabled d)" "\<not> panics requires_keychain"
  by (simp_all add: panics_def oauth_error_def panic_def invalid_proof_def invalid_dpop_def
      server_error_def denied_def not_implemented_def invalid_token_def invalid_request_def
      not_enabled_def requires_keychain_def)

lemma only_errors_and_then [error_intros]:
  "only_errors P m \<Longrightarrow> (\<And>x. m = Inr x \<Longrightarrow> only_errors P (f x)) \<Longrightarrow> only_errors P (and_then m f)"
  by (cases m) auto

lemma only_errors_if [error_intros]: "(b \<Longrightarrow> only_errors P m) \<Longrightarrow> (\<not> b \<Longrightarrow> only_errors P n) \<Longrightarrow> only_errors P (if b then m else n)"
  by simp

lemma only_errors_prod [error_intros]:
  "(\<And>a b. p = (a, b) \<Longrightarrow> only_errors P (f a b)) \<Longrightarrow> only_errors P (case p of (a, b) \<Rightarrow> f a b)"
  by (cases p) simp

lemma only_errors_option [error_intros]:
  "(m = None \<Longrightarrow> only_errors P a) \<Longrightarrow> (\<And>x. m = Some x \<Longrightarrow> only_errors P (f x)) \<Longrightarrow>
   only_errors P (case m of None \<Rightarrow> a | Some x \<Rightarrow> f x)"
  by (cases m) simp_all

lemma only_errors_sum [error_intros]:
  "(\<And>e. m = Inl e \<Longrightarrow> only_errors P (f e)) \<Longrightarrow> (\<And>x. m = Inr x \<Longrightarrow> only_errors P (g x)) \<Longrightarrow>
   only_errors P (case m of Inl e \<Rightarrow> f e | Inr x \<Rightarrow> g x)"
  by (cases m) simp_all

lemma only_errors_for_each [error_intros]: "(\<And>x. only_errors P (f x)) \<Longrightarrow> only_errors P (for_each f xs)"
  by (induction xs) (auto intro: error_intros)

lemma only_errors_collect [error_intros]: "(\<And>x. only_errors P (f x)) \<Longrightarrow> only_errors P (collect_results f xs)"
  by (induction xs) (auto intro!: error_intros)

section \<open>The checks\<close>

lemma quiet_unix_time [simp]: "quiet (unix_time clk)"
  by (simp add: unix_time_def)

lemma quiet_verifying_key [simp]: "quiet (verifying_key_and_jwk pk jwk code)"
  unfolding verifying_key_and_jwk_def Let_def by (intro error_intros) simp_all

lemma quiet_jws_payload [simp]: "quiet (verify_jws_payload pk compact key label)"
  unfolding verify_jws_payload_def Let_def by (intro error_intros) simp_all

lemma quiet_credential_proof [simp]: "quiet (verify_credential_proof pk jws issuer clk)"
  unfolding verify_credential_proof_def Let_def by (intro error_intros) simp_all

lemma quiet_dpop [simp]: "quiet (verify_dpop pk jws m uri clk)"
  unfolding verify_dpop_def Let_def by (intro error_intros) simp_all

lemma quiet_disclosures [simp]: "quiet (read_disclosures pk allowed ds acc)"
  by (induction ds arbitrary: acc) (auto intro!: error_intros)

lemma quiet_pid_binding [simp]: "quiet (verify_pid_binding pk vp jws jwk issuer n jkt now)"
  unfolding verify_pid_binding_def Let_def
  by (intro error_intros) (auto simp: guard_err_ok_iff)

lemma quiet_portrait [simp]: "quiet (accepted_portrait p)"
  unfolding accepted_portrait_def by (intro error_intros) simp_all

lemma quiet_emrtd [simp]: "quiet (verify_emrtd_evidence pk a key issuer n jkt now)"
  unfolding verify_emrtd_evidence_def by (intro error_intros) simp_all

lemma quiet_kernel [simp]: "quiet (authorize_kernel c name jkt n pid chip now r r')"
  unfolding authorize_kernel_def Let_def
  by (intro error_intros) (auto dest: profile_format_Some)

text \<open>
  The endpoints of the DPoP checks are joined to the base URL; that is the one panic a request can
  reach there.
\<close>

lemma quiet_bearer [simp]: "quiet (bearer h)"
  by (simp add: bearer_def)

lemma credential_dpop_panics_iff:
  "credential_dpop pk cfg clk h dpop = Inl e \<Longrightarrow>
     panics e \<longleftrightarrow> url_join (urls pk) (app_issuer cfg) ''credential'' = None \<and> is_ok (bearer h) \<and>
       dpop \<noteq> None"
  using only_errorsD [OF quiet_bearer, of h]
    only_errorsD [OF quiet_dpop, of pk "the dpop" "''POST''"
      "the (url_join (urls pk) (app_issuer cfg) ''credential'')" clk]
  by (cases "bearer h"; cases dpop; cases "url_join (urls pk) (app_issuer cfg) ''credential''")
    (auto simp: credential_dpop_def is_ok_iff and_then_err_iff simp del: verify_dpop_ok_iff)

lemma quiet_check_access [simp]: "quiet (check_access t vd request st)"
  unfolding check_access_def by (intro error_intros) simp_all

lemma quiet_check_proof [simp]: "quiet (check_credential_proof pk cfg clk access request st)"
  unfolding check_credential_proof_def by (intro error_intros) simp_all

lemma quiet_check_tlsn [simp]: "quiet (check_tlsn access request)"
  by (simp add: check_tlsn_def)

lemma quiet_supplied_pid:
  "signers_configured cfg \<Longrightarrow> quiet (supplied_pid_binding pk cfg request vp now)"
  unfolding supplied_pid_binding_def
  by (intro error_intros) (simp_all add: signers_configured_def signer_profiles_def)

lemma quiet_supplied_emrtd [simp]: "quiet (supplied_emrtd_evidence pk cfg request vp now)"
  unfolding supplied_emrtd_evidence_def by (intro error_intros) simp_all

text \<open>The statuses of the errors of a DPoP check: those of client errors, or the clock has failed.\<close>

definition client_error :: "oauth_error \<Rightarrow> bool" where
  "client_error e \<longleftrightarrow> 400 \<le> err_status e \<and> err_status e < 500"

lemma status_client_error [simp]:
  "client_error (oauth_error s c d) \<longleftrightarrow> 400 \<le> s \<and> s < 500" "client_error (invalid_dpop d)"
  by (simp_all add: client_error_def oauth_error_def invalid_dpop_def)

lemma dpop_client_errors:
  "only_errors (\<lambda>e. client_error e \<or> unix_time clk = Inl e) (verify_dpop pk jws m uri clk)"
proof -
  have "only_errors (\<lambda>e. client_error e \<or> unix_time clk = Inl e) (unix_time clk)"
    by (simp add: only_errors_def)
  then show ?thesis unfolding verify_dpop_def Let_def by (intro error_intros) simp_all
qed

section \<open>The encoders\<close>

lemma quiet_sign [simp]: "quiet (sign_sd_jwt pk env signer payload ds)"
  unfolding sign_sd_jwt_def Let_def by (intro error_intros) simp_all

lemma quiet_sd_jwt:
  assumes "profile = PID_FROM_EMRTD_SD_JWT \<Longrightarrow> pid \<noteq> None"
    and "profile = TLSN_EVIDENCE_SD_JWT \<Longrightarrow> tlsn \<noteq> None"
    and "profile \<in> {PID_SD_JWT, DEV_SVIPE_PID_SD_JWT, PID_FROM_EMRTD_SD_JWT, QEAA_SD_JWT,
      QEAA_PID_BOUND_SD_JWT, TLSN_EVIDENCE_SD_JWT}"
  shows "quiet (issue_sd_jwt pk env rnd signer issuer profile jwk now tlsn pid)"
  unfolding issue_sd_jwt_def Let_def sd_jwt_claims_def
  using assms by (intro error_intros) auto

lemma quiet_mandate [simp]:
  "quiet (issue_mandate_sd_jwt pk env rnd signer issuer jwk m granted jti now)"
  unfolding issue_mandate_sd_jwt_def Let_def by (intro error_intros) simp_all

lemma quiet_cbor [simp]: "quiet (encode_canonical_cbor lib v)" "quiet (cbor_encode lib v)"
  by (simp_all add: encode_canonical_cbor_def cbor_encode_def)

lemma quiet_hybrid [simp]:
  "quiet (issue_hybrid_credential pk env rnd signer issuer jwk jkt n now)"
  unfolding issue_hybrid_credential_def hybrid_disclosure_def by (intro error_intros) simp_all

lemma quiet_rfc3339 [simp]: "quiet (rfc3339 t s)"
  unfolding rfc3339_def by (intro error_intros) simp_all

lemma quiet_coordinate [simp]: "quiet (decode_jwk_coordinate pk jwk name)"
  unfolding decode_jwk_coordinate_def by (intro error_intros) simp_all

lemma quiet_mdoc:
  assumes "profile = PID_FROM_EMRTD_MDOC \<Longrightarrow> pid \<noteq> None"
    and "profile \<in> {PID_MDOC, EAA_MDOC, PID_FROM_EMRTD_MDOC}"
  shows "quiet (issue_mdoc pk env rnd signer profile jwk now pid hybrid)"
proof -
  have "key_label profile \<noteq> None" using assms(2) by (auto simp: key_label_def)
  moreover have "quiet (mdoc_claims (codec pk) profile pid)"
    unfolding mdoc_claims_def using assms by (intro error_intros) auto
  ultimately show ?thesis
    unfolding issue_mdoc_def Let_def mdoc_item_def mdoc_unprotected_def
    by (intro error_intros) simp_all
qed

section \<open>The critical section\<close>

lemma bind_quiet:
  assumes "bind_action m f st = (Inl e, st'')"
    and "\<And>st'. m st = (Inl e, st') \<Longrightarrow> \<not> panics e"
    and "\<And>x st'. m st = (Inr x, st') \<Longrightarrow> f x st' = (Inl e, st'') \<Longrightarrow> \<not> panics e"
  shows "\<not> panics e"
  using assms by (elim bind_action_cases) auto

lemma check_quiet: "check_only r st = (Inl e, st') \<Longrightarrow> quiet r \<Longrightarrow> \<not> panics e"
  by (auto simp: only_errors_def)

lemma use_binding_jti_quiet: "use_binding_jti d j st = (Inl e, st') \<Longrightarrow> \<not> panics e"
  by simp

lemma take_pid_binding_quiet:
  assumes "take_pid_binding pk cfg request vp now st = (Inl e, st')" and "signers_configured cfg"
  shows "\<not> panics e"
  using assms quiet_supplied_pid [OF assms(2), of pk request vp now]
  unfolding take_pid_binding_def
  by (auto simp: only_errors_def elim!: bind_action_cases split: if_splits)

lemma take_emrtd_evidence_quiet:
  assumes "take_emrtd_evidence pk cfg request vp now st = (Inl e, st')"
  shows "\<not> panics e"
  using assms quiet_supplied_emrtd [of pk cfg request vp now]
  unfolding take_emrtd_evidence_def
  by (auto simp: only_errors_def elim!: bind_action_cases split: if_splits)

lemma credential_locked_quiet:
  assumes "credential_locked pk cfg clk clk' draws access_token vd request st = (Inl e, st')"
    and cfg: "signers_configured cfg"
  shows "\<not> panics e"
  using assms(1) unfolding credential_locked_def
  apply (rule bind_quiet)
   apply simp
  apply (erule bind_quiet, erule check_quiet, simp)+
  apply (erule bind_quiet, erule take_pid_binding_quiet, rule cfg)
  apply (erule bind_quiet, erule take_emrtd_evidence_quiet)
  apply (erule bind_quiet, erule check_quiet, simp)
  apply (erule bind_quiet)
   apply (auto simp: check_credential_proof_ok_iff dest!: take_pid_binding_grows
      take_emrtd_evidence_grows binding_grows_nonces)
  done

lemma signer_of_profile:
  "signers_configured cfg \<Longrightarrow> p \<in> set signer_profiles \<Longrightarrow> quiet (closed_signer cfg p)"
  by (auto simp: signers_configured_def closed_signer_def)

lemma quiet_mint:
  assumes "signers_configured cfg"
    and "cq_configuration_id request = PID_FROM_EMRTD_SD_JWT \<Longrightarrow> ig_chip g \<noteq> None"
    and "cq_configuration_id request = TLSN_EVIDENCE_SD_JWT \<Longrightarrow> ig_tlsn g \<noteq> None"
    and "cq_configuration_id request = MANDATE_SD_JWT \<Longrightarrow> ig_mandate g \<noteq> None"
  shows "quiet (mint_credential pk env cfg draws request g)"
  using assms profiles_neq
  unfolding mint_credential_def Let_def
  by (intro error_intros signer_of_profile quiet_sd_jwt quiet_mdoc)
    (auto simp: signer_profiles_def)

end
