(* ===== verification/Handler_Properties.thy ===== *)
theory Handler_Properties
  imports Demo_Service Panic_Free
begin

text \<open>
  What the handlers promise: when a credential is granted and what a refusal leaves behind, when a
  request can make the credential endpoint panic, the exchange of a code for a token, the conditions
  under which a capture session issues a PID, and the registration of App Attest instances.
\<close>

section \<open>The credential endpoint\<close>

text \<open>
  C8. The exact conditions of the critical section of the credential endpoint, in
  both directions: it grants a credential if and only if the DPoP identifier is fresh, the access
  token exists, is bound to the key of the DPoP proof and covers the profile, exactly one credential
  proof was sent that verifies for this issuer under the same key with an unused nonce, the evidence
  the profile needs (and no other) was supplied, verified and not used before, and the kernel
  authorises. Then the state records both identifiers and the nonce as used and changes in nothing
  else.
\<close>

theorem credential_granted_iff:
  "credential_locked pk cfg clk clk' draws access_token vd request st = (Inr g, st') \<longleftrightarrow>
     vd_jti vd \<notin> dpop_jtis st \<and>
     (\<exists>access. tokens st access_token = Some access \<and> at_dpop_jkt access = vd_jkt vd \<and>
        cq_configuration_id request \<in> set (split_ascii_whitespace (at_scope access)) \<and>
        ig_tlsn g = at_tlsn_evidence access \<and>
        (cq_configuration_id request = TLSN_EVIDENCE_SD_JWT \<longrightarrow> at_tlsn_evidence access \<noteq> None)) \<and>
     (\<exists>jws. cq_proofs_jwt request = [jws] \<and>
        verify_credential_proof pk jws (app_issuer cfg) clk = Inr (ig_proof g)) \<and>
     vcp_holder_jkt (ig_proof g) = vd_jkt vd \<and> nonces st (vcp_nonce (ig_proof g)) = Some False \<and>
     clk' = Some (ig_now g) \<and>
     (if cq_configuration_id request \<in> {QEAA_PID_BOUND_SD_JWT, MANDATE_SD_JWT}
      then \<exists>b. ig_pid g = Some b \<and>
        supplied_pid_binding pk cfg request (ig_proof g) (ig_now g) = Inr b
      else cq_pid_binding request = None \<and> ig_pid g = None) \<and>
     (if cq_configuration_id request = PID_FROM_EMRTD_SD_JWT
      then \<exists>v. ig_chip g = Some v \<and>
        supplied_emrtd_evidence pk cfg request (ig_proof g) (ig_now g) = Inr v
      else cq_emrtd_attestation request = None \<and> ig_chip g = None) \<and>
     (\<forall>j. grant_binding_jti g = Some j \<longrightarrow> j \<notin> binding_jtis st) \<and>
     kernel_grants pk draws request g \<and>
     st' = st\<lparr>dpop_jtis := insert (vd_jti vd) (dpop_jtis st),
       binding_jtis := with_binding (grant_binding_jti g) (binding_jtis st),
       nonces := (nonces st)(vcp_nonce (ig_proof g) \<mapsto> True)\<rparr>"
  by (rule credential_locked_iff)

lemma credential_granted_iff_witness:
  "credential_locked service_packages demo_state (Some 100) (Some 100) demo_draws ''token''
     \<lparr>vd_jkt = demo_jkt, vd_jti = ''c''\<rparr> demo_credential_request demo_6 = (Inr demo_grant, demo_7) \<and>
   nonces demo_6 (vcp_nonce (ig_proof demo_grant)) = Some False \<and>
   kernel_grants service_packages demo_draws demo_credential_request demo_grant"
  using demo_locked credential_granted_iff [THEN iffD1, OF demo_locked] by blast

text \<open>
  C32. What an error of the credential endpoint leaves
  behind, on every path: nothing changes at all when the access token's scheme or the DPoP proof is
  refused; afterwards the identifier of the DPoP proof is recorded, and with it at most identifiers of
  evidence that this very request supplied and that verified, while access tokens, authorization
  codes, offers, nonces and sessions are as before. Only when the critical section had granted the
  request and the encoder then failed is the nonce of that request's proof spent as well: it was
  unused before, and no other nonce changes.
\<close>

theorem refused_credential_changes_replay_sets_only:
  assumes "credential pk env cfg clk_dpop clk_proof clk draws h dpop request st = (Inl e, st')"
  shows "credential_dpop pk cfg clk_dpop h dpop = Inl e \<and> st' = st \<or>
    (\<exists>access_token vd. credential_dpop pk cfg clk_dpop h dpop = Inr (access_token, vd) \<and>
      ((\<exists>b. (\<forall>j \<in> b. verified_evidence pk cfg request j) \<and>
          st' = st\<lparr>dpop_jtis := insert (vd_jti vd) (dpop_jtis st),
            binding_jtis := b \<union> binding_jtis st\<rparr>) \<or>
       (\<exists>g. credential_locked pk cfg clk_proof clk draws access_token vd request st = (Inr g, st') \<and>
          mint_credential pk env cfg draws request g = Inl e \<and>
          nonces st (vcp_nonce (ig_proof g)) = Some False \<and>
          st' = st\<lparr>dpop_jtis := insert (vd_jti vd) (dpop_jtis st),
            binding_jtis := with_binding (grant_binding_jti g) (binding_jtis st),
            nonces := (nonces st)(vcp_nonce (ig_proof g) \<mapsto> True)\<rparr>)))"
proof (cases "credential_dpop pk cfg clk_dpop h dpop")
  case (Inl e')
  with assms show ?thesis by (simp add: credential_def bind_action_def check_only_def)
next
  case (Inr tv)
  obtain t vd where tv: "tv = (t, vd)" by (cases tv)
  with assms Inr have "bind_action (credential_locked pk cfg clk_proof clk draws t vd request)
      (\<lambda>g. check_only (mint_credential pk env cfg draws request g)) st = (Inl e, st')"
    by (simp add: credential_def bind_action_def [of "check_only _"] check_only_def)
  then consider (refused) e' where
      "credential_locked pk cfg clk_proof clk draws t vd request st = (Inl e', st')"
    | (unsigned) g where
      "credential_locked pk cfg clk_proof clk draws t vd request st = (Inr g, st')"
      "mint_credential pk env cfg draws request g = Inl e"
    by (rule bind_action_cases) auto
  then show ?thesis
  proof cases
    case refused
    from credential_locked_err [OF refused] have
      "\<exists>b. (\<forall>j \<in> b. verified_evidence pk cfg request j) \<and>
         st' = st\<lparr>dpop_jtis := insert (vd_jti vd) (dpop_jtis st), binding_jtis := b \<union> binding_jtis st\<rparr>"
      by (simp add: binding_grows_def)
    with Inr tv show ?thesis by simp
  next
    case unsigned
    note granted = credential_locked_iff [THEN iffD1, OF unsigned(1)]
    from granted have "nonces st (vcp_nonce (ig_proof g)) = Some False" by (elim conjE)
    moreover from granted have "st' = st\<lparr>dpop_jtis := insert (vd_jti vd) (dpop_jtis st),
        binding_jtis := with_binding (grant_binding_jti g) (binding_jtis st),
        nonces := (nonces st)(vcp_nonce (ig_proof g) \<mapsto> True)\<rparr>" by (elim conjE)
    ultimately have "\<exists>g. credential_locked pk cfg clk_proof clk draws t vd request st = (Inr g, st') \<and>
        mint_credential pk env cfg draws request g = Inl e \<and>
        nonces st (vcp_nonce (ig_proof g)) = Some False \<and>
        st' = st\<lparr>dpop_jtis := insert (vd_jti vd) (dpop_jtis st),
          binding_jtis := with_binding (grant_binding_jti g) (binding_jtis st),
          nonces := (nonces st)(vcp_nonce (ig_proof g) \<mapsto> True)\<rparr>"
      using unsigned by (intro exI [of _ g] conjI)
    with Inr tv show ?thesis by (intro disjI2 exI [of _ t] exI [of _ vd] conjI) simp_all
  qed
qed

lemma dpop_jtis_set: "dpop_jtis (st\<lparr>dpop_jtis := d, binding_jtis := b\<rparr>) = d"
  by simp

lemma refused_credential_changes_replay_sets_only_witness:
  "\<exists>e. credential service_packages demo_signing demo_state (Some 100) (Some 100) (Some 100)
       demo_draws (Some ''DPoP token'') (Some ''d.c.7'') demo_credential_request demo_7 =
     (Inl e, demo_7) \<and> \<not> panics e \<and> ''c'' \<in> dpop_jtis demo_7"
proof -
  have replay: "credential_locked service_packages demo_state (Some 100) (Some 100) demo_draws
      ''token'' \<lparr>vd_jkt = demo_jkt, vd_jti = ''c''\<rparr> demo_credential_request demo_7 =
      (Inl (oauth_error UNAUTHORIZED ''invalid_dpop_proof'' ''DPoP jti has already been used''),
       demo_7)"
    by (simp add: credential_locked_def bind_action_def use_dpop_jti_def insert_new_def demo_states
        insert_absorb)
  then have refused: "credential service_packages demo_signing demo_state (Some 100) (Some 100)
      (Some 100) demo_draws (Some ''DPoP token'') (Some ''d.c.7'') demo_credential_request demo_7 =
      (Inl (oauth_error UNAUTHORIZED ''invalid_dpop_proof'' ''DPoP jti has already been used''),
       demo_7)"
    by (simp add: credential_def demo_credential_dpop bind_action_def check_only_def)
  from refused_credential_changes_replay_sets_only [OF refused] replay have
    "\<exists>b. demo_7 = demo_7\<lparr>dpop_jtis := insert ''c'' (dpop_jtis demo_7),
       binding_jtis := b \<union> binding_jtis demo_7\<rparr>"
    by (auto simp: demo_credential_dpop)
  then have "dpop_jtis demo_7 = insert ''c'' (dpop_jtis demo_7)" by (metis dpop_jtis_set)
  with refused show ?thesis by auto
qed

text \<open>
  C27. When the credential endpoint can panic: with a signer
  for every profile, as \<open>main\<close> makes it start, exactly when the path \<open>credential\<close> cannot be joined to
  the configured issuer URL and the request has an access token and a DPoP proof, and then nothing
  has changed. Every other \<open>expect\<close> and \<open>unreachable!\<close> of the model of the path, in the evidence, the
  kernel, the consumption of the nonce and all the encoders, is unreachable for every request in
  every state.
\<close>

theorem credential_panics_only_without_base_url:
  assumes "credential pk env cfg clk_dpop clk_proof clk draws h dpop request st = (Inl e, st')"
    and "signers_configured cfg"
  shows "(panics e \<longleftrightarrow> url_join (urls pk) (app_issuer cfg) ''credential'' = None \<and>
      is_ok (bearer h) \<and> dpop \<noteq> None) \<and> (panics e \<longrightarrow> st' = st)"
proof (cases "credential_dpop pk cfg clk_dpop h dpop")
  case (Inl e')
  with assms(1) have "e' = e" "st' = st"
    by (simp_all add: credential_def bind_action_def check_only_def)
  with credential_dpop_panics_iff [OF Inl] show ?thesis by simp
next
  case (Inr tv)
  obtain t vd where "tv = (t, vd)" by (cases tv)
  with assms(1) Inr have "bind_action
      (credential_locked pk cfg clk_proof clk draws t vd request)
      (\<lambda>g. check_only (mint_credential pk env cfg draws request g)) st = (Inl e, st')"
    by (simp add: credential_def bind_action_def [of "check_only _"] check_only_def)
  then have "\<not> panics e"
  proof (rule bind_quiet)
    fix st1
    assume "credential_locked pk cfg clk_proof clk draws t vd request st = (Inl e, st1)"
    then show ?thesis using assms(2) by (rule credential_locked_quiet)
  next
    fix g st1
    assume "credential_locked pk cfg clk_proof clk draws t vd request st = (Inr g, st1)"
    then have "quiet (mint_credential pk env cfg draws request g)"
    proof (rule credential_locked_ok, goal_cases)
      case (1 access)
      with assms(2) show ?case
        by (intro quiet_mint) (auto simp: kernel_grants_def authorize_kernel_ok_iff split: if_splits)
    qed
    moreover assume "check_only (mint_credential pk env cfg draws request g) st1 = (Inl e, st')"
    ultimately show ?thesis by (auto elim: check_quiet)
  qed
  moreover have "url_join (urls pk) (app_issuer cfg) ''credential'' \<noteq> None"
    using Inr by (auto simp: credential_dpop_def and_then_ok_iff ok_or_ok_iff)
  ultimately show ?thesis by simp
qed

lemma demo_signers: "signers_configured demo_state"
  by (simp add: signers_configured_def)

lemma credential_panics_only_without_base_url_witness:
  "\<exists>e. credential (service_packages\<lparr>urls := service_urls\<lparr>url_join := \<lambda>_ _. None\<rparr>\<rparr>) demo_signing
       demo_state (Some 100) (Some 100) None demo_draws (Some ''DPoP token'') (Some ''d.c.7'')
       demo_credential_request demo_0 = (Inl e, demo_0) \<and> panics e"
proof -
  let ?pk = "service_packages\<lparr>urls := service_urls\<lparr>url_join := \<lambda>_ _. None\<rparr>\<rparr>"
  have bearer: "bearer (Some ''DPoP token'') = Inr ''token''"
    using strip_prefix_append [of "''DPoP ''" "''token''"] by (simp add: bearer_def)
  then have refused: "credential ?pk demo_signing demo_state (Some 100) (Some 100) None demo_draws
      (Some ''DPoP token'') (Some ''d.c.7'') demo_credential_request demo_0 =
      (Inl (panic ''static endpoint must be a valid URL''), demo_0)"
    by (simp add: credential_def credential_dpop_def bind_action_def check_only_def)
  from credential_panics_only_without_base_url [OF refused demo_signers] bearer refused
  show ?thesis by (auto simp: is_ok_iff)
qed

text \<open>
  The development profile \<open>dev.svipe.pid.sd-jwt\<close> may be requested
  as a scope and its requests pass every check and the kernel, so the critical section marks the
  nonce as used; but no encoder handles the profile, so every such request ends in
  \<open>unknown_credential_configuration\<close> and the wallet has lost its nonce.
\<close>

theorem unmintable_grant_burns_nonce:
  assumes "cq_configuration_id request = DEV_SVIPE_PID_SD_JWT"
    and "credential_locked pk cfg clk clk' draws access_token vd request st = (Inr g, st')"
  shows "valid_scope (cq_configuration_id request) hybrid \<and>
    nonces st (vcp_nonce (ig_proof g)) = Some False \<and>
    nonces st' (vcp_nonce (ig_proof g)) = Some True \<and>
    mint_credential pk env cfg draws request g =
      Inl (oauth_error BAD_REQUEST ''unknown_credential_configuration''
        ''credential configuration is unknown'')"
proof -
  have "valid_scope DEV_SVIPE_PID_SD_JWT hybrid"
    by (cases hybrid; code_simp)
  moreover have "mint_credential pk env cfg draws request g =
      Inl (oauth_error BAD_REQUEST ''unknown_credential_configuration''
        ''credential configuration is unknown'')"
    by (simp add: mint_credential_def assms(1) profile_defs)
  ultimately show ?thesis
    using assms by (auto elim!: credential_locked_ok)
qed

definition demo_svipe_request :: credential_request where
  "demo_svipe_request = \<lparr>cq_configuration_id = DEV_SVIPE_PID_SD_JWT, cq_proofs_jwt = [''h.c.7''],
     cq_pid_binding = None, cq_emrtd_attestation = None\<rparr>"

definition demo_svipe_state :: volatile_state where
  "demo_svipe_state = demo_6\<lparr>tokens := [''token'' \<mapsto> demo_access\<lparr>at_scope := DEV_SVIPE_PID_SD_JWT\<rparr>]\<rparr>"

lemma demo_svipe_granted:
  "\<exists>st'. credential_locked service_packages demo_state (Some 100) (Some 100) demo_draws ''token''
     \<lparr>vd_jkt = demo_jkt, vd_jti = ''c''\<rparr> demo_svipe_request demo_svipe_state =
     (Inr (demo_grant\<lparr>ig_chip := None\<rparr>), st')"
proof -
  have "DEV_SVIPE_PID_SD_JWT \<in> set (split_ascii_whitespace DEV_SVIPE_PID_SD_JWT)"
    by code_simp
  then show ?thesis
    unfolding credential_locked_iff
    using profiles_neq
    by (auto simp: demo_svipe_request_def demo_svipe_state_def demo_states demo_grant_def
        demo_access_def demo_credential_proof_verifies grant_binding_jti_def kernel_grants_def
        authorize_kernel_ok_iff profile_role_def is_nfc_pid_def
        simp del: verify_credential_proof_ok_iff)
qed

lemma unmintable_grant_burns_nonce_witness:
  "\<exists>st'. credential_locked service_packages demo_state (Some 100) (Some 100) demo_draws ''token''
     \<lparr>vd_jkt = demo_jkt, vd_jti = ''c''\<rparr> demo_svipe_request demo_svipe_state =
     (Inr (demo_grant\<lparr>ig_chip := None\<rparr>), st') \<and> nonces st' ''5'' = Some True"
proof -
  have svipe: "cq_configuration_id demo_svipe_request = DEV_SVIPE_PID_SD_JWT"
    by (simp add: demo_svipe_request_def)
  obtain st' where granted: "credential_locked service_packages demo_state (Some 100)
      (Some 100) demo_draws ''token'' \<lparr>vd_jkt = demo_jkt, vd_jti = ''c''\<rparr> demo_svipe_request
      demo_svipe_state = (Inr (demo_grant\<lparr>ig_chip := None\<rparr>), st')"
    using demo_svipe_granted ..
  from unmintable_grant_burns_nonce [OF svipe granted] granted show ?thesis
    by (auto simp: demo_grant_def)
qed

section \<open>Tokens\<close>

text \<open>
  C21. The token endpoint in full: it answers with a token exactly when the grant
  type is authorization code, a fresh DPoP proof verifies for this endpoint, and the code is known,
  not consumed, was issued to the same client and redirect URI, and the SHA-256 of the verifier is the
  challenge of the pushed request (PKCE). Then the code is consumed and the token is bound to the key
  of the proof with exactly the scope and the evidence of the code. Every refusal leaves codes and
  tokens as they are; its status is that of a client error, or the clock could not be read, or the
  endpoint's path cannot be joined to the issuer URL, on which the handler panics.
\<close>

theorem token_exchanged_iff:
  "(token pk cfg clk rnd dpop request st = (Inr r, st') \<longleftrightarrow>
     tr_grant_type request = ''authorization_code'' \<and>
     (\<exists>jws endpoint vd code. dpop = Some jws \<and>
        url_join (urls pk) (app_issuer cfg) ''token'' = Some endpoint \<and>
        verify_dpop pk jws ''POST'' endpoint clk = Inr vd \<and>
        vd_jti vd \<notin> dpop_jtis st \<and> codes st (tr_code request) = Some code \<and>
        \<not> ac_consumed code \<and> ac_client_id code = tr_client_id request \<and>
        ac_redirect_uri code = tr_redirect_uri request \<and>
        hash_b64 (codec pk) (tr_code_verifier request) = ac_code_challenge code \<and>
        r = token_response (random_token (codec pk) rnd) (ac_scope code) \<and>
        st' = st\<lparr>dpop_jtis := insert (vd_jti vd) (dpop_jtis st),
          codes := (codes st)(tr_code request \<mapsto> code\<lparr>ac_consumed := True\<rparr>),
          tokens := (tokens st)(random_token (codec pk) rnd \<mapsto>
            \<lparr>at_scope = ac_scope code, at_dpop_jkt = vd_jkt vd,
             at_tlsn_evidence = ac_tlsn_evidence code\<rparr>)\<rparr>)) \<and>
   (token pk cfg clk rnd dpop request st = (Inl e, st') \<longrightarrow>
     st' = st\<lparr>dpop_jtis := dpop_jtis st'\<rparr> \<and> dpop_jtis st \<subseteq> dpop_jtis st' \<and>
     (client_error e \<or> unix_time clk = Inl e \<or>
      e = panic ''static endpoint must be a valid URL'' \<and>
      url_join (urls pk) (app_issuer cfg) ''token'' = None))"
proof
  have dpop_ok: "token_dpop pk cfg clk dpop request = Inr vd \<longleftrightarrow>
      tr_grant_type request = ''authorization_code'' \<and> (\<exists>jws endpoint. dpop = Some jws \<and>
        url_join (urls pk) (app_issuer cfg) ''token'' = Some endpoint \<and>
        verify_dpop pk jws ''POST'' endpoint clk = Inr vd)"
    for vd
    by (auto simp: token_dpop_def and_then_ok_iff guard_err_ok_iff ok_or_ok_iff)
  show "token pk cfg clk rnd dpop request st = (Inr r, st') \<longleftrightarrow>
     tr_grant_type request = ''authorization_code'' \<and>
     (\<exists>jws endpoint vd code. dpop = Some jws \<and>
        url_join (urls pk) (app_issuer cfg) ''token'' = Some endpoint \<and>
        verify_dpop pk jws ''POST'' endpoint clk = Inr vd \<and>
        vd_jti vd \<notin> dpop_jtis st \<and> codes st (tr_code request) = Some code \<and>
        \<not> ac_consumed code \<and> ac_client_id code = tr_client_id request \<and>
        ac_redirect_uri code = tr_redirect_uri request \<and>
        hash_b64 (codec pk) (tr_code_verifier request) = ac_code_challenge code \<and>
        r = token_response (random_token (codec pk) rnd) (ac_scope code) \<and>
        st' = st\<lparr>dpop_jtis := insert (vd_jti vd) (dpop_jtis st),
          codes := (codes st)(tr_code request \<mapsto> code\<lparr>ac_consumed := True\<rparr>),
          tokens := (tokens st)(random_token (codec pk) rnd \<mapsto>
            \<lparr>at_scope = ac_scope code, at_dpop_jkt = vd_jkt vd,
             at_tlsn_evidence = ac_tlsn_evidence code\<rparr>)\<rparr>)"
  proof (cases "token_dpop pk cfg clk dpop request")
    case (Inl e)
    then have "\<And>vd. token_dpop pk cfg clk dpop request \<noteq> Inr vd" by simp
    then show ?thesis unfolding dpop_ok using Inl by (simp add: token_def)
  next
    case (Inr vd)
    with dpop_ok [of vd] show ?thesis
      by (auto simp: token_def code_binding_failed_def pkce_matches_def
          simp del: verify_dpop_ok_iff)
  qed
  let ?P = "\<lambda>e. client_error e \<or> unix_time clk = Inl e \<or>
      e = panic ''static endpoint must be a valid URL'' \<and>
      url_join (urls pk) (app_issuer cfg) ''token'' = None"
  have "only_errors ?P (verify_dpop pk jws ''POST'' endpoint clk)" for jws endpoint
    using dpop_client_errors [of clk pk jws "''POST''" endpoint] by (auto simp: only_errors_def)
  then have "only_errors ?P (token_dpop pk cfg clk dpop request)"
    unfolding token_dpop_def by (intro error_intros) simp_all
  then show "token pk cfg clk rnd dpop request st = (Inl e, st') \<longrightarrow>
      st' = st\<lparr>dpop_jtis := dpop_jtis st'\<rparr> \<and> dpop_jtis st \<subseteq> dpop_jtis st' \<and> ?P e"
    by (auto simp: token_def only_errors_def client_error_def dest!: token_locked_err
        split: sum.splits)
qed

lemma token_exchanged_iff_witness:
  "token service_packages demo_state (Some 100) (as_bytes ''token'') (Some ''d.t.7'')
     demo_token_request demo_4 = (Inr (token_response ''token'' PID_FROM_EMRTD_SD_JWT), demo_5) \<and>
   (\<exists>code. codes demo_4 ''code'' = Some code \<and> \<not> ac_consumed code \<and>
      hash_b64 service_codec ''v'' = ac_code_challenge code)"
proof -
  have exchanged: "token service_packages demo_state (Some 100) (as_bytes ''token'')
      (Some ''d.t.7'') demo_token_request demo_4 =
      (Inr (token_response ''token'' PID_FROM_EMRTD_SD_JWT), demo_5)"
    by (simp add: token_def demo_token_dpop demo_token_locked del: token_locked_ok_iff)
  from token_exchanged_iff [THEN conjunct1, THEN iffD1, OF exchanged] exchanged show ?thesis
    by (auto simp: demo_token_request_def simp del: verify_dpop_ok_iff)
qed

section \<open>Capture sessions\<close>

declare finish_capture_ok [rule del] enforce_app_attest_ok [rule del] finish_capture_err [rule del]

lemma capture_evidence_ok:
  assumes "capture_evidence pk IP cfg now s request = Inr v"
  obtains b reader v0 where "capture_liveness IP (codec pk) cfg s (ce_client_ip request) = Inr b"
    "app_trusted_emrtd_reader_key cfg = Some reader"
    "verify_emrtd_evidence pk (ce_attestation request) reader (app_issuer cfg) (cs_nonce s)
       (cs_holder_jkt s) now = Inr v0"
    "v = v0\<lparr>vcl_liveness_matched := portrait_matched_liveness b (vcl_liveness_matched v0)\<rparr>"
  using assms by (auto simp: capture_evidence_def ok_iff)

lemma capture_liveness_True:
  assumes "capture_liveness IP c cfg s ip = Inr True"
  shows "\<exists>config t. app_iproov cfg = Some config \<and> cs_iproov_token s = Some t \<and>
    validate IP c config t (cs_iproov_user_id s) (case ip of Some a \<Rightarrow> a | None \<Rightarrow> ''0.0.0.0'') =
      Inr True"
  using assms
  by (auto simp: capture_liveness_def map_err_ok_iff split: option.splits)

lemma submit_ok:
  assumes "submit_pid_capture_evidence pk env L IL io IP cfg clk draws k h sid body parsed st =
    (Inr r, st')"
  obtains u st1 request now s v where
    "enforce_app_attest L IL io cfg k h body st = (Inr u, st1)" "parsed body = Some request"
    "clk = Some now" "snapshot_session now sid st1 = Inr s"
    "capture_evidence pk IP cfg now s request = Inr v"
    "finish_capture pk env cfg draws now sid s v st1 = (Inr r, st')"
  using assms
  by (auto simp: submit_pid_capture_evidence_def bind_action_ok_iff unix_time_ok_iff ok_or_ok_iff
      intro: that)

lemma enforce_keeps_rest:
  assumes "enforce_app_attest L IL io cfg k h body st = (r, st')"
  shows "capture_sessions st' = capture_sessions st \<and> binding_jtis st' = binding_jtis st"
  using assms
  by (auto simp: enforce_app_attest_def verify_app_attest_assertion_def elim!: bind_action_cases
      split: if_splits option.splits sum.splits)

text \<open>
  C9. A capture session issues a PID only when all of the
  evidence is there (downgrade-closed): when App Attest is configured, a registered instance signed
  exactly this body with a higher counter than recorded; the session was awaiting evidence and not
  expired; the
  liveness provider is configured, gave this session a token and passed it with the configured
  assurance; and a trusted reader's attestation for the session's nonce and holder key, not used
  before, affirms passive authentication, chip authenticity and the portrait match. Both credentials
  minted, the SD-JWT VC and the mdoc, are what the encoders make of the reader's claims for the key
  the session was opened with, each under the signer of its profile; the response delivers these two,
  and the session is issued with them.
\<close>

theorem capture_issued_requires_all_evidence:
  assumes "submit_pid_capture_evidence pk env L IL io IP cfg clk draws k h sid body parsed st =
    (Inr (response, push), st')"
  shows "(app_app_attest cfg \<noteq> None \<longrightarrow>
      (\<exists>key_id b64 a inst n. k = Some key_id \<and> h = Some b64 \<and> b64_decode (at_codec L) b64 = Some a \<and>
         app_attest_instances st key_id = Some inst \<and> verify_assertion L a body inst = Inr n \<and>
         ri_sign_count inst < n)) \<and>
    (\<exists>s now request config t reader v signer signer' cred mdoc.
       capture_sessions st sid = Some s \<and> cs_status s = AwaitingEvidence \<and>
       clk = Some now \<and> now \<le> cs_expires_at s \<and> parsed body = Some request \<and>
       app_iproov cfg = Some config \<and> cs_iproov_token s = Some t \<and>
       validate IP (codec pk) config t (cs_iproov_user_id s)
         (case ce_client_ip request of Some a \<Rightarrow> a | None \<Rightarrow> ''0.0.0.0'') = Inr True \<and>
       app_trusted_emrtd_reader_key cfg = Some reader \<and>
       verify_emrtd_evidence pk (ce_attestation request) reader (app_issuer cfg) (cs_nonce s)
         (cs_holder_jkt s) now = Inr v \<and>
       chip_all_verdicts v \<and> vcl_jti v \<notin> binding_jtis st \<and>
       app_credential_signers cfg PID_FROM_EMRTD_SD_JWT = Some signer \<and>
       issue_sd_jwt pk env (cp_salts draws) signer (app_issuer cfg) PID_FROM_EMRTD_SD_JWT
         (cs_holder_jwk s) now None (Some (vcl_claims v)) = Inr cred \<and>
       app_credential_signers cfg PID_FROM_EMRTD_MDOC = Some signer' \<and>
       issue_mdoc pk env (cp_mdoc_randoms draws) signer' PID_FROM_EMRTD_MDOC (cs_holder_jwk s) now
         (Some (vcl_claims v)) (app_hybrid_credential_signer cfg) = Inr mdoc \<and>
       response = submitted_response pk cfg cred mdoc \<and>
       capture_sessions st' = (capture_sessions st)(sid \<mapsto> resolved cred mdoc s) \<and>
       binding_jtis st' = insert (vcl_jti v) (binding_jtis st))"
proof -
  obtain u st1 request now s v where
    attest: "enforce_app_attest L IL io cfg k h body st = (Inr u, st1)"
    and request: "parsed body = Some request" and now: "clk = Some now"
    and session: "snapshot_session now sid st1 = Inr s"
    and evidence: "capture_evidence pk IP cfg now s request = Inr v"
    and finish: "finish_capture pk env cfg draws now sid s v st1 = (Inr (response, push), st')"
    using assms by (rule submit_ok)
  have st1: "capture_sessions st1 = capture_sessions st" "binding_jtis st1 = binding_jtis st"
    using enforce_keeps_rest [OF attest] by simp_all
  obtain b reader v0 where liveness: "capture_liveness IP (codec pk) cfg s (ce_client_ip request) = Inr b"
    and reader: "app_trusted_emrtd_reader_key cfg = Some reader"
      "verify_emrtd_evidence pk (ce_attestation request) reader (app_issuer cfg) (cs_nonce s)
         (cs_holder_jkt s) now = Inr v0"
    and v: "v = v0\<lparr>vcl_liveness_matched := portrait_matched_liveness b (vcl_liveness_matched v0)\<rparr>"
    using evidence by (rule capture_evidence_ok)
  show ?thesis using finish
  proof (rule finish_capture_ok, goal_cases)
    case (1 s' signer signer' cred mdoc)
    have s': "s' = s" using 1(2) session st1 by (simp add: snapshot_session_ok_iff)
    have "chip_all_verdicts v"
      using 1(3) by (auto simp: is_ok_iff capture_kernel_def authorize_kernel_ok_iff is_nfc_pid_def)
    then have verdicts: "chip_all_verdicts v0" and "b"
      by (simp_all add: v chip_all_verdicts_def portrait_matched_liveness_def)
    with liveness have "capture_liveness IP (codec pk) cfg s (ce_client_ip request) = Inr True"
      by simp
    then obtain config t where "app_iproov cfg = Some config" "cs_iproov_token s = Some t"
      "validate IP (codec pk) config t (cs_iproov_user_id s)
         (case ce_client_ip request of Some a \<Rightarrow> a | None \<Rightarrow> ''0.0.0.0'') = Inr True"
      using capture_liveness_True by blast
    moreover have "vcl_jti v = vcl_jti v0" "vcl_claims v = vcl_claims v0" by (simp_all add: v)
    moreover have "app_app_attest cfg \<noteq> None \<longrightarrow>
      (\<exists>key_id b64 a inst n. k = Some key_id \<and> h = Some b64 \<and> b64_decode (at_codec L) b64 = Some a \<and>
         app_attest_instances st key_id = Some inst \<and> verify_assertion L a body inst = Inr n \<and>
         ri_sign_count inst < n)"
      using enforce_app_attest_ok [OF attest]
      by (auto simp: verify_app_attest_assertion_ok_iff dest: verify_assertion_higher)
    ultimately show ?case
      using 1 s' st1 session reader verdicts request now
      by (simp add: snapshot_session_ok_iff)
  qed
qed

lemma demo_submitted:
  obtains r st' where
    "submit_pid_capture_evidence service_packages demo_signing demo_attest demo_instances_lib demo_io
       demo_iproov demo_state (Some 100) demo_cdraws (Some ''key'') (Some (demo_assertion 1)) ''s'' []
       (\<lambda>b. Some demo_evidence_request) demo_10 = (Inr (r, None), st')"
proof -
  have "capture_sessions demo_11 ''s'' = Some demo_capture" "''k'' \<notin> binding_jtis demo_11"
    by (simp_all add: demo_states)
  then obtain cred mdoc where
    "finish_capture service_packages demo_signing demo_state demo_cdraws 100 ''s'' demo_capture
       (demo_chip ''k'') demo_11 =
     (Inr (submitted_response service_packages demo_state cred mdoc, None),
      demo_11\<lparr>binding_jtis := insert ''k'' (binding_jtis demo_11),
         capture_sessions := (capture_sessions demo_11)(''s'' \<mapsto> resolved cred mdoc demo_capture)\<rparr>)"
    by (rule demo_finished)
  then show thesis
    by (intro that) (simp add: submit_pid_capture_evidence_def bind_action_def check_only_def
        demo_enforced demo_snapshot demo_captured unix_time_def)
qed

lemma capture_issued_requires_all_evidence_witness:
  "\<exists>r st'. submit_pid_capture_evidence service_packages demo_signing demo_attest demo_instances_lib
       demo_io demo_iproov demo_state (Some 100) demo_cdraws (Some ''key'') (Some (demo_assertion 1))
       ''s'' [] (\<lambda>b. Some demo_evidence_request) demo_10 = (Inr (r, None), st') \<and>
     binding_jtis st' \<noteq> binding_jtis demo_10"
proof -
  obtain r st' where submitted:
    "submit_pid_capture_evidence service_packages demo_signing demo_attest demo_instances_lib demo_io
       demo_iproov demo_state (Some 100) demo_cdraws (Some ''key'') (Some (demo_assertion 1)) ''s'' []
       (\<lambda>b. Some demo_evidence_request) demo_10 = (Inr (r, None), st')"
    by (rule demo_submitted)
  then have "binding_jtis st' \<noteq> binding_jtis demo_10"
    using capture_issued_requires_all_evidence [OF submitted] by auto
  with submitted show ?thesis by blast
qed

text \<open>
  Once a capture session is issued or has failed, a submission that
  begins after that is refused without any effect on sessions or on the recorded evidence, whatever
  evidence it brings; with a readable body, a running clock and a session that has not expired it is
  the conflict error. So submissions that do not overlap issue at most one PID for a session.
\<close>

theorem resolved_capture_refuses:
  assumes "capture_sessions st sid = Some s" and "cs_status s \<noteq> AwaitingEvidence"
    and "submit_pid_capture_evidence pk env L IL io IP cfg clk draws k h sid body parsed st = (r, st')"
  shows "(\<exists>e. r = Inl e) \<and> capture_sessions st' = capture_sessions st \<and>
    binding_jtis st' = binding_jtis st \<and>
    (\<forall>now request. app_app_attest cfg = None \<and> parsed body = Some request \<and> clk = Some now \<and>
       now \<le> cs_expires_at s \<longrightarrow>
       r = Inl (oauth_error CONFLICT ''invalid_request'' ''capture session is already resolved''))"
proof -
  have refused: "\<exists>e. snapshot_session now sid st1 = Inl e"
    if "capture_sessions st1 = capture_sessions st" for now st1
  proof (cases "snapshot_session now sid st1")
    case (Inr x)
    with assms(1,2) that show ?thesis by (simp add: snapshot_session_ok_iff)
  qed simp
  have conflict: "snapshot_session now sid st =
      Inl (oauth_error CONFLICT ''invalid_request'' ''capture session is already resolved'')"
    if "now \<le> cs_expires_at s" for now
  proof -
    from that have "\<not> cs_expires_at s < now" by (simp add: not_less)
    with assms(1,2) show ?thesis by (simp add: snapshot_session_def)
  qed
  obtain r1 st1 where attest: "enforce_app_attest L IL io cfg k h body st = (r1, st1)"
    by (cases "enforce_app_attest L IL io cfg k h body st")
  note kept = enforce_keeps_rest [OF attest]
  have main: "(\<exists>e. r = Inl e) \<and> st' = st1"
  proof (cases r1)
    case (Inl e)
    with assms(3) attest show ?thesis
      by (auto simp: submit_pid_capture_evidence_def bind_action_def)
  next
    case (Inr u)
    show ?thesis
    proof (cases "parsed body = None \<or> clk = None")
      case True
      with assms(3) attest Inr show ?thesis
        by (cases "parsed body") (auto simp: submit_pid_capture_evidence_def bind_action_def
            check_only_def unix_time_def)
    next
      case False
      then obtain request now where "parsed body = Some request" "clk = Some now" by auto
      moreover obtain e where "snapshot_session now sid st1 = Inl e"
        using refused kept by blast
      ultimately show ?thesis
        using assms(3) attest Inr
        by (auto simp: submit_pid_capture_evidence_def bind_action_def check_only_def unix_time_def)
    qed
  qed
  have answer: "r = Inl (oauth_error CONFLICT ''invalid_request''
      ''capture session is already resolved'')"
    if "app_app_attest cfg = None" "parsed body = Some request" "clk = Some now"
      "now \<le> cs_expires_at s" for now request
    using assms(3) conflict that
    by (simp add: submit_pid_capture_evidence_def bind_action_def check_only_def unix_time_def
        enforce_app_attest_def)
  from main kept show ?thesis
    by (intro conjI allI impI) (simp_all add: answer)
qed

lemma resolved_capture_refuses_witness:
  "\<exists>st. capture_sessions st ''s'' = Some (demo_capture\<lparr>cs_status := Issued\<rparr>) \<and>
     fst (submit_pid_capture_evidence service_packages demo_signing demo_attest demo_instances_lib
       demo_io demo_iproov (demo_state\<lparr>app_app_attest := None\<rparr>) (Some 100) demo_cdraws None None ''s''
       [] (\<lambda>b. Some demo_evidence_request) st) =
     Inl (oauth_error CONFLICT ''invalid_request'' ''capture session is already resolved'')"
proof -
  let ?s = "demo_capture\<lparr>cs_status := Issued\<rparr>"
  let ?st = "demo_8\<lparr>capture_sessions := [''s'' \<mapsto> ?s]\<rparr>" and ?cfg = "demo_state\<lparr>app_app_attest := None\<rparr>"
  have s: "capture_sessions ?st ''s'' = Some ?s" "cs_status ?s \<noteq> AwaitingEvidence"
    "(100 :: u64) \<le> cs_expires_at ?s"
    by (simp_all add: demo_capture_def)
  obtain r st' where submitted: "submit_pid_capture_evidence service_packages demo_signing demo_attest
      demo_instances_lib demo_io demo_iproov ?cfg (Some 100) demo_cdraws None None ''s'' []
      (\<lambda>b. Some demo_evidence_request) ?st = (r, st')"
    by (rule prod.exhaust)
  from resolved_capture_refuses [OF s(1,2) submitted] s(3) have
    "r = Inl (oauth_error CONFLICT ''invalid_request'' ''capture session is already resolved'')"
    by simp
  with submitted s(1) show ?thesis by (intro exI [of _ ?st]) simp
qed

text \<open>
  C38. The check that a session still awaits evidence is made before
  the liveness provider is asked and is not repeated afterwards: if finishing a verified submission
  issues in one state, it issues in every state that has the session and has not recorded the
  evidence, with the same response, whatever the status of the session has become and whatever
  credential it already holds. Two overlapping submissions with different attestations therefore
  both issue.
\<close>

theorem capture_finish_ignores_status:
  assumes "finish_capture pk env cfg draws now sid s v st = (Inr (response, push), st')"
    and "capture_sessions st1 sid = Some s1" and "vcl_jti v \<notin> binding_jtis st1"
  shows "\<exists>push' cred mdoc. finish_capture pk env cfg draws now sid s v st1 =
    (Inr (response, push'), st1\<lparr>binding_jtis := insert (vcl_jti v) (binding_jtis st1),
       capture_sessions := (capture_sessions st1)(sid \<mapsto> resolved cred mdoc s1)\<rparr>)"
  using assms(1)
proof (rule finish_capture_ok, goal_cases)
  case (1 s' signer signer' cred mdoc)
  let ?st = "st1\<lparr>binding_jtis := insert (vcl_jti v) (binding_jtis st1)\<rparr>"
  have "use_binding_jti d (vcl_jti v) st1 = (Inr (), ?st)" for d
    using assms(3) by simp
  moreover have "kernel_gate sid (capture_kernel pk draws 0 PID_FROM_EMRTD_SD_JWT s v now) x =
      (Inr (), x)" for x
    using 1(3) by (simp add: is_ok_iff)
  moreover have "kernel_gate sid (capture_kernel pk draws 1 PID_FROM_EMRTD_MDOC s v now) x =
      (Inr (), x)" for x
    using 1(4) by (simp add: is_ok_iff)
  moreover have "resolve_session sid cred mdoc ?st = (Inr (cs_device_token s1), ?st\<lparr>capture_sessions :=
      (capture_sessions st1)(sid \<mapsto> resolved cred mdoc s1)\<rparr>)"
    using assms(2) by (simp add: resolve_session_def resolved_def)
  ultimately show ?case
    using 1(5-10)
    by (intro exI [of _ "if app_apns cfg then cs_device_token s1 else None"] exI [of _ cred]
          exI [of _ mdoc])
      (simp add: finish_capture_def bind_action_def check_only_def closed_signer_def
        del: use_binding_jti_iff kernel_gate_ok_iff kernel_gate_err_iff)
qed

lemma capture_finish_ignores_status_witness:
  "\<exists>st r st'. capture_sessions st ''s'' = Some (demo_capture\<lparr>cs_status := Issued\<rparr>) \<and>
     finish_capture service_packages demo_signing demo_state demo_cdraws 100 ''s'' demo_capture
       (demo_chip ''k'') st = (Inr r, st')"
proof -
  let ?s = "demo_capture\<lparr>cs_status := Issued\<rparr>"
  let ?st = "demo_11\<lparr>capture_sessions := [''s'' \<mapsto> ?s]\<rparr>"
  have "capture_sessions demo_11 ''s'' = Some demo_capture" "''k'' \<notin> binding_jtis demo_11"
    by (simp_all add: demo_states)
  then obtain r st' where issued: "finish_capture service_packages demo_signing demo_state demo_cdraws
      100 ''s'' demo_capture (demo_chip ''k'') demo_11 = (Inr (r, None), st')"
    using demo_finished by blast
  have "capture_sessions ?st ''s'' = Some ?s" "vcl_jti (demo_chip ''k'') \<notin> binding_jtis ?st"
    by (simp_all add: demo_states demo_chip_def)
  from capture_finish_ignores_status [OF issued this] this(1) show ?thesis by blast
qed

section \<open>Nonces\<close>

lemma digit_code: "n < 10 \<Longrightarrow> (of_char (digit n) :: nat) = 48 + n"
  by (simp add: digit_def)

lemma decimal_digits:
  "(\<forall>c \<in> set (decimal n). is_digit c) \<and> decimal n \<noteq> [] \<and>
   foldl (\<lambda>m c. 10 * m + (of_char c - 48)) 0 (decimal n) = n"
proof (induction n rule: decimal.induct)
  case (1 n)
  show ?case
  proof (cases "n < 10")
    case True
    then show ?thesis by (simp add: decimal.simps digit_code is_digit_def)
  next
    case False
    have "n mod 10 < 10" by simp
    with False 1 show ?thesis
      by (subst (1 2 3) decimal.simps) (auto simp: digit_code is_digit_def)
  qed
qed

lemma decimal_length: "n < 10 ^ k \<Longrightarrow> 0 < k \<Longrightarrow> length (decimal n) \<le> k"
proof (induction k arbitrary: n)
  case (Suc k)
  show ?case
  proof (cases "n < 10")
    case False
    with Suc.prems(1) have "n div 10 < 10 ^ k" "0 < k" by (auto simp: div_less_iff_less_mult intro: ccontr)
    with Suc.IH [of "n div 10"] False show ?thesis by (subst decimal.simps) simp
  qed (simp add: decimal.simps)
qed simp

lemma parse_decimal [simp]: "parse_digits (decimal n) = Some n"
  using decimal_digits [of n] by (simp add: parse_digits_def list_all_iff)

lemma decimal_not_Nil [simp]: "decimal n \<noteq> []"
  using decimal_digits [of n] by simp

lemma random_credential_nonce_None: "random_credential_nonce vs = None \<longleftrightarrow> set vs \<subseteq> {0}"
  by (induction vs) auto

lemma nonce_text:
  "random_credential_nonce vs = Some n \<Longrightarrow>
   \<exists>v \<in> set vs. v \<noteq> 0 \<and> n = decimal (unat v)"
  by (induction vs) (auto split: if_splits)

lemma decimal_u64_length: "length (decimal (unat (v :: u64))) \<le> 20"
  using unat_lt_pow [of v] by (intro decimal_length) simp_all

text \<open>The loop, after \<open>k\<close> draws that were all 0.\<close>

lemma random_credential_nonce_skips:
  "set zeros \<subseteq> {0} \<Longrightarrow> random_credential_nonce (zeros @ vs) = random_credential_nonce vs"
  by (induction zeros) auto

text \<open>
  C29. The loop that draws a credential nonce ends with its first draw that is
  not 0, and only then: it returns within \<open>n\<close> rounds exactly when one of the first \<open>n\<close> values of the
  generator is not 0, all further rounds allowed leave the result as it is, and the result is the
  decimal text of that value, which reads back as the value (so different values give different
  nonces) and has between 1 and 20 characters, within the 256 that a credential proof may carry.
\<close>

theorem nonce_loop_terminates:
  "(random_credential_nonce (map generator [0..<n]) = None \<longleftrightarrow> (\<forall>i<n. generator i = 0)) \<and>
   (generator k \<noteq> 0 \<and> (\<forall>i<k. generator i = 0) \<and> k < n \<longrightarrow>
      random_credential_nonce (map generator [0..<n]) = Some (decimal (unat (generator k))) \<and>
      parse_digits (decimal (unat (generator k))) = Some (unat (generator k)) \<and>
      0 < length (decimal (unat (generator k))) \<and> length (decimal (unat (generator k))) \<le> 20)"
proof (intro conjI impI)
  show "random_credential_nonce (map generator [0..<n]) = None \<longleftrightarrow> (\<forall>i<n. generator i = 0)"
    unfolding random_credential_nonce_None by (auto simp: image_subset_iff)
  assume k: "generator k \<noteq> 0 \<and> (\<forall>i<k. generator i = 0) \<and> k < n"
  then have "[0..<n] = [0..<k] @ k # [Suc k..<n]"
    using upt_add_eq_append [of 0 k "n - k"] upt_conv_Cons [of k n] by simp
  moreover have "set (map generator [0..<k]) \<subseteq> {0}" using k by auto
  ultimately show "random_credential_nonce (map generator [0..<n]) =
      Some (decimal (unat (generator k)))"
    using k random_credential_nonce_skips [of "map generator [0..<k]"] by simp
qed (simp_all add: decimal_u64_length)

lemma nonce_loop_terminates_witness:
  "random_credential_nonce (map (\<lambda>i. if i < 2 then 0 else 5) [0..<9]) = Some (decimal 5)"
  using nonce_loop_terminates [of "\<lambda>i. if i < 2 then 0 else 5" 9 2] by simp

end
