(* ===== verification/Attest_Properties.thy ===== *)
theory Attest_Properties
  imports Demo_Service
begin

text \<open>
  App Attest: what an accepted attestation proves, that it can register only one key for one
  challenge, and that the table of instances survives a restart.
\<close>

section \<open>Attestations\<close>

text \<open>
  C22. What an accepted attestation object says: its first
  certificate is valid at the time and signed by the second, which is signed by the embedded Apple
  root; it commits, in its nonce extension, to the authenticator data and the challenge; the key it
  certifies is a P-256 key, the registered one, and its SHA-256 is the key identifier. The
  authenticator data name a configured application by the hash of its identifier, with a counter of
  zero, an accepted environment (the development one only where it is allowed) and the key
  identifier as credential identifier. And one attestation object can be accepted for one key and,
  unless SHA-256 collides, for one challenge only, at whatever time and under whatever configuration
  it is presented again.
\<close>

theorem attestation_sound_and_names_one_key:
  assumes "verify_attestation L a challenge key_id config now = Inr (app_id, point)"
    and "verify_attestation L a challenge' key_id' config' now' = Inr (app_id', point')"
  shows "(\<exists>leaf_der ca_der d leaf ca root ca_point root_point.
       attestation_layout (at_cbor L) a leaf_der ca_der d \<and>
       cert_from_der (at_x509 L) leaf_der = Some leaf \<and> cert_from_der (at_x509 L) ca_der = Some ca \<and>
       cert_public_key (at_x509 L) leaf = Some point \<and> within_validity (at_x509 L) leaf now \<and>
       cert_public_key (at_x509 L) ca = Some ca_point \<and>
       verify_p384_issued (at_x509 L) leaf ca_point = Inr () \<and>
       cert_from_der (at_x509 L) APPLE_ROOT_CA_DER = Some root \<and>
       cert_public_key (at_x509 L) root = Some root_point \<and>
       verify_p384_issued (at_x509 L) ca root_point = Inr () \<and>
       leaf_nonce (at_x509 L) leaf =
         Some (sha256 (at_codec L) (d @ sha256 (at_codec L) challenge)) \<and>
       55 \<le> length d \<and> take 32 d = sha256 (at_codec L) (as_bytes app_id) \<and>
       (from_be_bytes (slice 33 37 d) :: u32) = 0 \<and>
       (slice 37 53 d = AAGUID_PROD \<or> allow_development config \<and> slice 37 53 d = AAGUID_DEV) \<and>
       slice 55 (55 + unat (from_be_bytes (slice 53 55 d) :: u16)) d = key_id) \<and>
    key_id = sha256 (at_codec L) point \<and> length key_id = 32 \<and>
    key_from_sec1 (at_ec L) point \<noteq> None \<and> app_id \<in> set (app_ids config) \<and>
    point' = point \<and> key_id' = key_id \<and>
    (challenge' = challenge \<or>
       (\<exists>x y. x \<noteq> y \<and> sha256 (at_codec L) x = sha256 (at_codec L) y))"
  using assms(1)
proof (rule verify_attestation_ok, goal_cases)
  case first: (1 leaf ca root d ca_point root_point key)
  from assms(2) show ?case
  proof (rule verify_attestation_ok, goal_cases)
    case (1 leaf' ca' root' d' ca_point' root_point' key')
    from attested_parts_unique [OF first(1) 1(1)]
    have same: "leaf' = leaf" "ca' = ca" "d' = d" by simp_all
    have "sha256 (at_codec L) (d @ sha256 (at_codec L) challenge') =
        sha256 (at_codec L) (d @ sha256 (at_codec L) challenge)"
      using first(8) 1(8) same by simp
    then have "challenge' = challenge \<or>
        (\<exists>x y. x \<noteq> y \<and> sha256 (at_codec L) x = sha256 (at_codec L) y)"
      by (metis same_append_eq)
    moreover obtain der der' where "attestation_layout (at_cbor L) a der der' d"
        "cert_from_der (at_x509 L) der = Some leaf" "cert_from_der (at_x509 L) der' = Some ca"
      using first(1) by (rule attested_parts_layout)
    moreover note check_auth_data_ok [OF first(13), unfolded Let_def]
    ultimately show ?case
      using first(2-12) 1(9,11) same by simp blast
  qed
qed

text \<open>Packages in which an attestation verifies: certificates are their encodings.\<close>

definition att_leaf :: bytes where "att_leaf = [4]"

definition att_key_id :: bytes where "att_key_id = 4 # replicate 31 0"

definition att_data :: bytes where
  "att_data = as_bytes ''a'' @ replicate 31 0 @ [0] @ replicate 4 0 @ AAGUID_PROD @ [0, 32] @ att_key_id"

definition att_object :: cbor where
  "att_object = CMap
     [(CText ''fmt'', CText ''apple-appattest''),
      (CText ''attStmt'', CMap [(CText ''x5c'', CArray [CBytes att_leaf, CBytes [5]])]),
      (CText ''authData'', CBytes att_data)]"

definition att_lib :: "(bytes, bytes, bytes, bytes, bytes) attest_lib" where
  "att_lib = \<lparr>at_cbor = \<lparr>into_writer = (\<lambda>v. Some []), from_reader = (\<lambda>b. Some (att_object, 0))\<rparr>,
     at_ec = service_ec, at_codec = service_codec,
     at_x509 = \<lparr>cert_from_der = Some, cert_tbs_der = Some, cert_signature = (\<lambda>c. as_bytes ''7''),
       cert_public_key = (\<lambda>c. Some (take 1 c)), cert_not_before = (\<lambda>c. 0),
       cert_not_after = (\<lambda>c. 1000),
       cert_extensions = (\<lambda>c. Some [(NONCE_OID, [0x30, 0, 0xA1, 0, 0x04, 0x20] @ as_bytes ''a'' @ replicate 31 0)]),
       p384 = service_ec\<rparr>\<rparr>"

definition att_config :: app_attest_config where
  "att_config = \<lparr>app_ids = [''a''], allow_development = False\<rparr>"

lemma att_verifies:
  "verify_attestation att_lib [] (as_bytes ''ch'') att_key_id att_config 100 = Inr (''a'', [4])"
  by code_simp

lemma attestation_sound_and_names_one_key_witness:
  "verify_attestation att_lib [] (as_bytes ''ch'') att_key_id att_config 100 = Inr (''a'', [4]) \<and>
   att_key_id = sha256 service_codec [4]"
  using att_verifies attestation_sound_and_names_one_key [OF att_verifies att_verifies]
  by (simp add: att_lib_def)

section \<open>The table\<close>

text \<open>
  After an accepted assertion a restart of the service finds
  either the table with the advanced counter, when the new file was written and renamed, or exactly
  what a restart before the assertion would have found; never a mixture and never an empty table in
  place of a good one. So with a working disk a restart does not reopen the replay window.
\<close>

theorem attested_table_replaced_atomically:
  assumes "verify_app_attest_assertion L IL io cfg key_id a body st = (Inr u, st')"
    and "app_app_attest_store cfg"
    and "instances_to_vec IL (app_attest_instances st') = Some b"
    and "instances_from_slice IL b = Some (app_attest_instances st')"
  shows "app_attest_instances (initial_state IL cfg (attest_store st')) =
    (if io_write io = WriteOk \<and> \<not> io_rename_fails io then app_attest_instances st'
     else app_attest_instances (initial_state IL cfg (attest_store st)))"
proof -
  have "attest_store st' = save_instances IL io (app_attest_instances st') (attest_store st)"
    using assms(1,2) by (auto simp: verify_app_attest_assertion_ok_iff save_store_def)
  then show ?thesis
    using assms(2-4)
    by (auto simp: initial_state_def load_instances_def save_instances_def
        split: write_result.splits option.splits)
qed

definition restart_lib :: instances_lib where
  "restart_lib = \<lparr>instances_to_vec = (\<lambda>m. Some []),
     instances_from_slice = (\<lambda>b. Some [''key'' \<mapsto> demo_instance\<lparr>ri_sign_count := 1\<rparr>])\<rparr>"

lemma attested_table_replaced_atomically_witness:
  "\<exists>st'. verify_app_attest_assertion demo_attest restart_lib demo_io demo_state ''key''
       (as_bytes (demo_assertion 1)) [] demo_10 = (Inr (), st') \<and>
     app_attest_instances (initial_state restart_lib demo_state (attest_store st')) =
       [''key'' \<mapsto> demo_instance\<lparr>ri_sign_count := 1\<rparr>]"
proof -
  let ?st' = "save_store restart_lib demo_io demo_state
    (demo_10\<lparr>app_attest_instances := [''key'' \<mapsto> demo_instance\<lparr>ri_sign_count := 1\<rparr>]\<rparr>)"
  have accepted: "verify_app_attest_assertion demo_attest restart_lib demo_io demo_state ''key''
      (as_bytes (demo_assertion 1)) [] demo_10 = (Inr (), ?st')"
    unfolding verify_app_attest_assertion_ok_iff
    using demo_assertion_verifies [of demo_instance 1 "[]"]
    by (auto simp: demo_states demo_instance_def)
  have "instances_to_vec restart_lib (app_attest_instances ?st') = Some []"
    "instances_from_slice restart_lib [] = Some (app_attest_instances ?st')"
    by (simp_all add: restart_lib_def)
  from attested_table_replaced_atomically [OF accepted _ this] accepted show ?thesis
    by (intro exI [of _ ?st']) (simp add: demo_io_def)
qed

end
