(* ===== verification/Metadata_Properties.thy ===== *)
theory Metadata_Properties
  imports Metadata Issuing_Properties
begin

text \<open>
  The published documents agree with the service: which of the advertised configurations can be
  requested, that their schema identifiers are the pinned ones, and that the signed metadata verifies
  under a key of the published key set.
\<close>

section \<open>Schema identifiers\<close>

lemma pinned_entries_bounded:
  "\<forall>(c, t, r, d) \<in> set pinned_entries. \<forall>s \<in> {c, t, r}. s \<noteq> [] \<and> length s \<le> 256"
proof -
  have "list_all (\<lambda>(c, t, r, d). list_all (\<lambda>s. s \<noteq> [] \<and> length s \<le> 256) [c, t, r]) pinned_entries"
    by code_simp
  then show ?thesis by (force simp: list_all_iff)
qed

lemma pinned_schema_id_entry:
  assumes "map_of pinned_entries c = Some (t, r, d)"
  obtains digest where "decode_digest d = Returns (Some digest)" and "length digest = 48"
    and "derive_schema_id xof (as_bytes c) (as_bytes t) (as_bytes r) 1 digest =
      Some (xof (schema_preimage (as_bytes c) (as_bytes t) (as_bytes r) 1 digest) 48)"
    and "pinned_schema_id xof c =
      Returns (Some (xof (schema_preimage (as_bytes c) (as_bytes t) (as_bytes r) 1 digest) 48))"
proof -
  have entry: "(c, t, r, d) \<in> set pinned_entries" using assms by (rule map_of_SomeD)
  obtain digest where digest: "decode_digest d = Returns (Some digest)" "length digest = 48"
    "digest \<noteq> replicate 48 0"
    using pinned_digests_decode entry by fastforce
  moreover have "derive_schema_id xof (as_bytes c) (as_bytes t) (as_bytes r) 1 digest =
      Some (xof (schema_preimage (as_bytes c) (as_bytes t) (as_bytes r) 1 digest) 48)"
    using pinned_entries_bounded entry digest(3) by (fastforce simp: derive_schema_id_Some_iff)
  ultimately show thesis using assms that by (simp add: pinned_schema_id_def)
qed

lemma pinned_schema_id_none: "map_of pinned_entries c = None \<Longrightarrow> pinned_schema_id xof c = Returns None"
  by (simp add: pinned_schema_id_def)

text \<open>The table never makes the service panic.\<close>

lemma pinned_schema_id_returns: "pinned_schema_id xof c \<noteq> Panics"
proof (cases "map_of pinned_entries c")
  case (Some e)
  obtain t r d where "e = (t, r, d)" by (cases e)
  with Some obtain b where "pinned_schema_id xof c = Returns (Some b)"
    using pinned_schema_id_entry by metis
  then show ?thesis by simp
qed (simp add: pinned_schema_id_none)

text \<open>Two configurations with one schema identifier are a collision of SHAKE256.\<close>

lemma pinned_schema_id_SomeE:
  assumes "pinned_schema_id xof c = Returns (Some b)"
  obtains t r h where "\<forall>s \<in> {as_bytes c, t, r, h}. length s < 2 ^ 32"
    and "b = xof (schema_preimage (as_bytes c) t r 1 h) 48"
proof (cases "map_of pinned_entries c")
  case None
  with assms show thesis by (simp add: pinned_schema_id_none)
next
  case (Some e)
  obtain t r d where e: "e = (t, r, d)" by (cases e)
  with Some have entry: "map_of pinned_entries c = Some (t, r, d)" by simp
  from entry obtain h where h: "length h = 48" "pinned_schema_id xof c =
      Returns (Some (xof (schema_preimage (as_bytes c) (as_bytes t) (as_bytes r) 1 h) 48))"
    by (rule pinned_schema_id_entry)
  have "length c \<le> 256" "length t \<le> 256" "length r \<le> 256"
    using pinned_entries_bounded map_of_SomeD [OF entry] by fastforce+
  with h assms show thesis by (intro that [of "as_bytes t" "as_bytes r" h]) auto
qed

lemma pinned_schema_id_inject:
  assumes "pinned_schema_id xof c = Returns (Some b)" and "pinned_schema_id xof c' = Returns (Some b)"
  shows "c' = c \<or> (\<exists>x y. x \<noteq> y \<and> xof x 48 = xof y 48)"
proof -
  from assms(1) obtain t r h where h: "\<forall>s \<in> {as_bytes c, t, r, h}. length s < 2 ^ 32"
    "b = xof (schema_preimage (as_bytes c) t r 1 h) 48" by (rule pinned_schema_id_SomeE)
  from assms(2) obtain t' r' h' where h': "\<forall>s \<in> {as_bytes c', t', r', h'}. length s < 2 ^ 32"
    "b = xof (schema_preimage (as_bytes c') t' r' 1 h') 48" by (rule pinned_schema_id_SomeE)
  let ?x = "schema_preimage (as_bytes c) t r 1 h" and ?y = "schema_preimage (as_bytes c') t' r' 1 h'"
  show ?thesis
  proof (cases "?x = ?y")
    case True
    moreover have "\<forall>s \<in> {as_bytes c, t, r, as_bytes c', t', r', h, h'}. length s < 2 ^ 32"
      using h(1) h'(1) by blast
    ultimately have "as_bytes c' = as_bytes c" using schema_preimage_inject by blast
    then show ?thesis by simp
  next
    case False
    with h(2) h'(2) show ?thesis by metis
  qed
qed

section \<open>Profiles\<close>

lemma is_object_insert_schema [simp]: "is_object (insert_schema sl c j) \<longleftrightarrow> is_object j"
  by (simp add: insert_schema_def split: digest_result.split option.split)

lemma json_get_insert_schema:
  "is_object j \<Longrightarrow> json_get k (insert_schema sl c j) =
     (if k = ''activechain_schema_id_v1'' then
        (case pinned_schema_id (sl_xof sl) c of
           Returns (Some b) \<Rightarrow> Some (JStr (sl_hex sl b)) | _ \<Rightarrow> json_get k j)
      else json_get k j)"
  by (simp add: insert_schema_def split: digest_result.split option.split)

definition schema_member :: "schema_lib \<Rightarrow> string \<Rightarrow> json option" where
  "schema_member sl c =
     (case pinned_schema_id (sl_xof sl) c of
        Returns (Some b) \<Rightarrow> Some (JStr (sl_hex sl b)) | _ \<Rightarrow> None)"

text \<open>What a published profile says of its configuration.\<close>

definition describes :: "schema_lib \<Rightarrow> string \<Rightarrow> string \<Rightarrow> string \<Rightarrow> json \<Rightarrow> bool" where
  "describes sl c kind type profile \<longleftrightarrow> is_object profile \<and>
     json_get ''scope'' profile = Some (JStr c) \<and> json_get kind profile = Some (JStr type) \<and>
     json_get ''activechain_schema_id_v1'' profile = schema_member sl c"

lemma describes_base:
  "describes sl c ''vct'' t (sd_jwt_profile sl c t name)"
  "describes sl c ''doctype'' t (mdoc_profile sl c t name)"
  by (auto simp: describes_def sd_jwt_profile_def mdoc_profile_def json_get_insert_schema
      json_get_object schema_member_def split: digest_result.split option.split)

lemma describes_insert [intro]:
  "describes sl c kind t profile \<Longrightarrow> k \<notin> {''scope'', kind, ''activechain_schema_id_v1''} \<Longrightarrow>
   describes sl c kind t (insert_member k v profile)"
  by (auto simp: describes_def)

lemma describes_profiles:
  "describes sl c ''vct'' ''urn:eu.europa.ec.eudi:learning:credential:1'' (learning_profile sl c name b)"
  "describes sl MANDATE_SD_JWT ''vct'' MANDATE_VCT (mandate_profile sl)"
  "describes sl PID_FROM_EMRTD_SD_JWT ''vct'' PID_VCT (pid_from_emrtd_profile sl)"
  "describes sl PID_FROM_EMRTD_MDOC ''doctype'' PID_VCT (pid_from_emrtd_mdoc_profile sl)"
  "describes sl TLSN_EVIDENCE_SD_JWT ''vct'' TLSN_EVIDENCE_VCT (tlsn_metadata_profile sl issuer)"
  unfolding learning_profile_def mandate_profile_def pid_from_emrtd_profile_def development_only_def
    pid_from_emrtd_mdoc_profile_def tlsn_metadata_profile_def
  by (intro describes_insert describes_base; simp)+

lemma unpinned: "c \<notin> fst ` set pinned_entries \<Longrightarrow> schema_member sl c = None"
  by (simp add: schema_member_def pinned_schema_id_none map_of_eq_None_iff)

lemma configurations_cases:
  assumes "json_get c (configurations_supported sl cfg issuer) = Some profile"
  obtains "c = HYBRID_PQ_SD_JWT" "app_hybrid_pq_enabled cfg" "profile = hybrid_metadata_profile issuer"
  | "(c, profile) \<in> set (closed_configurations sl issuer)"
  using assms
  by (auto simp: configurations_supported_def Let_def json_get_object split: if_splits
      dest!: map_of_SomeD)

text \<open>The entry of the table has the type that the profile publishes.\<close>

lemma pinned_types:
  "map_of pinned_entries PID_SD_JWT = Some (t, r) \<Longrightarrow> t = ''eu.europa.ec.eudi.pid.1''"
  "map_of pinned_entries PID_MDOC = Some (t, r) \<Longrightarrow> t = ''eu.europa.ec.eudi.pid.1''"
  "map_of pinned_entries EAA_MDOC = Some (t, r) \<Longrightarrow> t = ''org.iso.18013.5.1.mDL''"
  "map_of pinned_entries QEAA_SD_JWT = Some (t, r) \<Longrightarrow>
     t = ''urn:eu.europa.ec.eudi:learning:credential:1''"
  "map_of pinned_entries QEAA_PID_BOUND_SD_JWT = Some (t, r) \<Longrightarrow>
     t = ''urn:eu.europa.ec.eudi:learning:credential:1''"
  "map_of pinned_entries DEV_SVIPE_PID_SD_JWT = Some (t, r) \<Longrightarrow> t = ''dev.eu.europa.ec.eudi.pid.1''"
  "map_of pinned_entries TLSN_EVIDENCE_SD_JWT = Some (t, r) \<Longrightarrow> t = TLSN_EVIDENCE_VCT"
  "map_of pinned_entries PID_FROM_EMRTD_SD_JWT = None"
  "map_of pinned_entries PID_FROM_EMRTD_MDOC = None"
  "map_of pinned_entries MANDATE_SD_JWT = None"
  "map_of pinned_entries HYBRID_PQ_SD_JWT = None"
  by (simp_all add: pinned_entries_def profile_defs TLSN_EVIDENCE_VCT_def)

definition closed_ok :: "schema_lib \<Rightarrow> string \<Rightarrow> json \<Rightarrow> bool" where
  "closed_ok sl c profile \<longleftrightarrow>
     (\<exists>kind t. (kind = ''vct'' \<or> kind = ''doctype'') \<and> describes sl c kind t profile \<and>
        (\<forall>t' r. map_of pinned_entries c = Some (t', r) \<longrightarrow> t' = t))"

lemma closed_okI:
  "describes sl c kind t profile \<Longrightarrow> kind = ''vct'' \<or> kind = ''doctype'' \<Longrightarrow>
   (\<And>t' r. map_of pinned_entries c = Some (t', r) \<Longrightarrow> t' = t) \<Longrightarrow> closed_ok sl c profile"
  unfolding closed_ok_def by blast

lemma closed_describes: "(c, profile) \<in> set (closed_configurations sl issuer) \<Longrightarrow> closed_ok sl c profile"
  unfolding closed_configurations_def list.set insert_iff empty_iff prod.inject
  by (elim disjE conjE FalseE; hypsubst;
      rule closed_okI, (rule describes_base describes_profiles), simp,
      (erule pinned_types | simp add: pinned_types(8-11)))


definition demo_schemas :: schema_lib where
  "demo_schemas = \<lparr>sl_xof = (\<lambda>b n. take n b), sl_hex = (\<lambda>b. ''h'')\<rparr>"


section \<open>What can be requested\<close>

lemma advertised_iff:
  "json_get p (configurations_supported sl cfg issuer) \<noteq> None \<longleftrightarrow>
     p \<in> set signer_profiles \<or> app_hybrid_pq_enabled cfg \<and> p = HYBRID_PQ_SD_JWT"
proof -
  have "fst ` set (closed_configurations sl issuer) = set signer_profiles"
    by (auto simp: closed_configurations_def signer_profiles_def)
  then show ?thesis
    by (auto simp: configurations_supported_def Let_def json_get_object map_of_eq_None_iff
        simp flip: not_None_eq)
qed

text \<open>What a scope has to be for the handlers, in terms of the published configurations.\<close>

definition requestable :: "schema_lib \<Rightarrow> 'h app_state \<Rightarrow> string \<Rightarrow> string \<Rightarrow> bool" where
  "requestable sl cfg issuer scope \<longleftrightarrow>
     split_ascii_whitespace scope \<noteq> [] \<and>
     (\<forall>p \<in> set (split_ascii_whitespace scope). p \<noteq> PID_FROM_EMRTD_MDOC \<and>
        json_get p (configurations_supported sl cfg issuer) \<noteq> None)"

lemma valid_scope_iff_requestable:
  "valid_scope scope (app_hybrid_pq_enabled cfg) \<longleftrightarrow> requestable sl cfg issuer scope"
proof -
  have "p \<in> set [PID_SD_JWT, PID_FROM_EMRTD_SD_JWT, PID_MDOC, EAA_MDOC, QEAA_SD_JWT,
        QEAA_PID_BOUND_SD_JWT, DEV_SVIPE_PID_SD_JWT, TLSN_EVIDENCE_SD_JWT, MANDATE_SD_JWT] \<or>
      app_hybrid_pq_enabled cfg \<and> p = HYBRID_PQ_SD_JWT \<longleftrightarrow>
      p \<noteq> PID_FROM_EMRTD_MDOC \<and> (p \<in> set signer_profiles \<or>
        app_hybrid_pq_enabled cfg \<and> p = HYBRID_PQ_SD_JWT)" for p
    using profiles_neq by (auto simp: signer_profiles_def)
  then show ?thesis
    unfolding valid_scope_def requestable_def advertised_iff Let_def list_all_iff by auto
qed

lemma chip_mdoc_never_granted:
  assumes "credential_locked pk cfg clk clk' draws access_token vd request st = (Inr g, st')"
  shows "cq_configuration_id request \<noteq> PID_FROM_EMRTD_MDOC"
proof
  assume mdoc: "cq_configuration_id request = PID_FROM_EMRTD_MDOC"
  note granted = credential_locked_iff [THEN iffD1, OF assms]
  from granted have chip: "if cq_configuration_id request = PID_FROM_EMRTD_SD_JWT
      then \<exists>v. ig_chip g = Some v \<and>
        supplied_emrtd_evidence pk cfg request (ig_proof g) (ig_now g) = Inr v
      else cq_emrtd_attestation request = None \<and> ig_chip g = None"
    by (elim conjE)
  from granted have kernel: "kernel_grants pk draws request g" by (elim conjE)
  from chip mdoc profiles_neq have "ig_chip g = None" by (simp split: if_splits)
  with kernel mdoc show False
    by (simp add: kernel_grants_def authorize_kernel_ok_iff is_nfc_pid_def)
qed



text \<open>
  The check for a space does not cover the other separators of a scope: two identifiers with a tab
  between them make an offer, whose profile is no configuration.
\<close>

lemma offer_for_tab_separated:
  fixes cfg :: "'h app_state"
  defines "config \<equiv> PID_MDOC @ CHR 0x09 # EAA_MDOC"
  shows "create_credential_offer pk cfg (Some now) oid rnd config st =
      (offer_response pk cfg oid 300,
       st\<lparr>offers := (offers st)(oid \<mapsto>
         \<lparr>co_profile = config, co_issuer_state = random_token (codec pk) rnd,
          co_expires_at = saturating_add now 300, co_tlsn_evidence = None\<rparr>)\<rparr>)"
    and "json_get config (configurations_supported sl cfg issuer) = None"
proof -
  have "valid_scope config h" for h
    unfolding config_def by (cases h; code_simp)
  moreover have "CHR '' '' \<notin> set config" "config \<noteq> TLSN_EVIDENCE_SD_JWT"
    unfolding config_def by code_simp+
  ultimately show "create_credential_offer pk cfg (Some now) oid rnd config st =
      (offer_response pk cfg oid 300,
       st\<lparr>offers := (offers st)(oid \<mapsto>
         \<lparr>co_profile = config, co_issuer_state = random_token (codec pk) rnd,
          co_expires_at = saturating_add now 300, co_tlsn_evidence = None\<rparr>)\<rparr>)"
    by (simp add: create_credential_offer_def unix_time_def guard_err_def)
  have "config \<notin> set signer_profiles \<and> config \<noteq> HYBRID_PQ_SD_JWT"
    unfolding config_def by code_simp
  then show "json_get config (configurations_supported sl cfg issuer) = None"
    using advertised_iff [of config sl cfg issuer] by blast
qed

section \<open>Well-formed documents\<close>

lemma wf_insert_schema [simp]: "wf_json j \<Longrightarrow> wf_json (insert_schema sl c j)"
  by (auto simp: insert_schema_def split: digest_result.split option.split)

lemma wf_shared_parts [simp]:
  "wf_json es256_only" "wf_json jwt_proof_types" "wf_json (german_display name)"
  "wf_json required_pid_binding" "wf_json identity_assurance"
  by (auto simp: es256_only_def jwt_proof_types_def german_display_def required_pid_binding_def
      identity_assurance_def)

lemma wf_profiles [simp]:
  "wf_json (sd_jwt_profile sl c t name)" "wf_json (mdoc_profile sl c t name)"
  "wf_json (learning_profile sl c name b)" "wf_json (mandate_profile sl)"
  "wf_json (pid_from_emrtd_profile sl)" "wf_json (pid_from_emrtd_mdoc_profile sl)"
  "wf_json (tlsn_metadata_profile sl issuer)" "wf_json (hybrid_metadata_profile issuer)"
proof -
  show base: "wf_json (sd_jwt_profile sl c t name)" "wf_json (mdoc_profile sl c t name)" for c t name
    unfolding sd_jwt_profile_def mdoc_profile_def by (intro wf_insert_schema wf_json_object; simp)+
  show "wf_json (learning_profile sl c name b)"
    unfolding learning_profile_def using base by (intro wf_json_insert_member) auto
  show "wf_json (mandate_profile sl)"
    unfolding mandate_profile_def development_only_def using base
    by (intro wf_json_insert_member) auto
  show "wf_json (pid_from_emrtd_profile sl)" "wf_json (pid_from_emrtd_mdoc_profile sl)"
    "wf_json (tlsn_metadata_profile sl issuer)"
    unfolding pid_from_emrtd_profile_def pid_from_emrtd_mdoc_profile_def tlsn_metadata_profile_def
      development_only_def
    using base by (intro wf_json_insert_member; simp)+
  show "wf_json (hybrid_metadata_profile issuer)"
    unfolding hybrid_metadata_profile_def by (intro wf_json_object) auto
qed

lemma wf_issuer_metadata [simp]: "wf_json (issuer_metadata_value sl cfg)"
proof -
  have "wf_json (configurations_supported sl cfg issuer)" for issuer
    unfolding configurations_supported_def closed_configurations_def Let_def
    by (cases "app_hybrid_pq_enabled cfg") simp_all
  then show ?thesis unfolding issuer_metadata_value_def Let_def by (intro wf_json_object) auto
qed

section \<open>The signed metadata\<close>

lemma is_object_issuer_metadata [simp]: "is_object (issuer_metadata_value sl cfg)"
  by (simp add: issuer_metadata_value_def Let_def)

text \<open>
  C35. On macOS the issuer metadata carries a signed copy of itself: a compact
  JWS that verifies under the metadata key, which is the first key of the published key set, and
  whose claims are the document's own members together with the issuer, the subject and the time. The
  issuer and the subject are the configured URL as it is, while the credential issuer identifier in
  the same document has no trailing slash.
\<close>

theorem signed_metadata_verifies:
  assumes "issuer_metadata pk kc sl cfg signer (Some now) = Inr document" and "app_target_macos cfg"
    and "b64url_correct (codec pk)" and "json_correct (serde pk)" and "affine_is_sec1 (ec pk)"
    and "keychain_correct kc (ec pk)" and "keychain_signer_ok (codec pk) kc signer"
  shows "\<exists>jws key claims keys. json_get ''signed_metadata'' document = Some (JStr jws) \<and>
    jwk_key pk (signer_jwk signer) key \<and> verify_jws_payload pk jws key label = Inr claims \<and>
    json_get ''keys'' (jwks cfg signer order) = Some (JArr (signer_public_jwk signer # keys)) \<and>
    json_get ''iss'' claims = Some (JStr (app_issuer cfg)) \<and>
    json_get ''sub'' claims = Some (JStr (app_issuer cfg)) \<and>
    json_get ''iat'' claims = Some (JNat now) \<and>
    json_get ''credential_issuer'' claims =
      Some (JStr (trim_end_matches CHR ''/'' (app_issuer cfg))) \<and>
    (\<forall>k. k \<notin> {''iss'', ''sub'', ''iat'', ''signed_metadata''} \<longrightarrow>
       json_get k claims = json_get k document)"
proof -
  let ?base = "issuer_metadata_value sl cfg"
  define claims where "claims = metadata_claims (app_issuer cfg) now ?base"
  define h where "h = b64url_encode (codec pk) (json_to_vec (serde pk) (metadata_header signer))"
  define p where "p = b64url_encode (codec pk) (json_to_vec (serde pk) claims)"
  from assms(1,2) obtain raw where raw: "sign_es256 kc signer (as_bytes (h @ ''.'' @ p)) = Inr raw"
    and document: "document = insert_member ''signed_metadata''
      (JStr ((h @ ''.'' @ p) @ ''.'' @ b64url_encode (codec pk) raw)) ?base"
    by (auto simp: issuer_metadata_def Let_def ok_iff unix_time_def claims_def h_def p_def)
  have "wf_json claims"
    unfolding claims_def metadata_claims_def by (intro wf_json_insert_member) simp_all
  then obtain key where "jwk_key pk (signer_jwk signer) key"
    "verify_jws_payload pk (h @ ''.'' @ p @ ''.'' @ b64url_encode (codec pk) raw) key label = Inr claims"
    using compact_jws_verifies [OF raw [unfolded h_def p_def] assms(3-7)] unfolding h_def p_def by metis
  moreover have "json_get ''signed_metadata'' document =
      Some (JStr (h @ ''.'' @ p @ ''.'' @ b64url_encode (codec pk) raw))"
    by (simp add: document)
  moreover have "json_get ''iss'' claims = Some (JStr (app_issuer cfg))"
    "json_get ''sub'' claims = Some (JStr (app_issuer cfg))" "json_get ''iat'' claims = Some (JNat now)"
    by (simp_all add: claims_def metadata_claims_def)
  moreover have "json_get ''credential_issuer'' claims =
      Some (JStr (trim_end_matches CHR ''/'' (app_issuer cfg)))"
    by (simp add: claims_def metadata_claims_def issuer_metadata_value_def Let_def json_get_object)
  moreover have "\<forall>k. k \<notin> {''iss'', ''sub'', ''iat'', ''signed_metadata''} \<longrightarrow>
      json_get k claims = json_get k document"
    by (simp add: claims_def metadata_claims_def document)
  moreover have "\<exists>keys. json_get ''keys'' (jwks cfg signer order) =
      Some (JArr (signer_public_jwk signer # keys))"
    using assms(2) by (simp add: jwks_def json_get_object)
  ultimately show ?thesis by blast
qed

lemma toy_signs: "\<exists>raw. sign_es256 toy_keychain s m = Inr raw"
  by (simp add: sign_es256_def sign_der_def toy_keychain_def)

lemma demo_metadata_issued:
  "\<exists>document. issuer_metadata issuing_packages toy_keychain demo_schemas demo_state issuing_signer
     (Some 100) = Inr document"
proof -
  obtain raw where raw: "sign_es256 toy_keychain issuing_signer m = Inr (raw m)" for m
    using toy_signs by metis
  show ?thesis
    unfolding issuer_metadata_def Let_def by (simp add: unix_time_def raw map_err_def)
qed

lemma signed_metadata_verifies_witness:
  "\<exists>document jws key claims. issuer_metadata issuing_packages toy_keychain demo_schemas demo_state
     issuing_signer (Some 100) = Inr document \<and>
   json_get ''signed_metadata'' document = Some (JStr jws) \<and>
   verify_jws_payload issuing_packages jws key ''metadata'' = Inr claims \<and>
   json_get ''sub'' claims = Some (JStr (app_issuer demo_state))"
proof -
  obtain document where issued: "issuer_metadata issuing_packages toy_keychain demo_schemas demo_state
      issuing_signer (Some 100) = Inr document"
    using demo_metadata_issued by blast
  have macos: "app_target_macos demo_state" by simp
  have packages: "b64url_correct (codec issuing_packages)" "json_correct (serde issuing_packages)"
    "affine_is_sec1 (ec issuing_packages)" "keychain_correct toy_keychain (ec issuing_packages)"
    "keychain_signer_ok (codec issuing_packages) toy_keychain issuing_signer"
    using unary_codec_correct numbered_serde_correct toy_ec_affine toy_keychain_correct
      issuing_signer_ok
    by (simp_all add: issuing_packages_def)
  from signed_metadata_verifies [OF issued macos packages, of "''metadata''" "[]"] issued
  show ?thesis by (elim exE conjE) (intro exI conjI, assumption+)
qed

end
