(* ===== verification/Router.thy ===== *)
theory Router
  imports Metadata_Properties
begin

text \<open>
  The routes of \<open>app\<close>, \<open>main.rs\<close>. Which request a route matches is decided by axum and is not
  modelled; the lemmas are about the table itself: no path is routed twice and every handler has one
  route, and the endpoints that the documents publish under the issuer URL are paths of the table,
  with the method that OpenID4VCI and OAuth use for them.
\<close>

datatype http_method = GET | POST

datatype endpoint =
    Health | IssuerMetadata | OauthMetadata | Jwks | HybridPqProfileDocument
  | CredentialSigningCertificates | CreateCredentialOffer | CreateTlsnEvidenceOffer | TlsnDemoOffer
  | GetCredentialOffer | AppleAppSiteAssociation | AppAttestChallenge | AppAttestRegister
  | AppAttestAssert | NotificationsRegister | CreatePidCaptureSession | GetPidCaptureSession
  | SubmitPidCaptureEvidence | Par | Authorize | Token | Nonce | Credential

definition routes :: "(string \<times> http_method \<times> endpoint) list" where
  "routes =
     [(''/health'', GET, Health),
      (''/.well-known/openid-credential-issuer'', GET, IssuerMetadata),
      (''/.well-known/oauth-authorization-server'', GET, OauthMetadata),
      (''/jwks.json'', GET, Jwks),
      (''/experimental/hybrid-pq/profile'', GET, HybridPqProfileDocument),
      (''/credential-signing-certificates/{configuration_id}'', GET, CredentialSigningCertificates),
      (''/credential-offers'', POST, CreateCredentialOffer),
      (''/evidence-offers/tlsnotary'', POST, CreateTlsnEvidenceOffer),
      (''/dev/tlsnotary/demo-offer'', POST, TlsnDemoOffer),
      (''/credential-offer/{id}'', GET, GetCredentialOffer),
      (''/.well-known/apple-app-site-association'', GET, AppleAppSiteAssociation),
      (''/v1/app-attest/challenge'', POST, AppAttestChallenge),
      (''/v1/app-attest/register'', POST, AppAttestRegister),
      (''/v1/app-attest/assert'', POST, AppAttestAssert),
      (''/v1/notifications/register'', POST, NotificationsRegister),
      (''/v1/pid-capture/session'', POST, CreatePidCaptureSession),
      (''/v1/pid-capture/{id}'', GET, GetPidCaptureSession),
      (''/v1/pid-capture/{id}/evidence'', POST, SubmitPidCaptureEvidence),
      (''/par'', POST, Par), (''/authorize'', GET, Authorize), (''/token'', POST, Token),
      (''/nonce'', POST, Nonce), (''/credential'', POST, Credential)]"

section \<open>The table\<close>

lemma routes_are_distinct:
  "distinct (map fst routes)" "distinct (map (\<lambda>(_, _, e). e) routes)"
  by code_simp+

text \<open>The member \<open>key\<close> of a document is the issuer URL, without its trailing slashes, and a path.\<close>

definition publishes :: "'h app_state \<Rightarrow> json \<Rightarrow> string \<Rightarrow> string \<Rightarrow> bool" where
  "publishes cfg document key path \<longleftrightarrow>
     json_get key document = Some (JStr (trim_end_matches CHR ''/'' (app_issuer cfg) @ path))"

lemma published_paths_are_routed:
  "publishes cfg (issuer_metadata_value sl cfg) ''credential_endpoint'' ''/credential''"
  "publishes cfg (issuer_metadata_value sl cfg) ''nonce_endpoint'' ''/nonce''"
  "publishes cfg (oauth_metadata cfg) ''authorization_endpoint'' ''/authorize''"
  "publishes cfg (oauth_metadata cfg) ''token_endpoint'' ''/token''"
  "publishes cfg (oauth_metadata cfg) ''pushed_authorization_request_endpoint'' ''/par''"
  "publishes cfg (oauth_metadata cfg) ''jwks_uri'' ''/jwks.json''"
  "{(''/credential'', POST, Credential), (''/nonce'', POST, Nonce), (''/authorize'', GET, Authorize),
    (''/token'', POST, Token), (''/par'', POST, Par), (''/jwks.json'', GET, Jwks)} \<subseteq> set routes"
  by (simp_all add: publishes_def issuer_metadata_value_def oauth_metadata_def
      oauth_metadata_value_def Let_def json_get_object routes_def)

end
