(* ===== verification/Svipe.thy ===== *)
theory Svipe
  imports Prelude
begin

text \<open>
  The mapping of development identity evidence, \<open>issuer-service/src/svipe.rs\<close>: the discovery of the
  provider and the normalisation of its claims. The HTTP client and the deserialiser are one
  argument: a \<open>GET\<close> of a URL answers with the deserialised document or an error.
\<close>

definition SVIPE_PROFILE :: string where "SVIPE_PROFILE = ''dev.svipe.pid.sd-jwt''"
definition SVIPE_ISSUER :: string where "SVIPE_ISSUER = ''https://api.svipe.com/oidc/v1''"
definition REQUIRED_ACR :: string where
  "REQUIRED_ACR = ''document_present face_present:iproov:gpa''"

record discovery =
  dc_issuer :: string
  dc_authorization_endpoint :: string
  dc_token_endpoint :: string
  dc_jwks_uri :: string

definition discover :: "(string \<Rightarrow> string + discovery) \<Rightarrow> string + discovery" where
  "discover http_get =
     and_then (http_get (SVIPE_ISSUER @ ''/.well-known/openid-configuration'')) (\<lambda>d.
       if trim_end_matches CHR ''/'' (dc_issuer d) \<noteq> SVIPE_ISSUER
       then Inl ''Svipe issuer mismatch'' else Inr d)"

record svipe_claims =
  sv_sub :: string
  sv_given_name :: string
  sv_family_name :: string
  sv_birthdate :: string
  sv_nationality :: string
  sv_document_portrait :: "string option"
  sv_validation_portrait_present :: "bool option"
  sv_acr :: "string option"

record dev_identity_evidence =
  de_subject :: string
  de_given_name :: string
  de_family_name :: string
  de_birthdate :: string
  de_nationality :: string
  de_portrait :: string
  de_source :: string
  de_development_only :: bool

definition required_claims :: "svipe_claims \<Rightarrow> string list" where
  "required_claims c = [sv_sub c, sv_given_name c, sv_family_name c, sv_birthdate c, sv_nationality c]"

definition acr_satisfied :: "string \<Rightarrow> bool" where
  "acr_satisfied acr \<longleftrightarrow>
     list_all (\<lambda>required. list_ex (\<lambda>v. v = required) (split_ascii_whitespace acr))
       (split_ascii_whitespace REQUIRED_ACR)"

definition normalize :: "svipe_claims \<Rightarrow> string + dev_identity_evidence" where
  "normalize c =
     and_then (for_each (\<lambda>v.
         if trim v = [] \<or> length v > 512
         then Inl ''required Svipe identity claim is missing or oversized'' else Inr ())
       (required_claims c)) (\<lambda>_.
     and_then (ok_or ''Svipe development proof has no document portrait''
       (case sv_document_portrait c of
          Some v \<Rightarrow> if trim v \<noteq> [] then Some v else None | None \<Rightarrow> None)) (\<lambda>portrait.
     if sv_validation_portrait_present c \<noteq> Some True
     then Inl ''Svipe portrait-presence validation is required''
     else if \<not> acr_satisfied (case sv_acr c of Some a \<Rightarrow> a | None \<Rightarrow> [])
     then Inl ''Svipe NFC and iProov GPA assurance are both required''
     else Inr \<lparr>de_subject = sv_sub c, de_given_name = sv_given_name c,
               de_family_name = sv_family_name c, de_birthdate = sv_birthdate c,
               de_nationality = sv_nationality c, de_portrait = portrait,
               de_source = ''svipe_oidc'', de_development_only = True\<rparr>))"

lemma acr_satisfied_iff:
  "acr_satisfied acr \<longleftrightarrow>
     {''document_present'', ''face_present:iproov:gpa''} \<subseteq> set (split_ascii_whitespace acr)"
proof -
  have "split_ascii_whitespace REQUIRED_ACR = [''document_present'', ''face_present:iproov:gpa'']"
    by code_simp
  then show ?thesis by (auto simp: acr_satisfied_def list_ex_iff)
qed

text \<open>Evidence is made only from complete claims with both assurances, and always marked.\<close>

lemma normalize_ok_iff [ok_iff]:
  "normalize c = Inr e \<longleftrightarrow>
     (\<forall>v \<in> set (required_claims c). trim v \<noteq> [] \<and> length v \<le> 512) \<and>
     sv_document_portrait c = Some (de_portrait e) \<and> trim (de_portrait e) \<noteq> [] \<and>
     sv_validation_portrait_present c = Some True \<and>
     acr_satisfied (case sv_acr c of Some a \<Rightarrow> a | None \<Rightarrow> []) \<and>
     e = \<lparr>de_subject = sv_sub c, de_given_name = sv_given_name c,
          de_family_name = sv_family_name c, de_birthdate = sv_birthdate c,
          de_nationality = sv_nationality c, de_portrait = de_portrait e,
          de_source = ''svipe_oidc'', de_development_only = True\<rparr>"
  by (auto simp: normalize_def ok_iff not_less split: option.splits if_splits)

end
