(* ===== verification/Kernel_Tests.thy ===== *)
theory Kernel_Tests
  imports Kernel_Properties
begin

text \<open>
  The unit tests of \<open>issuer-core/src/lib.rs\<close> as definitions, each with the lemma that the model passes
  it. They check the translation itself: where the model and the crate disagreed on one of these
  inputs, a lemma would fail.
\<close>

definition NOW :: instant where "NOW = Instant 100"

definition refused :: "session \<Rightarrow> request \<Rightarrow> bool" where
  "refused session request \<longleftrightarrow> authorize_sign session request NOW = Inl NotAuthorized"

lemma refused_iff: "refused session request \<longleftrightarrow> \<not> may_issue session request NOW"
  by (simp add: refused_def authorize_sign_def split: prod.split)

lemma is_ok_iff_may_issue: "is_ok (authorize_sign s r now) \<longleftrightarrow> may_issue s r now"
  by (simp add: authorize_sign_def is_ok_def split: prod.split)

lemmas test_simps = refused_iff is_ok_iff_may_issue gate_defs fixture_defs NOW_def

section \<open>Mandates\<close>

definition mandate_narrowing_within_grant_signs_on_behalf_of_delegator :: bool where
  "mandate_narrowing_within_grant_signs_on_behalf_of_delegator \<longleftrightarrow>
     (case authorize_sign mandate_session mandate_request NOW of
       Inl _ \<Rightarrow> False
     | Inr cmd \<Rightarrow> on_behalf_of cmd = Some (Id 42) \<and> granted_powers cmd = Powers 6)"

lemma mandate_narrowing_within_grant_signs_on_behalf_of_delegator_passes: "mandate_narrowing_within_grant_signs_on_behalf_of_delegator"
  by (simp add: mandate_narrowing_within_grant_signs_on_behalf_of_delegator_def authorize_sign_def Let_def test_simps)

definition mandate_cannot_widen_beyond_delegator_grant :: bool where
  "mandate_cannot_widen_beyond_delegator_grant \<longleftrightarrow>
     refused mandate_session (mandate_request\<lparr>requested_powers := Powers 7\<rparr>)"

lemma mandate_cannot_widen_beyond_delegator_grant_passes: "mandate_cannot_widen_beyond_delegator_grant"
  by (simp add: mandate_cannot_widen_beyond_delegator_grant_def Let_def test_simps)

definition mandate_bound_to_wrong_delegate_key_is_refused :: bool where
  "mandate_bound_to_wrong_delegate_key_is_refused \<longleftrightarrow>
     refused (mandate_session\<lparr>sess_delegation := map_option (\<lambda>d. d\<lparr>delegate_key := Id 8\<rparr>) (sess_delegation mandate_session)\<rparr>) mandate_request"

lemma mandate_bound_to_wrong_delegate_key_is_refused_passes: "mandate_bound_to_wrong_delegate_key_is_refused"
  by (simp add: mandate_bound_to_wrong_delegate_key_is_refused_def Let_def test_simps)

definition revoked_mandate_is_refused :: bool where
  "revoked_mandate_is_refused \<longleftrightarrow>
     refused (mandate_session\<lparr>sess_delegation := map_option (\<lambda>d. d\<lparr>mandate_not_revoked := False\<rparr>) (sess_delegation mandate_session)\<rparr>) mandate_request"

lemma revoked_mandate_is_refused_passes: "revoked_mandate_is_refused"
  by (simp add: revoked_mandate_is_refused_def Let_def test_simps)

definition mandate_without_hybrid_pq_evidence_is_refused :: bool where
  "mandate_without_hybrid_pq_evidence_is_refused \<longleftrightarrow>
     refused (mandate_session\<lparr>hybrid_pq_bound := False\<rparr>) mandate_request"

lemma mandate_without_hybrid_pq_evidence_is_refused_passes: "mandate_without_hybrid_pq_evidence_is_refused"
  by (simp add: mandate_without_hybrid_pq_evidence_is_refused_def Let_def test_simps)

definition mandate_with_empty_scope_is_refused :: bool where
  "mandate_with_empty_scope_is_refused \<longleftrightarrow>
     refused mandate_session (mandate_request\<lparr>requested_powers := Powers 0\<rparr>)"

lemma mandate_with_empty_scope_is_refused_passes: "mandate_with_empty_scope_is_refused"
  by (simp add: mandate_with_empty_scope_is_refused_def Let_def test_simps)

definition representation_role_requires_a_delegation_context :: bool where
  "representation_role_requires_a_delegation_context \<longleftrightarrow>
     refused (mandate_session\<lparr>sess_delegation := None\<rparr>) mandate_request"

lemma representation_role_requires_a_delegation_context_passes: "representation_role_requires_a_delegation_context"
  by (simp add: representation_role_requires_a_delegation_context_def Let_def test_simps)

section \<open>PIDs from a chip\<close>

definition nfc_pid_with_verified_chip_and_liveness_signs :: bool where
  "nfc_pid_with_verified_chip_and_liveness_signs \<longleftrightarrow>
     (case authorize_sign nfc_pid_session fixture_request NOW of
       Inl _ \<Rightarrow> False
     | Inr cmd \<Rightarrow> on_behalf_of cmd = None \<and> cmd_subject cmd = Id 4)"

lemma nfc_pid_with_verified_chip_and_liveness_signs_passes: "nfc_pid_with_verified_chip_and_liveness_signs"
  by (simp add: nfc_pid_with_verified_chip_and_liveness_signs_def authorize_sign_def Let_def test_simps)

definition nfc_pid_without_chip_evidence_is_refused :: bool where
  "nfc_pid_without_chip_evidence_is_refused \<longleftrightarrow>
     refused (nfc_pid_session\<lparr>chip_evidence := None\<rparr>) fixture_request"

lemma nfc_pid_without_chip_evidence_is_refused_passes: "nfc_pid_without_chip_evidence_is_refused"
  by (simp add: nfc_pid_without_chip_evidence_is_refused_def Let_def test_simps)

definition nfc_pid_with_failed_passive_auth_is_refused :: bool where
  "nfc_pid_with_failed_passive_auth_is_refused \<longleftrightarrow>
     refused (nfc_pid_session\<lparr>chip_evidence := map_option (\<lambda>e. e\<lparr>sod_passive_auth := False\<rparr>) (chip_evidence nfc_pid_session)\<rparr>) fixture_request"

lemma nfc_pid_with_failed_passive_auth_is_refused_passes: "nfc_pid_with_failed_passive_auth_is_refused"
  by (simp add: nfc_pid_with_failed_passive_auth_is_refused_def Let_def test_simps)

definition nfc_pid_from_a_cloned_chip_is_refused :: bool where
  "nfc_pid_from_a_cloned_chip_is_refused \<longleftrightarrow>
     refused (nfc_pid_session\<lparr>chip_evidence := map_option (\<lambda>e. e\<lparr>chip_authentic := False\<rparr>) (chip_evidence nfc_pid_session)\<rparr>) fixture_request"

lemma nfc_pid_from_a_cloned_chip_is_refused_passes: "nfc_pid_from_a_cloned_chip_is_refused"
  by (simp add: nfc_pid_from_a_cloned_chip_is_refused_def Let_def test_simps)

definition nfc_pid_without_liveness_match_is_refused :: bool where
  "nfc_pid_without_liveness_match_is_refused \<longleftrightarrow>
     refused (nfc_pid_session\<lparr>chip_evidence := map_option (\<lambda>e. e\<lparr>liveness_matched := False\<rparr>) (chip_evidence nfc_pid_session)\<rparr>) fixture_request"

lemma nfc_pid_without_liveness_match_is_refused_passes: "nfc_pid_without_liveness_match_is_refused"
  by (simp add: nfc_pid_without_liveness_match_is_refused_def Let_def test_simps)

definition nfc_pid_chip_evidence_for_a_different_subject_is_refused :: bool where
  "nfc_pid_chip_evidence_for_a_different_subject_is_refused \<longleftrightarrow>
     refused (nfc_pid_session\<lparr>chip_evidence := map_option (\<lambda>e. e\<lparr>chip_subject := Id 99\<rparr>) (chip_evidence nfc_pid_session)\<rparr>) fixture_request"

lemma nfc_pid_chip_evidence_for_a_different_subject_is_refused_passes: "nfc_pid_chip_evidence_for_a_different_subject_is_refused"
  by (simp add: nfc_pid_chip_evidence_for_a_different_subject_is_refused_def Let_def test_simps)

definition nfc_pid_with_stale_chip_read_is_refused :: bool where
  "nfc_pid_with_stale_chip_read_is_refused \<longleftrightarrow>
     refused (nfc_pid_session\<lparr>chip_evidence := map_option (\<lambda>e. e\<lparr>chip_window := chip_window e\<lparr>fresh_until := Instant 50\<rparr>\<rparr>) (chip_evidence nfc_pid_session)\<rparr>) fixture_request"

lemma nfc_pid_with_stale_chip_read_is_refused_passes: "nfc_pid_with_stale_chip_read_is_refused"
  by (simp add: nfc_pid_with_stale_chip_read_is_refused_def Let_def test_simps)

definition chip_liveness_is_ignored_when_the_profile_does_not_require_it :: bool where
  "chip_liveness_is_ignored_when_the_profile_does_not_require_it \<longleftrightarrow>
     \<not> require_chip_liveness (sess_profile fixture_session) \<and>
     chip_evidence fixture_session = None \<and> is_ok (authorize_sign fixture_session fixture_request NOW)"

lemma chip_liveness_is_ignored_when_the_profile_does_not_require_it_passes: "chip_liveness_is_ignored_when_the_profile_does_not_require_it"
  by (simp add: chip_liveness_is_ignored_when_the_profile_does_not_require_it_def Let_def test_simps)

section \<open>The common gates\<close>

definition authorized_fixture_can_sign :: bool where
  "authorized_fixture_can_sign \<longleftrightarrow>
     is_ok (authorize_sign fixture_session fixture_request NOW)"

lemma authorized_fixture_can_sign_passes: "authorized_fixture_can_sign"
  by (simp add: authorized_fixture_can_sign_def Let_def test_simps)

definition used_nonce_cannot_sign :: bool where
  "used_nonce_cannot_sign \<longleftrightarrow>
     refused (fixture_session\<lparr>nonce_unused := False\<rparr>) fixture_request"

lemma used_nonce_cannot_sign_passes: "used_nonce_cannot_sign"
  by (simp add: used_nonce_cannot_sign_def Let_def test_simps)

definition pid_without_loa_high_cannot_sign :: bool where
  "pid_without_loa_high_cannot_sign \<longleftrightarrow>
     refused
       (fixture_session\<lparr>sess_subject := (sess_subject fixture_session)\<lparr>loa_high := False\<rparr>\<rparr>)
       fixture_request"

lemma pid_without_loa_high_cannot_sign_passes: "pid_without_loa_high_cannot_sign"
  by (simp add: pid_without_loa_high_cannot_sign_def Let_def test_simps)

definition pid_bound_profile_requires_verified_cross_attestation_evidence :: bool where
  "pid_bound_profile_requires_verified_cross_attestation_evidence \<longleftrightarrow>
     (let session = fixture_session\<lparr>sess_profile :=
         (sess_profile fixture_session)\<lparr>pid_binding_required := True\<rparr>\<rparr> in
      refused session fixture_request \<and>
      is_ok (authorize_sign (session\<lparr>sess_subject :=
         (sess_subject session)\<lparr>pid_binding_verified := True\<rparr>\<rparr>) fixture_request NOW))"

lemma pid_bound_profile_requires_verified_cross_attestation_evidence_passes: "pid_bound_profile_requires_verified_cross_attestation_evidence"
  by (simp add: pid_bound_profile_requires_verified_cross_attestation_evidence_def Let_def test_simps)

definition expired_wia_ka_maintenance_bound_cannot_sign :: bool where
  "expired_wia_ka_maintenance_bound_cannot_sign \<longleftrightarrow>
     refused fixture_session (fixture_request\<lparr>req_expiry := Instant 161\<rparr>)"

lemma expired_wia_ka_maintenance_bound_cannot_sign_passes: "expired_wia_ka_maintenance_bound_cannot_sign"
  by (simp add: expired_wia_ka_maintenance_bound_cannot_sign_def Let_def test_simps)

section \<open>The taxonomy\<close>

definition taxonomy_mask_covers_exactly_the_taxonomy_bits :: bool where
  "taxonomy_mask_covers_exactly_the_taxonomy_bits \<longleftrightarrow>
     TAXONOMY_MASK = sum_list (map (\<lambda>(b, _). push_bit (unat b) 1) POWER_TAXONOMY) \<and>
     list_all (\<lambda>(b, _). subset_of (Powers (push_bit (unat b) 1)) (Powers TAXONOMY_MASK))
       POWER_TAXONOMY"

lemma taxonomy_mask_covers_exactly_the_taxonomy_bits_passes:
  "taxonomy_mask_covers_exactly_the_taxonomy_bits"
  by code_simp

definition powers_to_scope_urns_is_canonical_and_drops_untaxonomised_bits :: bool where
  "powers_to_scope_urns_is_canonical_and_drops_untaxonomised_bits \<longleftrightarrow>
     powers_to_scope_urns (Powers 3) =
       [''urn:eudi:mandate:power:present-identity'', ''urn:eudi:mandate:power:sign-document''] \<and>
     powers_to_scope_urns (Powers (push_bit 60 1)) = [] \<and> powers_to_scope_urns (Powers 0) = []"

lemma powers_to_scope_urns_is_canonical_and_drops_untaxonomised_bits_passes:
  "powers_to_scope_urns_is_canonical_and_drops_untaxonomised_bits"
  by code_simp

text \<open>The test ranges over all pairs of masks below \<open>2 ^ n\<close>.\<close>

definition taxonomy_masks :: "u64 list" where
  "taxonomy_masks = map of_nat [0..<2 ^ length POWER_TAXONOMY]"

definition taxonomy_bridges_subset_exhaustively :: bool where
  "taxonomy_bridges_subset_exhaustively \<longleftrightarrow>
     list_all (\<lambda>a. list_all (\<lambda>b.
       subset_of (Powers a) (Powers b) =
       scope_urns_subset (powers_to_scope_urns (Powers a)) (powers_to_scope_urns (Powers b)))
       taxonomy_masks) taxonomy_masks"

lemma taxonomy_masks_closed: "a \<in> set taxonomy_masks \<Longrightarrow> a AND TAXONOMY_MASK = a"
proof -
  have "list_all (\<lambda>a. a AND TAXONOMY_MASK = a) taxonomy_masks" by code_simp
  then show "a \<in> set taxonomy_masks \<Longrightarrow> a AND TAXONOMY_MASK = a" by (simp add: list_all_iff)
qed

lemma taxonomy_bridges_subset_exhaustively_passes: "taxonomy_bridges_subset_exhaustively"
  by (simp add: taxonomy_bridges_subset_exhaustively_def list_all_iff scope_urns_subset_iff
      taxonomy_masks_closed)

end
