(* ===== verification/Codec_Tests.thy ===== *)
theory Codec_Tests
  imports Hybrid_Properties
begin

text \<open>
  The unit tests of \<open>hybrid_codec.rs\<close> that need no real keys, with the vectors they compare against:
  the bytes the model signs are, to the byte, the ones of the wallet the vectors come from. The CBOR
  library is the RFC 8949 instance.
\<close>

section \<open>The vectors\<close>

definition hex_char :: "nat \<Rightarrow> char" where
  "hex_char n = (if n < 10 then char_of (48 + n) else char_of (87 + n))"

definition hex_of :: "bytes \<Rightarrow> string" where
  "hex_of b = concat (map (\<lambda>w. [hex_char (unat w div 16), hex_char (unat w mod 16)]) b)"

text \<open>\<open>str::replacen\<close> with the count 1.\<close>

fun replace_first :: "string \<Rightarrow> string \<Rightarrow> string \<Rightarrow> string" where
  "replace_first old new [] = []"
| "replace_first old new (c # s) =
     (case strip_prefix old (c # s) of
        Some rest \<Rightarrow> new @ rest | None \<Rightarrow> c # replace_first old new s)"

text \<open>The files \<open>tests/vectors/hybrid-pq-v1-export-tbs.hex\<close> and its two companions.\<close>

definition export_tbs_vector :: string where
  "export_tbs_vector =
     ''455557414c4c45542d4859425249442d5349474e41545552452d563100000015657577616c6c65742d687962'' @
     ''7269642d70712d76310000001077616c6c65742d6578706f72742d76310000007e455557414c4c45542d4859'' @
     ''425249442d434f4e544558542d5631010000000a77616c6c65742d3132330200000000030000000800000000'' @
     ''000000070400000000050000000006000000000700000010000102030405060708090a0b0c0d0e0f08000000'' @
     ''08000000006553f1000900000008000000006553ff100a00000000000000077061796c6f6164''"

definition recovery_tbs_vector :: string where
  "recovery_tbs_vector =
     ''455557414c4c45542d4859425249442d5349474e41545552452d563100000015657577616c6c65742d687962'' @
     ''7269642d70712d76310000001277616c6c65742d7265636f766572792d76310000007e455557414c4c45542d'' @
     ''4859425249442d434f4e544558542d5631010000000a77616c6c65742d313233020000000003000000080000'' @
     ''0000000000070400000000050000000006000000000700000010000102030405060708090a0b0c0d0e0f0800'' @
     ''000008000000006553f1000900000008000000006553ff100a00000000000000077061796c6f6164''"

definition invalid_profile_tbs_vector :: string where
  "invalid_profile_tbs_vector =
     ''455557414c4c45542d4859425249442d5349474e41545552452d563100000015657577616c6c65742d687962'' @
     ''7269642d70712d76320000001077616c6c65742d6578706f72742d76310000007e455557414c4c45542d4859'' @
     ''425249442d434f4e544558542d5631010000000a77616c6c65742d3132330200000000030000000800000000'' @
     ''000000070400000000050000000006000000000700000010000102030405060708090a0b0c0d0e0f08000000'' @
     ''08000000006553f1000900000008000000006553ff100a00000000000000077061796c6f6164''"

definition export_context :: hybrid_context where
  "export_context =
     \<lparr>wallet_identity = as_bytes ''wallet-123'', issuer_identity = None, key_generation = 7,
      transaction_id = None, ctx_session_id = None, ctx_audience = None,
      ctx_nonce = map of_nat [0..<16], created_at_epoch_seconds = 1700000000,
      expires_at_epoch_seconds = 1700003600, transcript_hash = None\<rparr>"

definition consumes_the_exact_euwallet_tbs_vectors :: bool where
  "consumes_the_exact_euwallet_tbs_vectors \<longleftrightarrow>
     (case (build_tbs WalletExportV1 export_context (as_bytes ''payload''),
            build_tbs WalletRecoveryV1 export_context (as_bytes ''payload'')) of
        (Inr export, Inr recovery) \<Rightarrow>
          hex_of export = export_tbs_vector \<and> hex_of recovery = recovery_tbs_vector \<and>
          export \<noteq> recovery \<and>
          invalid_profile_tbs_vector =
            replace_first ''70712d7631'' ''70712d7632'' (hex_of export)
      | _ \<Rightarrow> False)"

lemma hex_of_simps [simp]:
  "hex_of [] = []" "hex_of (a @ b) = hex_of a @ hex_of b"
  "hex_of (w # b) = hex_char (unat w div 16) # hex_char (unat w mod 16) # hex_of b"
  by (simp_all add: hex_of_def)

lemma hex_of_as_bytes:
  "hex_of (as_bytes s) =
     concat (map (\<lambda>c. [hex_char (of_char c div 16), hex_char (of_char c mod 16)]) s)"
proof -
  have "unat (of_char c :: u8) = of_char c" for c
  proof -
    have "unat (of_nat (of_char c) :: u8) = of_char c" by (simp add: unat_of_nat)
    then show ?thesis by (simp add: of_nat_of_char)
  qed
  then show ?thesis by (induction s) (simp_all add: as_bytes_def)
qed

lemma be_bytes_numeral:
  "be_bytes (numeral k) w = be_bytes (pred_numeral k) (drop_bit 8 w) @ [ucast w]"
  by (simp add: numeral_eq_Suc be_bytes_Suc)

lemma be_numerals:
  "be_bytes 4 (21 :: u32) = [0, 0, 0, 21]" "be_bytes 4 (16 :: u32) = [0, 0, 0, 16]"
  "be_bytes 4 (18 :: u32) = [0, 0, 0, 18]" "be_bytes 4 (126 :: u32) = [0, 0, 0, 126]"
  "be_bytes 4 (10 :: u32) = [0, 0, 0, 10]" "be_bytes 4 (8 :: u32) = [0, 0, 0, 8]"
  "be_bytes 4 (7 :: u32) = [0, 0, 0, 7]" "be_bytes 4 (0 :: u32) = [0, 0, 0, 0]"
  "be_bytes 8 (7 :: u64) = [0, 0, 0, 0, 0, 0, 0, 7]"
  "be_bytes 8 (1700000000 :: u64) = [0, 0, 0, 0, 0x65, 0x53, 0xf1, 0x00]"
  "be_bytes 8 (1700003600 :: u64) = [0, 0, 0, 0, 0x65, 0x53, 0xff, 0x10]"
  "be_bytes 2 (1952 :: u64) = [0x07, 0xa0]" "be_bytes 2 (3309 :: u64) = [0x0c, 0xed]"
  by (simp_all add: be_bytes_numeral be_bytes_Suc)

lemma export_encodable: "p \<in> {WalletExportV1, WalletRecoveryV1} \<Longrightarrow> context_encodable export_context p"
proof -
  have "length CONTEXT_DOMAIN = 26" by code_simp
  then show "p \<in> {WalletExportV1, WalletRecoveryV1} \<Longrightarrow> context_encodable export_context p"
    by (auto simp: context_encodable_def context_valid_def export_context_def validate_common_def
        validate_for_def validate_optional_def require_nonempty_bounded_def require_absent_def
        bound_defs context_fields_def optional_bytes_def as_bytes_def)
qed

lemma export_built:
  "build_tbs WalletExportV1 export_context (as_bytes ''payload'') =
     Inr (signed_parts WalletExportV1 export_context (as_bytes ''payload''))"
  "build_tbs WalletRecoveryV1 export_context (as_bytes ''payload'') =
     Inr (signed_parts WalletRecoveryV1 export_context (as_bytes ''payload''))"
  using export_encodable by (simp_all add: build_tbs_ok_iff bound_defs)

lemma hex_chars:
  "hex_char 0 = CHR ''0''" "hex_char (Suc 0) = CHR ''1''" "hex_char 1 = CHR ''1''"
  "hex_char 2 = CHR ''2''" "hex_char 3 = CHR ''3''" "hex_char 4 = CHR ''4''"
  "hex_char 5 = CHR ''5''" "hex_char 6 = CHR ''6''" "hex_char 7 = CHR ''7''"
  "hex_char 8 = CHR ''8''" "hex_char 9 = CHR ''9''" "hex_char 10 = CHR ''a''"
  "hex_char 11 = CHR ''b''" "hex_char 12 = CHR ''c''" "hex_char 13 = CHR ''d''"
  "hex_char 14 = CHR ''e''" "hex_char 15 = CHR ''f''"
  by code_simp+

lemma hex_texts:
  "hex_of DOMAIN = ''455557414c4c45542d4859425249442d5349474e41545552452d5631''"
  "hex_of CONTEXT_DOMAIN = ''455557414c4c45542d4859425249442d434f4e544558542d5631''"
  "hex_of (as_bytes PROFILE) = ''657577616c6c65742d6879627269642d70712d7631''"
  "hex_of (as_bytes ''wallet-export-v1'') = ''77616c6c65742d6578706f72742d7631''"
  "hex_of (as_bytes ''wallet-recovery-v1'') = ''77616c6c65742d7265636f766572792d7631''"
  "hex_of (as_bytes ''wallet-123'') = ''77616c6c65742d313233''"
  "hex_of (as_bytes ''payload'') = ''7061796c6f6164''"
  unfolding DOMAIN_def CONTEXT_DOMAIN_def PROFILE_def hex_of_as_bytes by (simp_all add: hex_chars)

lemma hex_context:
  "hex_of (CONTEXT_DOMAIN @ tagged (context_fields export_context)) =
     ''455557414c4c45542d4859425249442d434f4e544558542d5631'' @
     ''010000000a77616c6c65742d313233'' @ ''0200000000'' @ ''03000000080000000000000007'' @
     ''0400000000'' @ ''0500000000'' @ ''0600000000'' @
     ''0700000010000102030405060708090a0b0c0d0e0f'' @ ''0800000008000000006553f100'' @
     ''0900000008000000006553ff10'' @ ''0a00000000''"
proof -
  have "[0..<16] = [0, 1, 2, 3, 4, 5, 6, 7, 8, 9, 10, 11, 12, 13, 14, 15]" by code_simp
  moreover have "length (as_bytes ''wallet-123'') = 10" by code_simp
  ultimately show ?thesis
    by (simp add: context_fields_def export_context_def optional_bytes_def framed_def be_numerals
        hex_texts hex_chars)
qed

lemma length_hex_of: "length (hex_of b) = 2 * length b"
  by (induction b) simp_all

lemma length_context: "length (CONTEXT_DOMAIN @ tagged (context_fields export_context)) = 126"
proof -
  have "2 * length (CONTEXT_DOMAIN @ tagged (context_fields export_context)) = 252"
    unfolding length_hex_of [symmetric] hex_context by simp
  then show ?thesis by simp
qed

lemma hex_signed_parts:
  "hex_of (signed_parts p export_context (as_bytes ''payload'')) =
     hex_of DOMAIN @ ''00000015'' @ hex_of (as_bytes PROFILE) @
     hex_of (be_bytes 4 (of_nat (length (purpose_id p)) :: u32)) @ hex_of (as_bytes (purpose_id p)) @
     ''0000007e'' @ hex_of (CONTEXT_DOMAIN @ tagged (context_fields export_context)) @
     ''00000007'' @ hex_of (as_bytes ''payload'')"
proof -
  have "length (as_bytes ''payload'') = 7" by code_simp
  then show ?thesis
    using length_context
    by (simp add: signed_parts_def framed_def length_PROFILE be_numerals hex_chars)
qed

lemma export_hex:
  "hex_of (signed_parts WalletExportV1 export_context (as_bytes ''payload'')) = export_tbs_vector"
  "hex_of (signed_parts WalletRecoveryV1 export_context (as_bytes ''payload'')) =
     recovery_tbs_vector"
  unfolding hex_signed_parts hex_context hex_texts export_tbs_vector_def recovery_tbs_vector_def
  by (simp_all add: be_numerals hex_texts hex_chars)

lemma invalid_profile_vector:
  "invalid_profile_tbs_vector = replace_first ''70712d7631'' ''70712d7632'' export_tbs_vector"
  "export_tbs_vector \<noteq> recovery_tbs_vector"
  by code_simp+

lemma consumes_the_exact_euwallet_tbs_vectors_passes: "consumes_the_exact_euwallet_tbs_vectors"
  using export_hex invalid_profile_vector
  by (auto simp: consumes_the_exact_euwallet_tbs_vectors_def export_built)

section \<open>The context policy\<close>

text \<open>The wallet identity of the test is the thumbprint of a fixed key; any other will do.\<close>

definition issuer_context :: "bytes \<Rightarrow> u64 \<Rightarrow> hybrid_context" where
  "issuer_context identity gen =
     \<lparr>wallet_identity = identity, issuer_identity = Some (as_bytes ''https://issuer.example''),
      key_generation = gen, transaction_id = Some (as_bytes ''transaction-123''),
      ctx_session_id = None, ctx_audience = Some (as_bytes ''https://issuer.example''),
      ctx_nonce = map of_nat [0..<32], created_at_epoch_seconds = 1700000000,
      expires_at_epoch_seconds = 1700003600, transcript_hash = None\<rparr>"

definition frozen_context_policy_rejects_missing_or_misplaced_bindings :: "bytes \<Rightarrow> bool" where
  "frozen_context_policy_rejects_missing_or_misplaced_bindings identity \<longleftrightarrow>
     build_tbs TestSdJwtWrapperV1 ((issuer_context identity 4)\<lparr>issuer_identity := None\<rparr>)
       (as_bytes ''payload'') = Inl Missing \<and>
     build_tbs WalletExportV1 (export_context\<lparr>ctx_audience := Some (as_bytes ''network-peer'')\<rparr>)
       (as_bytes ''payload'') = Inl Unsupported \<and>
     build_tbs TestSdJwtWrapperV1 (issuer_context identity 0) (as_bytes ''payload'') =
       Inl GenerationMismatch"

lemma frozen_context_policy_rejects_missing_or_misplaced_bindings_passes:
  assumes "identity \<noteq> []" and "length identity \<le> MAX_FIELD_BYTES"
  shows "frozen_context_policy_rejects_missing_or_misplaced_bindings identity"
  using assms
  by (simp add: frozen_context_policy_rejects_missing_or_misplaced_bindings_def build_tbs_def
      encode_for_def validate_common_def validate_for_def issuer_context_def export_context_def
      require_nonempty_bounded_def validate_optional_def require_absent_def require_present_def
      as_bytes_def bound_defs)

section \<open>The containers\<close>

definition test_classical_key :: bytes where
  "test_classical_key = 0x04 # replicate 64 0x11"

definition test_pq_key :: bytes where
  "test_pq_key = replicate PUBLIC_KEY_BYTES 0x22"

definition test_signatures :: envelope_signatures where
  "test_signatures = \<lparr>classical = replicate 64 0x33, post_quantum = replicate SIGNATURE_BYTES 0x44\<rparr>"

definition expected_key :: bytes where
  "expected_key = ENVELOPE_MAGIC @ [0xa5, 0x01, 0x01, 0x02, 0x01, 0x03, 0x75] @ as_bytes PROFILE @
     [0x04, 0x58, 0x41] @ test_classical_key @ [0x05, 0x59, 0x07, 0xa0] @ test_pq_key"

definition expected_signature :: bytes where
  "expected_signature = ENVELOPE_MAGIC @ [0xa6, 0x01, 0x01, 0x02, 0x02, 0x03, 0x75] @
     as_bytes PROFILE @ [0x04, 0x58, 0x40] @ classical test_signatures @
     [0x05, 0x59, 0x0c, 0xed] @ post_quantum test_signatures @ [0x06, 0x76] @
     as_bytes (purpose_id TestSdJwtWrapperV1)"

definition matches_euwallet_pr103_component_envelope_bytes :: bool where
  "matches_euwallet_pr103_component_envelope_bytes \<longleftrightarrow>
     encode_public_key_envelope rfc8949 test_classical_key test_pq_key = Inr expected_key \<and>
     decode_public_key_envelope rfc8949 expected_key =
       Inr \<lparr>classical_key = test_classical_key, post_quantum_key = test_pq_key\<rparr> \<and>
     encode_signature_envelope rfc8949 TestSdJwtWrapperV1 test_signatures =
       Inr expected_signature \<and>
     decode_signature_envelope rfc8949 expected_signature TestSdJwtWrapperV1 =
       Inr test_signatures"

lemma test_heads:
  "head_bytes 5 5 = [0xa5]" "head_bytes 5 6 = [0xa6]" "head_bytes 0 1 = [1]" "head_bytes 0 2 = [2]"
  "head_bytes 0 (Suc 0) = [1]" "head_bytes 5 (Suc (Suc (Suc (Suc (Suc 0))))) = [0xa5]"
  "head_bytes 5 (Suc (Suc (Suc (Suc (Suc (Suc 0)))))) = [0xa6]"
  "head_bytes 0 3 = [3]" "head_bytes 0 4 = [4]" "head_bytes 0 5 = [5]" "head_bytes 0 6 = [6]"
  "head_bytes 3 21 = [0x75]" "head_bytes 3 22 = [0x76]" "head_bytes 2 65 = [0x58, 0x41]"
  "head_bytes 2 64 = [0x58, 0x40]" "head_bytes 2 1952 = [0x59, 0x07, 0xa0]"
  "head_bytes 2 3309 = [0x59, 0x0c, 0xed]"
  by (simp_all add: head_bytes_def be_numerals be_bytes_Suc)

lemma test_sizes:
  "length test_classical_key = 65" "length test_pq_key = 1952" "public_key_sizes_ok test_classical_key test_pq_key"
  "signature_sizes_ok test_signatures" "length (purpose_id TestSdJwtWrapperV1) = 22"
  "length ENVELOPE_MAGIC = 35"
proof -
  show "length (purpose_id TestSdJwtWrapperV1) = 22" "length ENVELOPE_MAGIC = 35" by code_simp+
qed (simp_all add: test_classical_key_def test_pq_key_def test_signatures_def public_key_sizes_ok_def
    signature_sizes_ok_def bound_defs)

lemma encodes_expected_key:
  "encode_public_key_envelope rfc8949 test_classical_key test_pq_key = Inr expected_key"
proof -
  let ?k = "\<lparr>classical_key = test_classical_key, post_quantum_key = test_pq_key\<rparr>"
  have "expected_key = ENVELOPE_MAGIC @ encode_value (key_value ?k)"
    by (simp add: expected_key_def key_value_def pair_def test_heads test_sizes length_PROFILE
        VERSION_def)
  moreover have "plain NESTING (key_value ?k)"
    by (simp add: key_value_def plain_value_simps test_sizes)
  moreover have "length expected_key \<le> MAX_COMPONENT_ENVELOPE_BYTES"
    by (simp add: expected_key_def test_sizes length_PROFILE bound_defs)
  ultimately have "is_component rfc8949 (key_value ?k) expected_key"
    using into_writer_rfc8949 by (auto simp: is_component_def)
  then show ?thesis
    using test_sizes by (simp add: encode_public_key_envelope_def ok_iff key_value_def)
qed

lemma encodes_expected_signature:
  "encode_signature_envelope rfc8949 TestSdJwtWrapperV1 test_signatures = Inr expected_signature"
proof -
  let ?v = "signature_value TestSdJwtWrapperV1 test_signatures"
  have lengths: "length (classical test_signatures) = 64"
    "length (post_quantum test_signatures) = 3309"
    by (simp_all add: test_signatures_def bound_defs)
  have "expected_signature = ENVELOPE_MAGIC @ encode_value ?v"
    using test_sizes(5)
    by (simp add: expected_signature_def signature_value_def pair_def test_heads lengths
        length_PROFILE VERSION_def)
  moreover have "plain NESTING ?v"
    by (simp add: signature_value_def plain_value_simps lengths del: purpose_id.simps)
  moreover have "length expected_signature \<le> MAX_COMPONENT_ENVELOPE_BYTES"
    using test_sizes(5,6)
    by (simp add: expected_signature_def lengths length_PROFILE bound_defs)
  ultimately have "is_component rfc8949 ?v expected_signature"
    using into_writer_rfc8949 by (auto simp: is_component_def)
  then show ?thesis
    using test_sizes by (simp add: encode_signature_envelope_def ok_iff signature_value_def)
qed

lemma matches_euwallet_pr103_component_envelope_bytes_passes:
  "matches_euwallet_pr103_component_envelope_bytes"
  using encodes_expected_key encodes_expected_signature
    public_key_codec.lossless [OF rfc8949_roundtrips, of
      "\<lparr>classical_key = test_classical_key, post_quantum_key = test_pq_key\<rparr>" expected_key]
    signature_codec.lossless [OF rfc8949_roundtrips encodes_expected_signature]
  by (simp add: matches_euwallet_pr103_component_envelope_bytes_def)

section \<open>Rejected input\<close>

definition wrong_kind :: bytes where
  "wrong_kind = expected_key[length ENVELOPE_MAGIC + 4 := 2]"

definition truncated_signature :: bytes where
  "truncated_signature = take (length expected_signature -
     length (as_bytes (purpose_id TestSdJwtWrapperV1)) - 2) expected_signature"

definition euwallet_component_envelopes_reject_noncanonical_and_downgraded_input :: bool where
  "euwallet_component_envelopes_reject_noncanonical_and_downgraded_input \<longleftrightarrow>
     decode_public_key_envelope rfc8949 (expected_key @ [0]) = Inl NonCanonical \<and>
     decode_public_key_envelope rfc8949 wrong_kind = Inl Unsupported \<and>
     \<not> is_ok (decode_signature_envelope rfc8949 truncated_signature TestSdJwtWrapperV1) \<and>
     decode_public_key_envelope rfc8949 (replicate (MAX_COMPONENT_ENVELOPE_BYTES + 1) 0) =
       Inl Oversized"

lemma read_canonical_rfc8949:
  assumes "plain NESTING v"
  shows "read_canonical rfc8949 (encode_value v @ r) = (if r = [] then Inr v else Inl NonCanonical)"
  using decode_encode_value [OF assms, of r] assms
  by (simp add: read_canonical_def rfc8949_def)

lemma decode_component_rfc8949:
  assumes "plain NESTING (CMap es)" and "length (encode_value (CMap es) @ r) \<le> 8000"
  shows "decode_component_envelope rfc8949 (ENVELOPE_MAGIC @ encode_value (CMap es) @ r) n =
    (if r \<noteq> [] then Inl NonCanonical else if length es \<noteq> n then Inl Missing
     else component_fields 0 es)"
  using assms(2) read_canonical_rfc8949 [OF assms(1), of r] test_sizes(6)
  by (simp add: decode_component_envelope_def strip_prefix_def bound_defs del: encode_value.simps)

definition kind_value :: "int \<Rightarrow> cbor" where
  "kind_value kind = CMap
     [pair 1 (CInt (uint VERSION)), pair 2 (CInt kind), pair 3 (CText PROFILE),
      pair 4 (CBytes test_classical_key), pair 5 (CBytes test_pq_key)]"

lemma kind_value_plain: "0 \<le> kind \<Longrightarrow> kind < 24 \<Longrightarrow> plain NESTING (kind_value kind)"
  by (simp add: kind_value_def plain_value_simps test_sizes)

lemma kind_value_encoded:
  "ENVELOPE_MAGIC @ encode_value (kind_value 1) = expected_key"
  "ENVELOPE_MAGIC @ encode_value (kind_value 2) = wrong_kind"
  by (simp_all add: wrong_kind_def expected_key_def kind_value_def pair_def test_heads test_sizes
      length_PROFILE VERSION_def list_update_append)

lemma kind_value_length: "length (encode_value (kind_value kind)) \<le> 3000"
  if "0 \<le> kind" "kind < 24"
  using that
  by (simp add: kind_value_def pair_def test_heads test_sizes length_PROFILE VERSION_def
      length_head_bytes)

lemma signature_envelope_length:
  assumes "encode_signature_envelope rfc8949 p s = Inr e"
  shows "length e = length ENVELOPE_MAGIC + length (encode_value (signature_value p s))"
  using assms
  by (auto simp: encode_signature_envelope_def ok_iff is_component_def signature_value_def
      rfc8949_def simp del: encode_value.simps split: if_splits)

lemma decode_kind:
  assumes "0 \<le> kind" and "kind < 24"
  shows "r \<noteq> [] \<Longrightarrow> length r \<le> 5000 \<Longrightarrow> decode_public_key_envelope rfc8949
      (ENVELOPE_MAGIC @ encode_value (kind_value kind) @ r) = Inl NonCanonical"
    and "kind \<noteq> 1 \<Longrightarrow> decode_public_key_envelope rfc8949
      (ENVELOPE_MAGIC @ encode_value (kind_value kind)) = Inl Unsupported"
proof -
  have bound: "length (encode_value (kind_value kind) @ r) \<le> 8000" if "length r \<le> 5000" for r
    using kind_value_length [OF assms] that by simp
  note decode = decode_component_rfc8949 [OF kind_value_plain [OF assms, unfolded kind_value_def]
      bound [unfolded kind_value_def], folded kind_value_def]
  show "r \<noteq> [] \<Longrightarrow> length r \<le> 5000 \<Longrightarrow> decode_public_key_envelope rfc8949
      (ENVELOPE_MAGIC @ encode_value (kind_value kind) @ r) = Inl NonCanonical"
    using decode [of r 5] by (simp add: decode_public_key_envelope_def)
  have "uint (word_of_int kind :: u64) = kind"
    using assms by (simp add: uint_word_of_int)
  then have kind: "(word_of_int kind :: u64) \<noteq> 1" if "kind \<noteq> 1"
    using that by (metis uint_1)
  have "cbor_integer (CInt i) = Inr (of_int i)" if "0 \<le> i" "i < 24" for i
    using that by (simp add: cbor_integer.simps(1))
  from this [of kind] this [of 1] this [of 2] this [of 3] this [of 4] this [of 5] assms
  show "decode_public_key_envelope rfc8949 (ENVELOPE_MAGIC @ encode_value (kind_value kind)) =
      Inl Unsupported" if "kind \<noteq> 1"
    using decode [of "[]" 5] kind [OF that]
    by (simp add: decode_public_key_envelope_def pair_def VERSION_def)
qed

lemma truncated_signature_refused:
  "\<not> is_ok (decode_signature_envelope rfc8949 truncated_signature TestSdJwtWrapperV1)"
proof
  assume "is_ok (decode_signature_envelope rfc8949 truncated_signature TestSdJwtWrapperV1)"
  then obtain s where s: "decode_signature_envelope rfc8949 truncated_signature TestSdJwtWrapperV1 =
      Inr s" by (auto simp: is_ok_iff)
  have written: "encode_signature_envelope rfc8949 TestSdJwtWrapperV1 s = Inr truncated_signature"
    by (rule signature_codec.strict [OF s])
  then have "signature_sizes_ok s" by (auto simp: encode_signature_envelope_def split: if_splits)
  then have "length (encode_value (signature_value TestSdJwtWrapperV1 s)) =
      length (encode_value (signature_value TestSdJwtWrapperV1 test_signatures))"
    using test_sizes(4) by (simp add: signature_value_def pair_def signature_sizes_ok_def)
  then have "length truncated_signature = length expected_signature"
    using signature_envelope_length [OF written]
      signature_envelope_length [OF encodes_expected_signature] by simp
  then show False
    using test_sizes(5)
    by (simp add: truncated_signature_def expected_signature_def)
qed

lemma oversized_refused:
  "decode_public_key_envelope lib (replicate (MAX_COMPONENT_ENVELOPE_BYTES + 1) 0) = Inl Oversized"
  unfolding decode_public_key_envelope_def decode_component_envelope_def length_replicate by simp

lemma euwallet_component_envelopes_reject_noncanonical_and_downgraded_input_passes:
  "euwallet_component_envelopes_reject_noncanonical_and_downgraded_input"
  using decode_kind(1) [of 1 "[0]"] decode_kind(2) [of 2] truncated_signature_refused
  unfolding euwallet_component_envelopes_reject_noncanonical_and_downgraded_input_def
    append_assoc [symmetric] kind_value_encoded
  by (intro conjI oversized_refused) simp_all

section \<open>The wrapper\<close>

text \<open>
  The fixture of the tests. Its signatures come from real keys; the decoder reads only their sizes, so
  they are arguments here, as is the wallet identity.
\<close>

definition fixture_unsigned :: "bytes \<Rightarrow> unsigned_envelope" where
  "fixture_unsigned identity =
     \<lparr>purpose = TestSdJwtWrapperV1, envelope_context = issuer_context identity 4,
      envelope_payload = as_bytes ''canonical credential payload'',
      disclosures = [as_bytes ''canonical disclosure''], classical_kid = ''classical-kid'',
      pq_kid = ''pq-kid'', generation = 4\<rparr>"

definition fixture_entries :: "envelope_signatures \<Rightarrow> (cbor \<times> cbor) list" where
  "fixture_entries s =
     [pair 1 (CInt (uint VERSION)), pair 2 (CText PROFILE), pair 3 (CText PURPOSE),
      pair 4 (CText FORMAT), pair 5 (CBytes (as_bytes ''canonical credential payload'')),
      pair 6 (CArray [CBytes (as_bytes ''canonical disclosure'')]),
      pair 7 (CText ''classical-kid''), pair 8 (CText ''pq-kid''), pair 9 (CInt 4),
      pair 10 (CBytes (classical s)), pair 11 (CBytes (post_quantum s))]"

lemma fixture_entries: "wrapper_value (fixture_unsigned identity) s = CMap (fixture_entries s)"
  by (simp add: wrapper_value_def fixture_unsigned_def fixture_entries_def)

definition wrapped :: "(cbor \<times> cbor) list \<Rightarrow> bytes" where
  "wrapped es = ENVELOPE_MAGIC @ encode_value (CMap es)"

definition mutate_field :: "u64 \<Rightarrow> cbor \<Rightarrow> (cbor \<times> cbor) list \<Rightarrow> (cbor \<times> cbor) list" where
  "mutate_field field replacement es =
     map (\<lambda>(k, v). (k, if k = CInt (uint field) then replacement else v)) es"

definition decode_result :: "bytes \<Rightarrow> bytes \<Rightarrow>
    hybrid_codec_error + unsigned_envelope \<times> envelope_signatures" where
  "decode_result identity e = decode rfc8949 e TestSdJwtWrapperV1 (issuer_context identity 4)"

definition missing_or_unsupported_components_fail_closed ::
  "bytes \<Rightarrow> envelope_signatures \<Rightarrow> bool" where
  "missing_or_unsupported_components_fail_closed identity s \<longleftrightarrow>
     \<not> is_ok (decode_result identity (wrapped (butlast (fixture_entries s)))) \<and>
     list_all (\<lambda>(field, v).
         \<not> is_ok (decode_result identity (wrapped (mutate_field field v (fixture_entries s)))))
       [(1, CInt 2), (2, CText ''unknown-profile''), (3, CText ''production-sd-jwt'')] \<and>
     \<not> is_ok (decode_result identity (as_bytes ''header.payload.signature''))"

definition malformed_noncanonical_duplicate_trailing_and_oversized_cbor_fail ::
  "bytes \<Rightarrow> envelope_signatures \<Rightarrow> bool" where
  "malformed_noncanonical_duplicate_trailing_and_oversized_cbor_fail identity s \<longleftrightarrow>
     decode_result identity (wrapped (fixture_entries s) @ [0]) = Inl NonCanonical \<and>
     decode_result identity (wrapped (fixture_entries s @ [fixture_entries s ! 0])) =
       Inl DuplicateField \<and>
     decode_result identity (replicate (MAX_ENVELOPE_BYTES + 1) 0) = Inl Oversized \<and>
     \<not> is_ok (decode_result identity [0xbf, 0xff])"

lemma decode_wrapped:
  assumes "plain NESTING (CMap es)" and "length (encode_value (CMap es) @ r) \<le> 60000"
  shows "r \<noteq> [] \<Longrightarrow> decode_result identity (wrapped es @ r) = Inl NonCanonical"
    and "r = [] \<Longrightarrow> wrapper_fields {} es = Inl e \<Longrightarrow> decode_result identity (wrapped es) = Inl e"
  using read_canonical_rfc8949 [OF assms(1), of r] assms(2) test_sizes(6)
  by (simp_all add: decode_result_def decode_def wrapped_def bound_defs del: encode_value.simps)

lemma decode_wrapped_ok:
  assumes "plain NESTING (CMap es)" and "decode_result identity (wrapped es) = Inr (u, s)"
  shows "length es = 11 \<and> es ! 0 = pair 1 (CInt (uint VERSION)) \<and> es ! 1 = pair 2 (CText PROFILE) \<and>
    es ! 2 = pair 3 (CText PURPOSE)"
proof -
  from decode_strict [OF assms(2) [unfolded decode_result_def]]
  have "is_envelope rfc8949 u s (wrapped es)" and "purpose u = TestSdJwtWrapperV1" by simp_all
  then have "encode_value (wrapper_value u s) = encode_value (CMap es)"
    and "plain NESTING (wrapper_value u s)"
    by (auto simp: is_envelope_def wrapped_def rfc8949_def simp del: encode_value.simps
        split: if_splits)
  with assms(1) decode_encode_value [of NESTING "wrapper_value u s" "[]"]
    decode_encode_value [of NESTING "CMap es" "[]"]
  have "wrapper_value u s = CMap es" by simp
  with \<open>purpose u = _\<close> show ?thesis by (auto simp: wrapper_value_def)
qed

lemma test_texts:
  "utf8 ''classical-kid''" "utf8 ''pq-kid''" "utf8 ''unknown-profile''" "utf8 ''production-sd-jwt''"
  "utf8 PURPOSE" "length PURPOSE = 22"
  "length (as_bytes ''canonical credential payload'') = 28"
  "length (as_bytes ''canonical disclosure'') = 20"
  by code_simp+

definition harmless :: "cbor \<Rightarrow> bool" where
  "harmless v \<longleftrightarrow> plain 0 v \<and> length (encode_value v) \<le> 100"

lemma plain_0: "plain 0 v \<Longrightarrow> plain n v"
  by (cases v) auto

lemma fixture_plain:
  assumes "signature_sizes_ok s" and "harmless v" and "field < 4"
  shows "plain NESTING (CMap (mutate_field field v (fixture_entries s)))"
    and "length (encode_value (CMap (mutate_field field v (fixture_entries s)))) \<le> 6000"
  using assms
  by (auto simp: mutate_field_def fixture_entries_def plain_value_simps test_texts harmless_def
      signature_sizes_ok_def length_head_bytes bound_defs VERSION_def plain_0)

lemma fixture_itself: "mutate_field 0 CNull (fixture_entries s) = fixture_entries s"
  by (simp add: mutate_field_def fixture_entries_def pair_def)

lemma harmless_values:
  "harmless CNull" "harmless (CInt 2)" "harmless (CText ''unknown-profile'')"
  "harmless (CText ''production-sd-jwt'')"
  by (simp_all add: harmless_def test_texts test_heads) (simp_all add: head_bytes_def)

lemma mutated_refused:
  assumes "signature_sizes_ok s" and "harmless v"
    and "field = 1 \<and> v \<noteq> CInt (uint VERSION) \<or> field = 2 \<and> v \<noteq> CText PROFILE \<or>
      field = 3 \<and> v \<noteq> CText PURPOSE"
  shows "\<not> is_ok (decode_result identity (wrapped (mutate_field field v (fixture_entries s))))"
proof
  let ?es = "mutate_field field v (fixture_entries s)"
  assume "is_ok (decode_result identity (wrapped ?es))"
  then obtain u s' where "decode_result identity (wrapped ?es) = Inr (u, s')"
    by (auto simp: is_ok_iff)
  from decode_wrapped_ok [OF _ this] fixture_plain(1) [OF assms(1,2), of field] assms(3)
  show False
    by (auto simp: mutate_field_def fixture_entries_def pair_def)
qed

lemma missing_or_unsupported_components_fail_closed_passes:
  assumes "signature_sizes_ok s"
  shows "missing_or_unsupported_components_fail_closed identity s"
proof -
  have "plain NESTING (CMap (butlast (fixture_entries s)))"
    using fixture_plain(1) [OF assms harmless_values(1), of 0]
    by (auto simp: fixture_itself plain_value_simps dest: in_set_butlastD)
  from decode_wrapped_ok [OF this]
  have "\<not> is_ok (decode_result identity (wrapped (butlast (fixture_entries s))))"
    by (auto simp: is_ok_iff fixture_entries_def)
  moreover have "CInt 2 \<noteq> CInt (uint VERSION)" "CText ''unknown-profile'' \<noteq> CText PROFILE"
    "CText ''production-sd-jwt'' \<noteq> CText PURPOSE"
    by (simp_all add: VERSION_def PROFILE_def PURPOSE_def)
  moreover have "\<not> prefix ENVELOPE_MAGIC (as_bytes ''header.payload.signature'')"
    by code_simp
  ultimately show ?thesis
    using harmless_values mutated_refused [OF assms, of "CInt 2" 1]
      mutated_refused [OF assms, of "CText ''unknown-profile''" 2]
      mutated_refused [OF assms, of "CText ''production-sd-jwt''" 3]
    by (simp add: missing_or_unsupported_components_fail_closed_def decode_result_def decode_def
        is_ok_def)
qed

lemma malformed_noncanonical_duplicate_trailing_and_oversized_cbor_fail_passes:
  assumes "signature_sizes_ok s"
  shows "malformed_noncanonical_duplicate_trailing_and_oversized_cbor_fail identity s"
proof -
  let ?es = "fixture_entries s"
  note plain = fixture_plain [OF assms harmless_values(1), of 0, unfolded fixture_itself]
  have "decode_result identity (wrapped ?es @ [0]) = Inl NonCanonical"
    by (rule decode_wrapped(1)) (use plain in simp_all)
  moreover have "decode_result identity (wrapped (?es @ [?es ! 0])) = Inl DuplicateField"
  proof (rule decode_wrapped(2) [where r = "[]"])
    show "plain NESTING (CMap (?es @ [?es ! 0]))"
      using plain(1) by (simp add: plain_value_simps fixture_entries_def)
    show "length (encode_value (CMap (?es @ [?es ! 0])) @ []) \<le> 60000"
      using plain(2) by (simp add: fixture_entries_def pair_def length_head_bytes)
    show "wrapper_fields {} (?es @ [?es ! 0]) = Inl DuplicateField"
      using cbor_integer_uint
      by (simp add: fixture_entries_def pair_def cbor_integer.simps(1))
  qed simp
  moreover have "decode_result identity (replicate (MAX_ENVELOPE_BYTES + 1) 0) = Inl Oversized"
    unfolding decode_result_def decode_def length_replicate by simp
  moreover have "\<not> prefix ENVELOPE_MAGIC [0xbf, 0xff]" by code_simp
  then have "\<not> is_ok (decode_result identity [0xbf, 0xff])"
    by (simp add: decode_result_def decode_def is_ok_def)
  ultimately show ?thesis
    unfolding malformed_noncanonical_duplicate_trailing_and_oversized_cbor_fail_def
    by (intro conjI)
qed

end
