(* ===== verification/Service_Tests.thy ===== *)
theory Service_Tests
  imports Metadata_Properties Env_File Svipe
begin

text \<open>
  The unit tests of \<open>issuer-service\<close> that decide something without real keys, as definitions, each
  with the lemma that the model passes it. A package that a test calls is an argument, so a lemma
  holds for every such package.
\<close>

text \<open>The index operators of \<open>serde_json::Value\<close>.\<close>

definition member :: "string \<Rightarrow> json option \<Rightarrow> json option" where
  "member k j = Option.bind j (json_get k)"

definition item :: "nat \<Rightarrow> json option \<Rightarrow> json option" where
  "item i j = Option.bind (Option.bind j as_array) (\<lambda>a. if i < length a then Some (a ! i) else None)"

lemma member_item_Some [simp]:
  "member k (Some j) = json_get k j"
  "item i (Some (JArr a)) = (if i < length a then Some (a ! i) else None)"
  by (simp_all add: member_def item_def)

definition unlines_lf :: "string list \<Rightarrow> string" where
  "unlines_lf ls = concat (map (\<lambda>l. l @ [CHR 0x0A]) ls)"

section \<open>The environment file\<close>

definition parses_basic_pairs_and_skips_noise :: bool where
  "parses_basic_pairs_and_skips_noise \<longleftrightarrow>
     parse_env (unlines_lf [''# a comment'', [], ''ISSUER_URL=https://issuer.example'',
       ''export MANDAMUS_IPROOV_API_KEY=abc123'', ''# another'', ''BAD LINE WITHOUT EQUALS'',
       ''=novalue'']) =
     [(''ISSUER_URL'', ''https://issuer.example''), (''MANDAMUS_IPROOV_API_KEY'', ''abc123'')]"

lemma parses_basic_pairs_and_skips_noise_passes:
  "parses_basic_pairs_and_skips_noise"
  by code_simp

definition strips_matching_surrounding_quotes_only :: bool where
  "strips_matching_surrounding_quotes_only \<longleftrightarrow>
     parse_env (unlines_lf [''A='' @ [CHR 0x22] @ ''quoted value'' @ [CHR 0x22],
       ''B='' @ [CHR 0x27] @ ''single'' @ [CHR 0x27], ''C=unquoted'',
       ''D='' @ [CHR 0x22] @ ''unbalanced'', ''E=mid'' @ [CHR 0x22] @ ''dle'']) =
     [(''A'', ''quoted value''), (''B'', ''single''), (''C'', ''unquoted''),
      (''D'', CHR 0x22 # ''unbalanced''), (''E'', ''mid'' @ [CHR 0x22] @ ''dle'')]"

lemma strips_matching_surrounding_quotes_only_passes:
  "strips_matching_surrounding_quotes_only"
  by code_simp

definition splits_on_first_equals_only :: bool where
  "splits_on_first_equals_only \<longleftrightarrow>
     parse_env (unlines_lf [''MANDAMUS_IPROOV_BASE_URL=https://h/api/v2?x=1&y=2'']) =
     [(''MANDAMUS_IPROOV_BASE_URL'', ''https://h/api/v2?x=1&y=2'')]"

lemma splits_on_first_equals_only_passes:
  "splits_on_first_equals_only"
  by code_simp

definition var_falls_back_to_nothing_for_unset_key_without_file :: "environment \<Rightarrow> bool" where
  "var_falls_back_to_nothing_for_unset_key_without_file env \<longleftrightarrow>
     env ''VCISSUER_DEFINITELY_UNSET_KEY_9Z'' = NotPresent \<longrightarrow>
     env_var env None ''VCISSUER_DEFINITELY_UNSET_KEY_9Z'' = None"

lemma var_falls_back_to_nothing_for_unset_key_without_file_passes:
  "var_falls_back_to_nothing_for_unset_key_without_file env"
  by (simp add: var_falls_back_to_nothing_for_unset_key_without_file_def env_var_def)

section \<open>Capture sessions\<close>

definition invocation_url_carries_session :: bool where
  "invocation_url_carries_session \<longleftrightarrow>
     invocation_url ''https://issuer.advatar.systems/'' ''sess-123'' =
     ''https://issuer.advatar.systems/pid-capture?session=sess-123''"

lemma invocation_url_carries_session_passes:
  "invocation_url_carries_session"
  by code_simp

definition invocation_origin_prefers_configured_then_issuer :: bool where
  "invocation_origin_prefers_configured_then_issuer \<longleftrightarrow>
     invocation_origin (Some ''https://pid.advatar.systems/'') ''https://issuer.advatar.systems'' =
       ''https://pid.advatar.systems'' \<and>
     invocation_origin None ''https://issuer.advatar.systems/'' =
       ''https://issuer.advatar.systems'' \<and>
     invocation_origin (Some ''   '') ''https://issuer.advatar.systems'' =
       ''https://issuer.advatar.systems''"

lemma invocation_origin_prefers_configured_then_issuer_passes:
  "invocation_origin_prefers_configured_then_issuer"
  by code_simp

definition iproov_ids_are_session_scoped :: bool where
  "iproov_ids_are_session_scoped \<longleftrightarrow>
     iproov_user_id ''abc'' = ''pid-capture-abc'' \<and> iproov_resource ''abc'' = ''pid-capture:abc''"

lemma iproov_ids_are_session_scoped_passes:
  "iproov_ids_are_session_scoped"
  by code_simp

definition aasa_declares_appclip_and_applink :: bool where
  "aasa_declares_appclip_and_applink \<longleftrightarrow>
     (let aasa = Some (apple_app_site_association ''ABCDE12345.systems.advatar.pidcapture'');
       detail = item 0 (member ''details'' (member ''applinks'' aasa)) in
      item 0 (member ''apps'' (member ''appclips'' aasa)) =
        Some (JStr ''ABCDE12345.systems.advatar.pidcapture.Clip'') \<and>
      item 0 (member ''appIDs'' detail) = Some (JStr ''ABCDE12345.systems.advatar.pidcapture'') \<and>
      member ''/'' (item 0 (member ''components'' detail)) = Some (JStr ''/pid-capture*''))"

lemma aasa_declares_appclip_and_applink_passes:
  "aasa_declares_appclip_and_applink"
  by code_simp

definition credential_offer_carries_both_arf_formats :: "('k, 's) packages \<Rightarrow> bool" where
  "credential_offer_carries_both_arf_formats pk \<longleftrightarrow>
     (let offer = Some (fst (capture_credential_offer pk ''https://issuer.advatar.systems''
         [(''eu.europa.ec.eudi.pid_vc_sd_jwt.de:nfc'', ''dc+sd-jwt'', ''eyJ.sd-jwt~''),
          (''eu.europa.ec.eudi.pid_mso_mdoc.de:nfc'', ''mso_mdoc'', ''b64url-mdoc'')])) in
      member ''credential_configuration_ids'' offer = Some (JArr
        [JStr ''eu.europa.ec.eudi.pid_vc_sd_jwt.de:nfc'',
         JStr ''eu.europa.ec.eudi.pid_mso_mdoc.de:nfc'']) \<and>
      member ''format'' (item 0 (member ''credentials'' offer)) = Some (JStr ''dc+sd-jwt'') \<and>
      member ''format'' (item 1 (member ''credentials'' offer)) = Some (JStr ''mso_mdoc'') \<and>
      member ''credential'' (item 1 (member ''credentials'' offer)) = Some (JStr ''b64url-mdoc''))"

lemma credential_offer_carries_both_arf_formats_passes:
  "credential_offer_carries_both_arf_formats pk"
  by (simp add: credential_offer_carries_both_arf_formats_def capture_credential_offer_def credential_offer_document_def Let_def)

definition portrait_matched_liveness_requires_both_liveness_and_likeness :: bool where
  "portrait_matched_liveness_requires_both_liveness_and_likeness \<longleftrightarrow>
     portrait_matched_liveness True True \<and> \<not> portrait_matched_liveness True False \<and>
     \<not> portrait_matched_liveness False True \<and> \<not> portrait_matched_liveness False False"

lemma portrait_matched_liveness_requires_both_liveness_and_likeness_passes:
  "portrait_matched_liveness_requires_both_liveness_and_likeness"
  by code_simp

section \<open>The liveness provider\<close>

definition iproov_for_test :: iproov_config where
  "iproov_for_test =
     \<lparr>ip_api_key = ''test-api-key'', ip_secret = ''test-secret'',
      ip_base_url = ''https://eu.rp.secure.iproov.me/api/v2'',
      ip_assurance_type = ASSURANCE_GENUINE_PRESENCE, ip_web_base_url = None\<rparr>"

definition endpoints_and_streaming_url_from_base :: bool where
  "endpoints_and_streaming_url_from_base \<longleftrightarrow>
     token_endpoint iproov_for_test =
       ''https://eu.rp.secure.iproov.me/api/v2/claim/verify/token'' \<and>
     validate_endpoint iproov_for_test =
       ''https://eu.rp.secure.iproov.me/api/v2/claim/verify/validate'' \<and>
     streaming_url iproov_for_test = ''wss://eu.rp.secure.iproov.me/ws''"

lemma endpoints_and_streaming_url_from_base_passes:
  "endpoints_and_streaming_url_from_base"
  by code_simp

definition explicit_web_base_wins_for_streaming :: bool where
  "explicit_web_base_wins_for_streaming \<longleftrightarrow>
     streaming_url (iproov_for_test\<lparr>ip_web_base_url := Some ''wss://eu.rp.secure.iproov.me/ws''\<rparr>) =
     ''wss://eu.rp.secure.iproov.me/ws''"

lemma explicit_web_base_wins_for_streaming_passes:
  "explicit_web_base_wins_for_streaming"
  by code_simp

definition token_body_carries_sp_key_and_assurance :: bool where
  "token_body_carries_sp_key_and_assurance \<longleftrightarrow>
     (let body = Some (token_request_body iproov_for_test ''session-user-1'' ''pid-capture:sess-abc'') in
      member ''api_key'' body = Some (JStr ''test-api-key'') \<and>
      member ''secret'' body = Some (JStr ''test-secret'') \<and>
      member ''assurance_type'' body = Some (JStr ASSURANCE_GENUINE_PRESENCE) \<and>
      member ''user_id'' body = Some (JStr ''session-user-1'') \<and>
      member ''resource'' body = Some (JStr ''pid-capture:sess-abc'') \<and>
      member ''client'' body = Some (JStr CLIENT_ID))"

lemma token_body_carries_sp_key_and_assurance_passes:
  "token_body_carries_sp_key_and_assurance"
  by code_simp

definition validate_body_binds_token_and_user :: bool where
  "validate_body_binds_token_and_user \<longleftrightarrow>
     (let body = Some (validate_request_body iproov_for_test ''tok-xyz'' ''session-user-1''
         ''203.0.113.7'') in
      member ''token'' body = Some (JStr ''tok-xyz'') \<and>
      member ''user_id'' body = Some (JStr ''session-user-1'') \<and>
      member ''ip'' body = Some (JStr ''203.0.113.7'') \<and>
      member ''secret'' body = Some (JStr ''test-secret''))"

lemma validate_body_binds_token_and_user_passes:
  "validate_body_binds_token_and_user"
  by code_simp

section \<open>Svipe evidence\<close>

definition test_svipe_claims :: svipe_claims where
  "test_svipe_claims =
     \<lparr>sv_sub = ''s'', sv_given_name = ''Ada'', sv_family_name = ''Lovelace'',
      sv_birthdate = ''1815-12-10'', sv_nationality = ''GB'',
      sv_document_portrait = Some ''data:image/jpeg;base64,AA=='',
      sv_validation_portrait_present = Some True, sv_acr = Some REQUIRED_ACR\<rparr>"

definition maps_only_development_evidence :: bool where
  "maps_only_development_evidence \<longleftrightarrow>
     (case normalize test_svipe_claims of
       Inl _ \<Rightarrow> False
     | Inr e \<Rightarrow> de_development_only e \<and> de_source e = ''svipe_oidc'')"

lemma maps_only_development_evidence_passes:
  "maps_only_development_evidence"
  by code_simp

definition portrait_is_required :: bool where
  "portrait_is_required \<longleftrightarrow>
     \<not> is_ok (normalize (test_svipe_claims\<lparr>sv_document_portrait := None\<rparr>))"

lemma portrait_is_required_passes:
  "portrait_is_required"
  by code_simp

section \<open>Scopes, sessions and published documents\<close>

definition scope_is_closed :: bool where
  "scope_is_closed \<longleftrightarrow>
     valid_scope PID_SD_JWT False \<and> valid_scope TLSN_EVIDENCE_SD_JWT False \<and>
     \<not> valid_scope HYBRID_PQ_SD_JWT False \<and> valid_scope HYBRID_PQ_SD_JWT True \<and>
     \<not> valid_scope ''openid unknown'' True \<and> \<not> valid_scope [] True"

lemma scope_is_closed_passes:
  "scope_is_closed"
  by code_simp

definition tlsn_profile_requires_evidence_bound_authorization :: bool where
  "tlsn_profile_requires_evidence_bound_authorization \<longleftrightarrow>
     (let evidence = \<lparr>vt_session_id = ''session'', vt_issued_at = 1,
         vt_verifier_output = JObj [(''ok'', JBool True)]\<rparr>;
       offer = \<lparr>co_profile = TLSN_EVIDENCE_SD_JWT, co_issuer_state = ''state'', co_expires_at = 2,
         co_tlsn_evidence = Some evidence\<rparr>;
       (first, sessions) = reserve_tlsn_session {} ''session'' in
      co_tlsn_evidence offer \<noteq> None \<and> co_profile offer = TLSN_EVIDENCE_SD_JWT \<and>
      is_ok first \<and> \<not> is_ok (fst (reserve_tlsn_session sessions ''session'')))"

lemma tlsn_profile_requires_evidence_bound_authorization_passes:
  "tlsn_profile_requires_evidence_bound_authorization"
  by (simp add: tlsn_profile_requires_evidence_bound_authorization_def reserve_tlsn_session_def Let_def is_ok_def)

definition tlsn_metadata_advertises_a_profile_bound_certificate_endpoint :: "schema_lib \<Rightarrow> bool" where
  "tlsn_metadata_advertises_a_profile_bound_certificate_endpoint sl \<longleftrightarrow>
     (let profile = Some (tlsn_metadata_profile sl ''https://issuer.example'') in
      member ''vct'' profile = Some (JStr TLSN_EVIDENCE_VCT) \<and>
      member ''credential_signing_certificate_endpoint'' profile = Some (JStr
        ''https://issuer.example/credential-signing-certificates/dev.advatar.tlsn.evidence.sd-jwt''))"

lemma tlsn_metadata_advertises_a_profile_bound_certificate_endpoint_passes:
  "tlsn_metadata_advertises_a_profile_bound_certificate_endpoint sl"
  by (simp add: tlsn_metadata_advertises_a_profile_bound_certificate_endpoint_def tlsn_metadata_profile_def sd_jwt_profile_def
      json_get_insert_schema json_get_object TLSN_EVIDENCE_SD_JWT_def)

definition hybrid_metadata_is_private_experimental :: bool where
  "hybrid_metadata_is_private_experimental \<longleftrightarrow>
     (let profile = Some (hybrid_metadata_profile ''https://issuer.example'') in
      member ''format'' profile = Some (JStr FORMAT) \<and>
      member ''experimental_profile'' profile = Some (JStr PROFILE) \<and>
      member ''development_only'' profile = Some (JBool True) \<and>
      member ''eudi_conformant'' profile = Some (JBool False) \<and>
      member ''credential_wrapper_schema'' profile = Some (JStr ''HybridCredentialWrapperV1'') \<and>
      member ''shared_vectors_status'' profile =
        Some (JStr ''complete-component-and-wrapper-corpora'') \<and>
      member ''credential_signing_alg_values_supported'' profile = None \<and>
      member ''proof_signing_alg_values_supported''
        (member ''jwt'' (member ''proof_types_supported'' profile)) = Some (JArr [JStr ''ES256'']))"

lemma hybrid_metadata_is_private_experimental_passes:
  "hybrid_metadata_is_private_experimental"
  by code_simp

definition authorization_server_metadata_advertises_mandatory_par :: bool where
  "authorization_server_metadata_advertises_mandatory_par \<longleftrightarrow>
     (let metadata = Some (oauth_metadata_value ''https://issuer.example'') in
      member ''require_pushed_authorization_requests'' metadata = Some (JBool True) \<and>
      member ''pushed_authorization_request_endpoint'' metadata =
        Some (JStr ''https://issuer.example/par''))"

lemma authorization_server_metadata_advertises_mandatory_par_passes:
  "authorization_server_metadata_advertises_mandatory_par"
  by code_simp

section \<open>Schema identifiers and the post-quantum backend\<close>

definition rejects_unbounded_zero_and_versionless_inputs :: "xof \<Rightarrow> bool" where
  "rejects_unbounded_zero_and_versionless_inputs xof \<longleftrightarrow>
     (let type_bytes = as_bytes ''type''; rulebook = as_bytes ''rulebook''; ones = replicate 48 1 in
      derive_schema_id xof [] type_bytes rulebook 1 ones = None \<and>
      derive_schema_id xof (as_bytes ''config'') type_bytes rulebook 0 ones = None \<and>
      derive_schema_id xof (as_bytes ''config'') type_bytes rulebook 1 (replicate 48 0) = None \<and>
      derive_schema_id xof (replicate 257 97) type_bytes rulebook 1 ones = None)"

lemma rejects_unbounded_zero_and_versionless_inputs_passes:
  "rejects_unbounded_zero_and_versionless_inputs xof"
  by (simp add: rejects_unbounded_zero_and_versionless_inputs_def derive_schema_id_def Let_def as_bytes_def MAX_IDENTIFIER_BYTES_def)

definition malformed_components_fail_before_backend_use :: "mldsa_lib \<Rightarrow> bytes option \<Rightarrow> bool" where
  "malformed_components_fail_before_backend_use lib randomness \<longleftrightarrow>
     \<not> is_ok (sign_once lib randomness (replicate 31 0) (as_bytes ''message'')) \<and>
     \<not> is_ok (verify_signature lib (replicate 31 0) (as_bytes ''message'')
       (replicate SIGNATURE_BYTES 0)) \<and>
     \<not> is_ok (verify_signature lib (replicate PUBLIC_KEY_BYTES 0) (as_bytes ''message'')
       (replicate 31 0))"

lemma malformed_components_fail_before_backend_use_passes:
  "malformed_components_fail_before_backend_use lib randomness"
  by (simp add: malformed_components_fail_before_backend_use_def sign_once_def verify_signature_def is_ok_def SECRET_KEY_BYTES_def
      PUBLIC_KEY_BYTES_def SIGNATURE_BYTES_def)

end
