(* ===== verification/Evidence_Tests.thy ===== *)
theory Evidence_Tests
  imports Round_Trips
begin

text \<open>
  The unit tests of \<open>main.rs\<close> that sign their evidence with keys they make themselves. A test takes
  the packages, its keys and its clock as arguments and says whether its assertions hold; the lemma
  after it says that the model passes it for all packages and keys that behave as documented. What
  a test rejects it rejects for the reason the assertions name: another key, another message.
\<close>

section \<open>Keys\<close>

text \<open>A \<open>SigningKey\<close> of the tests: its public point and the raw signature it makes.\<close>

record test_key =
  tk_x :: bytes
  tk_y :: bytes
  tk_sign :: "bytes \<Rightarrow> bytes"

text \<open>\<open>verifying_key().to_encoded_point(false)\<close>.\<close>

definition tk_sec1 :: "test_key \<Rightarrow> bytes" where
  "tk_sec1 key = 4 # tk_x key @ tk_y key"

text \<open>A key pair of ECDSA: a signature verifies under its key for the message that was signed only.\<close>

definition signs_only :: "('k, 's) ecdsa_lib \<Rightarrow> test_key \<Rightarrow> bool" where
  "signs_only E key \<longleftrightarrow> length (tk_x key) = 32 \<and> length (tk_y key) = 32 \<and>
     (\<exists>K. key_from_sec1 E (tk_sec1 key) = Some K \<and>
        (\<forall>m. \<exists>s. sig_from_slice E (tk_sign key m) = Some s \<and>
           (\<forall>m'. ecdsa_verify E K m' s \<longleftrightarrow> m' = m)))"

text \<open>Two keys: what one signs does not verify under the other.\<close>

definition keys_apart :: "('k, 's) ecdsa_lib \<Rightarrow> test_key \<Rightarrow> test_key \<Rightarrow> bool" where
  "keys_apart E key other \<longleftrightarrow> tk_sec1 key \<noteq> tk_sec1 other \<and>
     (\<forall>K s m m'. key_from_sec1 E (tk_sec1 other) = Some K \<longrightarrow>
        sig_from_slice E (tk_sign key m) = Some s \<longrightarrow> \<not> ecdsa_verify E K m' s)"

text \<open>\<open>IndexMut\<close> of \<open>serde_json::Value\<close> for a member that is there.\<close>

fun map_member :: "string \<Rightarrow> (json \<Rightarrow> json) \<Rightarrow> json \<Rightarrow> json" where
  "map_member k f (JObj ms) = JObj (map (\<lambda>(k', v). (k', if k' = k then f v else v)) ms)"
| "map_member k f j = j"

section \<open>The TLSNotary artifact\<close>

definition tlsn_test_payload :: "u64 \<Rightarrow> tlsn_payload" where
  "tlsn_test_payload issued_at =
     \<lparr>tp_version = TLSN_ARTIFACT_VERSION, tp_session_id = ''tlsn-session-1'',
      tp_issued_at = issued_at, tp_verifier_output =
        JObj [(''serverName'', JStr ''example.com''), (''status'', JNat 200)]\<rparr>"

text \<open>\<open>None\<close> is a payload that does not serialise, on which the test panics.\<close>

definition signed_artifact ::
  "('k, 's) packages \<Rightarrow> test_key \<Rightarrow> tlsn_payload \<Rightarrow> signed_tlsn_artifact option" where
  "signed_artifact pk key payload =
     map_option (\<lambda>m. \<lparr>ta_payload = payload, ta_algorithm = ''ES256'',
         ta_public_key = b64url_encode (codec pk) (tk_sec1 key),
         ta_signature = b64url_encode (codec pk) (tk_sign key m),
         ta_pq_algorithm = None, ta_pq_public_key = None, ta_pq_signature = None\<rparr>)
       (tlsn_payload_to_vec (serde pk) payload)"

definition tlsn_artifact ::
  "('k, 's) packages \<Rightarrow> test_key \<Rightarrow> u64 \<Rightarrow> signed_tlsn_artifact option" where
  "tlsn_artifact pk key issued_at = signed_artifact pk key (tlsn_test_payload issued_at)"

text \<open>The second signature of a hybrid notary; \<open>rnd\<close> is the randomness of \<open>sign_once\<close>.\<close>

definition with_pq_signature ::
  "('k, 's) packages \<Rightarrow> bytes option \<Rightarrow> signed_tlsn_artifact \<Rightarrow> generated_key_pair \<Rightarrow>
     signed_tlsn_artifact option" where
  "with_pq_signature pk rnd artifact kp =
     (case tlsn_payload_to_vec (serde pk) (ta_payload artifact) of
        None \<Rightarrow> None
      | Some m \<Rightarrow>
          (case sign_once (pq pk) rnd (gen_secret_key kp) m of
             Inl _ \<Rightarrow> None
           | Inr sig \<Rightarrow> Some (artifact\<lparr>ta_pq_algorithm := Some TLSN_ARTIFACT_PQ_ALGORITHM,
               ta_pq_public_key := Some (b64url_encode (codec pk) (gen_public_key kp)),
               ta_pq_signature := Some (b64url_encode (codec pk) sig)\<rparr>)))"

text \<open>\<open>payload.verifier_output["status"] = 500\<close>.\<close>

definition tampered :: "signed_tlsn_artifact \<Rightarrow> signed_tlsn_artifact" where
  "tampered artifact = artifact\<lparr>ta_payload := (ta_payload artifact)\<lparr>tp_verifier_output :=
     map_member ''status'' (\<lambda>_. JNat 500) (tp_verifier_output (ta_payload artifact))\<rparr>\<rparr>"

definition tlsn_artifact_is_pinned_fresh_and_tamper_evident ::
  "('k, 's) packages \<Rightarrow> test_key \<Rightarrow> test_key \<Rightarrow> u64 \<Rightarrow> bool" where
  "tlsn_artifact_is_pinned_fresh_and_tamper_evident pk key wrong now \<longleftrightarrow>
     (case (tlsn_artifact pk key now,
            tlsn_artifact pk key (now - TLSN_EVIDENCE_LIFETIME_SECONDS - 1),
            tlsn_artifact pk key (now + 6)) of
        (Some artifact, Some outdated, Some future) \<Rightarrow>
          (case verify_tlsn_artifact pk artifact (tk_sec1 key) None now of
             Inr verified \<Rightarrow> vt_session_id verified = ''tlsn-session-1'' | Inl _ \<Rightarrow> False) \<and>
          \<not> is_ok (verify_tlsn_artifact pk artifact (tk_sec1 wrong) None now) \<and>
          \<not> is_ok (verify_tlsn_artifact pk (tampered artifact) (tk_sec1 key) None now) \<and>
          \<not> is_ok (verify_tlsn_artifact pk outdated (tk_sec1 key) None now) \<and>
          \<not> is_ok (verify_tlsn_artifact pk future (tk_sec1 key) None now)
      | _ \<Rightarrow> False)"

text \<open>The payload as \<open>tlsn_demo_offer\<close> builds it.\<close>

definition demo_session_payload :: "u64 \<Rightarrow> tlsn_payload" where
  "demo_session_payload now =
     \<lparr>tp_version = TLSN_ARTIFACT_VERSION, tp_session_id = ''demo-'' @ ''session123'',
      tp_issued_at = now, tp_verifier_output =
        JObj [(''claim'', JStr ''demo''), (''demo'', JBool True),
              (''serverName'', JStr ''example.com''), (''status'', JNat 200)]\<rparr>"

definition tlsn_demo_artifact_verifies_against_ephemeral_notary ::
  "('k, 's) packages \<Rightarrow> test_key \<Rightarrow> test_key \<Rightarrow> u64 \<Rightarrow> bool" where
  "tlsn_demo_artifact_verifies_against_ephemeral_notary pk signer other now \<longleftrightarrow>
     (case signed_artifact pk signer (demo_session_payload now) of
        Some artifact \<Rightarrow>
          (case verify_tlsn_artifact pk artifact (tk_sec1 signer) None now of
             Inr verified \<Rightarrow> strip_prefix ''demo-'' (vt_session_id verified) \<noteq> None
           | Inl _ \<Rightarrow> False) \<and>
          \<not> is_ok (verify_tlsn_artifact pk artifact (tk_sec1 other) None now)
      | None \<Rightarrow> False)"

definition tlsn_hybrid_notary_signature_is_downgrade_closed ::
  "('k, 's) packages \<Rightarrow> test_key \<Rightarrow> generated_key_pair \<Rightarrow> generated_key_pair \<Rightarrow> bytes option \<Rightarrow> u64 \<Rightarrow>
     bool" where
  "tlsn_hybrid_notary_signature_is_downgrade_closed pk es kp other rnd now \<longleftrightarrow>
     (case tlsn_artifact pk es now of
        None \<Rightarrow> False
      | Some es_only \<Rightarrow>
          (case with_pq_signature pk rnd es_only kp of
             None \<Rightarrow> False
           | Some both \<Rightarrow>
               (let trusted = tk_sec1 es; required = Some (gen_public_key kp);
                    forged = both\<lparr>ta_pq_signature :=
                      Some (b64url_encode (codec pk) (replicate SIGNATURE_BYTES 0))\<rparr> in
                is_ok (verify_tlsn_artifact pk both trusted required now) \<and>
                \<not> is_ok (verify_tlsn_artifact pk es_only trusted required now) \<and>
                \<not> is_ok (verify_tlsn_artifact pk both trusted
                    (Some (gen_public_key other)) now) \<and>
                \<not> is_ok (verify_tlsn_artifact pk (tampered both) trusted required now) \<and>
                \<not> is_ok (verify_tlsn_artifact pk forged trusted required now) \<and>
                is_ok (verify_tlsn_artifact pk es_only trusted None now) \<and>
                is_ok (verify_tlsn_artifact pk both trusted None now))))"

text \<open>Payloads are written within the limit, and two payloads never as the same bytes.\<close>

definition payloads_written :: "serde_lib \<Rightarrow> tlsn_payload set \<Rightarrow> bool" where
  "payloads_written s P \<longleftrightarrow>
     (\<forall>p \<in> P. \<exists>m. tlsn_payload_to_vec s p = Some m \<and> length m \<le> MAX_TLSN_ARTIFACT_BYTES) \<and>
     inj_on (tlsn_payload_to_vec s) P"

lemma stale_bounds:
  "\<not> stale TLSN_EVIDENCE_LIFETIME_SECONDS now now"
  "301 \<le> now \<Longrightarrow> stale TLSN_EVIDENCE_LIFETIME_SECONDS (now - TLSN_EVIDENCE_LIFETIME_SECONDS - 1) now"
  "now < 2 ^ 63 \<Longrightarrow> stale TLSN_EVIDENCE_LIFETIME_SECONDS (now + 6) now"
  for now :: u64
proof -
  show "\<not> stale TLSN_EVIDENCE_LIFETIME_SECONDS now now"
    using saturating_add_ge [of now 5]
    by (simp add: stale_def saturating_sub_def not_less)
  show "stale TLSN_EVIDENCE_LIFETIME_SECONDS (now - TLSN_EVIDENCE_LIFETIME_SECONDS - 1) now"
    if "301 \<le> now"
    using that by (auto simp: stale_def TLSN_EVIDENCE_LIFETIME_SECONDS_def saturating_sub_def
        word_le_nat_alt word_less_nat_alt unat_sub_if')
  show "stale TLSN_EVIDENCE_LIFETIME_SECONDS (now + 6) now" if "now < 2 ^ 63"
    using that by (auto simp: stale_def saturating_add_def word_less_nat_alt unat_word_ariths)
qed

text \<open>
  What the verification of an artifact looks at, when its signature and key are those of an artifact
  that a test key signed.
\<close>

lemma signed_artifact_verifies_iff:
  assumes "signed_artifact pk key payload = Some artifact" and "b64url_correct (codec pk)"
    and "signs_only (ec pk) key" and "payloads_written (serde pk) {payload, ta_payload a}"
    and "ta_algorithm a = ta_algorithm artifact" and "ta_public_key a = ta_public_key artifact"
    and "ta_signature a = ta_signature artifact"
    and "tp_version (ta_payload a) = TLSN_ARTIFACT_VERSION" and "tp_session_id (ta_payload a) \<noteq> []"
    and "length (tp_session_id (ta_payload a)) \<le> 256"
  shows "is_ok (verify_tlsn_artifact pk a trusted required now) \<longleftrightarrow>
     trusted = tk_sec1 key \<and> ta_payload a = payload \<and>
     \<not> stale TLSN_EVIDENCE_LIFETIME_SECONDS (tp_issued_at payload) now \<and>
     (\<exists>m. tlsn_payload_to_vec (serde pk) payload = Some m \<and>
        is_ok (verify_tlsn_pq pk a required m))"
proof -
  from assms(1) obtain m where m: "tlsn_payload_to_vec (serde pk) payload = Some m"
    and artifact: "ta_algorithm a = ''ES256''"
      "ta_public_key a = b64url_encode (codec pk) (tk_sec1 key)"
      "ta_signature a = b64url_encode (codec pk) (tk_sign key m)"
    using assms(5-7) by (auto simp: signed_artifact_def)
  from assms(4) obtain m' where m': "tlsn_payload_to_vec (serde pk) (ta_payload a) = Some m'"
    "length m' \<le> MAX_TLSN_ARTIFACT_BYTES" "m' = m \<longleftrightarrow> ta_payload a = payload"
    using m by (auto simp: payloads_written_def inj_on_def)
  obtain K s where key: "key_from_sec1 (ec pk) (tk_sec1 key) = Some K"
    "sig_from_slice (ec pk) (tk_sign key m) = Some s" "ecdsa_verify (ec pk) K m' s \<longleftrightarrow> m' = m"
    using assms(3) unfolding signs_only_def by metis
  have "is_ok (verify_tlsn_artifact pk a trusted required now) \<longleftrightarrow> trusted = tk_sec1 key \<and> m' = m \<and>
     \<not> stale TLSN_EVIDENCE_LIFETIME_SECONDS (tp_issued_at (ta_payload a)) now \<and>
     is_ok (verify_tlsn_pq pk a required m')"
    unfolding verify_tlsn_artifact_def Let_def is_ok_iff
    using assms(2,8-10) m'(1,2) key
    by (auto simp: ok_iff artifact b64url_correct_def)
  then show ?thesis
    using m m'(3) by auto
qed

text \<open>What an accepted artifact becomes.\<close>

lemma verified_session_id:
  "verify_tlsn_artifact pk a trusted required now = Inr v \<Longrightarrow>
   vt_session_id v = tp_session_id (ta_payload a)"
  by (auto simp: verify_tlsn_artifact_def Let_def ok_iff)

definition tlsn_test_payloads :: "u64 \<Rightarrow> tlsn_payload set" where
  "tlsn_test_payloads now =
     (let p = tlsn_test_payload now in
      {p, tlsn_test_payload (now - TLSN_EVIDENCE_LIFETIME_SECONDS - 1), tlsn_test_payload (now + 6),
       demo_session_payload now, p\<lparr>tp_verifier_output :=
         JObj [(''serverName'', JStr ''example.com''), (''status'', JNat 500)]\<rparr>})"

lemma payloads_written_subset: "payloads_written s P \<Longrightarrow> Q \<subseteq> P \<Longrightarrow> payloads_written s Q"
  by (auto simp: payloads_written_def intro: inj_on_subset)

lemma signed_artifact_exists:
  assumes "payloads_written (serde pk) P" and "payload \<in> P"
  obtains artifact where "signed_artifact pk key payload = Some artifact"
    "ta_payload artifact = payload" "ta_algorithm artifact = ''ES256''"
    "ta_pq_algorithm artifact = None"
  using assms by (auto simp: payloads_written_def signed_artifact_def)

lemma tampered_fields [simp]:
  "ta_algorithm (tampered a) = ta_algorithm a" "ta_public_key (tampered a) = ta_public_key a"
  "ta_signature (tampered a) = ta_signature a"
  by (simp_all add: tampered_def)

lemma tampered_payload:
  "ta_payload a = tlsn_test_payload now \<Longrightarrow> ta_payload (tampered a) = (tlsn_test_payload now)
     \<lparr>tp_verifier_output := JObj [(''serverName'', JStr ''example.com''), (''status'', JNat 500)]\<rparr>"
  by (simp add: tampered_def tlsn_test_payload_def)

lemma verify_tlsn_pq_unconfigured [simp]: "verify_tlsn_pq pk a None m = Inr ()"
  by (simp add: verify_tlsn_pq_def)

lemma tlsn_artifact_is_pinned_fresh_and_tamper_evident_passes:
  assumes "b64url_correct (codec pk)" and "signs_only (ec pk) key"
    and "tk_sec1 key \<noteq> tk_sec1 wrong" and "payloads_written (serde pk) (tlsn_test_payloads now)"
    and "301 \<le> now" and "now < 2 ^ 63"
  shows "tlsn_artifact_is_pinned_fresh_and_tamper_evident pk key wrong now"
proof -
  let ?old = "now - TLSN_EVIDENCE_LIFETIME_SECONDS - 1"
  have mem: "tlsn_test_payload now \<in> tlsn_test_payloads now"
    "tlsn_test_payload ?old \<in> tlsn_test_payloads now"
    "tlsn_test_payload (now + 6) \<in> tlsn_test_payloads now"
    by (simp_all add: tlsn_test_payloads_def Let_def)
  obtain a where a: "signed_artifact pk key (tlsn_test_payload now) = Some a"
    "ta_payload a = tlsn_test_payload now"
    by (rule signed_artifact_exists [OF assms(4) mem(1)])
  obtain old where old: "signed_artifact pk key (tlsn_test_payload ?old) = Some old"
    "ta_payload old = tlsn_test_payload ?old"
    by (rule signed_artifact_exists [OF assms(4) mem(2)])
  obtain future where future: "signed_artifact pk key (tlsn_test_payload (now + 6)) = Some future"
    "ta_payload future = tlsn_test_payload (now + 6)"
    by (rule signed_artifact_exists [OF assms(4) mem(3)])
  have written: "payloads_written (serde pk) {tlsn_test_payload now, ta_payload (tampered a)}"
    by (rule payloads_written_subset [OF assms(4)])
      (simp add: tampered_payload [OF a(2)] tlsn_test_payloads_def Let_def)
  have same: "payloads_written (serde pk) {p, p}" if "p \<in> tlsn_test_payloads now" for p
    by (rule payloads_written_subset [OF assms(4)]) (simp add: that)
  note fields = tlsn_test_payload_def
  note iff = signed_artifact_verifies_iff [OF _ assms(1,2)]
  have "is_ok (verify_tlsn_artifact pk a trusted None now) \<longleftrightarrow> trusted = tk_sec1 key" for trusted
    using iff [OF a(1), of a trusted None now] same [OF mem(1)] a(2) stale_bounds(1) mem(1) assms(4)
    by (auto simp: fields payloads_written_def)
  moreover have "\<not> is_ok (verify_tlsn_artifact pk (tampered a) (tk_sec1 key) None now)"
    using iff [OF a(1) written, of "tk_sec1 key" None now] tampered_payload [OF a(2)]
    by (auto simp: fields)
  moreover have "\<not> is_ok (verify_tlsn_artifact pk old (tk_sec1 key) None now)"
    using iff [OF old(1), of old "tk_sec1 key" None now] same [OF mem(2)] old(2)
      stale_bounds(2) [OF assms(5)]
    by (simp add: fields)
  moreover have "\<not> is_ok (verify_tlsn_artifact pk future (tk_sec1 key) None now)"
    using iff [OF future(1), of future "tk_sec1 key" None now] same [OF mem(3)] future(2)
      stale_bounds(3) [OF assms(6)]
    by (simp add: fields)
  moreover obtain v where "verify_tlsn_artifact pk a (tk_sec1 key) None now = Inr v"
    "vt_session_id v = ''tlsn-session-1''"
    using calculation(1) verified_session_id [of pk a "tk_sec1 key" None now] a(2)
    by (auto simp: is_ok_iff fields)
  ultimately show ?thesis
    using assms(3) a(1) old(1) future(1)
    by (simp add: tlsn_artifact_is_pinned_fresh_and_tamper_evident_def tlsn_artifact_def)
qed

lemma tlsn_demo_artifact_verifies_against_ephemeral_notary_passes:
  assumes "b64url_correct (codec pk)" and "signs_only (ec pk) signer"
    and "tk_sec1 signer \<noteq> tk_sec1 other" and "payloads_written (serde pk) (tlsn_test_payloads now)"
  shows "tlsn_demo_artifact_verifies_against_ephemeral_notary pk signer other now"
proof -
  have mem: "demo_session_payload now \<in> tlsn_test_payloads now"
    by (simp add: tlsn_test_payloads_def Let_def)
  obtain a where a: "signed_artifact pk signer (demo_session_payload now) = Some a"
    "ta_payload a = demo_session_payload now"
    by (rule signed_artifact_exists [OF assms(4) mem])
  have accepted: "is_ok (verify_tlsn_artifact pk a trusted None now) \<longleftrightarrow> trusted = tk_sec1 signer"
    for trusted
    using signed_artifact_verifies_iff [OF a(1) assms(1,2), of a trusted None now] a(2)
      stale_bounds(1) assms(4) mem
    by (auto simp: demo_session_payload_def payloads_written_def)
  then obtain v where v: "verify_tlsn_artifact pk a (tk_sec1 signer) None now = Inr v"
    by (auto simp: is_ok_iff)
  from verified_session_id [OF this] have "vt_session_id v = ''demo-'' @ ''session123''"
    using a(2) by (simp add: demo_session_payload_def)
  then have "strip_prefix ''demo-'' (vt_session_id v) = Some ''session123''"
    by (simp add: strip_prefix_Some_iff)
  then show ?thesis
    using a(1) v accepted assms(3)
    by (simp add: tlsn_demo_artifact_verifies_against_ephemeral_notary_def)
qed

lemma verify_tlsn_pq_ok:
  "is_ok (verify_tlsn_pq pk a (Some k) m) \<longleftrightarrow>
     ta_pq_algorithm a = Some TLSN_ARTIFACT_PQ_ALGORITHM \<and>
     b64url_decode (codec pk) (default_str (ta_pq_public_key a)) = Some k \<and>
     (\<exists>raw. b64url_decode (codec pk) (default_str (ta_pq_signature a)) = Some raw \<and>
        is_ok (verify_signature (pq pk) k m raw))"
  by (auto simp: verify_tlsn_pq_def is_ok_iff ok_iff discard_ok_iff)

lemma tlsn_hybrid_notary_signature_is_downgrade_closed_passes:
  assumes "b64url_correct (codec pk)" and "signs_only (ec pk) es" and "mldsa_correct (pq pk)"
    and "pq_generate (pq pk) (Some seed) = Inr kp" and "gen_public_key kp \<noteq> gen_public_key other"
    and "\<forall>m. mldsa_sign (pq pk) (gen_secret_key kp) m r \<noteq> None"
    and "\<forall>m. \<not> mldsa_verify (pq pk) (gen_public_key kp) m (replicate SIGNATURE_BYTES 0)"
    and "payloads_written (serde pk) (tlsn_test_payloads now)"
  shows "tlsn_hybrid_notary_signature_is_downgrade_closed pk es kp other (Some r) now"
proof -
  have mem: "tlsn_test_payload now \<in> tlsn_test_payloads now"
    by (simp add: tlsn_test_payloads_def Let_def)
  obtain a where a: "signed_artifact pk es (tlsn_test_payload now) = Some a"
    "ta_payload a = tlsn_test_payload now" "ta_pq_algorithm a = None"
    by (rule signed_artifact_exists [OF assms(8) mem])
  from a(1) obtain m where m: "tlsn_payload_to_vec (serde pk) (tlsn_test_payload now) = Some m"
    by (auto simp: signed_artifact_def)
  obtain sig where sig: "mldsa_sign (pq pk) (gen_secret_key kp) m r = Some sig"
    using assms(6) by blast
  have kp: "gen_secret_key kp = fst (mldsa_generate (pq pk) seed)"
    "gen_public_key kp = snd (mldsa_generate (pq pk) seed)"
    using assms(4) by (auto simp: pq_generate_def Let_def)
  have signed: "sign_once (pq pk) (Some r) (gen_secret_key kp) m = Inr sig"
    and verified: "is_ok (verify_signature (pq pk) (gen_public_key kp) m sig)"
    using assms(3) sig unfolding mldsa_correct_def sign_once_def verify_signature_def kp by simp_all
  define h where "h = a\<lparr>ta_pq_algorithm := Some TLSN_ARTIFACT_PQ_ALGORITHM,
    ta_pq_public_key := Some (b64url_encode (codec pk) (gen_public_key kp)),
    ta_pq_signature := Some (b64url_encode (codec pk) sig)\<rparr>"
  have h: "with_pq_signature pk (Some r) a kp = Some h"
    using signed m by (simp add: with_pq_signature_def a(2) h_def)
  define forged where
    "forged = h\<lparr>ta_pq_signature := Some (b64url_encode (codec pk) (replicate SIGNATURE_BYTES 0))\<rparr>"
  have b64: "b64url_decode (codec pk) (b64url_encode (codec pk) b) = Some b" for b
    using assms(1) by (simp add: b64url_correct_def)
  have written: "payloads_written (serde pk) {tlsn_test_payload now, ta_payload (tampered h)}"
    by (rule payloads_written_subset [OF assms(8)])
      (simp add: tampered_payload a(2) h_def tlsn_test_payloads_def Let_def)
  have same: "payloads_written (serde pk) {tlsn_test_payload now, tlsn_test_payload now}"
    by (rule payloads_written_subset [OF assms(8)]) (simp add: mem)
  note iff = signed_artifact_verifies_iff [OF a(1) assms(1,2)]
  have accepted: "is_ok (verify_tlsn_artifact pk x (tk_sec1 es) required now) \<longleftrightarrow>
      is_ok (verify_tlsn_pq pk x required m)" if "x \<in> {a, h, forged}" for x required
    using iff [of x "tk_sec1 es" required now] that same a(2) m stale_bounds(1)
    by (auto simp: h_def forged_def tlsn_test_payload_def)
  have "is_ok (verify_tlsn_artifact pk h (tk_sec1 es) (Some (gen_public_key kp)) now)"
    by (subst accepted) (use verified in \<open>simp_all add: verify_tlsn_pq_ok h_def b64 default_str_def\<close>)
  moreover have "\<not> is_ok (verify_tlsn_artifact pk a (tk_sec1 es) (Some (gen_public_key kp)) now)"
    by (subst accepted) (simp_all add: verify_tlsn_pq_ok a(3))
  moreover have "\<not> is_ok (verify_tlsn_artifact pk h (tk_sec1 es) (Some (gen_public_key other)) now)"
    by (subst accepted) (use assms(5) in \<open>simp_all add: verify_tlsn_pq_ok h_def b64 default_str_def\<close>)
  moreover have "\<not> is_ok (verify_tlsn_artifact pk forged (tk_sec1 es) (Some (gen_public_key kp)) now)"
    by (subst accepted)
      (use assms(7) in \<open>simp_all add: verify_tlsn_pq_ok forged_def b64 default_str_def
        verify_signature_def\<close>)
  moreover have
    "\<not> is_ok (verify_tlsn_artifact pk (tampered h) (tk_sec1 es) (Some (gen_public_key kp)) now)"
    using iff [of "tampered h" "tk_sec1 es" "Some (gen_public_key kp)" now] written
      tampered_payload [of h now] a(2)
    by (auto simp: h_def tlsn_test_payload_def)
  moreover have "is_ok (verify_tlsn_artifact pk a (tk_sec1 es) None now)"
    "is_ok (verify_tlsn_artifact pk h (tk_sec1 es) None now)"
    by (simp_all add: accepted)
  ultimately show ?thesis
    using a(1) h
    by (simp add: tlsn_hybrid_notary_signature_is_downgrade_closed_def tlsn_artifact_def
        forged_def Let_def)
qed

section \<open>Signed tokens\<close>

definition signed_jwt :: "('k, 's) packages \<Rightarrow> test_key \<Rightarrow> json \<Rightarrow> json \<Rightarrow> string" where
  "signed_jwt pk key header payload =
     (let protected = b64url_encode (codec pk) (json_to_vec (serde pk) header);
          claims = b64url_encode (codec pk) (json_to_vec (serde pk) payload);
          input = protected @ ''.'' @ claims in
      input @ ''.'' @ b64url_encode (codec pk) (tk_sign key (as_bytes input)))"

definition test_public_jwk :: "('k, 's) packages \<Rightarrow> test_key \<Rightarrow> json" where
  "test_public_jwk pk key = JObj
     [(''crv'', JStr ''P-256''), (''kty'', JStr ''EC''),
      (''x'', JStr (b64url_encode (codec pk) (tk_x key))),
      (''y'', JStr (b64url_encode (codec pk) (tk_y key)))]"

lemma signed_jwt_parts:
  assumes "b64url_correct (codec pk)"
  shows "\<exists>h p. split_char CHR ''.'' (signed_jwt pk key header payload) =
       [h, p, b64url_encode (codec pk) (tk_sign key (as_bytes (h @ ''.'' @ p)))] \<and>
     h = b64url_encode (codec pk) (json_to_vec (serde pk) header) \<and>
     p = b64url_encode (codec pk) (json_to_vec (serde pk) payload)"
proof -
  define h where "h = b64url_encode (codec pk) (json_to_vec (serde pk) header)"
  define p where "p = b64url_encode (codec pk) (json_to_vec (serde pk) payload)"
  define t where "t = b64url_encode (codec pk) (tk_sign key (as_bytes (h @ ''.'' @ p)))"
  have "\<forall>q \<in> set [h, p, t]. CHR ''.'' \<notin> set q"
    using assms by (simp add: h_def p_def t_def b64url_correct_def)
  then have "split_char CHR ''.'' (h @ ''.'' @ p @ ''.'' @ t) = [h, p, t]"
    using split_char_join [of "[h, p, t]" "CHR ''.''"] by simp
  then show ?thesis
    by (simp add: signed_jwt_def Let_def h_def p_def t_def)
qed

text \<open>A token verifies under the key that signed it, and under no key apart from that one.\<close>

lemma signed_jwt_verifies:
  assumes "b64url_correct (codec pk)" and "json_correct (serde pk)" and "signs_only (ec pk) key"
    and "key_from_sec1 (ec pk) (tk_sec1 key) = Some K" and "wf_json payload"
  shows "verify_jws_payload pk (signed_jwt pk key header payload) K label = Inr payload"
proof -
  obtain h p where parts: "split_char CHR ''.'' (signed_jwt pk key header payload) =
       [h, p, b64url_encode (codec pk) (tk_sign key (as_bytes (h @ ''.'' @ p)))]"
    "p = b64url_encode (codec pk) (json_to_vec (serde pk) payload)"
    using signed_jwt_parts [OF assms(1)] by blast
  obtain s where "sig_from_slice (ec pk) (tk_sign key (as_bytes (h @ ''.'' @ p))) = Some s"
    "ecdsa_verify (ec pk) K (as_bytes (h @ ''.'' @ p)) s"
    using assms(3,4) unfolding signs_only_def by auto
  then show ?thesis
    using assms(1,2,5) parts
    by (auto simp: verify_jws_payload_ok_iff jws_signed_by_def jws_part_def signing_input_def Let_def
        b64url_correct_def json_correct_def)
qed

lemma signed_jwt_refused:
  assumes "b64url_correct (codec pk)" and "keys_apart (ec pk) key other"
    and "key_from_sec1 (ec pk) (tk_sec1 other) = Some K"
  shows "verify_jws_payload pk (signed_jwt pk key header payload) K label \<noteq> Inr v"
proof -
  obtain h p where parts: "split_char CHR ''.'' (signed_jwt pk key header payload) =
       [h, p, b64url_encode (codec pk) (tk_sign key (as_bytes (h @ ''.'' @ p)))]"
    using signed_jwt_parts [OF assms(1)] by blast
  have "\<not> ecdsa_verify (ec pk) K m s"
    if "sig_from_slice (ec pk) (tk_sign key (as_bytes (h @ ''.'' @ p))) = Some s" for m s
    using assms(2,3) that unfolding keys_apart_def by blast
  then show ?thesis
    using assms(1) parts
    by (auto simp: verify_jws_payload_ok_iff jws_signed_by_def Let_def b64url_correct_def)
qed

section \<open>The attestation of a document reader\<close>

text \<open>\<open>Url::parse("http://127.0.0.1:18080")\<close>, as the URL prints itself.\<close>

definition test_issuer :: string where "test_issuer = ''http://127.0.0.1:18080/''"

definition emrtd_evidence_payload :: "string \<Rightarrow> string \<Rightarrow> string \<Rightarrow> u64 \<Rightarrow> json" where
  "emrtd_evidence_payload issuer nonce holder_jkt now = JObj
     [(''aud'', JStr issuer), (''chip_authentic'', JBool True), (''exp'', JNat (now + 300)),
      (''iat'', JNat now), (''jti'', JStr ''emrtd-jti-1''),
      (''liveness'', JObj [(''assurance'', JStr ''face_present:iproov:gpa''),
         (''matched_portrait'', JBool True)]),
      (''mrz'', JObj [(''birthdate'', JStr ''1984-01-26''), (''date_of_expiry'', JStr ''2035-08-01''),
         (''document_number'', JStr ''C01X00T47''), (''family_name'', JStr ''Mustermann''),
         (''given_name'', JStr ''Erika''), (''issuing_country'', JStr ''DEU''),
         (''nationality'', JStr ''DEU'')]),
      (''new_holder_jkt'', JStr holder_jkt), (''nonce'', JStr nonce),
      (''passive_authentication'', JBool True),
      (''portrait'', JStr ''data:image/jpeg;base64,AA=='')]"

definition emrtd_evidence :: "('k, 's) packages \<Rightarrow> test_key \<Rightarrow> json \<Rightarrow> string" where
  "emrtd_evidence pk reader payload =
     signed_jwt pk reader (JObj [(''alg'', JStr ''ES256''), (''typ'', JStr ''JWT'')]) payload"

definition emrtd_evidence_verifies_authenticity_binding_and_identity ::
  "('k, 's) packages \<Rightarrow> test_key \<Rightarrow> test_key \<Rightarrow> u64 \<Rightarrow> bool" where
  "emrtd_evidence_verifies_authenticity_binding_and_identity pk reader wrong now \<longleftrightarrow>
     (let nonce = ''nfc-nonce-1''; holder = ''holder-jkt-1'';
          payload = emrtd_evidence_payload test_issuer nonce holder now;
          check = (\<lambda>signer n jkt. verify_emrtd_evidence pk (emrtd_evidence pk signer payload)
             (tk_sec1 reader) test_issuer n jkt now) in
      (case (check reader nonce holder, check reader nonce holder) of
         (Inr verified, Inr again) \<Rightarrow>
           vcl_sod_passive_auth verified \<and> vcl_chip_authentic verified \<and>
           vcl_liveness_matched verified \<and>
           pid_family_name (vcl_claims verified) = ''Mustermann'' \<and>
           pid_nationality (vcl_claims verified) = ''DEU'' \<and>
           pid_age_over_18 (vcl_claims verified) \<and> pid_portrait (vcl_claims verified) \<noteq> None \<and>
           vcl_subject verified = vcl_subject again
       | _ \<Rightarrow> False) \<and>
      \<not> is_ok (check wrong nonce holder) \<and> \<not> is_ok (check reader ''other'' holder) \<and>
      \<not> is_ok (check reader nonce ''other''))"

text \<open>\<open>draw\<close> and \<open>draw'\<close> are the random tokens the kernel's identifiers are hashed from.\<close>

definition capture_flow_liveness_is_iproov_authoritative ::
  "('k, 's) packages \<Rightarrow> test_key \<Rightarrow> string \<Rightarrow> string \<Rightarrow> u64 \<Rightarrow> bool" where
  "capture_flow_liveness_is_iproov_authoritative pk reader draw draw' now \<longleftrightarrow>
     (let nonce = ''nfc-nonce-cap''; holder = ''holder-jkt-cap'';
          decide = (\<lambda>chip. authorize_kernel (codec pk) PID_FROM_EMRTD_SD_JWT holder nonce None
             (Some chip) now draw draw') in
      case verify_emrtd_evidence pk
          (emrtd_evidence pk reader (emrtd_evidence_payload test_issuer nonce holder now))
          (tk_sec1 reader) test_issuer nonce holder now of
        Inl _ \<Rightarrow> False
      | Inr verified \<Rightarrow> vcl_liveness_matched verified \<and>
          is_ok (decide (verified\<lparr>vcl_liveness_matched := True\<rparr>)) \<and>
          \<not> is_ok (decide (verified\<lparr>vcl_liveness_matched := False\<rparr>)))"

definition emrtd_evidence_rejects_expired_document_and_weak_liveness ::
  "('k, 's) packages \<Rightarrow> test_key \<Rightarrow> u64 \<Rightarrow> bool" where
  "emrtd_evidence_rejects_expired_document_and_weak_liveness pk reader now \<longleftrightarrow>
     (let nonce = ''nfc-nonce-1''; holder = ''holder-jkt-1'';
          payload = emrtd_evidence_payload test_issuer nonce holder now;
          expired = map_member ''mrz'' (map_member ''date_of_expiry'' (\<lambda>_. JStr ''2001-01-01'')) payload;
          weak = map_member ''liveness'' (map_member ''assurance'' (\<lambda>_. JStr ''selfie:basic'')) payload;
          check = (\<lambda>p. verify_emrtd_evidence pk (emrtd_evidence pk reader p) (tk_sec1 reader)
             test_issuer nonce holder now) in
      \<not> is_ok (check expired) \<and> \<not> is_ok (check weak))"

definition nfc_pid_kernel_gate_denies_unverified_chip_but_allows_verified ::
  "('k, 's) packages \<Rightarrow> test_key \<Rightarrow> string \<Rightarrow> string \<Rightarrow> u64 \<Rightarrow> bool" where
  "nfc_pid_kernel_gate_denies_unverified_chip_but_allows_verified pk reader draw draw' now \<longleftrightarrow>
     (let nonce = ''nfc-nonce-1''; holder = ''holder-jkt-1'';
          payload = emrtd_evidence_payload test_issuer nonce holder now;
          no_pa = map_member ''passive_authentication'' (\<lambda>_. JBool False) payload;
          check = (\<lambda>p. verify_emrtd_evidence pk (emrtd_evidence pk reader p) (tk_sec1 reader)
             test_issuer nonce holder now);
          decide = (\<lambda>profile chip. authorize_kernel (codec pk) profile holder nonce None chip now
             draw draw') in
      case (check payload, check no_pa) of
        (Inr verified, Inr unverified) \<Rightarrow>
          is_ok (decide PID_FROM_EMRTD_SD_JWT (Some verified)) \<and>
          \<not> is_ok (decide PID_FROM_EMRTD_SD_JWT (Some unverified)) \<and>
          \<not> is_ok (decide PID_FROM_EMRTD_SD_JWT None) \<and>
          is_ok (decide PID_FROM_EMRTD_MDOC (Some verified)) \<and>
          \<not> is_ok (decide PID_FROM_EMRTD_MDOC (Some unverified)) \<and>
          \<not> is_ok (decide PID_FROM_EMRTD_MDOC None)
      | _ \<Rightarrow> False)"

text \<open>
  The derived deserialiser of \<open>EmrtdEvidenceClaims\<close>: it reads the members by the names of the fields,
  as the payload of the tests writes them.
\<close>

definition emrtd_value :: "emrtd_evidence_claims \<Rightarrow> string \<Rightarrow> json" where
  "emrtd_value c picture = JObj
     [(''aud'', JStr (em_aud c)), (''chip_authentic'', JBool (em_chip_authentic c)),
      (''exp'', JNat (em_exp c)), (''iat'', JNat (em_iat c)), (''jti'', JStr (em_jti c)),
      (''liveness'', JObj [(''assurance'', JStr (em_assurance c)),
         (''matched_portrait'', JBool (em_matched_portrait c))]),
      (''mrz'', JObj [(''birthdate'', JStr (mrz_birthdate (em_mrz c))),
         (''date_of_expiry'', JStr (mrz_date_of_expiry (em_mrz c))),
         (''document_number'', JStr (mrz_document_number (em_mrz c))),
         (''family_name'', JStr (mrz_family_name (em_mrz c))),
         (''given_name'', JStr (mrz_given_name (em_mrz c))),
         (''issuing_country'', JStr (mrz_issuing_country (em_mrz c))),
         (''nationality'', JStr (mrz_nationality (em_mrz c)))]),
      (''new_holder_jkt'', JStr (em_new_holder_jkt c)), (''nonce'', JStr (em_nonce c)),
      (''passive_authentication'', JBool (em_passive_authentication c)),
      (''portrait'', JStr picture)]"

definition emrtd_claims_read :: "serde_lib \<Rightarrow> bool" where
  "emrtd_claims_read s \<longleftrightarrow> (\<forall>c picture.
     emrtd_claims_from_value s (emrtd_value c picture) = Some (c\<lparr>em_portrait := Some picture\<rparr>))"

definition test_mrz :: "string \<Rightarrow> emrtd_mrz_claim" where
  "test_mrz expiry = \<lparr>mrz_family_name = ''Mustermann'', mrz_given_name = ''Erika'',
     mrz_birthdate = ''1984-01-26'', mrz_nationality = ''DEU'', mrz_issuing_country = ''DEU'',
     mrz_document_number = ''C01X00T47'', mrz_date_of_expiry = expiry\<rparr>"

text \<open>The claims the tests attest: what they vary is the verdict, the assurance and the expiry.\<close>

definition test_claims ::
  "string \<Rightarrow> string \<Rightarrow> u64 \<Rightarrow> bool \<Rightarrow> string \<Rightarrow> string \<Rightarrow> emrtd_evidence_claims" where
  "test_claims nonce holder now pa assurance expiry =
     \<lparr>em_aud = test_issuer, em_iat = now, em_exp = now + 300, em_nonce = nonce,
      em_jti = ''emrtd-jti-1'', em_new_holder_jkt = holder, em_passive_authentication = pa,
      em_chip_authentic = True, em_assurance = assurance, em_matched_portrait = True,
      em_mrz = test_mrz expiry, em_portrait = Some ''data:image/jpeg;base64,AA==''\<rparr>"

definition test_value :: "string \<Rightarrow> string \<Rightarrow> u64 \<Rightarrow> bool \<Rightarrow> string \<Rightarrow> string \<Rightarrow> json" where
  "test_value nonce holder now pa assurance expiry =
     emrtd_value (test_claims nonce holder now pa assurance expiry) ''data:image/jpeg;base64,AA==''"

lemma test_payloads:
  fixes nonce holder now
  defines "varied \<equiv> test_value nonce holder now"
  shows "emrtd_evidence_payload test_issuer nonce holder now =
       varied True ''face_present:iproov:gpa'' ''2035-08-01''"
    "map_member ''passive_authentication'' (\<lambda>_. JBool False) (varied True assurance expiry) =
       varied False assurance expiry"
    "map_member ''mrz'' (map_member ''date_of_expiry'' (\<lambda>_. JStr expiry')) (varied pa assurance expiry) =
       varied pa assurance expiry'"
    "map_member ''liveness'' (map_member ''assurance'' (\<lambda>_. JStr assurance'))
       (varied pa assurance expiry) = varied pa assurance' expiry"
  by (simp_all add: varied_def test_value_def emrtd_evidence_payload_def emrtd_value_def
      test_claims_def test_mrz_def)

lemma test_value_wf: "wf_json (test_value nonce holder now pa assurance expiry)"
  by (simp add: test_value_def emrtd_value_def)

text \<open>A clock after the subject came of age and before the document expires.\<close>

definition test_clock :: "time_lib \<Rightarrow> u64 \<Rightarrow> bool" where
  "test_clock t now \<longleftrightarrow>
     (\<exists>d. today t now = Some d \<and> \<not> date_less d (2002, 1, 26) \<and> \<not> date_less (2035, 8, 1) d)"

lemma test_clock_dates:
  assumes "test_clock t now"
  shows "now < 2 ^ 63" "\<not> is_expired_document t ''2035-08-01'' now"
    "is_expired_document t ''2001-01-01'' now" "age_over_18 t ''1984-01-26'' now"
proof -
  obtain y m d where date: "today t now = Some (y, m, d)" "\<not> date_less (y, m, d) (2002, 1, 26)"
    "\<not> date_less (2035, 8, 1) (y, m, d)"
    using assms unfolding test_clock_def by (metis prod_cases3)
  show "now < 2 ^ 63"
    using date(1) by (simp add: today_def word_less_nat_alt split: if_splits)
  have "parse_date ''2035-08-01'' = Some (2035, 8, 1)" "parse_date ''2001-01-01'' = Some (2001, 1, 1)"
    "parse_date ''1984-01-26'' = Some (1984, 1, 26)"
    by (simp_all add: date_eval_defs)
  with date show "\<not> is_expired_document t ''2035-08-01'' now"
    "is_expired_document t ''2001-01-01'' now" "age_over_18 t ''1984-01-26'' now"
    by (auto simp: is_expired_document_def age_over_18_def wrapping_add_i32_def)
qed

lemma test_fields:
  "f \<in> set (mrz_fields (test_mrz expiry)) \<Longrightarrow> trim f \<noteq> [] \<and> length f \<le> 512"
  by (auto simp: mrz_fields_def test_mrz_def trim_printable printable_def)

lemma test_assurance:
  "str_contains ''face_present:iproov:gpa'' EMRTD_REQUIRED_LIVENESS"
  "\<not> str_contains ''selfie:basic'' EMRTD_REQUIRED_LIVENESS"
  by code_simp+

text \<open>What the tests' attestation is verified to.\<close>

definition test_verified :: "codec_lib \<Rightarrow> bool \<Rightarrow> verified_chip_liveness" where
  "test_verified c pa =
     \<lparr>vcl_subject = Id (hash_u128 c ''emrtd:DEU:C01X00T47''), vcl_jti = ''emrtd-jti-1'',
      vcl_sod_passive_auth = pa, vcl_chip_authentic = True, vcl_liveness_matched = True,
      vcl_claims =
        \<lparr>pid_family_name = ''Mustermann'', pid_given_name = ''Erika'',
         pid_birthdate = ''1984-01-26'', pid_nationality = ''DEU'', pid_issuing_country = ''DEU'',
         pid_age_over_18 = True, pid_portrait = Some ''data:image/jpeg;base64,AA==''\<rparr>\<rparr>"

text \<open>
  The sessions and the attestations of the tests: the verdict of Passive Authentication, the
  assurance and the date of expiry. They are within the limit on their size.
\<close>

definition test_sessions :: "(string \<times> string) set" where
  "test_sessions =
     {(''nfc-nonce-1'', ''holder-jkt-1''), (''nfc-nonce-cap'', ''holder-jkt-cap'')}"

definition test_variants :: "(bool \<times> string \<times> string) set" where
  "test_variants =
     {(True, ''face_present:iproov:gpa'', ''2035-08-01''),
      (False, ''face_present:iproov:gpa'', ''2035-08-01''),
      (True, ''face_present:iproov:gpa'', ''2001-01-01''), (True, ''selfie:basic'', ''2035-08-01'')}"

definition reader_behaves :: "('k, 's) packages \<Rightarrow> test_key \<Rightarrow> u64 \<Rightarrow> bool" where
  "reader_behaves pk reader now \<longleftrightarrow> b64url_correct (codec pk) \<and> json_correct (serde pk) \<and>
     signs_only (ec pk) reader \<and> emrtd_claims_read (serde pk) \<and> test_clock (clock pk) now \<and>
     (\<forall>(nonce, holder) \<in> test_sessions. \<forall>(pa, assurance, expiry) \<in> test_variants.
        length (emrtd_evidence pk reader (test_value nonce holder now pa assurance expiry)) \<le>
          MAX_EMRTD_EVIDENCE_BYTES)"

lemma test_evidence_verifies_iff:
  assumes "reader_behaves pk reader now" and "(nonce, holder) \<in> test_sessions"
    and "(pa, assurance, expiry) \<in> test_variants"
  shows "verify_emrtd_evidence pk (emrtd_evidence pk reader
       (test_value nonce holder now pa assurance expiry)) (tk_sec1 reader) test_issuer n jkt now =
     Inr v \<longleftrightarrow> n = nonce \<and> jkt = holder \<and> str_contains assurance EMRTD_REQUIRED_LIVENESS \<and>
       \<not> is_expired_document (clock pk) expiry now \<and> v = test_verified (codec pk) pa"
proof -
  let ?c = "test_claims nonce holder now pa assurance expiry"
  let ?p = "test_value nonce holder now pa assurance expiry"
  note contract = assms(1) [unfolded reader_behaves_def]
  have fits: "length (emrtd_evidence pk reader ?p) \<le> MAX_EMRTD_EVIDENCE_BYTES"
    using contract assms(2,3) by blast
  obtain K where K: "key_from_sec1 (ec pk) (tk_sec1 reader) = Some K"
    using contract unfolding signs_only_def by blast
  have payload: "verify_jws_payload pk (emrtd_evidence pk reader ?p) K label = Inr ?p" for label
    unfolding emrtd_evidence_def using contract K test_value_wf
    by (intro signed_jwt_verifies) simp_all
  have claims: "emrtd_claims_from_value (serde pk) ?p = Some ?c"
    using contract by (simp add: emrtd_claims_read_def test_value_def test_claims_def)
  have now: "now < now + 300" "age_over_18 (clock pk) ''1984-01-26'' now"
    using test_clock_dates [of "clock pk" now] contract
    by (simp_all add: word_less_nat_alt unat_word_ariths)
  have fields: "for_each (\<lambda>f. guard_err (trim f = [] \<or> 512 < length f) e)
      (mrz_fields (test_mrz expiry)) = Inr ()" for e :: oauth_error
    using test_fields by (fastforce intro: for_each_ok simp: guard_err_def)
  have portrait: "accepted_portrait (Some ''data:image/jpeg;base64,AA=='') =
      Inr (Some ''data:image/jpeg;base64,AA=='')"
    by (simp add: accepted_portrait_def trim_printable printable_def MAX_EMRTD_EVIDENCE_BYTES_def)
  show ?thesis
    unfolding verify_emrtd_evidence_def
    using fits K payload claims now fields portrait
    by (auto simp: ok_iff test_claims_def test_mrz_def same_url_def test_verified_def)
qed

lemma test_evidence_accepted:
  assumes "reader_behaves pk reader now" and "(nonce, holder) \<in> test_sessions"
  shows "verify_emrtd_evidence pk (emrtd_evidence pk reader
       (test_value nonce holder now pa ''face_present:iproov:gpa'' ''2035-08-01''))
       (tk_sec1 reader) test_issuer nonce holder now = Inr (test_verified (codec pk) pa)"
proof -
  have "(pa, ''face_present:iproov:gpa'', ''2035-08-01'') \<in> test_variants"
    by (cases pa) (simp_all add: test_variants_def)
  then show ?thesis
    using test_evidence_verifies_iff [OF assms] test_assurance(1)
      test_clock_dates(2) [of "clock pk" now] assms(1)
    by (simp add: reader_behaves_def)
qed

lemma test_evidence_refused:
  assumes "reader_behaves pk reader now" and "(nonce, holder) \<in> test_sessions"
    and "(pa, assurance, expiry) \<in> test_variants"
    and "n \<noteq> nonce \<or> jkt \<noteq> holder \<or> assurance = ''selfie:basic'' \<or> expiry = ''2001-01-01''"
  shows "\<not> is_ok (verify_emrtd_evidence pk (emrtd_evidence pk reader
       (test_value nonce holder now pa assurance expiry)) (tk_sec1 reader) test_issuer n jkt now)"
  using test_evidence_verifies_iff [OF assms(1-3), of n jkt] test_assurance(2)
    test_clock_dates(3) [of "clock pk" now] assms(1,4)
  by (auto simp: is_ok_iff reader_behaves_def)

lemma wrong_reader_refused:
  assumes "reader_behaves pk reader now" and "keys_apart (ec pk) wrong reader"
  shows "\<not> is_ok (verify_emrtd_evidence pk (emrtd_evidence pk wrong payload) (tk_sec1 reader)
     issuer n jkt now)"
proof -
  obtain K where "key_from_sec1 (ec pk) (tk_sec1 reader) = Some K"
    using assms(1) unfolding reader_behaves_def signs_only_def by blast
  with signed_jwt_refused [OF _ assms(2)] assms(1) show ?thesis
    unfolding verify_emrtd_evidence_def emrtd_evidence_def reader_behaves_def
    by (auto simp: is_ok_iff and_then_ok_iff ok_or_ok_iff)
qed

lemma test_session_1: "(''nfc-nonce-1'', ''holder-jkt-1'') \<in> test_sessions"
  by (simp add: test_sessions_def)

lemma emrtd_evidence_verifies_authenticity_binding_and_identity_passes:
  assumes "reader_behaves pk reader now" and "keys_apart (ec pk) wrong reader"
  shows "emrtd_evidence_verifies_authenticity_binding_and_identity pk reader wrong now"
proof -
  have variant: "(True, ''face_present:iproov:gpa'', ''2035-08-01'') \<in> test_variants"
    by (simp add: test_variants_def)
  show ?thesis
    unfolding emrtd_evidence_verifies_authenticity_binding_and_identity_def Let_def test_payloads(1)
    by (simp add: test_evidence_accepted [OF assms(1) test_session_1] wrong_reader_refused [OF assms]
        test_evidence_refused [OF assms(1) test_session_1 variant] test_verified_def)
qed

lemma emrtd_evidence_rejects_expired_document_and_weak_liveness_passes:
  assumes "reader_behaves pk reader now"
  shows "emrtd_evidence_rejects_expired_document_and_weak_liveness pk reader now"
proof -
  have "(True, ''face_present:iproov:gpa'', ''2001-01-01'') \<in> test_variants"
    "(True, ''selfie:basic'', ''2035-08-01'') \<in> test_variants"
    by (simp_all add: test_variants_def)
  then show ?thesis
    unfolding emrtd_evidence_rejects_expired_document_and_weak_liveness_def Let_def test_payloads
    by (simp add: test_evidence_refused [OF assms test_session_1])
qed

text \<open>The kernel's decision on chip evidence.\<close>

lemma chip_decision:
  assumes "profile = PID_FROM_EMRTD_SD_JWT \<or> profile = PID_FROM_EMRTD_MDOC" and "now \<noteq> - 1"
  shows "is_ok (authorize_kernel c profile holder nonce None chip now draw draw') \<longleftrightarrow>
    (\<exists>v. chip = Some v \<and> chip_all_verdicts v)"
proof -
  have "is_nfc_pid profile" using assms(1) by (auto simp: is_nfc_pid_def)
  moreover from this have "profile_role profile = Some Pid" by (rule profile_role_nfc)
  moreover have "profile \<noteq> QEAA_PID_BOUND_SD_JWT" "profile \<noteq> MANDATE_SD_JWT"
    using assms(1) profiles_neq by auto
  ultimately show ?thesis
    using assms(2) by (auto simp: is_ok_iff authorize_kernel_ok_iff)
qed

lemma test_clock_not_last: "reader_behaves pk reader now \<Longrightarrow> now \<noteq> - 1"
  using test_clock_dates(1) [of "clock pk" now] by (auto simp: reader_behaves_def)

lemma capture_flow_liveness_is_iproov_authoritative_passes:
  assumes "reader_behaves pk reader now"
  shows "capture_flow_liveness_is_iproov_authoritative pk reader draw draw' now"
proof -
  have "(''nfc-nonce-cap'', ''holder-jkt-cap'') \<in> test_sessions"
    by (simp add: test_sessions_def)
  from test_evidence_accepted [OF assms this] show ?thesis
    unfolding capture_flow_liveness_is_iproov_authoritative_def Let_def test_payloads(1)
    by (simp add: chip_decision test_clock_not_last [OF assms] test_verified_def
        chip_all_verdicts_def)
qed

lemma nfc_pid_kernel_gate_denies_unverified_chip_but_allows_verified_passes:
  assumes "reader_behaves pk reader now"
  shows "nfc_pid_kernel_gate_denies_unverified_chip_but_allows_verified pk reader draw draw' now"
  unfolding nfc_pid_kernel_gate_denies_unverified_chip_but_allows_verified_def Let_def test_payloads
  by (simp add: test_evidence_accepted [OF assms test_session_1] chip_decision
      test_clock_not_last [OF assms] test_verified_def chip_all_verdicts_def)

end
