(* ===== verification/Binding_Tests.thy ===== *)
theory Binding_Tests
  imports Evidence_Tests Handler_Properties
begin

text \<open>
  The unit tests of \<open>main.rs\<close> on what binds keys together: the credential proof, the PID binding, the
  nonces and the mandate, with keys of the tests' own.
\<close>

section \<open>Nonces\<close>

text \<open>
  \<open>str::parse::<u64>\<close> and \<open>to_string\<close> on what 128 calls returned; \<open>rounds\<close> are the draws of each. The
  test collects the nonces in a \<open>HashSet\<close> and asserts that each was new.
\<close>

definition parse_u64 :: "string \<Rightarrow> nat option" where
  "parse_u64 s =
     (let digits = (if s \<noteq> [] \<and> hd s = CHR ''+'' then tl s else s)
      in case parse_digits digits of None \<Rightarrow> None | Some n \<Rightarrow> if n < 2 ^ 64 then Some n else None)"

definition credential_nonces_are_nonzero_canonical_decimal_u64_values :: "u64 list list \<Rightarrow> bool" where
  "credential_nonces_are_nonzero_canonical_decimal_u64_values rounds \<longleftrightarrow>
     (let observed = map random_credential_nonce rounds in
      (\<forall>n \<in> set observed. case n of
         None \<Rightarrow> False
       | Some s \<Rightarrow> (case parse_u64 s of None \<Rightarrow> False | Some v \<Rightarrow> v \<noteq> 0 \<and> decimal v = s)) \<and>
      distinct observed)"

lemma random_credential_nonce_decimal:
  "random_credential_nonce vs = Some s \<Longrightarrow> \<exists>v :: u64. v \<noteq> 0 \<and> s = decimal (unat v)"
proof (induction vs)
  case (Cons v vs)
  then show ?case by (cases "v = 0") (simp_all, blast)
qed simp

lemma parse_u64_decimal: "n < 2 ^ 64 \<Longrightarrow> parse_u64 (decimal n) = Some n"
proof -
  assume "n < 2 ^ 64"
  have digits: "list_all is_digit (decimal n)" "decimal n \<noteq> []"
    "foldl (\<lambda>m c. 10 * m + (of_char c - 48)) 0 (decimal n) = n"
    using decimal_digits [of n] by (simp_all add: list_all_iff)
  then have "is_digit (hd (decimal n))" by (simp add: list_all_iff)
  then have "hd (decimal n) \<noteq> CHR ''+''" by (auto simp: is_digit_def)
  with digits \<open>n < 2 ^ 64\<close> show ?thesis by (simp add: parse_u64_def parse_digits_def Let_def)
qed

lemma credential_nonces_are_nonzero_canonical_decimal_u64_values_passes:
  assumes "\<forall>vs \<in> set rounds. random_credential_nonce vs \<noteq> None"
    and "distinct (map random_credential_nonce rounds)"
  shows "credential_nonces_are_nonzero_canonical_decimal_u64_values rounds"
proof -
  have "case random_credential_nonce vs of None \<Rightarrow> False
       | Some s \<Rightarrow> (case parse_u64 s of None \<Rightarrow> False | Some v \<Rightarrow> v \<noteq> 0 \<and> decimal v = s)"
    if "vs \<in> set rounds" for vs
  proof -
    from assms(1) that obtain s where s: "random_credential_nonce vs = Some s" by blast
    then obtain v :: u64 where "v \<noteq> 0" "s = decimal (unat v)"
      using random_credential_nonce_decimal by blast
    moreover have "unat v < 2 ^ 64" using unat_lt_pow [of v] by simp
    ultimately show ?thesis
      using s parse_u64_decimal [of "unat v"] by (simp add: unat_eq_zero)
  qed
  then show ?thesis
    using assms(2)
    by (simp add: credential_nonces_are_nonzero_canonical_decimal_u64_values_def)
qed

section \<open>The credential proof\<close>

definition proof_header :: "('k, 's) packages \<Rightarrow> test_key \<Rightarrow> json" where
  "proof_header pk key =
     JObj [(''alg'', JStr ''ES256''), (''jwk'', test_public_jwk pk key),
           (''typ'', JStr ''openid4vci-proof+jwt'')]"

definition proof_claims :: "u64 \<Rightarrow> string \<Rightarrow> json" where
  "proof_claims iat n = JObj
     [(''aud'', JStr ''http://127.0.0.1:18080''), (''iat'', JNat iat), (''nonce'', JStr n)]"

text \<open>The third part of a token on another payload.\<close>

definition with_payload :: "('k, 's) packages \<Rightarrow> test_key \<Rightarrow> json \<Rightarrow> json \<Rightarrow> json \<Rightarrow> string" where
  "with_payload pk key header payload payload' =
     (let enc = (\<lambda>j. b64url_encode (codec pk) (json_to_vec (serde pk) j)) in
      enc header @ ''.'' @ enc payload' @ ''.'' @
        b64url_encode (codec pk) (tk_sign key (as_bytes (enc header @ ''.'' @ enc payload))))"

definition credential_proof_signature_and_claims_are_verified ::
  "('k, 's) packages \<Rightarrow> test_key \<Rightarrow> u64 \<Rightarrow> u64 \<Rightarrow> bool" where
  "credential_proof_signature_and_claims_are_verified pk key iat now \<longleftrightarrow>
     (let header = proof_header pk key;
          token = signed_jwt pk key header (proof_claims iat ''test-nonce'');
          changed = with_payload pk key header (proof_claims iat ''test-nonce'')
            (proof_claims iat ''other-nonce'') in
      (case verify_credential_proof pk token test_issuer (Some now) of
         Inl _ \<Rightarrow> False
       | Inr verified \<Rightarrow> vcp_nonce verified = ''test-nonce'' \<and> vcp_holder_jkt verified \<noteq> []) \<and>
      \<not> is_ok (verify_credential_proof pk changed test_issuer (Some now)))"

text \<open>The derived deserialisers, on values that have the members their structures name.\<close>

definition jwk_value :: "string \<Rightarrow> string \<Rightarrow> json" where
  "jwk_value x y = JObj [(''crv'', JStr ''P-256''), (''kty'', JStr ''EC''), (''x'', JStr x), (''y'', JStr y)]"

definition p256_jwk :: "string \<Rightarrow> string \<Rightarrow> ec_jwk" where
  "p256_jwk x y = \<lparr>jwk_kty = ''EC'', jwk_crv = ''P-256'', jwk_x = x, jwk_y = y\<rparr>"

definition jwks_read :: "serde_lib \<Rightarrow> bool" where
  "jwks_read s \<longleftrightarrow> (\<forall>x y. ec_jwk_from_value s (jwk_value x y) = Some (p256_jwk x y))"

definition proofs_read :: "serde_lib \<Rightarrow> bool" where
  "proofs_read s \<longleftrightarrow>
     (\<forall>x y typ. dpop_header_from_slice s (json_to_vec s (JObj [(''alg'', JStr ''ES256''),
          (''jwk'', jwk_value x y), (''typ'', JStr typ)])) =
        Some \<lparr>hdr_alg = ''ES256'', hdr_typ = typ, hdr_jwk = p256_jwk x y\<rparr>) \<and>
     (\<forall>iat n. proof_claims_from_slice s (json_to_vec s (proof_claims iat n)) =
        Some \<lparr>cp_aud = ''http://127.0.0.1:18080'', cp_iat = iat, cp_nonce = n\<rparr>)"

lemma test_public_jwk_value:
  "test_public_jwk pk key =
     jwk_value (b64url_encode (codec pk) (tk_x key)) (b64url_encode (codec pk) (tk_y key))"
  by (simp add: test_public_jwk_def jwk_value_def)

definition test_jwk :: "('k, 's) packages \<Rightarrow> test_key \<Rightarrow> ec_jwk" where
  "test_jwk pk key =
     p256_jwk (b64url_encode (codec pk) (tk_x key)) (b64url_encode (codec pk) (tk_y key))"

text \<open>The public key of a test key, as a JWK, is read back as that key.\<close>

lemma test_jwk_key:
  assumes "b64url_correct (codec pk)" and "affine_is_sec1 (ec pk)" and "signs_only (ec pk) key"
  obtains K where "jwk_key pk (test_jwk pk key) K" "key_from_sec1 (ec pk) (tk_sec1 key) = Some K"
  using assms
  by (auto simp: signs_only_def jwk_key_def test_jwk_def p256_jwk_def b64url_correct_def
      affine_is_sec1_def tk_sec1_def)

lemma same_test_issuer: "same_url ''http://127.0.0.1:18080'' test_issuer"
  by (simp add: same_url_def test_issuer_def trim_end_matches_def)

lemma recent: "iat \<le> now \<Longrightarrow> now - iat \<le> 300 \<Longrightarrow> \<not> stale 300 iat now" for now iat :: u64
  using saturating_add_ge [of now 5] by (simp add: stale_def saturating_sub_def not_less)

lemma credential_proof_signature_and_claims_are_verified_passes:
  assumes "b64url_correct (codec pk)" and "json_correct (serde pk)" and "affine_is_sec1 (ec pk)"
    and "signs_only (ec pk) key" and "proofs_read (serde pk)"
    and "\<forall>s. hash_b64 (codec pk) s \<noteq> []" and "iat \<le> now" and "now - iat \<le> 300"
  shows "credential_proof_signature_and_claims_are_verified pk key iat now"
proof -
  let ?header = "proof_header pk key"
  let ?claims = "proof_claims iat"
  define enc where "enc = (\<lambda>j. b64url_encode (codec pk) (json_to_vec (serde pk) j))"
  obtain K where K: "jwk_key pk (test_jwk pk key) K" "key_from_sec1 (ec pk) (tk_sec1 key) = Some K"
    by (rule test_jwk_key [OF assms(1,3,4)])
  define raw where "raw = tk_sign key (as_bytes (enc ?header @ ''.'' @ enc (?claims ''test-nonce'')))"
  obtain s where s: "sig_from_slice (ec pk) raw = Some s"
    "\<And>m. ecdsa_verify (ec pk) K m s \<longleftrightarrow> m = as_bytes (enc ?header @ ''.'' @ enc (?claims ''test-nonce''))"
    using assms(4) K(2) unfolding signs_only_def raw_def by auto
  have parts: "split_char CHR ''.'' (enc ?header @ ''.'' @ enc p @ ''.'' @ b64url_encode (codec pk) raw) =
      [enc ?header, enc p, b64url_encode (codec pk) raw]" for p
    using split_char_join [of "[enc ?header, enc p, b64url_encode (codec pk) raw]" "CHR ''.''"]
      assms(1) by (simp add: enc_def b64url_correct_def)
  have decoded: "b64url_decode (codec pk) (enc j) = Some (json_to_vec (serde pk) j)" for j
    using assms(1) by (simp add: enc_def b64url_correct_def)
  have header: "dpop_header_from_slice (serde pk) (json_to_vec (serde pk) ?header) =
      Some \<lparr>hdr_alg = ''ES256'', hdr_typ = ''openid4vci-proof+jwt'', hdr_jwk = test_jwk pk key\<rparr>"
    using assms(5) by (simp add: proofs_read_def proof_header_def test_public_jwk_value test_jwk_def)
  have claims: "proof_claims_from_slice (serde pk) (json_to_vec (serde pk) (?claims n)) =
      Some \<lparr>cp_aud = ''http://127.0.0.1:18080'', cp_iat = iat, cp_nonce = n\<rparr>" for n
    using assms(5) by (simp add: proofs_read_def)
  have differ: "enc (?claims ''other-nonce'') \<noteq> enc (?claims ''test-nonce'')"
  proof
    assume "enc (?claims ''other-nonce'') = enc (?claims ''test-nonce'')"
    then have "proof_claims_from_slice (serde pk) (json_to_vec (serde pk) (?claims ''other-nonce'')) =
        proof_claims_from_slice (serde pk) (json_to_vec (serde pk) (?claims ''test-nonce''))"
      using decoded by (metis option.inject)
    then show False by (simp add: claims)
  qed
  have verdict: "verify_credential_proof pk
        (enc ?header @ ''.'' @ enc (?claims n) @ ''.'' @ b64url_encode (codec pk) raw) test_issuer
        (Some now) = Inr v \<longleftrightarrow>
      jws_signed_by pk (enc ?header @ ''.'' @ enc (?claims n) @ ''.'' @ b64url_encode (codec pk) raw) K \<and>
      n \<noteq> [] \<and> length n \<le> 256 \<and> v = \<lparr>vcp_holder_jkt = jwk_thumbprint pk (test_jwk pk key),
        vcp_holder_jwk = public_jwk_value (test_jwk pk key), vcp_nonce = n\<rparr>" for n v
    using K(1) header claims decoded recent [OF assms(7,8)] same_test_issuer
    unfolding verify_credential_proof_ok_iff jws_part_def parts
    by (auto simp: jwk_key_def)
  have signed: "jws_signed_by pk (enc ?header @ ''.'' @ enc (?claims n) @ ''.'' @
      b64url_encode (codec pk) raw) K \<longleftrightarrow> enc (?claims n) = enc (?claims ''test-nonce'')" for n
    using s assms(1) unfolding jws_signed_by_def Let_def parts
    by (auto simp: signing_input_def b64url_correct_def)
  have "signed_jwt pk key ?header (?claims ''test-nonce'') =
      enc ?header @ ''.'' @ enc (?claims ''test-nonce'') @ ''.'' @ b64url_encode (codec pk) raw"
    by (simp add: signed_jwt_def enc_def raw_def Let_def)
  moreover have "with_payload pk key ?header (?claims ''test-nonce'') (?claims ''other-nonce'') =
      enc ?header @ ''.'' @ enc (?claims ''other-nonce'') @ ''.'' @ b64url_encode (codec pk) raw"
    by (simp add: with_payload_def enc_def raw_def Let_def)
  moreover have "verify_credential_proof pk (enc ?header @ ''.'' @ enc (?claims ''test-nonce'') @ ''.'' @
      b64url_encode (codec pk) raw) test_issuer (Some now) =
      Inr \<lparr>vcp_holder_jkt = jwk_thumbprint pk (test_jwk pk key),
        vcp_holder_jwk = public_jwk_value (test_jwk pk key), vcp_nonce = ''test-nonce''\<rparr>"
    unfolding verdict signed by simp
  moreover have "\<not> is_ok (verify_credential_proof pk (enc ?header @ ''.'' @
      enc (?claims ''other-nonce'') @ ''.'' @ b64url_encode (codec pk) raw) test_issuer (Some now))"
    unfolding is_ok_iff verdict signed using differ by simp
  ultimately show ?thesis
    using assms(6)
    by (simp add: credential_proof_signature_and_claims_are_verified_def Let_def jwk_thumbprint_def)
qed

section \<open>The PID binding\<close>

definition test_disclosures :: "('k, 's) packages \<Rightarrow> string list" where
  "test_disclosures pk = map (\<lambda>v. b64url_encode (codec pk) (json_to_vec (serde pk) v))
     [JArr [JStr ''a'', JStr ''family_name'', JStr ''Mustermann''],
      JArr [JStr ''b'', JStr ''given_name'', JStr ''Erika''],
      JArr [JStr ''c'', JStr ''birthdate'', JStr ''1990-01-01'']]"

definition test_pid_payload :: "('k, 's) packages \<Rightarrow> test_key \<Rightarrow> u64 \<Rightarrow> json" where
  "test_pid_payload pk pid_holder now = JObj
     [(''_sd'', JArr (map (\<lambda>d. JStr (hash_b64 (codec pk) d)) (test_disclosures pk))),
      (''cnf'', JObj [(''jwk'', test_public_jwk pk pid_holder)]), (''exp'', JNat (now + 300)),
      (''iss'', JStr (trim_end_matches CHR ''/'' test_issuer)), (''nbf'', JNat (now - 1)),
      (''vct'', JStr PID_VCT)]"

definition test_pid :: "('k, 's) packages \<Rightarrow> test_key \<Rightarrow> test_key \<Rightarrow> u64 \<Rightarrow> string" where
  "test_pid pk issuer_key pid_holder now =
     signed_jwt pk issuer_key (JObj [(''alg'', JStr ''ES256''), (''typ'', JStr ''dc+sd-jwt'')])
       (test_pid_payload pk pid_holder now)"

definition binding_value :: "binding_proof_claims \<Rightarrow> json" where
  "binding_value c = JObj
     [(''aud'', JStr (bp_aud c)), (''iat'', JNat (bp_iat c)), (''jti'', JStr (bp_jti c)),
      (''new_holder_jkt'', JStr (bp_new_holder_jkt c)), (''nonce'', JStr (bp_nonce c)),
      (''pid_sd_hash'', JStr (bp_pid_sd_hash c))]"

definition test_binding_claims ::
  "('k, 's) packages \<Rightarrow> string \<Rightarrow> string \<Rightarrow> u64 \<Rightarrow> binding_proof_claims" where
  "test_binding_claims pk pid new_jkt now =
     \<lparr>bp_aud = test_issuer, bp_iat = now, bp_nonce = ''nonce'', bp_jti = ''binding-1'',
      bp_pid_sd_hash = hash_b64 (codec pk) pid, bp_new_holder_jkt = new_jkt\<rparr>"

definition test_binding_proof ::
  "('k, 's) packages \<Rightarrow> test_key \<Rightarrow> string \<Rightarrow> string \<Rightarrow> u64 \<Rightarrow> string" where
  "test_binding_proof pk pid_holder pid new_jkt now =
     signed_jwt pk pid_holder
       (JObj [(''alg'', JStr ''ES256''), (''typ'', JStr ''eudi-pid-binding+jwt'')])
       (binding_value (test_binding_claims pk pid new_jkt now))"

definition pid_binding_verifies_identity_and_both_key_relationships ::
  "('k, 's) packages \<Rightarrow> test_key \<Rightarrow> test_key \<Rightarrow> test_key \<Rightarrow> u64 \<Rightarrow> bool" where
  "pid_binding_verifies_identity_and_both_key_relationships pk issuer_key pid_holder new_holder now \<longleftrightarrow>
     (case ec_jwk_from_value (serde pk) (test_public_jwk pk new_holder) of
        None \<Rightarrow> False
      | Some new_jwk \<Rightarrow>
          (case verifying_key_and_jwk pk new_jwk ''invalid_proof'' of
             Inl _ \<Rightarrow> False
           | Inr (_, new_jkt, _) \<Rightarrow>
               (let pid_jwt = test_pid pk issuer_key pid_holder now;
                    proof_jwt = test_binding_proof pk pid_holder pid_jwt new_jkt now;
                    vp = pid_jwt @ ''~'' @ join ''~'' (test_disclosures pk) @ ''~'' @ proof_jwt;
                    check = (\<lambda>jkt. verify_pid_binding pk vp proof_jwt
                      (test_public_jwk pk issuer_key) test_issuer ''nonce'' jkt now) in
                (case check new_jkt of
                   Inl _ \<Rightarrow> False | Inr verified \<Rightarrow> vpb_jti verified = ''binding-1'') \<and>
                \<not> is_ok (check ''other-key''))))"

text \<open>The presentation is within the limits on its size, and no text of it is empty.\<close>

definition presentation_fits :: "('k, 's) packages \<Rightarrow> test_key \<Rightarrow> test_key \<Rightarrow> string \<Rightarrow> u64 \<Rightarrow> bool" where
  "presentation_fits pk issuer_key pid_holder new_jkt now \<longleftrightarrow>
     (let pid_jwt = test_pid pk issuer_key pid_holder now;
          proof_jwt = test_binding_proof pk pid_holder pid_jwt new_jkt now in
      length proof_jwt \<le> 8192 \<and>
      length pid_jwt + length (join ''~'' (test_disclosures pk)) + length proof_jwt + 2 \<le> 32768)"

lemma signed_jwt_no_tilde:
  "b64url_correct (codec pk) \<Longrightarrow> CHR ''~'' \<notin> set (signed_jwt pk key header payload)"
  by (auto simp: signed_jwt_def Let_def b64url_correct_def)

lemma signed_jwt_nonempty [simp]: "signed_jwt pk key header payload \<noteq> []"
  by (simp add: signed_jwt_def Let_def)

lemma test_disclosures_read:
  assumes "b64url_correct (codec pk)" and "json_correct (serde pk)"
  shows "read_disclosures pk (map (hash_b64 (codec pk)) (test_disclosures pk)) (test_disclosures pk)
     no_disclosures = Inr \<lparr>found_family_name = Some ''Mustermann'',
       found_given_name = Some ''Erika'', found_birthdate = Some ''1990-01-01''\<rparr>"
proof -
  have "list_all2 (discloses pk) (test_disclosures pk) [(''family_name'', JStr ''Mustermann''),
      (''given_name'', JStr ''Erika''), (''birthdate'', JStr ''1990-01-01'')]"
    using assms by (simp add: test_disclosures_def discloses_def b64url_correct_def json_correct_def)
  from read_disclosures_disclosed [OF this] show ?thesis
    by (simp add: record_claim_def record_disclosure_def no_disclosures_def)
qed

lemma presentation_split:
  assumes "b64url_correct (codec pk)" and "texts_nonempty pk"
    and "CHR ''~'' \<notin> set pid" and "CHR ''~'' \<notin> set proof" and "proof \<noteq> []"
  shows "pid_vp_parts (pid @ ''~'' @ join ''~'' (test_disclosures pk) @ ''~'' @ proof) =
     (pid, test_disclosures pk @ [proof])"
proof -
  let ?ds = "test_disclosures pk"
  have ds: "?ds \<noteq> []" "\<forall>d \<in> set ?ds. d \<noteq> [] \<and> CHR ''~'' \<notin> set d"
    using assms(1,2) by (auto simp: test_disclosures_def texts_nonempty_def b64url_correct_def)
  have "pid @ ''~'' @ join ''~'' ?ds @ ''~'' @ proof = join ''~'' (pid # ?ds @ [proof])"
    using ds(1) join_snoc [of ?ds "''~''" "proof"] by (simp add: join_Cons)
  moreover have "split_char CHR ''~'' (join ''~'' (pid # ?ds @ [proof])) = pid # ?ds @ [proof]"
    using assms(3,4) ds(2) by (intro split_char_join) auto
  ultimately show ?thesis
    using ds(2) assms(5) by (simp add: pid_vp_parts_def)
qed

lemma pid_binding_verifies_identity_and_both_key_relationships_passes:
  assumes "b64url_correct (codec pk)" and "json_correct (serde pk)" and "texts_nonempty pk"
    and "affine_is_sec1 (ec pk)" and "signs_only (ec pk) issuer_key"
    and "signs_only (ec pk) pid_holder" and "signs_only (ec pk) new_holder"
    and "jwks_read (serde pk)"
    and "\<forall>c. binding_claims_from_value (serde pk) (binding_value c) = Some c"
    and "presentation_fits pk issuer_key pid_holder (jwk_thumbprint pk (test_jwk pk new_holder)) now"
    and "jwk_thumbprint pk (test_jwk pk new_holder) \<noteq> ''other-key''" and "0 < now" and "now < 2 ^ 63"
  shows "pid_binding_verifies_identity_and_both_key_relationships pk issuer_key pid_holder
     new_holder now"
proof -
  define jkt where "jkt = jwk_thumbprint pk (test_jwk pk new_holder)"
  define pid where "pid = test_pid pk issuer_key pid_holder now"
  define p where "p = test_binding_proof pk pid_holder pid jkt now"
  define vp where "vp = pid @ ''~'' @ join ''~'' (test_disclosures pk) @ ''~'' @ p"
  let ?payload = "test_pid_payload pk pid_holder now"
  let ?claims = "test_binding_claims pk pid jkt now"
  obtain I where I: "jwk_key pk (test_jwk pk issuer_key) I"
    "key_from_sec1 (ec pk) (tk_sec1 issuer_key) = Some I"
    by (rule test_jwk_key [OF assms(1,4,5)])
  obtain H where H: "jwk_key pk (test_jwk pk pid_holder) H"
    "key_from_sec1 (ec pk) (tk_sec1 pid_holder) = Some H"
    by (rule test_jwk_key [OF assms(1,4,6)])
  obtain N where N: "jwk_key pk (test_jwk pk new_holder) N"
    by (rule test_jwk_key [OF assms(1,4,7)])
  have jwk: "ec_jwk_from_value (serde pk) (test_public_jwk pk key) = Some (test_jwk pk key)" for key
    using assms(8) by (simp add: jwks_read_def test_public_jwk_value test_jwk_def)
  have parts: "pid_vp_parts vp = (pid, test_disclosures pk @ [p])"
    unfolding vp_def using signed_jwt_no_tilde [OF assms(1)]
    by (intro presentation_split assms(1,3)) (simp_all add: pid_def p_def test_pid_def
        test_binding_proof_def)
  have size: "length vp \<le> 32768" "length p \<le> 8192"
    using assms(10) by (simp_all add: presentation_fits_def vp_def p_def pid_def jkt_def Let_def)
  have payload: "verify_jws_payload pk pid I label = Inr ?payload" for label
    unfolding pid_def test_pid_def
    by (rule signed_jwt_verifies [OF assms(1,2,5) I(2)])
      (simp add: test_pid_payload_def test_public_jwk_def)
  have proved: "verify_jws_payload pk p H label = Inr (binding_value ?claims)" for label
    unfolding p_def test_binding_proof_def
    by (rule signed_jwt_verifies [OF assms(1,2,6) H(2)]) (simp add: binding_value_def)
  have members: "claim_str ''vct'' ?payload = Some PID_VCT"
    "cnf_jwk ?payload = Some (test_public_jwk pk pid_holder)"
    "claim_array ''_sd'' ?payload =
       Some (map (\<lambda>d. JStr (hash_b64 (codec pk) d)) (test_disclosures pk))"
    by (simp_all add: test_pid_payload_def claim_str_def claim_array_def cnf_jwk_def)
  have "now - 1 \<le> now" "now < now + 300"
    using assms(12,13) by (simp_all add: word_less_nat_alt word_le_nat_alt unat_sub_if' unat_word_ariths)
  then have valid: "pid_validity_ok ?payload test_issuer now"
    by (simp add: pid_validity_ok_def claim_str_def claim_u64_def test_pid_payload_def)
  have bound: "binding_claims_ok pk ?claims test_issuer ''nonce'' n pid now \<longleftrightarrow> n = jkt" for n
    using recent [of now now]
    by (auto simp: binding_claims_ok_def test_binding_claims_def same_url_def)
  have verdict: "verify_pid_binding pk vp p (test_public_jwk pk issuer_key) test_issuer ''nonce'' n now =
      (if n = jkt then Inr \<lparr>vpb_subject = Id (hash_u128 (codec pk)
          (canonical_pid_subject ''Mustermann'' ''Erika'' ''1990-01-01'')),
        vpb_jti = ''binding-1''\<rparr>
       else Inl (invalid_proof ''PID binding proof is stale or does not bind this PID, nonce, issuer, and new holder key''))"
    for n
  proof -
    have "pid \<noteq> []" "bp_jti ?claims = ''binding-1''"
      by (simp_all add: pid_def test_pid_def test_binding_claims_def)
    then show ?thesis
      using size assms(9) test_disclosures_read [OF assms(1,2)]
      by (simp add: verify_pid_binding_def Let_def parts last_or_none_def jwk payload proved members
          valid bound verifying_key_and_jwk_ok_value [OF I(1)] verifying_key_and_jwk_ok_value [OF H(1)])
  qed
  show ?thesis
    unfolding pid_binding_verifies_identity_and_both_key_relationships_def jwk
      verifying_key_and_jwk_ok_value [OF N] option.case sum.case prod.case Let_def
      jkt_def [symmetric] pid_def [symmetric] p_def [symmetric] vp_def [symmetric] verdict
    using assms(11) by (simp add: jkt_def)
qed

section \<open>The mandate\<close>

text \<open>One turn of the loop over the disclosures: \<open>None\<close> is an assertion or \<open>expect\<close> that fails.\<close>

definition committed_claim :: "('k, 's) packages \<Rightarrow> json list \<Rightarrow> string \<Rightarrow> (string \<times> json) option" where
  "committed_claim pk sd d =
     (if JStr (hash_b64 (codec pk) d) \<notin> set sd then None
      else Option.bind (b64url_decode (codec pk) d) (\<lambda>b.
           Option.bind (json_from_slice (serde pk) b) (\<lambda>parsed.
           Option.bind (as_array parsed) (\<lambda>a.
             if length a < 3 then None else map_option (\<lambda>name. (name, a ! 2)) (as_str (a ! 1))))))"

definition mandate_payload_carries_agent_cnf_scope_and_delegator_binding ::
  "('k, 's) packages \<Rightarrow> draws \<Rightarrow> bool" where
  "mandate_payload_carries_agent_cnf_scope_and_delegator_binding pk rnd \<longleftrightarrow>
     (let delegate_jwk = JObj [(''crv'', JStr ''P-256''), (''kty'', JStr ''EC''),
            (''x'', JStr ''agent-x''), (''y'', JStr ''agent-y'')];
          (payload, ds) = mandate_sd_jwt_payload pk rnd ''https://issuer.example/'' delegate_jwk
            ''urn:eudi:subject:demo-delegator'' (Powers DEMO_MANDATE_POWERS) ''mandate-jti-123'' 1000 in
      claim_str ''vct'' payload = Some MANDATE_VCT \<and> cnf_jwk payload = Some delegate_jwk \<and>
      claim_str ''cryptographically_bound_to'' payload = Some PID_VCT \<and>
      claim_u64 ''exp'' payload = Some (1000 + MANDATE_LIFETIME_SECONDS) \<and>
      claim_str ''_sd_alg'' payload = Some ''sha-256'' \<and>
      (case claim_array ''_sd'' payload of
         None \<Rightarrow> False
       | Some sd \<Rightarrow> length sd = length ds \<and>
           (case those (map (committed_claim pk sd) ds) of
              None \<Rightarrow> False
            | Some claims \<Rightarrow>
                (let disclosed = map_of (rev claims) in
                 disclosed ''mandator'' = Some (JStr ''urn:eudi:subject:demo-delegator'') \<and>
                 disclosed ''mandate_jti'' = Some (JStr ''mandate-jti-123'') \<and>
                 disclosed ''scope'' = Some (JArr
                   [JStr ''urn:eudi:mandate:power:present-identity'',
                    JStr ''urn:eudi:mandate:power:sign-document''])))))"

lemma mandate_disclosures_committed:
  assumes "b64url_correct (codec pk)" and "json_correct (serde pk)"
    and "\<forall>c \<in> set claims. wf_json (snd c)"
    and "\<forall>d \<in> set (map (sd_disclosure pk rnd) (enumerate n claims)). JStr (hash_b64 (codec pk) d) \<in> set sd"
  shows "those (map (committed_claim pk sd) (map (sd_disclosure pk rnd) (enumerate n claims))) =
     Some claims"
  using assms(3,4)
proof (induction claims arbitrary: n)
  case (Cons c claims)
  have "committed_claim pk sd (sd_disclosure pk rnd (n, c)) = Some c"
    using Cons.prems assms(1,2)
    by (cases c) (simp add: committed_claim_def sd_disclosure_def b64url_correct_def json_correct_def)
  with Cons show ?case by simp
qed simp

lemma demo_mandate_scope:
  "powers_to_scope_urns (Powers DEMO_MANDATE_POWERS) =
     [''urn:eudi:mandate:power:present-identity'', ''urn:eudi:mandate:power:sign-document'']"
  by code_simp

lemma mandate_payload_carries_agent_cnf_scope_and_delegator_binding_passes:
  assumes "b64url_correct (codec pk)" and "json_correct (serde pk)"
  shows "mandate_payload_carries_agent_cnf_scope_and_delegator_binding pk rnd"
proof -
  define claims where "claims = mandate_claims ''urn:eudi:subject:demo-delegator''
    (Powers DEMO_MANDATE_POWERS) ''mandate-jti-123''"
  define ds where "ds = sd_disclosures pk rnd claims"
  define sd where "sd = map (\<lambda>d. JStr (hash_b64 (codec pk) d)) ds"
  have listed: "claims = [(''mandator'', JStr ''urn:eudi:subject:demo-delegator''),
      (''scope'', JArr [JStr ''urn:eudi:mandate:power:present-identity'',
         JStr ''urn:eudi:mandate:power:sign-document'']), (''mandate_jti'', JStr ''mandate-jti-123'')]"
    by (simp add: claims_def mandate_claims_def demo_mandate_scope)
  have disclosed: "those (map (committed_claim pk sd) ds) = Some claims"
    using mandate_disclosures_committed [OF assms, of claims rnd 0 sd] listed
    by (simp add: ds_def sd_def sd_disclosures_def)
  show ?thesis
    using disclosed
    by (simp add: mandate_payload_carries_agent_cnf_scope_and_delegator_binding_def
        mandate_sd_jwt_payload_def Let_def claim_str_def claim_u64_def claim_array_def cnf_jwk_def
        saturating_add_def MANDATE_LIFETIME_SECONDS_def sd_digests_def flip: claims_def ds_def sd_def)
      (simp add: listed sd_def)
qed

text \<open>The mandate the wallet's agent is tested with; the test prints it.\<close>

definition golden_mandate ::
  "('k, 's) packages \<Rightarrow> draws \<Rightarrow> test_key \<Rightarrow> test_key \<Rightarrow> json \<times> string \<times> bytes \<times> string" where
  "golden_mandate pk rnd signing_key agent_key =
     (let (payload, ds) = mandate_sd_jwt_payload pk rnd ''https://issuer.advatar.systems/''
            (test_public_jwk pk agent_key) ''urn:eudi:subject:erika-mustermann'' (Powers 31)
            ''mandamus:cap:7f3a'' 1700000000;
          kid = b64url_encode (codec pk) (sha256 (codec pk)
            (json_to_vec (serde pk) (test_public_jwk pk signing_key)));
          header = JObj [(''alg'', JStr ''ES256''), (''kid'', JStr kid), (''typ'', JStr ''dc+sd-jwt'')];
          input = b64url_encode (codec pk) (json_to_vec (serde pk) header) @ ''.'' @
            b64url_encode (codec pk) (json_to_vec (serde pk) payload);
          sig = tk_sign signing_key (as_bytes input) in
      (payload, input, sig,
       input @ ''.'' @ b64url_encode (codec pk) sig @ ''~'' @ join ''~'' ds @ ''~''))"

definition mint_mandate_golden_for_wallet_agent ::
  "('k, 's) packages \<Rightarrow> draws \<Rightarrow> test_key \<Rightarrow> test_key \<Rightarrow> bool" where
  "mint_mandate_golden_for_wallet_agent pk rnd signing_key agent_key \<longleftrightarrow>
     (let (payload, input, sig, compact) = golden_mandate pk rnd signing_key agent_key in
      (case (key_from_sec1 (ec pk) (tk_sec1 signing_key), sig_from_slice (ec pk) sig) of
         (Some key, Some s) \<Rightarrow> ecdsa_verify (ec pk) key (as_bytes input) s
       | _ \<Rightarrow> False) \<and>
      claim_str ''vct'' payload = Some MANDATE_VCT \<and>
      length (powers_to_scope_urns (Powers 31)) = 5)"

lemma golden_scope: "length (powers_to_scope_urns (Powers 31)) = 5"
  by code_simp

lemma mint_mandate_golden_for_wallet_agent_passes:
  assumes "signs_only (ec pk) signing_key"
  shows "mint_mandate_golden_for_wallet_agent pk rnd signing_key agent_key"
proof -
  obtain K where K: "key_from_sec1 (ec pk) (tk_sec1 signing_key) = Some K"
    "\<forall>m. \<exists>s. sig_from_slice (ec pk) (tk_sign signing_key m) = Some s \<and>
       (\<forall>m'. ecdsa_verify (ec pk) K m' s \<longleftrightarrow> m' = m)"
    using assms unfolding signs_only_def by blast
  show ?thesis
    using K(1) K(2) [rule_format, of "as_bytes (fst (snd (golden_mandate pk rnd signing_key agent_key)))"]
    by (auto simp: mint_mandate_golden_for_wallet_agent_def golden_mandate_def golden_scope
        mandate_sd_jwt_payload_def claim_str_def Let_def)
qed

end
