(* ===== verification/Spec2Isabelle.thy ===== *)
theory Spec2Isabelle
  imports Kernel_Properties Hybrid_Properties Hybrid_Signer_Properties Evidence_Properties
    Mdoc_Properties Round_Trips Ledger_Refinement Progress_Properties Fail_Closed Handler_Properties
    Attest_Properties Configuration_Properties Router Svipe
    Kernel_Tests Codec_Tests Service_Tests Evidence_Tests Binding_Tests
begin

text \<open>
  A credential issuer for the EUDI wallet, in two crates: \<open>rust/issuer-core\<close>, a pure decision kernel
  that either refuses or produces a signing command, and \<open>rust/issuer-service\<close>, an OpenID4VCI service
  around it with its evidence checks, key stores, encoders and side channels. This development is a
  shallow embedding of both: every function and type that decides something is a definition with the
  name and the branches of the source, and the theorems are about those definitions.

  \<^bold>\<open>How the parts interact.\<close> A wallet obtains an offer (\<open>create_credential_offer\<close>, or
  \<open>build_tlsn_offer\<close> with a notarised web session), pushes an authorization request (\<open>par\<close>), exchanges
  its request URI for a code (\<open>authorize\<close>), the code for a token bound to its DPoP key (\<open>token\<close>),
  fetches a nonce (\<open>nonce\<close>) and asks for the credential (\<open>credential\<close>). That last handler verifies the
  DPoP proof and the credential proof, consumes the evidence the profile needs, asks the kernel through
  \<open>authorize_kernel\<close>, marks the nonce as used and lets the encoder of the profile sign. The capture
  flow (\<open>create_pid_capture_session\<close>, \<open>submit_pid_capture_evidence\<close>) issues a PID from a chip read and
  a face scan, behind App Attest. All handlers share one \<open>VolatileState\<close> behind a lock.

  \<^bold>\<open>The shared parts.\<close> \<open>Prelude\<close>: words, strings as UTF-8 bytes, \<open>Result\<close> as a sum with its \<open>?\<close>
  operator \<open>and_then\<close>, saturating arithmetic, big-endian encodings, the collection \<open>ok_iff\<close>.
  \<open>Libraries\<close>: the packages as records of functions. \<open>Runs\<close>, \<open>Ledger\<close>, \<open>Progress_Properties\<close> and
  \<open>Codec_Contracts\<close> hold the locales: \<open>one_shot\<close>, \<open>issued_once\<close>, \<open>removed_on_use\<close>, \<open>kept_until_used\<close>
  for keys of a state, \<open>simulation\<close> for refinement, \<open>strict_decoder\<close> and \<open>lossless_codec\<close> for
  envelopes. Each is interpreted on the model of the component that provides it.

  \<^bold>\<open>Which theory models which code.\<close>
  \<^item> \<open>Kernel\<close>: \<open>issuer-core/src/lib.rs\<close>, whole: types, gates, \<open>may_issue\<close>, \<open>authorize_sign\<close>.
  \<^item> \<open>Keychain_Signer\<close>, \<open>Certificates\<close>: \<open>signer.rs\<close>. \<open>Hybrid_Codec\<close>: \<open>hybrid_codec.rs\<close> with
    \<open>pq_backend.rs\<close>. \<open>Hybrid_Signer\<close>: \<open>hybrid_signer.rs\<close>, the encrypted key record and its replacement.
  \<^item> \<open>App_Attest\<close>, \<open>Capture\<close>, \<open>Iproov\<close>, \<open>Apns\<close>, \<open>Svipe\<close>, \<open>Env_File\<close>, \<open>Activechain_Schema\<close>: the
    modules of \<open>issuer-service/src\<close> of those names.
  \<^item> \<open>main.rs\<close> is divided by subject: \<open>Service_Types\<close> and \<open>Service_State\<close> (data), \<open>Proof_Verification\<close>
    (JWS, DPoP, credential proofs, scopes, calendar), \<open>Evidence_Verification\<close> (PID binding, eMRTD,
    TLSNotary), \<open>Authorize_Kernel\<close>, \<open>Issuing\<close> (encoders), \<open>Authorization_Service\<close> (offers to nonces),
    \<open>Credential_Service\<close>, \<open>Attest_Service\<close>, \<open>Capture_Service\<close> (handlers), \<open>Json\<close> and \<open>Metadata\<close>
    (published documents), \<open>Start_Up\<close> (\<open>main\<close> up to the listener) and
    \<open>Router\<close> (the routes of \<open>app\<close>).
  \<^item> \<open>Service_System\<close> composes the handlers: a step is one critical section, a task is what a request
    carries from one section to its next, and runs interleave them in every order.

  \<^bold>\<open>How state and operations correspond.\<close> A handler is a function from its request and the
  \<open>volatile_state\<close> to a result and the next state; where it releases the lock, it is one definition
  per critical section (\<open>par_evidence\<close>, \<open>par_push\<close>; \<open>authorize_take\<close>, \<open>authorize_issue\<close>;
  \<open>consume_challenge\<close>, \<open>attested_instance\<close>, \<open>insert_instance\<close>; \<open>snapshot_session\<close>, \<open>capture_evidence\<close>,
  \<open>finish_capture\<close>) and one that composes them. A \<open>HashMap\<close> is a partial function, a \<open>HashSet\<close> a set, a
  Rust error a value of \<open>Inl\<close>, a panic an error of status 0, where the code can reach an \<open>expect\<close> or
  \<open>unreachable!\<close> with a value of its own data: a missing signer, evidence, nonce, session, name or
  format, and an issuer URL to which no path can be joined, which panics after an offer was stored.
  The \<open>expect\<close>s on values that are constant in the source (a static URL, a JSON literal that is an
  object, a slice of fixed length) and on writing a JSON value have no branch. Clock readings, random draws, the answers
  of the operating system and of providers are arguments, arbitrary in every step of a run. Integers
  keep their width: \<open>u64\<close> deadlines saturate, the \<open>i32\<close> year of a birthdate wraps, the \<open>u32\<close> counters
  of App Attest are compared as words.

  \<^bold>\<open>What the lemmas show.\<close>
  \<^item> \<open>Kernel_Properties\<close>: what a command binds, that a mandate only narrows, that every gate is
    downgrade-closed, that the scope names agree with the bit sets.
  \<^item> \<open>Hybrid_Properties\<close>, \<open>Hybrid_Signer_Properties\<close>: strict and lossless envelopes, injective signed
    bytes, both signatures required, one key pair per generation over all starts of the service with
    any failures, atomic replacement, stale signers refuse.
  \<^item> \<open>Evidence_Properties\<close>, \<open>Attest_Properties\<close>: what accepted evidence proves, and the kernel's
    decision for each profile.
  \<^item> \<open>Service_Effects\<close>, \<open>Service_Properties\<close>, \<open>Run_Properties\<close>: the exact effect of each critical
    section, one-time keys, the invariant of the state along all runs.
  \<^item> \<open>Ledger\<close>, \<open>Ledger_Refinement\<close>: the abstract specification of issuance, a ledger of entitlements,
    that every run of the service is a run of it, and so what every credential has behind it.
    \<open>Progress_Properties\<close>: a wallet that follows the
    protocol is served whatever others do.
  \<^item> \<open>Fail_Closed\<close>: along every run, no event needs a feature that is not configured.
  \<^item> \<open>Handler_Properties\<close>, \<open>Panic_Free\<close>: exact conditions of the token and the credential endpoint,
    what refusals leave behind, when the credential endpoint can panic, the capture flow.
  \<^item> \<open>Issuing_Properties\<close>, \<open>Mdoc_Properties\<close>: what is issued reads back and verifies, in both formats.
    \<open>Round_Trips\<close>: the service accepts the PID it issued as evidence, and the artifacts of its own
    demo notary.
  \<^item> \<open>Configuration_Properties\<close>, \<open>Metadata_Properties\<close>: what the \<open>.env\<close> file sets, that a started
    service is configured and empty, and how the published documents agree with what can be requested
    and with the pinned schemas, and verify. \<open>Router\<close>: the published endpoints are in the routing table.
  \<^item> \<open>Kernel_Tests\<close>, \<open>Codec_Tests\<close>, \<open>Service_Tests\<close>: the unit tests of the crates that need no real keys
    or files, as definitions that the model passes, with the byte vectors of the signed encodings.
    \<open>Evidence_Tests\<close>, \<open>Binding_Tests\<close>: those of \<open>main.rs\<close> that sign with keys they make, which the model
    passes for all packages and keys that behave as documented.
  \<^item> \<open>Toy_Packages\<close>, \<open>Cbor_Instance\<close>, \<open>Demo_Service\<close> instantiate the packages with concrete functions
    and run the service from its start to two issued credentials; the witnesses rest on them.

  \<^bold>\<open>Bounds and fuel.\<close> No definition needs fuel except \<open>random_credential_nonce\<close>, whose list of draws
  bounds the rounds of its loop (\<open>nonce_loop_terminates\<close> says how many are enough). CBOR values are
  nested at most \<open>NESTING\<close> = 8 deep, more than any value the issuer builds.

  \<^bold>\<open>Assumptions.\<close> The packages (\<open>p256\<close>, \<open>libcrux_ml_dsa\<close>, \<open>ciborium\<close>, \<open>serde_json\<close>, \<open>sha2\<close>, \<open>base64\<close>,
  \<open>url\<close>, \<open>chrono\<close>, \<open>x509_cert\<close>, \<open>rcgen\<close>, AES-GCM, the Keychain, HTTP clients) are parameters. What a
  theorem needs of one is a hypothesis that states its documented behaviour (\<open>cbor_roundtrips\<close>: what is
  written reads back; that a signature just made verifies; that deserialising undoes serialising).
  Signatures are not assumed unforgeable: a theorem says what was verified, under which key. In runs,
  random identifiers are new where they are inserted.

  \<^bold>\<open>Not modelled.\<close> The extractors of axum and its matching of paths, the listener, logging and the
  shutdown signal, which are I/O of libraries; the implementations of the packages above; the size
  limits that axum puts on bodies; the tests that need the Keychain or files; the shell and Python
  tooling of the repository. Timing and memory erasure have no counterpart in the model.
\<close>

end
